(* ===== verification/Prelude.thy ===== *)
theory Prelude
  imports Main "HOL-Library.State_Monad" "HOL-Library.Word"
begin

text \<open>
  Shared vocabulary of the development.

  Every effectful function of the operator is a program in the state monad of
  \<^verbatim>\<open>HOL-Library.State_Monad\<close> over a \<^emph>\<open>history\<close>: the list, oldest first, of the external calls
  made so far. A call to the outside world (the Kubernetes API server, a Talos node, the clock)
  is \<open>ask f ev\<close>: the answer is \<open>f h\<close>, an arbitrary function of the whole history \<open>h\<close>, and the
  call is appended to the history as the event \<open>ev\<close> of that answer. \<open>tell e\<close> is a call without
  an answer. Since \<open>f\<close> is universally quantified in every theorem, so is the behaviour of the
  environment, changes between two calls included.

  Two ways of reasoning about programs are set up here: the weakest precondition \<open>wp\<close> with its
  equations in the collection \<open>wp_simps\<close>, and \<open>only P m\<close>, which says that \<open>m\<close> appends to the
  history nothing but events that satisfy \<open>P\<close>, with its rules in \<open>only_intros\<close>.
\<close>

named_theorems wp_simps "equations for the weakest precondition of a program"
named_theorems only_intros "introduction rules for the events a program may append"
named_theorems model_simps "equations that unfold small model definitions"

section \<open>Programs over a history of events\<close>

abbreviation ret :: "'a \<Rightarrow> ('s, 'a) state" where
  "ret \<equiv> State_Monad.return"

definition ask :: "('e list \<Rightarrow> 'r) \<Rightarrow> ('r \<Rightarrow> 'e) \<Rightarrow> ('e list, 'r) state" where
  "ask f ev = State (\<lambda>h. (f h, h @ [ev (f h)]))"

definition tell :: "'e \<Rightarrow> ('e list, unit) state" where
  "tell e = State (\<lambda>h. ((), h @ [e]))"

definition result_of :: "('e list, 'a) state \<Rightarrow> 'e list \<Rightarrow> 'a" where
  "result_of m h = fst (run_state m h)"

definition events_of :: "('e list, 'a) state \<Rightarrow> 'e list \<Rightarrow> 'e list" where
  "events_of m h = drop (length h) (snd (run_state m h))"

lemma run_state_ask [simp]: "run_state (ask f ev) h = (f h, h @ [ev (f h)])"
  by (simp add: ask_def)

lemma run_state_tell [simp]: "run_state (tell e) h = ((), h @ [e])"
  by (simp add: tell_def)

lemma run_state_if [simp]:
  "run_state (if b then m else n) h = (if b then run_state m h else run_state n h)"
  by simp

section \<open>Weakest preconditions\<close>

definition wp :: "('s, 'a) state \<Rightarrow> ('a \<Rightarrow> 's \<Rightarrow> bool) \<Rightarrow> 's \<Rightarrow> bool" where
  "wp m Q s = (case run_state m s of (a, s') \<Rightarrow> Q a s')"

lemma wp_return [wp_simps]: "wp (ret x) Q s = Q x s"
  by (simp add: wp_def)

lemma wp_bind [wp_simps]:
  fixes m :: "('s, 'a) state" and f :: "'a \<Rightarrow> ('s, 'b) state"
  shows "wp (m \<bind> f) Q s = wp m (\<lambda>a. wp (f a) Q) s"
  by (simp add: wp_def split: prod.splits)

lemma wp_ask [wp_simps]: "wp (ask f ev) Q h = Q (f h) (h @ [ev (f h)])"
  by (simp add: wp_def)

lemma wp_tell [wp_simps]: "wp (tell e) Q h = Q () (h @ [e])"
  by (simp add: wp_def)

lemma wp_if [wp_simps]: "wp (if b then m else n) Q h = (if b then wp m Q h else wp n Q h)"
  by simp

lemma wp_case_sum [wp_simps]:
  "wp (case x of Inl a \<Rightarrow> f a | Inr b \<Rightarrow> g b) Q h =
     (case x of Inl a \<Rightarrow> wp (f a) Q h | Inr b \<Rightarrow> wp (g b) Q h)"
  by (cases x) simp_all

lemma wp_case_option [wp_simps]:
  "wp (case x of None \<Rightarrow> f | Some a \<Rightarrow> g a) Q h =
     (case x of None \<Rightarrow> wp f Q h | Some a \<Rightarrow> wp (g a) Q h)"
  by (cases x) simp_all

lemma wp_case_prod [wp_simps]:
  "wp (case x of (a, b) \<Rightarrow> f a b) Q h = (case x of (a, b) \<Rightarrow> wp (f a b) Q h)"
  by (cases x) simp_all

lemma wp_case_list [wp_simps]:
  "wp (case x of [] \<Rightarrow> f | a # as \<Rightarrow> g a as) Q h =
     (case x of [] \<Rightarrow> wp f Q h | a # as \<Rightarrow> wp (g a as) Q h)"
  by (cases x) simp_all

lemma wp_let [wp_simps]: "wp (Let x f) Q h = (let y = x in wp (f y) Q h)"
  by (simp add: Let_def)

lemma wp_run_state: "wp m Q h = Q (fst (run_state m h)) (snd (run_state m h))"
  by (simp add: wp_def split_beta)

lemma wp_mono: "wp m P h \<Longrightarrow> (\<And>a s. P a s \<Longrightarrow> Q a s) \<Longrightarrow> wp m Q h"
  by (simp add: wp_run_state)

lemma wp_conj: "wp m P h \<Longrightarrow> wp m Q h \<Longrightarrow> wp m (\<lambda>a s. P a s \<and> Q a s) h"
  by (simp add: wp_run_state)

text \<open>The same equations as introduction rules, for goals whose postcondition is to stay as it is.\<close>

named_theorems wp_intros "introduction rules for the weakest precondition"

lemma wp_introduce [wp_intros]:
  fixes m :: "('s, 'a) state" and f :: "'a \<Rightarrow> ('s, 'b) state"
  shows "wp m (\<lambda>a. wp (f a) Q) s \<Longrightarrow> wp (m \<bind> f) Q s"
    and "R x s \<Longrightarrow> wp (ret x) R s"
    and "(b \<Longrightarrow> wp n R s) \<Longrightarrow> (\<not> b \<Longrightarrow> wp n' R s) \<Longrightarrow> wp (if b then n else n') R s"
  by (simp_all add: wp_bind wp_return)

lemma wp_introduce_cases [wp_intros]:
  "(\<And>a. x = Inl a \<Longrightarrow> wp (f a) Q h) \<Longrightarrow> (\<And>b. x = Inr b \<Longrightarrow> wp (g b) Q h) \<Longrightarrow>
   wp (case x of Inl a \<Rightarrow> f a | Inr b \<Rightarrow> g b) Q h"
  "(o' = None \<Longrightarrow> wp m Q h) \<Longrightarrow> (\<And>c. o' = Some c \<Longrightarrow> wp (k c) Q h) \<Longrightarrow>
   wp (case o' of None \<Rightarrow> m | Some c \<Rightarrow> k c) Q h"
  "(\<And>c d. p = (c, d) \<Longrightarrow> wp (j c d) Q h) \<Longrightarrow> wp (case p of (c, d) \<Rightarrow> j c d) Q h"
  "(\<And>y. y = z \<Longrightarrow> wp (l y) Q h) \<Longrightarrow> wp (Let z l) Q h"
  by (simp_all add: Let_def split: sum.split option.split prod.split)

text \<open>A step whose result and events do not matter.\<close>

lemma wp_any: "(\<And>a s'. Q a s') \<Longrightarrow> wp m Q s"
  by (simp add: wp_run_state)

lemma wpD: "wp m Q h \<Longrightarrow> run_state m h = (a, h') \<Longrightarrow> Q a h'"
  by (simp add: wp_def)

section \<open>The events a program may append\<close>

definition only :: "('e \<Rightarrow> bool) \<Rightarrow> ('e list, 'a) state \<Rightarrow> bool" where
  "only P m \<longleftrightarrow> (\<forall>h. \<exists>es. snd (run_state m h) = h @ es \<and> list_all P es)"

lemma onlyI: "(\<And>h. \<exists>es. snd (run_state m h) = h @ es \<and> list_all P es) \<Longrightarrow> only P m"
  by (simp add: only_def)

lemma onlyE:
  assumes "only P m"
  obtains es where "snd (run_state m h) = h @ es" and "list_all P es"
  using assms by (auto simp: only_def)

lemma only_events_of: "only P m \<Longrightarrow> list_all P (events_of m h)"
  by (erule onlyE [where h = h]) (simp add: events_of_def)

lemma only_run_state:
  assumes "only P m"
  shows "run_state m h = (result_of m h, h @ events_of m h)"
  using assms by (auto simp: result_of_def events_of_def elim!: onlyE [where h = h] intro: prod_eqI)

lemma only_return [only_intros]: "only P (ret x)"
  by (simp add: only_def)

lemma only_ask [only_intros]: "(\<And>r. P (ev r)) \<Longrightarrow> only P (ask f ev)"
  by (simp add: only_def)

lemma only_tell [only_intros]: "P e \<Longrightarrow> only P (tell e)"
  by (simp add: only_def)

lemma only_bind [only_intros]:
  fixes m :: "('e list, 'a) state" and f :: "'a \<Rightarrow> ('e list, 'b) state"
  assumes "only P m" and "\<And>a. only P (f a)"
  shows "only P (m \<bind> f)"
proof (rule onlyI)
  fix h
  obtain a h1 where m: "run_state m h = (a, h1)" by (cases "run_state m h")
  from assms(1) obtain es1 where 1: "h1 = h @ es1" "list_all P es1"
    by (rule onlyE [where h = h]) (simp add: m)
  from assms(2) obtain es2 where 2: "snd (run_state (f a) h1) = h1 @ es2" "list_all P es2"
    by (rule onlyE)
  from m 1 2 show "\<exists>es. snd (run_state (m \<bind> f) h) = h @ es \<and> list_all P es"
    by (intro exI [of _ "es1 @ es2"]) simp
qed

lemma only_if [only_intros]: "(b \<Longrightarrow> only P m) \<Longrightarrow> (\<not> b \<Longrightarrow> only P n) \<Longrightarrow> only P (if b then m else n)"
  by simp

lemma only_case_sum [only_intros]:
  "(\<And>a. x = Inl a \<Longrightarrow> only P (f a)) \<Longrightarrow> (\<And>b. x = Inr b \<Longrightarrow> only P (g b)) \<Longrightarrow>
   only P (case x of Inl a \<Rightarrow> f a | Inr b \<Rightarrow> g b)"
  by (cases x) simp_all

lemma only_case_option [only_intros]:
  "(x = None \<Longrightarrow> only P f) \<Longrightarrow> (\<And>a. x = Some a \<Longrightarrow> only P (g a)) \<Longrightarrow>
   only P (case x of None \<Rightarrow> f | Some a \<Rightarrow> g a)"
  by (cases x) simp_all

lemma only_case_prod [only_intros]:
  "(\<And>a b. x = (a, b) \<Longrightarrow> only P (f a b)) \<Longrightarrow> only P (case x of (a, b) \<Rightarrow> f a b)"
  by (cases x) simp_all

lemma only_case_list [only_intros]:
  "(x = [] \<Longrightarrow> only P f) \<Longrightarrow> (\<And>a as. x = a # as \<Longrightarrow> only P (g a as)) \<Longrightarrow>
   only P (case x of [] \<Rightarrow> f | a # as \<Rightarrow> g a as)"
  by (cases x) simp_all

lemma only_let [only_intros]: "(\<And>y. y = x \<Longrightarrow> only P (f y)) \<Longrightarrow> only P (Let x f)"
  by (simp add: Let_def)

lemma only_mono: "only P m \<Longrightarrow> (\<And>e. P e \<Longrightarrow> Q e) \<Longrightarrow> only Q m"
  unfolding only_def by (metis list_all_iff)

lemma only_and:
  assumes "only P m" and "only Q m"
  shows "only (\<lambda>e. P e \<and> Q e) m"
proof (rule onlyI)
  fix h
  from assms(1) obtain es where es: "snd (run_state m h) = h @ es" "list_all P es" by (rule onlyE)
  from assms(2) obtain fs where "snd (run_state m h) = h @ fs" "list_all Q fs" by (rule onlyE)
  with es show "\<exists>es. snd (run_state m h) = h @ es \<and> list_all (\<lambda>e. P e \<and> Q e) es"
    by (auto simp: list_all_iff)
qed

text \<open>What \<open>only\<close> gives to a proof with \<open>wp\<close>: the program's own events are some list of them.\<close>

lemma wp_only:
  assumes "only P m" and "\<And>a es. list_all P es \<Longrightarrow> Q a (h @ es)"
  shows "wp m Q h"
  using assms(1) by (rule onlyE [where h = h]) (simp add: wp_run_state assms(2))

section \<open>Events guarded by the history before them\<close>

text \<open>
  \<open>wpg G m Q h\<close>: run from \<open>h\<close>, the program \<open>m\<close> ends in \<open>Q\<close>, and each event \<open>e\<close> it appends satisfies
  \<open>G g e\<close> for the whole history \<open>g\<close> before it. This is the weakest precondition for properties of
  the form ``this call is made only after that one''. \<open>every G m\<close> is its instance for all
  histories and no postcondition.
\<close>

named_theorems wpg_intros "introduction rules for guarded events"

definition trace_ok :: "('e list \<Rightarrow> 'e \<Rightarrow> bool) \<Rightarrow> 'e list \<Rightarrow> 'e list \<Rightarrow> bool" where
  "trace_ok G h es \<longleftrightarrow> (\<forall>g e rest. es = g @ e # rest \<longrightarrow> G (h @ g) e)"

definition wpg ::
    "('e list \<Rightarrow> 'e \<Rightarrow> bool) \<Rightarrow> ('e list, 'a) state \<Rightarrow> ('a \<Rightarrow> 'e list \<Rightarrow> bool) \<Rightarrow> 'e list \<Rightarrow> bool" where
  "wpg G m Q h \<longleftrightarrow>
     (\<exists>es. snd (run_state m h) = h @ es \<and> trace_ok G h es \<and> Q (fst (run_state m h)) (h @ es))"

definition every :: "('e list \<Rightarrow> 'e \<Rightarrow> bool) \<Rightarrow> ('e list, 'a) state \<Rightarrow> bool" where
  "every G m \<longleftrightarrow> (\<forall>h. wpg G m (\<lambda>_ _. True) h)"

lemma trace_ok_Nil [simp]: "trace_ok G h []"
  by (simp add: trace_ok_def)

lemma trace_ok_single [simp]: "trace_ok G h [e] \<longleftrightarrow> G h e"
  by (auto simp: trace_ok_def Cons_eq_append_conv)

lemma trace_ok_Cons: "trace_ok G h (e # es) \<longleftrightarrow> G h e \<and> trace_ok G (h @ [e]) es"
proof
  assume ok: "trace_ok G h (e # es)"
  have "G h e" using ok [unfolded trace_ok_def, rule_format, of "[]" e es] by simp
  moreover have "G ((h @ [e]) @ g) f" if "es = g @ f # rest" for g f rest
    using ok [unfolded trace_ok_def, rule_format, of "e # g" f rest] that by simp
  ultimately show "G h e \<and> trace_ok G (h @ [e]) es" by (simp add: trace_ok_def)
next
  assume ok: "G h e \<and> trace_ok G (h @ [e]) es"
  have "G (h @ g) f" if "e # es = g @ f # rest" for g f rest
  proof (cases g)
    case Nil
    with that ok show ?thesis by simp
  next
    case (Cons x g')
    with that ok show ?thesis by (auto simp: trace_ok_def)
  qed
  then show "trace_ok G h (e # es)" by (simp add: trace_ok_def)
qed

lemma trace_ok_append: "trace_ok G h xs \<Longrightarrow> trace_ok G (h @ xs) ys \<Longrightarrow> trace_ok G h (xs @ ys)"
  by (induction xs arbitrary: h) (simp_all add: trace_ok_Cons)

lemma trace_ok_split: "trace_ok G h (xs @ ys) \<longleftrightarrow> trace_ok G h xs \<and> trace_ok G (h @ xs) ys"
  by (induction xs arbitrary: h) (simp_all add: trace_ok_Cons)

lemma trace_ok_mono: "trace_ok G h es \<Longrightarrow> (\<And>g e. G g e \<Longrightarrow> G' g e) \<Longrightarrow> trace_ok G' h es"
  by (auto simp: trace_ok_def)

lemma wpg_return [wpg_intros]: "Q x h \<Longrightarrow> wpg G (ret x) Q h"
  by (simp add: wpg_def)

lemma wpg_bind [wpg_intros]:
  fixes m :: "('e list, 'a) state" and f :: "'a \<Rightarrow> ('e list, 'b) state"
  assumes "wpg G m (\<lambda>a. wpg G (f a) Q) h"
  shows "wpg G (m \<bind> f) Q h"
proof -
  obtain a h1 where m: "run_state m h = (a, h1)" by (cases "run_state m h")
  from assms m obtain es where 1: "h1 = h @ es" "trace_ok G h es" and "wpg G (f a) Q (h @ es)"
    by (auto simp: wpg_def)
  then obtain fs where "snd (run_state (f a) (h @ es)) = (h @ es) @ fs" "trace_ok G (h @ es) fs"
    "Q (fst (run_state (f a) (h @ es))) ((h @ es) @ fs)"
    by (auto simp: wpg_def)
  with 1 m show ?thesis
    unfolding wpg_def by (intro exI [of _ "es @ fs"]) (simp add: trace_ok_append)
qed

lemma wpg_ask [wpg_intros]:
  "(\<And>r. r = f h \<Longrightarrow> G h (ev r)) \<Longrightarrow> (\<And>r. r = f h \<Longrightarrow> Q r (h @ [ev r])) \<Longrightarrow> wpg G (ask f ev) Q h"
  by (simp add: wpg_def)

lemma wpg_tell [wpg_intros]: "G h e \<Longrightarrow> Q () (h @ [e]) \<Longrightarrow> wpg G (tell e) Q h"
  by (simp add: wpg_def)

lemma wpg_if [wpg_intros]:
  "(b \<Longrightarrow> wpg G m Q h) \<Longrightarrow> (\<not> b \<Longrightarrow> wpg G n Q h) \<Longrightarrow> wpg G (if b then m else n) Q h"
  by simp

lemma wpg_case_sum [wpg_intros]:
  "(\<And>a. x = Inl a \<Longrightarrow> wpg G (f a) Q h) \<Longrightarrow> (\<And>b. x = Inr b \<Longrightarrow> wpg G (g b) Q h) \<Longrightarrow>
   wpg G (case x of Inl a \<Rightarrow> f a | Inr b \<Rightarrow> g b) Q h"
  by (cases x) simp_all

lemma wpg_case_option [wpg_intros]:
  "(x = None \<Longrightarrow> wpg G f Q h) \<Longrightarrow> (\<And>a. x = Some a \<Longrightarrow> wpg G (g a) Q h) \<Longrightarrow>
   wpg G (case x of None \<Rightarrow> f | Some a \<Rightarrow> g a) Q h"
  by (cases x) simp_all

lemma wpg_case_prod [wpg_intros]:
  "(\<And>a b. x = (a, b) \<Longrightarrow> wpg G (f a b) Q h) \<Longrightarrow> wpg G (case x of (a, b) \<Rightarrow> f a b) Q h"
  by (cases x) simp_all

lemma wpg_case_list [wpg_intros]:
  "(x = [] \<Longrightarrow> wpg G f Q h) \<Longrightarrow> (\<And>a as. x = a # as \<Longrightarrow> wpg G (g a as) Q h) \<Longrightarrow>
   wpg G (case x of [] \<Rightarrow> f | a # as \<Rightarrow> g a as) Q h"
  by (cases x) simp_all

lemma wpg_let [wpg_intros]: "(\<And>y. y = x \<Longrightarrow> wpg G (f y) Q h) \<Longrightarrow> wpg G (Let x f) Q h"
  by (simp add: Let_def)

lemma wpg_mono: "wpg G m P h \<Longrightarrow> (\<And>a s. P a s \<Longrightarrow> Q a s) \<Longrightarrow> wpg G m Q h"
  by (auto simp: wpg_def)

text \<open>A postcondition that holds of every end.\<close>

lemma wpg_ends: "wpg G m P h \<Longrightarrow> (\<And>a es. Q a (h @ es)) \<Longrightarrow> wpg G m Q h"
  by (auto simp: wpg_def)

lemma wpg_guard_mono: "wpg G m Q h \<Longrightarrow> (\<And>g e. G g e \<Longrightarrow> G' g e) \<Longrightarrow> wpg G' m Q h"
  by (auto simp: wpg_def trace_ok_def)

text \<open>A program whose events are fine after any history; what it returns is not followed.\<close>

lemma wpg_only:
  assumes "only P m" and "\<And>g e. P e \<Longrightarrow> G g e" and "\<And>a es. list_all P es \<Longrightarrow> Q a (h @ es)"
  shows "wpg G m Q h"
  using assms(1)
proof (rule onlyE [where h = h])
  fix es assume "snd (run_state m h) = h @ es" and "list_all P es"
  with assms(2,3) show ?thesis by (auto simp: wpg_def trace_ok_def)
qed

text \<open>The same, where the guard may rely on the history so far.\<close>

lemma wpg_extend:
  assumes "only P m" and "\<And>es e. P e \<Longrightarrow> G (h @ es) e" and "\<And>a es. list_all P es \<Longrightarrow> Q a (h @ es)"
  shows "wpg G m Q h"
  using assms(1)
proof (rule onlyE [where h = h])
  fix es assume "snd (run_state m h) = h @ es" and "list_all P es"
  with assms(2,3) show ?thesis by (auto simp: wpg_def trace_ok_def)
qed

lemma wpg_after:
  assumes "only P m" and "\<And>es e. G (h @ es) e" and "\<And>a es. Q a (h @ es)"
  shows "wpg G m Q h"
  using assms(1) by (rule wpg_extend) (simp_all add: assms(2,3))

text \<open>The same, with what a weakest precondition knows of the result.\<close>

lemma wpg_only_wp:
  assumes "only P m" and "wp m R h" and "\<And>g e. P e \<Longrightarrow> G g e"
    and "\<And>a es. list_all P es \<Longrightarrow> R a (h @ es) \<Longrightarrow> Q a (h @ es)"
  shows "wpg G m Q h"
  using assms(1)
proof (rule onlyE [where h = h])
  fix es assume "snd (run_state m h) = h @ es" and "list_all P es"
  with assms(2,3,4) show ?thesis by (auto simp: wpg_def trace_ok_def wp_run_state)
qed

lemma wpg_only_wp_extend:
  assumes "only P m" and "wp m R h" and "\<And>es e. P e \<Longrightarrow> G (h @ es) e"
    and "\<And>a es. list_all P es \<Longrightarrow> R a (h @ es) \<Longrightarrow> Q a (h @ es)"
  shows "wpg G m Q h"
  using assms(1)
proof (rule onlyE [where h = h])
  fix es assume "snd (run_state m h) = h @ es" and "list_all P es"
  with assms(2,3,4) show ?thesis by (auto simp: wpg_def trace_ok_def wp_run_state)
qed

lemma everyI: "(\<And>h. wpg G m (\<lambda>_ _. True) h) \<Longrightarrow> every G m"
  by (simp add: every_def)

lemma every_trace:
  assumes "every G m" and "snd (run_state m h) = h @ g @ e # rest"
  shows "G (h @ g) e"
proof -
  from assms(1) have "wpg G m (\<lambda>_ _. True) h" by (simp add: every_def)
  with assms(2) have "trace_ok G h (g @ e # rest)" by (auto simp: wpg_def)
  then show ?thesis by (simp add: trace_ok_def)
qed

text \<open>
  \<open>since start P g\<close>: the history \<open>g\<close> has, from the point \<open>start\<close> on, an event \<open>e\<close> after some \<open>g0\<close>
  with \<open>P g0 e\<close>.
\<close>

definition since :: "'e list \<Rightarrow> ('e list \<Rightarrow> 'e \<Rightarrow> bool) \<Rightarrow> 'e list \<Rightarrow> bool" where
  "since start P g \<longleftrightarrow> (\<exists>g0 e rest. g = g0 @ e # rest \<and> length start \<le> length g0 \<and> P g0 e)"

lemma since_append: "since start P g \<Longrightarrow> since start P (g @ es)"
  unfolding since_def by fastforce

lemma since_extend: "since start P g \<Longrightarrow> g' = g @ es \<Longrightarrow> since start P g'"
  by (simp add: since_append)

lemma since_now: "length start \<le> length g \<Longrightarrow> P g e \<Longrightarrow> since start P (g @ [e])"
  unfolding since_def by blast

lemma since_last: "since start P (g @ [e]) \<longleftrightarrow> length start \<le> length g \<and> P g e \<or> since start P g"
proof
  assume "since start P (g @ [e])"
  then obtain g0 e' rest where "g @ [e] = g0 @ e' # rest" "length start \<le> length g0" "P g0 e'"
    by (auto simp: since_def)
  then show "length start \<le> length g \<and> P g e \<or> since start P g"
    by (cases rest rule: rev_cases) (auto simp: since_def)
qed (auto intro: since_now since_append)

lemma since_mono: "since start P g \<Longrightarrow> (\<And>g0 e. P g0 e \<Longrightarrow> Q g0 e) \<Longrightarrow> since start Q g"
  unfolding since_def by blast

section \<open>Results whatever the history\<close>

text \<open>
  \<open>returns P m\<close>: every result of \<open>m\<close> satisfies \<open>P\<close>. The rule for a bind forgets the result of the
  first program; \<open>returns_bind_with\<close> keeps what is known of it.
\<close>

named_theorems returns_intros "introduction rules for the results of a program"

definition returns :: "('a \<Rightarrow> bool) \<Rightarrow> ('s, 'a) state \<Rightarrow> bool" where
  "returns P m \<longleftrightarrow> (\<forall>h. P (fst (run_state m h)))"

lemma returns_ret [returns_intros]: "P x \<Longrightarrow> returns P (ret x)"
  by (simp add: returns_def)

lemma returns_bind_with:
  fixes m :: "('s, 'a) state" and f :: "'a \<Rightarrow> ('s, 'b) state"
  shows "returns R m \<Longrightarrow> (\<And>a. R a \<Longrightarrow> returns P (f a)) \<Longrightarrow> returns P (m \<bind> f)"
  by (simp add: returns_def split_beta)

lemma returns_bind [returns_intros]:
  fixes m :: "('s, 'a) state" and f :: "'a \<Rightarrow> ('s, 'b) state"
  shows "(\<And>a. returns P (f a)) \<Longrightarrow> returns P (m \<bind> f)"
  by (simp add: returns_def split_beta)

lemma returns_if [returns_intros]:
  "(b \<Longrightarrow> returns P m) \<Longrightarrow> (\<not> b \<Longrightarrow> returns P n) \<Longrightarrow> returns P (if b then m else n)"
  by simp

lemma returns_case_sum [returns_intros]:
  "(\<And>a. x = Inl a \<Longrightarrow> returns P (f a)) \<Longrightarrow> (\<And>b. x = Inr b \<Longrightarrow> returns P (g b)) \<Longrightarrow>
   returns P (case x of Inl a \<Rightarrow> f a | Inr b \<Rightarrow> g b)"
  by (cases x) simp_all

lemma returns_case_option [returns_intros]:
  "(x = None \<Longrightarrow> returns P f) \<Longrightarrow> (\<And>a. x = Some a \<Longrightarrow> returns P (g a)) \<Longrightarrow>
   returns P (case x of None \<Rightarrow> f | Some a \<Rightarrow> g a)"
  by (cases x) simp_all

lemma returns_case_prod [returns_intros]:
  "(\<And>a b. x = (a, b) \<Longrightarrow> returns P (f a b)) \<Longrightarrow> returns P (case x of (a, b) \<Rightarrow> f a b)"
  by (cases x) simp_all

lemma returns_let [returns_intros]: "(\<And>y. y = x \<Longrightarrow> returns P (f y)) \<Longrightarrow> returns P (Let x f)"
  by (simp add: Let_def)

lemma returns_mono: "returns P m \<Longrightarrow> (\<And>a. P a \<Longrightarrow> Q a) \<Longrightarrow> returns Q m"
  by (simp add: returns_def)

lemma returns_ask: "(\<And>h. P (f h)) \<Longrightarrow> returns P (ask f ev)"
  by (simp add: returns_def)

lemma returns_wp: "(\<And>h. wp m (\<lambda>r _. P r) h) \<Longrightarrow> returns P m"
  by (simp add: returns_def wp_run_state)

lemma wp_returns: "returns P m \<Longrightarrow> (\<And>a g. P a \<Longrightarrow> Q a g) \<Longrightarrow> wp m Q h"
  by (simp add: returns_def wp_run_state)

section \<open>Lists, options and maps\<close>

definition opt_err :: "'e + 'a \<Rightarrow> 'e option" where
  "opt_err r = (case r of Inl e \<Rightarrow> Some e | Inr _ \<Rightarrow> None)"

lemma opt_err_simps [simp]: "opt_err (Inl e) = Some e" "opt_err (Inr x) = None"
  by (simp_all add: opt_err_def)

lemma opt_err_None: "opt_err r = None \<longleftrightarrow> (\<exists>x. r = Inr x)"
  by (cases r) simp_all

lemma list_all_filter_self [simp]: "list_all P (filter P xs)"
  by (simp add: list_all_iff)

lemma filter_False_if_all: "list_all (\<lambda>x. \<not> P x) xs \<Longrightarrow> filter P xs = []"
  by (simp add: list_all_iff filter_empty_conv)

lemma length_filter_neq_eq: "length (filter ((\<noteq>) x) xs) = length xs \<longleftrightarrow> x \<notin> set xs"
  by (induction xs) (auto simp: le_imp_less_Suc less_imp_neq [OF le_imp_less_Suc [OF length_filter_le]])

end
