(* ===== verification/GoStd.thy ===== *)
theory GoStd
  imports Prelude "HOL-Library.Char_ord" "HOL-Library.List_Lexorder" "HOL-Library.Multiset"
begin

text \<open>
  The part of the Go language and its standard library that the operator uses: integers at
  their width, byte strings and the functions of \<^verbatim>\<open>strings\<close>, \<^verbatim>\<open>sort\<close> and \<^verbatim>\<open>strconv\<close>, and error values
  with their wrapping.

  A Go string is a sequence of bytes, and so is \<open>string\<close> here; \<^verbatim>\<open>[]byte\<close> has the same type.
  \<^verbatim>\<open>fmt.Sprintf\<close> and \<^verbatim>\<open>fmt.Errorf\<close> keep their format string and their arguments: the rendered text is
  never inspected by the program, and two formatted texts are equal here when format and
  arguments are.
\<close>

section \<open>Integers and time\<close>

type_synonym bytes = string
type_synonym int32 = "32 word"
type_synonym int64 = "64 word"
type_synonym duration = int64
type_synonym time = int

text \<open>Durations are signed 64-bit counts of nanoseconds; an instant is an unbounded count of them.\<close>

definition Second :: duration where
  "Second = 1000000000"

definition Minute :: duration where
  "Minute = 60 * Second"

section \<open>Byte strings\<close>

definition HasPrefix :: "string \<Rightarrow> string \<Rightarrow> bool" where
  "HasPrefix s p \<longleftrightarrow> take (length p) s = p"

text \<open>\<^verbatim>\<open>strings.LastIndex(s, sep)\<close> for a one-byte separator: the last position of it, or -1.\<close>

fun LastIndex :: "string \<Rightarrow> char \<Rightarrow> int" where
  "LastIndex [] c = - 1"
| "LastIndex (x # xs) c =
     (let i = LastIndex xs c in if 0 \<le> i then i + 1 else if x = c then 0 else - 1)"

fun Join :: "string list \<Rightarrow> string \<Rightarrow> string" where
  "Join [] sep = []"
| "Join [s] sep = s"
| "Join (s # t # ss) sep = s @ sep @ Join (t # ss) sep"

text \<open>\<^verbatim>\<open>sort.Strings\<close>: ascending in the bytewise lexicographic order.\<close>

definition sort_Strings :: "string list \<Rightarrow> string list" where
  "sort_Strings xs = sort xs"

text \<open>
  \<^verbatim>\<open>strings.TrimSpace\<close> drops the Unicode white space at both ends, here as the UTF-8 encodings of
  the code points of \<^verbatim>\<open>unicode.IsSpace\<close>.
\<close>

definition byte :: "nat \<Rightarrow> char" where
  "byte n = char_of n"

definition space_encodings :: "string list" where
  "space_encodings =
     [[byte 9], [byte 10], [byte 11], [byte 12], [byte 13], [byte 32],
      [byte 194, byte 133], [byte 194, byte 160], [byte 225, byte 154, byte 128]]
     @ map (\<lambda>n. [byte 226, byte 128, byte n]) ([128..<139] @ [168, 169, 175])
     @ [[byte 226, byte 129, byte 159], [byte 227, byte 128, byte 128]]"

fun strip_front :: "nat \<Rightarrow> string list \<Rightarrow> string \<Rightarrow> string" where
  "strip_front 0 ws s = s"
| "strip_front (Suc n) ws s =
     (case find (HasPrefix s) ws of
        None \<Rightarrow> s
      | Some w \<Rightarrow> strip_front n ws (drop (length w) s))"

definition TrimSpace :: "string \<Rightarrow> string" where
  "TrimSpace s =
     (let l = strip_front (length s) space_encodings s
      in rev (strip_front (length l) (map rev space_encodings) (rev l)))"

section \<open>strconv.Atoi\<close>

definition digit_value :: "char \<Rightarrow> nat option" where
  "digit_value c =
     (let n = of_char c in if 48 \<le> n \<and> n \<le> (57 :: nat) then Some (n - 48) else None)"

fun digits_value :: "nat \<Rightarrow> string \<Rightarrow> nat option" where
  "digits_value acc [] = Some acc"
| "digits_value acc (c # cs) =
     (case digit_value c of None \<Rightarrow> None | Some d \<Rightarrow> digits_value (10 * acc + d) cs)"

definition unsigned_value :: "string \<Rightarrow> nat option" where
  "unsigned_value s = (if s = [] then None else digits_value 0 s)"

definition in_int64 :: "int \<Rightarrow> bool" where
  "in_int64 i \<longleftrightarrow> - (2 ^ 63) \<le> i \<and> i < 2 ^ 63"

definition Atoi :: "string \<Rightarrow> int option" where
  "Atoi s =
     (let (neg, ds) =
        (case s of
           [] \<Rightarrow> (False, [])
         | c # cs \<Rightarrow>
             if c = CHR ''-'' then (True, cs)
             else if c = CHR ''+'' then (False, cs)
             else (False, s))
      in case unsigned_value ds of
           None \<Rightarrow> None
         | Some n \<Rightarrow>
             (let i = (if neg then - int n else int n)
              in if in_int64 i then Some i else None))"

section \<open>Errors\<close>

text \<open>
  The leaves are the errors the program tells apart: a Kubernetes API error by its reason, a
  gRPC status by its code, the two context errors, and any other text. \<^verbatim>\<open>fmt.Errorf\<close> with a \<^verbatim>\<open>%w\<close> verb
  wraps exactly one error here, so \<^verbatim>\<open>errors.Is\<close>, \<^verbatim>\<open>errors.As\<close> and the predicates built on them look
  at the end of the chain.
\<close>

datatype api_reason = NotFound | AlreadyExists | Conflict | TooManyRequests | OtherReason string

datatype grpc_code = CodeCanceled | CodeDeadlineExceeded | CodeAlreadyExists | CodeOther string

datatype gerror =
    ErrFmt string "farg list"
  | ErrWrap string "farg list" gerror
  | ErrApi api_reason string
  | ErrGrpc grpc_code string
  | ErrCanceled
  | ErrDeadlineExceeded
and farg = FStr string | FInt int | FDur duration | FErr gerror

datatype message = Lit string | Sprintf string "farg list" | ErrorText gerror

fun err_cause :: "gerror \<Rightarrow> gerror" where
  "err_cause (ErrWrap _ _ e) = err_cause e"
| "err_cause e = e"

definition IsNotFound :: "gerror \<Rightarrow> bool" where
  "IsNotFound e = (case err_cause e of ErrApi NotFound _ \<Rightarrow> True | _ \<Rightarrow> False)"

definition IsAlreadyExistsApi :: "gerror \<Rightarrow> bool" where
  "IsAlreadyExistsApi e = (case err_cause e of ErrApi AlreadyExists _ \<Rightarrow> True | _ \<Rightarrow> False)"

definition IsConflict :: "gerror \<Rightarrow> bool" where
  "IsConflict e = (case err_cause e of ErrApi Conflict _ \<Rightarrow> True | _ \<Rightarrow> False)"

definition IsTooManyRequests :: "gerror \<Rightarrow> bool" where
  "IsTooManyRequests e = (case err_cause e of ErrApi TooManyRequests _ \<Rightarrow> True | _ \<Rightarrow> False)"

text \<open>\<^verbatim>\<open>status.FromError\<close>: the gRPC code carried by the chain, if there is one.\<close>

definition grpc_status :: "gerror \<Rightarrow> grpc_code option" where
  "grpc_status e = (case err_cause e of ErrGrpc c _ \<Rightarrow> Some c | _ \<Rightarrow> None)"

lemma error_class_wrap [simp]:
  "IsNotFound (ErrWrap f as e) = IsNotFound e"
  "IsAlreadyExistsApi (ErrWrap f as e) = IsAlreadyExistsApi e"
  "IsConflict (ErrWrap f as e) = IsConflict e"
  "IsTooManyRequests (ErrWrap f as e) = IsTooManyRequests e"
  "grpc_status (ErrWrap f as e) = grpc_status e"
  by (simp_all add: IsNotFound_def IsAlreadyExistsApi_def IsConflict_def IsTooManyRequests_def
      grpc_status_def)

lemma error_class_fmt [simp]:
  "\<not> IsNotFound (ErrFmt f as)" "\<not> IsAlreadyExistsApi (ErrFmt f as)" "\<not> IsConflict (ErrFmt f as)"
  "\<not> IsTooManyRequests (ErrFmt f as)" "grpc_status (ErrFmt f as) = None"
  by (simp_all add: IsNotFound_def IsAlreadyExistsApi_def IsConflict_def IsTooManyRequests_def
      grpc_status_def)

lemma error_class_api [simp]:
  "IsNotFound (ErrApi r s) \<longleftrightarrow> r = NotFound"
  "IsAlreadyExistsApi (ErrApi r s) \<longleftrightarrow> r = AlreadyExists"
  "IsConflict (ErrApi r s) \<longleftrightarrow> r = Conflict"
  "IsTooManyRequests (ErrApi r s) \<longleftrightarrow> r = TooManyRequests"
  "grpc_status (ErrApi r s) = None"
  by (simp_all add: IsNotFound_def IsAlreadyExistsApi_def IsConflict_def IsTooManyRequests_def
      grpc_status_def split: api_reason.split)

lemma error_class_grpc [simp]:
  "\<not> IsNotFound (ErrGrpc c s)" "\<not> IsAlreadyExistsApi (ErrGrpc c s)" "\<not> IsConflict (ErrGrpc c s)"
  "\<not> IsTooManyRequests (ErrGrpc c s)" "grpc_status (ErrGrpc c s) = Some c"
  by (simp_all add: IsNotFound_def IsAlreadyExistsApi_def IsConflict_def IsTooManyRequests_def
      grpc_status_def)

section \<open>Facts about strings\<close>

lemma LastIndex_range: "- 1 \<le> LastIndex s c \<and> LastIndex s c < int (length s)"
  by (induction s) (auto simp: Let_def)

lemma LastIndex_neg: "LastIndex s c < 0 \<longleftrightarrow> c \<notin> set s"
proof (induction s)
  case Nil
  then show ?case by simp
next
  case (Cons x xs)
  then show ?case by (auto simp: Let_def)
qed

lemma LastIndex_absent: "c \<notin> set s \<Longrightarrow> LastIndex s c = - 1"
  using LastIndex_neg [of s c] LastIndex_range [of s c] by linarith

lemma LastIndex_append: "c \<notin> set v \<Longrightarrow> LastIndex (p @ c # v) c = int (length p)"
  by (induction p) (simp_all add: LastIndex_absent Let_def)

lemma HasPrefix_append [simp]: "HasPrefix (p @ s) p"
  by (simp add: HasPrefix_def)

lemma Join_Cons: "ss \<noteq> [] \<Longrightarrow> Join (s # ss) sep = s @ sep @ Join ss sep"
  by (cases ss) simp_all

lemma append_same_separator:
  "c \<notin> set a \<Longrightarrow> c \<notin> set b \<Longrightarrow> a @ c # x = b @ c # y \<Longrightarrow> a = b \<and> x = y"
proof (induction a arbitrary: b)
  case Nil
  then show ?case by (cases b) auto
next
  case (Cons z zs)
  then show ?case by (cases b) auto
qed

text \<open>The separator \<^verbatim>\<open>Join\<close> puts between two elements is the first one, if no element holds it.\<close>

lemma Join_inject:
  assumes "Join xs [c] = Join ys [c]" and "\<forall>s \<in> set xs. c \<notin> set s" and "\<forall>s \<in> set ys. c \<notin> set s"
    and "xs \<noteq> []" and "ys \<noteq> []"
  shows "xs = ys"
  using assms
proof (induction xs arbitrary: ys)
  case Nil
  then show ?case by simp
next
  case (Cons x xs)
  then obtain y ys' where ys: "ys = y # ys'" by (cases ys) auto
  have only_one: "c \<notin> set u \<Longrightarrow> u \<noteq> v @ c # w" for u v w by auto
  show ?case
  proof (cases "xs = [] \<or> ys' = []")
    case True
    then show ?thesis
      using Cons.prems ys only_one [of x y] only_one [of y x]
      by (cases xs; cases ys') (auto simp: Join_Cons)
  next
    case False
    with Cons.prems ys have "x @ c # Join xs [c] = y @ c # Join ys' [c]"
      by (simp add: Join_Cons)
    with Cons.prems ys have "x = y \<and> Join xs [c] = Join ys' [c]"
      by (intro append_same_separator) auto
    with Cons.IH [of ys'] Cons.prems ys False show ?thesis by auto
  qed
qed

lemma sort_Strings_mset: "mset xs = mset ys \<longleftrightarrow> sort_Strings xs = sort_Strings ys"
  unfolding sort_Strings_def by (metis mset_sort properties_for_sort sorted_sort)

end
