(* ===== verification/ApiTypes.thy ===== *)
theory ApiTypes
  imports GoStd
begin

text \<open>
  The data of the operator: the three custom resources of \<^verbatim>\<open>api/v1alpha1\<close> with their phases and
  conditions, the Kubernetes objects the controllers touch, and the constants of
  \<^verbatim>\<open>internal/controller/constants.go\<close>, \<^verbatim>\<open>names.go\<close> and \<^verbatim>\<open>internal/talos/finalizer.go\<close>.

  An embedded Go struct (\<^verbatim>\<open>metav1.ObjectMeta\<close>, \<^verbatim>\<open>CommonStatus\<close>) is a record that the outer record
  extends. Field names are the Go ones, with the resource in front where two resources share a
  name. A pointer field is an option. Object metadata holds the fields the program reads or
  writes; the resource version is not among them.
\<close>

section \<open>Object metadata\<close>

record owner_reference =
  OwnerAPIVersion :: string
  OwnerKind :: string
  OwnerName :: string
  OwnerUID :: string
  OwnerController :: "bool option"
  OwnerBlockDeletion :: "bool option"

record object_meta =
  Name :: string
  Namespace :: string
  UID :: string
  Generation :: int64
  CreationTimestamp :: time
  DeletionTimestamp :: "time option"
  Finalizers :: "string list"
  Annotations :: "string \<Rightarrow> string option"
  OwnerReferences :: "owner_reference list"

text \<open>Reading a missing key of a Go string map gives the empty string.\<close>

definition annotation :: "(string \<Rightarrow> string option) \<Rightarrow> string \<Rightarrow> string" where
  "annotation m k = (case m k of None \<Rightarrow> [] | Some v \<Rightarrow> v)"

lemma annotation_upd [simp]: "annotation (m(k := Some v)) k = v"
  by (simp add: annotation_def)

lemma annotation_upd_other [simp]: "k \<noteq> k' \<Longrightarrow> annotation (m(k := v)) k' = annotation m k'"
  by (simp add: annotation_def)

type_synonym namespaced_name = "string \<times> string"

definition nsname :: "('a) object_meta_scheme \<Rightarrow> namespaced_name" where
  "nsname obj = (Namespace obj, Name obj)"

section \<open>Conditions and common status\<close>

datatype condition_status = ConditionTrue | ConditionFalse | ConditionUnknown

record condition =
  CondType :: string
  CondStatus :: condition_status
  LastTransitionTime :: time
  CondReason :: string
  CondMessage :: message

record common_status =
  ObservedGeneration :: int64
  RetryCount :: int32
  LastUpdateTime :: "time option"
  Conditions :: "condition list"

section \<open>TalosCluster\<close>

datatype TalosPhase =
    TalosPhaseUnset
  | TalosPhasePending
  | TalosPhaseProvisioning
  | TalosPhaseReady
  | TalosPhaseError
  | TalosPhaseDeleting

fun talos_phase_string :: "TalosPhase \<Rightarrow> string" where
  "talos_phase_string TalosPhaseUnset = ''''"
| "talos_phase_string TalosPhasePending = ''Pending''"
| "talos_phase_string TalosPhaseProvisioning = ''Provisioning''"
| "talos_phase_string TalosPhaseReady = ''Ready''"
| "talos_phase_string TalosPhaseError = ''Error''"
| "talos_phase_string TalosPhaseDeleting = ''Deleting''"

definition TalosClusterConditionSecretsGenerated :: string where
  "TalosClusterConditionSecretsGenerated = ''SecretsGenerated''"

definition TalosClusterConditionConfigsGenerated :: string where
  "TalosClusterConditionConfigsGenerated = ''ConfigsGenerated''"

record talos_cluster_spec =
  ClusterName :: string
  Endpoints :: "string list"
  ClusterTalosVersion :: string
  KubernetesVersion :: string

record talos_cluster_status = common_status +
  ClusterPhase :: TalosPhase

record talos_cluster = object_meta +
  ClusterSpec :: talos_cluster_spec
  ClusterStatus :: talos_cluster_status

section \<open>TalosNode\<close>

datatype TalosNodePhase =
    TalosNodePhaseUnset
  | TalosNodePhasePending
  | TalosNodePhaseApplying
  | TalosNodePhaseReady
  | TalosNodePhaseError
  | TalosNodePhaseDeleting
  | TalosNodePhaseUpgrading

fun node_phase_string :: "TalosNodePhase \<Rightarrow> string" where
  "node_phase_string TalosNodePhaseUnset = ''''"
| "node_phase_string TalosNodePhasePending = ''Pending''"
| "node_phase_string TalosNodePhaseApplying = ''Applying''"
| "node_phase_string TalosNodePhaseReady = ''Ready''"
| "node_phase_string TalosNodePhaseError = ''Error''"
| "node_phase_string TalosNodePhaseDeleting = ''Deleting''"
| "node_phase_string TalosNodePhaseUpgrading = ''Upgrading''"

datatype TalosNodeRole = TalosNodeRoleControlPlane | TalosNodeRoleWorker

fun node_role_string :: "TalosNodeRole \<Rightarrow> string" where
  "node_role_string TalosNodeRoleControlPlane = ''ControlPlane''"
| "node_role_string TalosNodeRoleWorker = ''Worker''"

definition TalosNodeConditionConfigApplied :: string where
  "TalosNodeConditionConfigApplied = ''ConfigApplied''"

definition TalosNodeConditionTalosVersionUpToDate :: string where
  "TalosNodeConditionTalosVersionUpToDate = ''TalosVersionUpToDate''"

definition TalosNodeConditionExtensionsUpToDate :: string where
  "TalosNodeConditionExtensionsUpToDate = ''ExtensionsUpToDate''"

record secret_key_selector =
  SelName :: string
  SelKey :: string

record talos_node_spec =
  ClusterRef :: string
  Role :: TalosNodeRole
  NodeIP :: string
  Patches :: "string list"
  PatchesFrom :: "secret_key_selector list"
  DriftDetection :: "bool option"
  SkipDrain :: bool
  DrainTimeout :: "duration option"
  ResetOnDelete :: bool
  TalosVersion :: string
  SystemExtensions :: "string list"

record talos_node_status = common_status +
  NodePhase :: TalosNodePhase
  NodeMessage :: message
  DeletionAttempts :: int32
  CurrentTalosVersion :: string
  InstalledExtensions :: "string list"

record talos_node = object_meta +
  NodeSpec :: talos_node_spec
  NodeStatus :: talos_node_status

section \<open>TalosClusterBootstrap\<close>

datatype TalosClusterBootstrapPhase =
    TalosClusterBootstrapPhaseUnset
  | TalosClusterBootstrapPhasePending
  | TalosClusterBootstrapPhaseWaitingForNodes
  | TalosClusterBootstrapPhaseBootstrapping
  | TalosClusterBootstrapPhaseWaitingForKubeconfig
  | TalosClusterBootstrapPhaseWaitingForAPIServer
  | TalosClusterBootstrapPhaseCompleted
  | TalosClusterBootstrapPhaseError

fun bootstrap_phase_string :: "TalosClusterBootstrapPhase \<Rightarrow> string" where
  "bootstrap_phase_string TalosClusterBootstrapPhaseUnset = ''''"
| "bootstrap_phase_string TalosClusterBootstrapPhasePending = ''Pending''"
| "bootstrap_phase_string TalosClusterBootstrapPhaseWaitingForNodes = ''WaitingForNodes''"
| "bootstrap_phase_string TalosClusterBootstrapPhaseBootstrapping = ''Bootstrapping''"
| "bootstrap_phase_string TalosClusterBootstrapPhaseWaitingForKubeconfig = ''WaitingForKubeconfig''"
| "bootstrap_phase_string TalosClusterBootstrapPhaseWaitingForAPIServer = ''WaitingForAPIServer''"
| "bootstrap_phase_string TalosClusterBootstrapPhaseCompleted = ''Completed''"
| "bootstrap_phase_string TalosClusterBootstrapPhaseError = ''Error''"

definition TalosClusterBootstrapConditionBootstrapped :: string where
  "TalosClusterBootstrapConditionBootstrapped = ''Bootstrapped''"

definition TalosClusterBootstrapConditionKubeconfig :: string where
  "TalosClusterBootstrapConditionKubeconfig = ''KubeconfigAvailable''"

definition TalosClusterBootstrapConditionAPIServer :: string where
  "TalosClusterBootstrapConditionAPIServer = ''APIServerReady''"

record talos_cluster_bootstrap_spec =
  BootstrapClusterRef :: string

record talos_cluster_bootstrap_status = common_status +
  BootstrapPhase :: TalosClusterBootstrapPhase
  BootstrapMessage :: message

record talos_cluster_bootstrap = object_meta +
  BootstrapSpec :: talos_cluster_bootstrap_spec
  BootstrapStatus :: talos_cluster_bootstrap_status

lemmas condition_type_defs =
  TalosClusterConditionSecretsGenerated_def TalosClusterConditionConfigsGenerated_def
  TalosNodeConditionConfigApplied_def TalosNodeConditionTalosVersionUpToDate_def
  TalosNodeConditionExtensionsUpToDate_def TalosClusterBootstrapConditionBootstrapped_def
  TalosClusterBootstrapConditionKubeconfig_def TalosClusterBootstrapConditionAPIServer_def

section \<open>Kubernetes objects of other APIs\<close>

text \<open>\<^verbatim>\<open>Secret.Data\<close> may be a nil map: reading it is like reading an empty map, writing it panics.\<close>

record secret = object_meta +
  SecretType :: string
  Data :: "(string \<Rightarrow> bytes option) option"

definition data_lookup :: "secret \<Rightarrow> string \<Rightarrow> bytes option" where
  "data_lookup s k = (case Data s of None \<Rightarrow> None | Some m \<Rightarrow> m k)"

definition SecretTypeOpaque :: string where
  "SecretTypeOpaque = ''Opaque''"

record pod = object_meta +
  PodPhase :: string

record k8s_node = object_meta +
  Unschedulable :: bool

datatype kobj =
    ONode talos_node
  | OCluster talos_cluster
  | OBootstrap talos_cluster_bootstrap
  | OSecret secret

datatype kind = KindNode | KindCluster | KindBootstrap | KindSecret

section \<open>Constants of the controller package\<close>

definition etcdLeaveMaxAttempts :: int32 where
  "etcdLeaveMaxAttempts = 3"

definition etcdLeaveRetryDelay :: duration where
  "etcdLeaveRetryDelay = 90 * Second"

definition driftCheckInterval :: duration where
  "driftCheckInterval = 5 * Minute"

definition defaultDrainTimeout :: duration where
  "defaultDrainTimeout = 5 * Minute"

definition drainRequeueDelay :: duration where
  "drainRequeueDelay = 30 * Second"

definition drainPollInterval :: duration where
  "drainPollInterval = 5 * Second"

definition nodeReadyDelay :: duration where
  "nodeReadyDelay = 10 * Second"

definition apiServerCheckDelay :: duration where
  "apiServerCheckDelay = 15 * Second"

definition deletionGuardRequeueDelay :: duration where
  "deletionGuardRequeueDelay = 30 * Second"

definition upgradeCheckInterval :: duration where
  "upgradeCheckInterval = 30 * Second"

lemmas delay_defs =
  etcdLeaveRetryDelay_def driftCheckInterval_def defaultDrainTimeout_def drainRequeueDelay_def
  drainPollInterval_def nodeReadyDelay_def apiServerCheckDelay_def deletionGuardRequeueDelay_def
  upgradeCheckInterval_def Minute_def Second_def

definition FinalizerCleanup :: string where
  "FinalizerCleanup = ''talos.yuriykovalchuk.dev/cleanup''"

definition AnnotationSkipDrain :: string where
  "AnnotationSkipDrain = ''talos.yuriykovalchuk.dev/skip-drain''"

definition AnnotationReset :: string where
  "AnnotationReset = ''talos.yuriykovalchuk.dev/reset''"

definition AnnotationLastReset :: string where
  "AnnotationLastReset = ''talos.yuriykovalchuk.dev/last-reset''"

definition AnnotationUpgrade :: string where
  "AnnotationUpgrade = ''talos.yuriykovalchuk.dev/upgrade''"

definition AnnotationLastUpgrade :: string where
  "AnnotationLastUpgrade = ''talos.yuriykovalchuk.dev/last-upgrade''"

definition AnnotationCurrentSchematic :: string where
  "AnnotationCurrentSchematic = ''talos.yuriykovalchuk.dev/current-schematic''"

definition AnnotationLastExtensions :: string where
  "AnnotationLastExtensions = ''talos.yuriykovalchuk.dev/last-extensions''"

lemmas annotation_defs =
  AnnotationSkipDrain_def AnnotationReset_def AnnotationLastReset_def AnnotationUpgrade_def
  AnnotationLastUpgrade_def AnnotationCurrentSchematic_def AnnotationLastExtensions_def

section \<open>Secret names\<close>

definition clusterSecretsName :: "string \<Rightarrow> string" where
  "clusterSecretsName clusterName = clusterName @ ''-secrets''"

definition clusterControlPlaneName :: "string \<Rightarrow> string" where
  "clusterControlPlaneName clusterName = clusterName @ ''-controlplane''"

definition clusterWorkerName :: "string \<Rightarrow> string" where
  "clusterWorkerName clusterName = clusterName @ ''-worker''"

definition clusterTalosconfigName :: "string \<Rightarrow> string" where
  "clusterTalosconfigName clusterName = clusterName @ ''-talosconfig''"

definition clusterKubeconfigName :: "string \<Rightarrow> string" where
  "clusterKubeconfigName clusterName = clusterName @ ''-kubeconfig''"

definition nodeConfigName :: "string \<Rightarrow> string" where
  "nodeConfigName nodeName = nodeName @ ''-config''"

lemmas secret_name_defs =
  clusterSecretsName_def clusterControlPlaneName_def clusterWorkerName_def
  clusterTalosconfigName_def clusterKubeconfigName_def nodeConfigName_def

text \<open>
  The six families of Secret names as functions of a stem, in the order of \<^verbatim>\<open>names.go\<close>. Reading the
  names from the end, two families differ before their stems begin.
\<close>

definition secret_name_families :: "(string \<Rightarrow> string) list" where
  "secret_name_families =
     [clusterSecretsName, clusterControlPlaneName, clusterWorkerName, clusterTalosconfigName,
      clusterKubeconfigName, nodeConfigName]"

lemma append_eq_by_rev: "xs @ s = ys @ t \<longleftrightarrow> rev s @ rev xs = rev t @ rev ys"
  by (metis rev_append rev_rev_ident)

text \<open>
  No two Secrets of the operator collide: each of the six naming functions is injective, and the
  names of different functions never meet, whatever the clusters and nodes are called.
\<close>

theorem secret_name_family_inject:
  assumes "i < 6" and "j < 6"
  shows "(secret_name_families ! i) a = (secret_name_families ! j) b \<longleftrightarrow> i = j \<and> a = b"
proof -
  have "i \<in> {0, 1, 2, 3, 4, 5}" and "j \<in> {0, 1, 2, 3, 4, 5}" using assms by auto
  then show ?thesis
    by (auto simp: secret_name_families_def secret_name_defs append_eq_by_rev)
qed

theorem secret_name_family_inject_witness: "clusterSecretsName ''a'' \<noteq> nodeConfigName ''a-secrets''"
  using secret_name_family_inject [of 0 5 "''a''" "''a-secrets''"]
  by (simp add: secret_name_families_def)

end
