(* ===== verification/Environment.thy ===== *)
theory Environment
  imports ApiTypes Complex_Main
begin

text \<open>
  Everything outside the repository: the Kubernetes API server of the management cluster, the
  Talos API of the nodes, the API server of the managed cluster, the clock and the other services
  of the host, and the third-party libraries.

  The environment is a parameter of the model, a record \<open>env\<close> of functions. A stateful service is
  a function of the history of all calls so far and of the request, so it may answer anything
  at any moment; a library function without state is a function of its arguments. Nothing is
  assumed about them here: a theorem that needs a documented law of a service names it as a
  hypothesis. Each call appends one event with its request and, for a call that may change the
  outside world, whether it failed.
\<close>

section \<open>YAML documents\<close>

text \<open>
  A document parsed into Go's \<^verbatim>\<open>interface{}\<close>; a mapping is a \<^verbatim>\<open>map[string]interface{}\<close>. At the top
  level, \<^verbatim>\<open>None\<close> stands for a nil map (the result of an empty document).
\<close>

datatype yval =
    YNull
  | YBool bool
  | YNum rat
  | YStr string
  | YSeq "yval list"
  | YMap "string \<Rightarrow> yval option"

type_synonym ymap = "string \<Rightarrow> yval option"

section \<open>Opaque values of third-party libraries\<close>

datatype talosconfig = TalosConfig string
datatype secrets_bundle = SecretsBundle string
datatype contract = Contract string
datatype gen_input = GenInput string
datatype machine_config = MachineConfig string
datatype client_config = ClientConfig string
datatype rest_config = RestConfig string
datatype remote_client = RemoteClient string

record semver =
  Major :: nat
  Minor :: nat
  PatchNo :: nat
  Pre :: "string list"
  Build :: "string list"

record kubeconfig_cluster =
  Server :: string
  ClusterRest :: string

record kubeconfig =
  Clusters :: "string \<Rightarrow> kubeconfig_cluster option"
  ConfigRest :: string

record gen_options =
  GenClusterName :: string
  GenEndpoint :: string
  GenK8sVersion :: string
  GenContract :: contract
  GenBundle :: secrets_bundle
  GenEndpointList :: "string list"

datatype machine_type = TypeControlPlane | TypeWorker

section \<open>The Talos machine API\<close>

text \<open>A connection is what \<^verbatim>\<open>talosclient.New\<close> was asked for: its endpoint and its credentials.\<close>

datatype credentials = MutualTLS talosconfig | InsecureSkipVerify

record talos_conn =
  ConnEndpoint :: string
  ConnCreds :: credentials

datatype apply_mode = ApplyAuto

datatype rpc_request =
    ReqApplyConfiguration bytes apply_mode
  | ReqBootstrap
  | ReqKubeconfig
  | ReqCosiGet string string string
  | ReqVersion
  | ReqUpgrade string bool bool
  | ReqReset bool bool "(string \<times> bool) list"
  | ReqEtcdLeaveCluster
  | ReqEtcdMemberList
  | ReqEtcdRemoveMemberByID int64

text \<open>One call: the connection, the node its metadata names, its deadline and the request.\<close>

record rpc_call =
  CallConn :: talos_conn
  CallNode :: string
  CallTimeout :: "duration option"
  CallReq :: rpc_request

record apply_message =
  ApplyMode :: string
  ApplyWarnings :: "string list"

record version_message =
  VersionTag :: "string option"
  PlatformMode :: "string option"

record etcd_member =
  MemberId :: int64
  PeerUrls :: "string list"

type_synonym etcd_members = "etcd_member list"

datatype cosi_resource =
    CosiMachineConfig "gerror + bytes"
  | CosiHostnameStatus string
  | CosiOther string

section \<open>HTTP\<close>

record http_request =
  HttpMethod :: string
  HttpURL :: string
  HttpContentType :: string
  HttpBody :: bytes
  HttpTimeout :: duration

record http_response =
  StatusCode :: int
  RespBody :: bytes

section \<open>Events\<close>

datatype event_type = EventTypeNormal | EventTypeWarning

datatype event =
    KGet kind namespaced_name
  | KList kind string
  | KCreate kobj "gerror option"
  | KUpdate kobj "gerror option"
  | KStatusUpdate kobj "gerror option"
  | KPatch kobj kobj "gerror option"
  | KDelete kind namespaced_name "gerror option"
  | TNew talos_conn "gerror option"
  | TClose talos_conn
  | TCall rpc_call "gerror option"
  | RGetNode remote_client string
  | RUpdateNode remote_client k8s_node "gerror option"
  | RListPods remote_client string
  | REvict remote_client namespaced_name "gerror option"
  | RDeleteNode remote_client string "gerror option"
  | RServerVersion remote_client
  | HttpDo http_request
  | NewBundle contract
  | Recorded kind namespaced_name event_type string message
  | MetricSet string "string list" int
  | MetricInc string "string list"
  | MetricObserve string "string list" time
  | ClockRead
  | RandRead
  | CtxCheck
  | TickWait "gerror option"

type_synonym hist = "event list"
type_synonym 'a prog = "(event list, 'a) state"

section \<open>The environment\<close>

record kube_api =
  kget_node :: "hist \<Rightarrow> namespaced_name \<Rightarrow> gerror + talos_node"
  kget_cluster :: "hist \<Rightarrow> namespaced_name \<Rightarrow> gerror + talos_cluster"
  kget_bootstrap :: "hist \<Rightarrow> namespaced_name \<Rightarrow> gerror + talos_cluster_bootstrap"
  kget_secret :: "hist \<Rightarrow> namespaced_name \<Rightarrow> gerror + secret"
  klist_nodes :: "hist \<Rightarrow> string \<Rightarrow> gerror + talos_node list"
  klist_bootstraps :: "hist \<Rightarrow> string \<Rightarrow> gerror + talos_cluster_bootstrap list"
  kupdate_node :: "hist \<Rightarrow> talos_node \<Rightarrow> gerror + talos_node"
  kupdate_cluster :: "hist \<Rightarrow> talos_cluster \<Rightarrow> gerror + talos_cluster"
  kupdate_bootstrap :: "hist \<Rightarrow> talos_cluster_bootstrap \<Rightarrow> gerror + talos_cluster_bootstrap"
  kupdate_secret :: "hist \<Rightarrow> secret \<Rightarrow> gerror + secret"
  kstatus_node :: "hist \<Rightarrow> talos_node \<Rightarrow> gerror + talos_node"
  kstatus_cluster :: "hist \<Rightarrow> talos_cluster \<Rightarrow> gerror + talos_cluster"
  kstatus_bootstrap :: "hist \<Rightarrow> talos_cluster_bootstrap \<Rightarrow> gerror + talos_cluster_bootstrap"
  kpatch_node :: "hist \<Rightarrow> talos_node \<Rightarrow> talos_node \<Rightarrow> gerror + talos_node"
  kcreate_secret :: "hist \<Rightarrow> secret \<Rightarrow> gerror option"
  kdelete_secret :: "hist \<Rightarrow> secret \<Rightarrow> gerror option"

record talos_api =
  tnew :: "hist \<Rightarrow> talos_conn \<Rightarrow> gerror option"
  tcall_apply :: "hist \<Rightarrow> rpc_call \<Rightarrow> gerror + apply_message list"
  tcall_unit :: "hist \<Rightarrow> rpc_call \<Rightarrow> gerror option"
  tcall_kubeconfig :: "hist \<Rightarrow> rpc_call \<Rightarrow> gerror + bytes"
  tcall_cosi :: "hist \<Rightarrow> rpc_call \<Rightarrow> gerror + cosi_resource"
  tcall_version :: "hist \<Rightarrow> rpc_call \<Rightarrow> gerror + version_message list"
  tcall_members :: "hist \<Rightarrow> rpc_call \<Rightarrow> gerror + etcd_members list"

record remote_api =
  rget_node :: "hist \<Rightarrow> remote_client \<Rightarrow> string \<Rightarrow> gerror + k8s_node"
  rupdate_node :: "hist \<Rightarrow> remote_client \<Rightarrow> k8s_node \<Rightarrow> gerror option"
  rlist_pods :: "hist \<Rightarrow> remote_client \<Rightarrow> string \<Rightarrow> gerror + pod list"
  revict :: "hist \<Rightarrow> remote_client \<Rightarrow> namespaced_name \<Rightarrow> gerror option"
  rdelete_node :: "hist \<Rightarrow> remote_client \<Rightarrow> string \<Rightarrow> gerror option"
  rserver_version :: "hist \<Rightarrow> remote_client \<Rightarrow> gerror option"

record host_api =
  clock :: "hist \<Rightarrow> time"
  rand_float :: "hist \<Rightarrow> rat"
  ctx_err :: "hist \<Rightarrow> gerror option"
  tick_wait :: "hist \<Rightarrow> gerror option"
  getenv :: "string \<Rightarrow> string option"
  http_do :: "hist \<Rightarrow> http_request \<Rightarrow> gerror + http_response"
  new_bundle :: "hist \<Rightarrow> contract \<Rightarrow> gerror + secrets_bundle"
  retry_steps :: nat

record library_api =
  yaml_unmarshal :: "bytes \<Rightarrow> gerror + ymap option"
  yaml_marshal :: "ymap option \<Rightarrow> gerror + bytes"
  talosconfig_parse :: "bytes \<Rightarrow> gerror + talosconfig"
  semver_parse :: "string \<Rightarrow> semver option"
  semver_gt :: "semver \<Rightarrow> semver \<Rightarrow> bool"
  url_host :: "string \<Rightarrow> string option"
  parse_contract :: "string \<Rightarrow> gerror + contract"
  bundle_marshal :: "secrets_bundle \<Rightarrow> gerror + bytes"
  bundle_unmarshal :: "bytes \<Rightarrow> gerror + secrets_bundle"
  generate_input :: "gen_options \<Rightarrow> gerror + gen_input"
  input_config :: "gen_input \<Rightarrow> machine_type \<Rightarrow> gerror + machine_config"
  input_talosconfig :: "gen_input \<Rightarrow> gerror + client_config"
  config_bytes :: "machine_config \<Rightarrow> gerror + bytes"
  client_config_bytes :: "client_config \<Rightarrow> gerror + bytes"
  default_kubernetes_version :: string
  apid_port :: nat
  rest_config_of :: "bytes \<Rightarrow> gerror + rest_config"
  new_for_config :: "rest_config \<Rightarrow> gerror + remote_client"
  kubeconfig_load :: "bytes \<Rightarrow> gerror + kubeconfig"
  kubeconfig_write :: "kubeconfig \<Rightarrow> gerror + bytes"
  schematic_marshal :: "string list \<Rightarrow> gerror + bytes"
  request_valid :: "string \<Rightarrow> gerror option"
  schematic_decode :: "bytes \<Rightarrow> gerror + string"
  float64_round :: "rat \<Rightarrow> rat"

record env =
  Kube :: kube_api
  Talos :: talos_api
  Remote :: remote_api
  Host :: host_api
  Lib :: library_api

section \<open>Calls\<close>

definition get_TalosNode :: "env \<Rightarrow> namespaced_name \<Rightarrow> (gerror + talos_node) prog" where
  "get_TalosNode E k = ask (\<lambda>h. kget_node (Kube E) h k) (\<lambda>_. KGet KindNode k)"

definition get_TalosCluster :: "env \<Rightarrow> namespaced_name \<Rightarrow> (gerror + talos_cluster) prog" where
  "get_TalosCluster E k = ask (\<lambda>h. kget_cluster (Kube E) h k) (\<lambda>_. KGet KindCluster k)"

definition get_TalosClusterBootstrap ::
    "env \<Rightarrow> namespaced_name \<Rightarrow> (gerror + talos_cluster_bootstrap) prog" where
  "get_TalosClusterBootstrap E k = ask (\<lambda>h. kget_bootstrap (Kube E) h k) (\<lambda>_. KGet KindBootstrap k)"

definition get_Secret :: "env \<Rightarrow> namespaced_name \<Rightarrow> (gerror + secret) prog" where
  "get_Secret E k = ask (\<lambda>h. kget_secret (Kube E) h k) (\<lambda>_. KGet KindSecret k)"

definition list_TalosNodes :: "env \<Rightarrow> string \<Rightarrow> (gerror + talos_node list) prog" where
  "list_TalosNodes E ns = ask (\<lambda>h. klist_nodes (Kube E) h ns) (\<lambda>_. KList KindNode ns)"

definition list_TalosClusterBootstraps ::
    "env \<Rightarrow> string \<Rightarrow> (gerror + talos_cluster_bootstrap list) prog" where
  "list_TalosClusterBootstraps E ns =
     ask (\<lambda>h. klist_bootstraps (Kube E) h ns) (\<lambda>_. KList KindBootstrap ns)"

definition update_TalosNode :: "env \<Rightarrow> talos_node \<Rightarrow> (gerror + talos_node) prog" where
  "update_TalosNode E n = ask (\<lambda>h. kupdate_node (Kube E) h n) (\<lambda>r. KUpdate (ONode n) (opt_err r))"

definition update_TalosCluster :: "env \<Rightarrow> talos_cluster \<Rightarrow> (gerror + talos_cluster) prog" where
  "update_TalosCluster E c =
     ask (\<lambda>h. kupdate_cluster (Kube E) h c) (\<lambda>r. KUpdate (OCluster c) (opt_err r))"

definition update_TalosClusterBootstrap ::
    "env \<Rightarrow> talos_cluster_bootstrap \<Rightarrow> (gerror + talos_cluster_bootstrap) prog" where
  "update_TalosClusterBootstrap E b =
     ask (\<lambda>h. kupdate_bootstrap (Kube E) h b) (\<lambda>r. KUpdate (OBootstrap b) (opt_err r))"

definition update_Secret :: "env \<Rightarrow> secret \<Rightarrow> (gerror + secret) prog" where
  "update_Secret E s = ask (\<lambda>h. kupdate_secret (Kube E) h s) (\<lambda>r. KUpdate (OSecret s) (opt_err r))"

definition status_update_TalosNode :: "env \<Rightarrow> talos_node \<Rightarrow> (gerror + talos_node) prog" where
  "status_update_TalosNode E n =
     ask (\<lambda>h. kstatus_node (Kube E) h n) (\<lambda>r. KStatusUpdate (ONode n) (opt_err r))"

definition status_update_TalosCluster :: "env \<Rightarrow> talos_cluster \<Rightarrow> (gerror + talos_cluster) prog" where
  "status_update_TalosCluster E c =
     ask (\<lambda>h. kstatus_cluster (Kube E) h c) (\<lambda>r. KStatusUpdate (OCluster c) (opt_err r))"

definition status_update_TalosClusterBootstrap ::
    "env \<Rightarrow> talos_cluster_bootstrap \<Rightarrow> (gerror + talos_cluster_bootstrap) prog" where
  "status_update_TalosClusterBootstrap E b =
     ask (\<lambda>h. kstatus_bootstrap (Kube E) h b) (\<lambda>r. KStatusUpdate (OBootstrap b) (opt_err r))"

definition patch_TalosNode :: "env \<Rightarrow> talos_node \<Rightarrow> talos_node \<Rightarrow> (gerror + talos_node) prog" where
  "patch_TalosNode E base n =
     ask (\<lambda>h. kpatch_node (Kube E) h base n) (\<lambda>r. KPatch (ONode base) (ONode n) (opt_err r))"

definition create_Secret :: "env \<Rightarrow> secret \<Rightarrow> gerror option prog" where
  "create_Secret E s = ask (\<lambda>h. kcreate_secret (Kube E) h s) (\<lambda>r. KCreate (OSecret s) r)"

definition delete_Secret :: "env \<Rightarrow> secret \<Rightarrow> gerror option prog" where
  "delete_Secret E s = ask (\<lambda>h. kdelete_secret (Kube E) h s) (\<lambda>r. KDelete KindSecret (nsname s) r)"

definition talosclient_New :: "env \<Rightarrow> talos_conn \<Rightarrow> gerror option prog" where
  "talosclient_New E c = ask (\<lambda>h. tnew (Talos E) h c) (\<lambda>r. TNew c r)"

definition talos_apply :: "env \<Rightarrow> rpc_call \<Rightarrow> (gerror + apply_message list) prog" where
  "talos_apply E c = ask (\<lambda>h. tcall_apply (Talos E) h c) (\<lambda>r. TCall c (opt_err r))"

definition talos_unit :: "env \<Rightarrow> rpc_call \<Rightarrow> gerror option prog" where
  "talos_unit E c = ask (\<lambda>h. tcall_unit (Talos E) h c) (\<lambda>r. TCall c r)"

definition talos_kubeconfig :: "env \<Rightarrow> rpc_call \<Rightarrow> (gerror + bytes) prog" where
  "talos_kubeconfig E c = ask (\<lambda>h. tcall_kubeconfig (Talos E) h c) (\<lambda>r. TCall c (opt_err r))"

definition talos_cosi :: "env \<Rightarrow> rpc_call \<Rightarrow> (gerror + cosi_resource) prog" where
  "talos_cosi E c = ask (\<lambda>h. tcall_cosi (Talos E) h c) (\<lambda>r. TCall c (opt_err r))"

definition talos_version :: "env \<Rightarrow> rpc_call \<Rightarrow> (gerror + version_message list) prog" where
  "talos_version E c = ask (\<lambda>h. tcall_version (Talos E) h c) (\<lambda>r. TCall c (opt_err r))"

definition talos_members :: "env \<Rightarrow> rpc_call \<Rightarrow> (gerror + etcd_members list) prog" where
  "talos_members E c = ask (\<lambda>h. tcall_members (Talos E) h c) (\<lambda>r. TCall c (opt_err r))"

definition remote_get_node :: "env \<Rightarrow> remote_client \<Rightarrow> string \<Rightarrow> (gerror + k8s_node) prog" where
  "remote_get_node E c n = ask (\<lambda>h. rget_node (Remote E) h c n) (\<lambda>_. RGetNode c n)"

definition remote_update_node :: "env \<Rightarrow> remote_client \<Rightarrow> k8s_node \<Rightarrow> gerror option prog" where
  "remote_update_node E c n = ask (\<lambda>h. rupdate_node (Remote E) h c n) (\<lambda>r. RUpdateNode c n r)"

definition remote_list_pods :: "env \<Rightarrow> remote_client \<Rightarrow> string \<Rightarrow> (gerror + pod list) prog" where
  "remote_list_pods E c n = ask (\<lambda>h. rlist_pods (Remote E) h c n) (\<lambda>_. RListPods c n)"

definition remote_evict :: "env \<Rightarrow> remote_client \<Rightarrow> namespaced_name \<Rightarrow> gerror option prog" where
  "remote_evict E c p = ask (\<lambda>h. revict (Remote E) h c p) (\<lambda>r. REvict c p r)"

definition remote_delete_node :: "env \<Rightarrow> remote_client \<Rightarrow> string \<Rightarrow> gerror option prog" where
  "remote_delete_node E c n = ask (\<lambda>h. rdelete_node (Remote E) h c n) (\<lambda>r. RDeleteNode c n r)"

definition remote_server_version :: "env \<Rightarrow> remote_client \<Rightarrow> gerror option prog" where
  "remote_server_version E c = ask (\<lambda>h. rserver_version (Remote E) h c) (\<lambda>_. RServerVersion c)"

definition time_Now :: "env \<Rightarrow> time prog" where
  "time_Now E = ask (clock (Host E)) (\<lambda>_. ClockRead)"

definition rand_Float64 :: "env \<Rightarrow> rat prog" where
  "rand_Float64 E = ask (rand_float (Host E)) (\<lambda>_. RandRead)"

definition ctx_Err :: "env \<Rightarrow> gerror option prog" where
  "ctx_Err E = ask (ctx_err (Host E)) (\<lambda>_. CtxCheck)"

definition wait_tick :: "env \<Rightarrow> gerror option prog" where
  "wait_tick E = ask (tick_wait (Host E)) TickWait"

definition http_Do :: "env \<Rightarrow> http_request \<Rightarrow> (gerror + http_response) prog" where
  "http_Do E r = ask (\<lambda>h. http_do (Host E) h r) (\<lambda>_. HttpDo r)"

definition secrets_NewBundle :: "env \<Rightarrow> contract \<Rightarrow> (gerror + secrets_bundle) prog" where
  "secrets_NewBundle E c = ask (\<lambda>h. new_bundle (Host E) h c) (\<lambda>_. NewBundle c)"

definition os_Getenv :: "env \<Rightarrow> string \<Rightarrow> string" where
  "os_Getenv E k = (case getenv (Host E) k of None \<Rightarrow> [] | Some v \<Rightarrow> v)"

lemmas call_defs =
  get_TalosNode_def get_TalosCluster_def get_TalosClusterBootstrap_def get_Secret_def
  list_TalosNodes_def list_TalosClusterBootstraps_def update_TalosNode_def update_TalosCluster_def
  update_TalosClusterBootstrap_def update_Secret_def status_update_TalosNode_def
  status_update_TalosCluster_def status_update_TalosClusterBootstrap_def patch_TalosNode_def
  create_Secret_def delete_Secret_def talosclient_New_def talos_apply_def talos_unit_def
  talos_kubeconfig_def talos_cosi_def talos_version_def talos_members_def remote_get_node_def
  remote_update_node_def remote_list_pods_def remote_evict_def remote_delete_node_def
  remote_server_version_def time_Now_def rand_Float64_def ctx_Err_def wait_tick_def http_Do_def
  secrets_NewBundle_def

section \<open>Documented laws of the API server\<close>

text \<open>
  A successful status update or update answers with the submitted object: the resource version,
  which the model leaves out, guards against concurrent changes. Theorems that follow an object
  through such a call name the law they use.
\<close>

definition node_status_echo :: "env \<Rightarrow> bool" where
  "node_status_echo E \<longleftrightarrow> (\<forall>h n n'. kstatus_node (Kube E) h n = Inr n' \<longrightarrow> n' = n)"

definition node_update_echo :: "env \<Rightarrow> bool" where
  "node_update_echo E \<longleftrightarrow> (\<forall>h n n'. kupdate_node (Kube E) h n = Inr n' \<longrightarrow> n' = n)"

definition node_patch_echo :: "env \<Rightarrow> bool" where
  "node_patch_echo E \<longleftrightarrow> (\<forall>h b n n'. kpatch_node (Kube E) h b n = Inr n' \<longrightarrow> n' = n)"

definition cluster_status_echo :: "env \<Rightarrow> bool" where
  "cluster_status_echo E \<longleftrightarrow> (\<forall>h c c'. kstatus_cluster (Kube E) h c = Inr c' \<longrightarrow> c' = c)"

definition bootstrap_status_echo :: "env \<Rightarrow> bool" where
  "bootstrap_status_echo E \<longleftrightarrow> (\<forall>h b b'. kstatus_bootstrap (Kube E) h b = Inr b' \<longrightarrow> b' = b)"

end
