(* ===== verification/Metrics.thy ===== *)
theory Metrics
  imports Environment
begin

text \<open>
  The Prometheus vectors of \<^verbatim>\<open>internal/metrics/metrics.go\<close>: their names with the label names they
  are declared with, the phase gauges, and the value a gauge has after a history.

  \<^verbatim>\<open>WithLabelValues\<close> panics when the number of values differs from the number of labels, so
  \<open>metric_ok\<close> is a safety condition on every event.
\<close>

section \<open>Vectors\<close>

definition NodePhaseVec :: "string \<times> string list" where
  "NodePhaseVec = (''talos_node_phase'', [''name'', ''namespace'', ''cluster'', ''role'', ''ip'', ''phase''])"

definition ClusterPhaseVec :: "string \<times> string list" where
  "ClusterPhaseVec = (''talos_cluster_phase'', [''name'', ''namespace'', ''phase''])"

definition BootstrapPhaseVec :: "string \<times> string list" where
  "BootstrapPhaseVec = (''talos_bootstrap_phase'', [''cluster'', ''namespace'', ''phase''])"

definition ConfigApplyTotal :: "string \<times> string list" where
  "ConfigApplyTotal = (''talos_config_apply_total'', [''role'', ''result'', ''cluster''])"

definition ConfigApplyModeTotal :: "string \<times> string list" where
  "ConfigApplyModeTotal = (''talos_config_apply_mode_total'', [''mode'', ''cluster''])"

definition DriftCheckTotal :: "string \<times> string list" where
  "DriftCheckTotal = (''talos_drift_check_total'', [''result'', ''cluster'', ''name''])"

definition NodeConfigSizeBytes :: "string \<times> string list" where
  "NodeConfigSizeBytes =
     (''talos_node_config_size_bytes'', [''name'', ''namespace'', ''cluster'', ''role'', ''ip''])"

definition EtcdLeaveTotal :: "string \<times> string list" where
  "EtcdLeaveTotal = (''talos_etcd_leave_total'', [''result'', ''cluster''])"

definition APICallDuration :: "string \<times> string list" where
  "APICallDuration = (''talos_api_call_duration_seconds'', [''operation'', ''result''])"

definition SecretOperationsTotal :: "string \<times> string list" where
  "SecretOperationsTotal = (''talos_secret_operations_total'', [''operation'', ''result''])"

definition BootstrapDuration :: "string \<times> string list" where
  "BootstrapDuration = (''talos_bootstrap_duration_seconds'', [''cluster''])"

definition NodeDrainTotal :: "string \<times> string list" where
  "NodeDrainTotal = (''talos_node_drain_total'', [''result'', ''cluster''])"

definition NodeUpgradeTotal :: "string \<times> string list" where
  "NodeUpgradeTotal = (''talos_node_upgrade_total'', [''result'', ''cluster''])"

definition ExtensionSchematicTotal :: "string \<times> string list" where
  "ExtensionSchematicTotal = (''talos_extension_schematic_total'', [''result'', ''cluster''])"

text \<open>The vectors \<^verbatim>\<open>init\<close> registers, in its order.\<close>

definition registered_vectors :: "(string \<times> string list) list" where
  "registered_vectors =
     [NodePhaseVec, ClusterPhaseVec, BootstrapPhaseVec, ConfigApplyTotal, ConfigApplyModeTotal,
      DriftCheckTotal, NodeConfigSizeBytes, EtcdLeaveTotal, APICallDuration, SecretOperationsTotal,
      BootstrapDuration, NodeDrainTotal, NodeUpgradeTotal, ExtensionSchematicTotal]"

lemmas vector_defs =
  NodePhaseVec_def ClusterPhaseVec_def BootstrapPhaseVec_def ConfigApplyTotal_def
  ConfigApplyModeTotal_def DriftCheckTotal_def NodeConfigSizeBytes_def EtcdLeaveTotal_def
  APICallDuration_def SecretOperationsTotal_def BootstrapDuration_def NodeDrainTotal_def
  NodeUpgradeTotal_def ExtensionSchematicTotal_def

section \<open>Recording\<close>

definition metric_set :: "string \<times> string list \<Rightarrow> string list \<Rightarrow> int \<Rightarrow> unit prog" where
  "metric_set vec labels v = tell (MetricSet (fst vec) labels v)"

definition metric_inc :: "string \<times> string list \<Rightarrow> string list \<Rightarrow> unit prog" where
  "metric_inc vec labels = tell (MetricInc (fst vec) labels)"

definition metric_observe :: "string \<times> string list \<Rightarrow> string list \<Rightarrow> time \<Rightarrow> unit prog" where
  "metric_observe vec labels t = tell (MetricObserve (fst vec) labels t)"

lemmas metric_call_defs = metric_set_def metric_inc_def metric_observe_def

definition ResultLabel :: "gerror option \<Rightarrow> string" where
  "ResultLabel err = (if err \<noteq> None then ''error'' else ''success'')"

definition RecordNodePhase ::
    "string \<Rightarrow> string \<Rightarrow> string \<Rightarrow> string \<Rightarrow> string \<Rightarrow> string \<Rightarrow> string \<Rightarrow> unit prog" where
  "RecordNodePhase name namespace cluster role ip from_phase to_phase = do {
     (if from_phase \<noteq> to_phase \<and> from_phase \<noteq> ''''
      then metric_set NodePhaseVec [name, namespace, cluster, role, ip, from_phase] 0
      else ret ());
     metric_set NodePhaseVec [name, namespace, cluster, role, ip, to_phase] 1
   }"

definition RecordClusterPhase :: "string \<Rightarrow> string \<Rightarrow> string \<Rightarrow> string \<Rightarrow> unit prog" where
  "RecordClusterPhase name namespace from_phase to_phase = do {
     (if from_phase \<noteq> to_phase \<and> from_phase \<noteq> ''''
      then metric_set ClusterPhaseVec [name, namespace, from_phase] 0
      else ret ());
     metric_set ClusterPhaseVec [name, namespace, to_phase] 1
   }"

definition RecordBootstrapPhase :: "string \<Rightarrow> string \<Rightarrow> string \<Rightarrow> string \<Rightarrow> unit prog" where
  "RecordBootstrapPhase cluster namespace from_phase to_phase = do {
     (if from_phase \<noteq> to_phase \<and> from_phase \<noteq> ''''
      then metric_set BootstrapPhaseVec [cluster, namespace, from_phase] 0
      else ret ());
     metric_set BootstrapPhaseVec [cluster, namespace, to_phase] 1
   }"

section \<open>The value of a gauge\<close>

fun gauge_value :: "event list \<Rightarrow> string \<Rightarrow> string list \<Rightarrow> int option" where
  "gauge_value [] vec labels = None"
| "gauge_value (e # es) vec labels =
     (case gauge_value es vec labels of
        Some v \<Rightarrow> Some v
      | None \<Rightarrow>
          (case e of
             MetricSet vec' labels' v \<Rightarrow> if vec' = vec \<and> labels' = labels then Some v else None
           | _ \<Rightarrow> None))"

lemma gauge_value_append:
  "gauge_value (es @ fs) vec labels =
     (case gauge_value fs vec labels of Some v \<Rightarrow> Some v | None \<Rightarrow> gauge_value es vec labels)"
  by (induction es) (auto split: option.splits)

section \<open>Arity of labels\<close>

definition metric_arity_ok :: "string \<Rightarrow> nat \<Rightarrow> bool" where
  "metric_arity_ok vec n \<longleftrightarrow>
     (case map_of registered_vectors vec of None \<Rightarrow> False | Some labels \<Rightarrow> length labels = n)"

definition metric_ok :: "event \<Rightarrow> bool" where
  "metric_ok e =
     (case e of
        MetricSet vec labels _ \<Rightarrow> metric_arity_ok vec (length labels)
      | MetricInc vec labels \<Rightarrow> metric_arity_ok vec (length labels)
      | MetricObserve vec labels _ \<Rightarrow> metric_arity_ok vec (length labels)
      | _ \<Rightarrow> True)"

lemma metric_ok_other [simp]:
  "metric_ok (KGet kd k)" "metric_ok (KList kd ns)" "metric_ok (KCreate ob r)" "metric_ok (KUpdate ob r)"
  "metric_ok (KStatusUpdate ob r)" "metric_ok (KPatch ob ob' r)" "metric_ok (KDelete kd k r)"
  "metric_ok (TNew c r)" "metric_ok (TClose c)" "metric_ok (TCall cl r)"
  "metric_ok (RGetNode rc s)" "metric_ok (RUpdateNode rc kn r)" "metric_ok (RListPods rc s)"
  "metric_ok (REvict rc k r)" "metric_ok (RDeleteNode rc s r)" "metric_ok (RServerVersion rc)"
  "metric_ok (HttpDo q)" "metric_ok (NewBundle ct)" "metric_ok (Recorded kd k et s m)"
  "metric_ok ClockRead" "metric_ok RandRead" "metric_ok CtxCheck" "metric_ok (TickWait r)"
  by (simp_all add: metric_ok_def)

lemma metric_arity:
  "metric_arity_ok (fst NodePhaseVec) n \<longleftrightarrow> n = 6"
  "metric_arity_ok (fst ClusterPhaseVec) n \<longleftrightarrow> n = 3"
  "metric_arity_ok (fst BootstrapPhaseVec) n \<longleftrightarrow> n = 3"
  "metric_arity_ok (fst ConfigApplyTotal) n \<longleftrightarrow> n = 3"
  "metric_arity_ok (fst ConfigApplyModeTotal) n \<longleftrightarrow> n = 2"
  "metric_arity_ok (fst DriftCheckTotal) n \<longleftrightarrow> n = 3"
  "metric_arity_ok (fst NodeConfigSizeBytes) n \<longleftrightarrow> n = 5"
  "metric_arity_ok (fst EtcdLeaveTotal) n \<longleftrightarrow> n = 2"
  "metric_arity_ok (fst APICallDuration) n \<longleftrightarrow> n = 2"
  "metric_arity_ok (fst SecretOperationsTotal) n \<longleftrightarrow> n = 2"
  "metric_arity_ok (fst BootstrapDuration) n \<longleftrightarrow> n = 1"
  "metric_arity_ok (fst NodeDrainTotal) n \<longleftrightarrow> n = 2"
  "metric_arity_ok (fst NodeUpgradeTotal) n \<longleftrightarrow> n = 2"
  "metric_arity_ok (fst ExtensionSchematicTotal) n \<longleftrightarrow> n = 2"
  by (auto simp: metric_arity_ok_def registered_vectors_def vector_defs)

lemma metric_ok_metric [simp]:
  "metric_ok (MetricSet v ls x) \<longleftrightarrow> metric_arity_ok v (length ls)"
  "metric_ok (MetricInc v ls) \<longleftrightarrow> metric_arity_ok v (length ls)"
  "metric_ok (MetricObserve v ls t) \<longleftrightarrow> metric_arity_ok v (length ls)"
  by (simp_all add: metric_ok_def)

text \<open>The phase recorders append only settings of their own gauge.\<close>

lemma only_metric_set [only_intros]: "P (MetricSet (fst v) ls x) \<Longrightarrow> only P (metric_set v ls x)"
  by (simp add: metric_set_def only_tell)

lemma only_metric_inc [only_intros]: "P (MetricInc (fst v) ls) \<Longrightarrow> only P (metric_inc v ls)"
  by (simp add: metric_inc_def only_tell)

lemma only_metric_observe [only_intros]:
  "P (MetricObserve (fst v) ls t) \<Longrightarrow> only P (metric_observe v ls t)"
  by (simp add: metric_observe_def only_tell)

lemma only_RecordNodePhase [only_intros]:
  "(\<And>p v. P (MetricSet (fst NodePhaseVec) [n, ns, c, r, ip, p] v)) \<Longrightarrow>
   only P (RecordNodePhase n ns c r ip f t)"
  unfolding RecordNodePhase_def by (intro only_intros) simp_all

lemma only_RecordClusterPhase [only_intros]:
  "(\<And>p v. P (MetricSet (fst ClusterPhaseVec) [n, ns, p] v)) \<Longrightarrow> only P (RecordClusterPhase n ns f t)"
  unfolding RecordClusterPhase_def by (intro only_intros) simp_all

lemma only_RecordBootstrapPhase [only_intros]:
  "(\<And>p v. P (MetricSet (fst BootstrapPhaseVec) [c, ns, p] v)) \<Longrightarrow>
   only P (RecordBootstrapPhase c ns f t)"
  unfolding RecordBootstrapPhase_def by (intro only_intros) simp_all

lemma wp_metric_set [wp_simps]: "wp (metric_set v ls x) Q h = Q () (h @ [MetricSet (fst v) ls x])"
  by (simp add: metric_set_def wp_simps)

lemma wp_metric_inc [wp_simps]: "wp (metric_inc v ls) Q h = Q () (h @ [MetricInc (fst v) ls])"
  by (simp add: metric_inc_def wp_simps)

lemma wp_metric_observe [wp_simps]:
  "wp (metric_observe v ls t) Q h = Q () (h @ [MetricObserve (fst v) ls t])"
  by (simp add: metric_observe_def wp_simps)

definition phase_events :: "string \<times> string list \<Rightarrow> string list \<Rightarrow> string \<Rightarrow> string \<Rightarrow> event list" where
  "phase_events vec ls f t =
     (if f \<noteq> t \<and> f \<noteq> '''' then [MetricSet (fst vec) (ls @ [f]) 0] else [])
     @ [MetricSet (fst vec) (ls @ [t]) 1]"

lemma wp_RecordNodePhase [wp_simps]:
  "wp (RecordNodePhase n ns c r ip f t) Q h = Q () (h @ phase_events NodePhaseVec [n, ns, c, r, ip] f t)"
  by (simp add: RecordNodePhase_def wp_simps phase_events_def)

lemma wp_RecordClusterPhase [wp_simps]:
  "wp (RecordClusterPhase n ns f t) Q h = Q () (h @ phase_events ClusterPhaseVec [n, ns] f t)"
  by (simp add: RecordClusterPhase_def wp_simps phase_events_def)

lemma wp_RecordBootstrapPhase [wp_simps]:
  "wp (RecordBootstrapPhase c ns f t) Q h = Q () (h @ phase_events BootstrapPhaseVec [c, ns] f t)"
  by (simp add: RecordBootstrapPhase_def wp_simps phase_events_def)

lemma phase_events_gauge:
  "gauge_value (phase_events vec ls f t) v labels =
     (if v = fst vec \<and> labels = ls @ [t] then Some 1
      else if v = fst vec \<and> labels = ls @ [f] \<and> f \<noteq> '''' then Some 0
      else None)"
  by (auto simp: phase_events_def)

text \<open>
  After a node's phase is recorded, the gauge of the new phase is 1, the gauge of the phase it
  left is 0 (unless there was none, or it is the same), and every other gauge is what it was.
\<close>

theorem RecordNodePhase_gauge:
  "wp (RecordNodePhase n ns c r ip f t)
     (\<lambda>_ h'. \<forall>v labels. gauge_value h' v labels =
        (if v = ''talos_node_phase'' \<and> labels = [n, ns, c, r, ip, t] then Some 1
         else if v = ''talos_node_phase'' \<and> labels = [n, ns, c, r, ip, f] \<and> f \<noteq> '''' then Some 0
         else gauge_value h v labels)) h"
  by (simp add: wp_simps gauge_value_append phase_events_gauge NodePhaseVec_def)

end
