(* ===== verification/SecretStore.thy ===== *)
theory SecretStore
  imports Metrics
begin

text \<open>
  The helpers every controller shares (\<^verbatim>\<open>internal/controller/helpers.go\<close>) and the secret manager of
  \<^verbatim>\<open>internal/talos/secrets.go\<close>: events, Secrets, annotations.

  A Go result \<^verbatim>\<open>(value, error)\<close> is a sum, a lone \<^verbatim>\<open>error\<close> an option.
\<close>

section \<open>Events\<close>

definition emitEvent ::
    "bool \<Rightarrow> kind \<Rightarrow> 'a object_meta_scheme \<Rightarrow> event_type \<Rightarrow> string \<Rightarrow> message \<Rightarrow> unit prog" where
  "emitEvent recorder kd obj eventType reason msg =
     (if recorder then tell (Recorded kd (nsname obj) eventType reason msg) else ret ())"

section \<open>Retrying on conflict\<close>

text \<open>
  \<^verbatim>\<open>retry.RetryOnConflict\<close> runs its function again as long as it reports a conflict, up to the number
  of steps of \<^verbatim>\<open>DefaultRetry\<close>, and returns what the last run returned.
\<close>

fun retry_loop :: "nat \<Rightarrow> ('o \<Rightarrow> bool) \<Rightarrow> 'o prog \<Rightarrow> 'o prog" where
  "retry_loop 0 again fn = fn"
| "retry_loop (Suc n) again fn = do {
     r \<leftarrow> fn;
     (if again r then retry_loop n again fn else ret r)
   }"

definition is_conflict :: "gerror option \<Rightarrow> bool" where
  "is_conflict r = (case r of None \<Rightarrow> False | Some err \<Rightarrow> IsConflict err)"

definition RetryOnConflict :: "env \<Rightarrow> gerror option prog \<Rightarrow> gerror option prog" where
  "RetryOnConflict E fn = retry_loop (retry_steps (Host E) - 1) is_conflict fn"

lemma only_retry_loop: "only P fn \<Longrightarrow> only P (retry_loop n again fn)"
  by (induction n) (auto intro!: only_intros)

lemma only_RetryOnConflict [only_intros]: "only P fn \<Longrightarrow> only P (RetryOnConflict E fn)"
  by (simp add: RetryOnConflict_def only_retry_loop)

text \<open>The final answer is the answer of one run of the function, with its postcondition.\<close>

lemma wp_retry_loop:
  assumes "\<And>h. wp fn Q h"
  shows "wp (retry_loop n again fn) Q h"
proof (induction n arbitrary: h)
  case 0
  then show ?case by (simp add: assms)
next
  case (Suc n)
  have "wp fn (\<lambda>r h'. Q r h' \<and> wp (retry_loop n again fn) Q h') h"
    by (rule wp_conj [OF assms]) (simp add: wp_run_state Suc [unfolded wp_run_state])
  then show ?case
    by (simp add: wp_simps) (erule wp_mono, simp add: wp_simps)
qed

text \<open>The same with an invariant that every run keeps which is repeated.\<close>

lemma wp_retry_loop_inv:
  assumes "\<And>h. I h \<Longrightarrow> wp fn (\<lambda>r h'. Q r h' \<and> (again r \<longrightarrow> I h')) h" and "I h"
  shows "wp (retry_loop n again fn) Q h"
  using assms(2)
proof (induction n arbitrary: h)
  case 0
  then show ?case using wp_mono [OF assms(1)] by simp
next
  case (Suc n)
  show ?case
    using Suc.prems by (auto simp: wp_simps Suc.IH intro!: wp_mono [OF assms(1)])
qed

lemma wp_RetryOnConflict_inv:
  assumes "\<And>h. I h \<Longrightarrow> wp fn (\<lambda>r h'. Q r h' \<and> I h') h" and "I h"
  shows "wp (RetryOnConflict E fn) Q h"
  unfolding RetryOnConflict_def using assms(2)
  by (rule wp_retry_loop_inv [where I = I, rotated]) (rule wp_mono [OF assms(1)], auto)

lemma wp_RetryOnConflict: "(\<And>h. wp fn Q h) \<Longrightarrow> wp (RetryOnConflict E fn) Q h"
  by (simp add: RetryOnConflict_def wp_retry_loop)

section \<open>Secrets\<close>

definition getSecret :: "env \<Rightarrow> string \<Rightarrow> string \<Rightarrow> (gerror + secret) prog" where
  "getSecret E name namespace = get_Secret E (namespace, name)"

text \<open>\<^verbatim>\<open>getSecretOrSkip\<close>: an error, or the secret, or nothing (skip) when it is not found.\<close>

definition getSecretOrSkip :: "env \<Rightarrow> string \<Rightarrow> string \<Rightarrow> (gerror + secret option) prog" where
  "getSecretOrSkip E name namespace = do {
     r \<leftarrow> getSecret E name namespace;
     case r of
       Inl err \<Rightarrow> (if IsNotFound err then ret (Inr None) else ret (Inl err))
     | Inr s \<Rightarrow> ret (Inr (Some s))
   }"

definition upsert_once ::
    "env \<Rightarrow> string \<Rightarrow> string \<Rightarrow> secret \<Rightarrow> (secret \<Rightarrow> secret) \<Rightarrow> gerror option prog" where
  "upsert_once E name namespace newFn updateFn = do {
     r \<leftarrow> getSecret E name namespace;
     case r of
       Inl err \<Rightarrow>
         if IsNotFound err then do {
           err' \<leftarrow> create_Secret E newFn;
           metric_inc SecretOperationsTotal [''create'', ResultLabel err'];
           ret err'
         }
         else ret (Some err)
     | Inr existing \<Rightarrow> do {
         u \<leftarrow> update_Secret E (updateFn existing);
         metric_inc SecretOperationsTotal [''update'', ResultLabel (opt_err u)];
         ret (opt_err u)
       }
   }"

definition upsertSecret ::
    "env \<Rightarrow> string \<Rightarrow> string \<Rightarrow> secret \<Rightarrow> (secret \<Rightarrow> secret) \<Rightarrow> gerror option prog" where
  "upsertSecret E name namespace newFn updateFn =
     RetryOnConflict E (upsert_once E name namespace newFn updateFn)"

definition secretKey :: "secret \<Rightarrow> string \<Rightarrow> gerror + bytes" where
  "secretKey s key =
     (case data_lookup s key of
        None \<Rightarrow> Inl (ErrFmt ''secret %s/%s missing or empty key %q''
                      [FStr (Namespace s), FStr (Name s), FStr key])
      | Some v \<Rightarrow>
          if length v = 0
          then Inl (ErrFmt ''secret %s/%s missing or empty key %q''
                      [FStr (Namespace s), FStr (Name s), FStr key])
          else Inr v)"

definition newSecret :: "string \<Rightarrow> string \<Rightarrow> string \<Rightarrow> bytes \<Rightarrow> secret" where
  "newSecret name namespace key data =
     \<lparr>Name = name, Namespace = namespace, UID = [], Generation = 0, CreationTimestamp = 0,
      DeletionTimestamp = None, Finalizers = [], Annotations = Map.empty, OwnerReferences = [],
      SecretType = SecretTypeOpaque, Data = Some [key \<mapsto> data]\<rparr>"

lemma secretKey_Inr: "secretKey s k = Inr v \<longleftrightarrow> data_lookup s k = Some v \<and> v \<noteq> []"
  by (auto simp: secretKey_def split: option.splits)

lemma newSecret_lookup: "data_lookup (newSecret n ns k v) k' = (if k' = k then Some v else None)"
  by (simp add: newSecret_def data_lookup_def)

lemma newSecret_nsname [simp]: "nsname (newSecret n ns k v) = (ns, n)"
  by (simp add: newSecret_def nsname_def)

text \<open>A secret built with a non-empty value gives that value back; an empty one is an error.\<close>

lemma secretKey_newSecret: "v \<noteq> [] \<Longrightarrow> secretKey (newSecret n ns k v) k = Inr v"
  by (simp add: secretKey_Inr newSecret_lookup)

lemma only_getSecret [only_intros]: "P (KGet KindSecret (ns, n)) \<Longrightarrow> only P (getSecret E n ns)"
  unfolding getSecret_def get_Secret_def by (intro only_intros)

lemma only_getSecretOrSkip [only_intros]:
  "P (KGet KindSecret (ns, n)) \<Longrightarrow> only P (getSecretOrSkip E n ns)"
  unfolding getSecretOrSkip_def by (intro only_intros)

lemma only_upsertSecret [only_intros]:
  assumes "P (KGet KindSecret (ns, n))" and "\<And>r. P (KCreate (OSecret new) r)"
    and "\<And>s r. P (KUpdate (OSecret (upd s)) r)"
    and "\<And>a b. P (MetricInc (fst SecretOperationsTotal) [a, b])"
  shows "only P (upsertSecret E n ns new upd)"
  unfolding upsertSecret_def upsert_once_def create_Secret_def update_Secret_def
  by (intro only_intros assms)

lemma wp_getSecret [wp_simps]:
  "wp (getSecret E n ns) Q h = Q (kget_secret (Kube E) h (ns, n)) (h @ [KGet KindSecret (ns, n)])"
  by (simp add: getSecret_def get_Secret_def wp_simps)

lemma only_emitEvent [only_intros]:
  "P (Recorded kd (nsname ob) et r m) \<Longrightarrow> only P (emitEvent rec kd ob et r m)"
  unfolding emitEvent_def by (intro only_intros)

lemma wp_emitEvent [wp_simps]:
  "wp (emitEvent rec kd ob et r m) Q h =
     Q () (h @ (if rec then [Recorded kd (nsname ob) et r m] else []))"
  by (simp add: emitEvent_def wp_simps)

section \<open>Read-your-writes\<close>

text \<open>
  The documented behaviour of the API server for one Secret that nobody else writes: a successful
  create or update is what the next read returns, counting a metric changes nothing, and a read
  returns an object of the name that was asked for.
\<close>

definition secrets_read_writes :: "env \<Rightarrow> bool" where
  "secrets_read_writes E \<longleftrightarrow>
     (\<forall>h s. kget_secret (Kube E) (h @ [KCreate (OSecret s) None]) (nsname s) = Inr s) \<and>
     (\<forall>h s. kget_secret (Kube E) (h @ [KUpdate (OSecret s) None]) (nsname s) = Inr s) \<and>
     (\<forall>h v ls k. kget_secret (Kube E) (h @ [MetricInc v ls]) k = kget_secret (Kube E) h k) \<and>
     (\<forall>h k s. kget_secret (Kube E) h k = Inr s \<longrightarrow> nsname s = k)"

lemma upsertSecret_wp:
  assumes law: "secrets_read_writes E" and new: "nsname new = (ns, n)" and "Good new"
    and upd: "\<And>s. nsname s = (ns, n) \<Longrightarrow> nsname (upd s) = (ns, n) \<and> Good (upd s)"
  shows "wp (upsertSecret E n ns new upd)
           (\<lambda>r h'. r = None \<longrightarrow> (\<exists>s. kget_secret (Kube E) h' (ns, n) = Inr s \<and> Good s)) h"
proof -
  note rw = law [unfolded secrets_read_writes_def]
  have created: "kget_secret (Kube E) (h @ [KGet a b, KCreate (OSecret new) None, MetricInc v ls]) (ns, n)
      = Inr new" for h a b v ls
    using rw new by (metis append.assoc append_Cons append_Nil)
  have updated: "kget_secret (Kube E) (h @ [KGet a b, KUpdate (OSecret (upd s)) None, MetricInc v ls]) (ns, n)
      = Inr (upd s)" if "nsname s = (ns, n)" for h a b v ls s
    using rw upd [OF that] by (metis append.assoc append_Cons append_Nil)
  have named: "kget_secret (Kube E) h (ns, n) = Inr s \<Longrightarrow> nsname s = (ns, n)" for h s
    using rw by blast
  show ?thesis
    unfolding upsertSecret_def
    by (rule wp_RetryOnConflict)
      (auto simp: upsert_once_def create_Secret_def update_Secret_def wp_simps created updated
        \<open>Good new\<close> upd opt_err_def split: sum.splits dest!: named)
qed

text \<open>
  A successful upsert has ended in a successful write of the new secret or of an updated one. Nothing
  is assumed about the server.
\<close>

lemma upsertSecret_written:
  "wp (upsertSecret E n ns new upd)
     (\<lambda>r h'. r = None \<longrightarrow>
        (\<exists>es s w v ls. h' = h @ es @ [w, MetricInc v ls] \<and>
           (w = KCreate (OSecret s) None \<and> s = new \<or> w = KUpdate (OSecret s) None \<and> s \<in> range upd))) h"
proof -
  let ?Q = "\<lambda>r h'. r = None \<longrightarrow>
        (\<exists>es s w v ls. h' = h @ es @ [w, MetricInc v ls] \<and>
           (w = KCreate (OSecret s) None \<and> s = new \<or> w = KUpdate (OSecret s) None \<and> s \<in> range upd))"
  have "wp (upsert_once E n ns new upd) (\<lambda>r h'. ?Q r h' \<and> (\<exists>es. h' = h @ es)) (h @ es)" for es
    by (auto simp: upsert_once_def create_Secret_def update_Secret_def wp_simps split: sum.split)
  then show ?thesis
    unfolding upsertSecret_def by (rule_tac wp_RetryOnConflict_inv [where I = "\<lambda>g. \<exists>es. g = h @ es"]) auto
qed

section \<open>Annotations\<close>

fun set_annotations ::
    "(string \<Rightarrow> string option) \<Rightarrow> (string \<times> string) list \<Rightarrow> string \<Rightarrow> string option" where
  "set_annotations m [] = m"
| "set_annotations m ((k, v) # kvs) = set_annotations (m(k \<mapsto> v)) kvs"

fun delete_annotations :: "(string \<Rightarrow> string option) \<Rightarrow> string list \<Rightarrow> string \<Rightarrow> string option" where
  "delete_annotations m [] = m"
| "delete_annotations m (k # ks) = delete_annotations (m(k := None)) ks"

text \<open>The object in memory keeps the new annotations when the patch fails.\<close>

definition patchAnnotations ::
    "env \<Rightarrow> talos_node \<Rightarrow> (string \<times> string) list \<Rightarrow> string list \<Rightarrow> (gerror option \<times> talos_node) prog" where
  "patchAnnotations E node sets dels = do {
     let node' = node\<lparr>Annotations := delete_annotations (set_annotations (Annotations node) sets) dels\<rparr>;
     r \<leftarrow> patch_TalosNode E node node';
     case r of
       Inl err \<Rightarrow> ret (Some err, node')
     | Inr node'' \<Rightarrow> ret (None, node'')
   }"

lemma only_patchAnnotations [only_intros]:
  assumes "\<And>r. P (KPatch (ONode node) (ONode (node\<lparr>Annotations :=
      delete_annotations (set_annotations (Annotations node) sets) dels\<rparr>)) r)"
  shows "only P (patchAnnotations E node sets dels)"
  unfolding patchAnnotations_def patch_TalosNode_def by (intro only_intros) (simp add: assms)

section \<open>Other helpers\<close>

fun filterExclude :: "string list \<Rightarrow> string \<Rightarrow> string list" where
  "filterExclude [] exclude = []"
| "filterExclude (item # items) exclude =
     (if item \<noteq> exclude then item # filterExclude items exclude else filterExclude items exclude)"

lemma filterExclude_filter: "filterExclude items x = filter (\<lambda>i. i \<noteq> x) items"
  by (induction items) simp_all

lemma filterExclude_length: "length (filterExclude items x) = length items \<longleftrightarrow> x \<notin> set items"
  by (induction items)
    (auto simp: filterExclude_filter le_imp_less_Suc less_imp_neq [OF le_imp_less_Suc [OF length_filter_le]])

definition skipDrain :: "talos_node \<Rightarrow> bool" where
  "skipDrain node \<longleftrightarrow>
     SkipDrain (NodeSpec node) \<or> annotation (Annotations node) AnnotationSkipDrain = ''true''"

definition drainSkipReason :: "talos_node \<Rightarrow> string" where
  "drainSkipReason node =
     (if annotation (Annotations node) AnnotationSkipDrain = ''true''
      then ''annotation '' @ AnnotationSkipDrain
      else ''spec.skipDrain'')"

definition newRemoteClient :: "env \<Rightarrow> bytes \<Rightarrow> gerror + remote_client" where
  "newRemoteClient E kubeconfig =
     (case rest_config_of (Lib E) kubeconfig of
        Inl err \<Rightarrow> Inl (ErrWrap ''parse kubeconfig: %w'' [] err)
      | Inr cfg \<Rightarrow> new_for_config (Lib E) cfg)"

definition remoteClientOrFallback ::
    "env \<Rightarrow> (bytes \<Rightarrow> gerror + remote_client) option \<Rightarrow> bytes \<Rightarrow> gerror + remote_client" where
  "remoteClientOrFallback E fn kubeconfig =
     (case fn of Some f \<Rightarrow> f kubeconfig | None \<Rightarrow> newRemoteClient E kubeconfig)"

section \<open>The secret manager\<close>

record secret_manager =
  Owner :: owner_reference

definition NewSecretManager :: "string \<Rightarrow> string \<Rightarrow> secret_manager" where
  "NewSecretManager ownerName ownerUID =
     \<lparr>Owner =
        \<lparr>OwnerAPIVersion = ''talos.yuriykovalchuk.dev/v1alpha1'', OwnerKind = ''TalosCluster'',
         OwnerName = ownerName, OwnerUID = ownerUID, OwnerController = Some True,
         OwnerBlockDeletion = Some True\<rparr>\<rparr>"

definition sm_secret :: "secret_manager \<Rightarrow> string \<Rightarrow> string \<Rightarrow> string \<Rightarrow> bytes \<Rightarrow> string \<Rightarrow> secret" where
  "sm_secret sm name namespace key content secretType =
     \<lparr>Name = name, Namespace = namespace, UID = [], Generation = 0, CreationTimestamp = 0,
      DeletionTimestamp = None, Finalizers = [], Annotations = Map.empty, OwnerReferences = [Owner sm],
      SecretType = secretType, Data = Some [key \<mapsto> content]\<rparr>"

text \<open>An existing Secret is left as it is.\<close>

definition sm_Create ::
    "env \<Rightarrow> secret_manager \<Rightarrow> string \<Rightarrow> string \<Rightarrow> string \<Rightarrow> bytes \<Rightarrow> string \<Rightarrow> gerror option prog" where
  "sm_Create E sm name namespace key content secretType = do {
     r \<leftarrow> create_Secret E (sm_secret sm name namespace key content secretType);
     case r of
       Some err \<Rightarrow> if \<not> IsAlreadyExistsApi err then ret (Some err) else ret None
     | None \<Rightarrow> ret None
   }"

text \<open>Storing into a nil data map panics.\<close>

datatype 'a outcome = Panic | Return 'a

definition outcome_conflict :: "gerror option outcome \<Rightarrow> bool" where
  "outcome_conflict r = (case r of Panic \<Rightarrow> False | Return e \<Rightarrow> is_conflict e)"

definition sm_CreateOrUpdate ::
    "env \<Rightarrow> secret_manager \<Rightarrow> string \<Rightarrow> string \<Rightarrow> string \<Rightarrow> bytes \<Rightarrow> string \<Rightarrow>
     gerror option outcome prog" where
  "sm_CreateOrUpdate E sm name namespace key content secretType =
     retry_loop (retry_steps (Host E) - 1) outcome_conflict (do {
       r \<leftarrow> get_Secret E (namespace, name);
       case r of
         Inl err \<Rightarrow>
           if IsNotFound err then do {
             e \<leftarrow> sm_Create E sm name namespace key content secretType;
             ret (Return e)
           }
           else ret (Return (Some err))
       | Inr secret \<Rightarrow>
           (case Data secret of
              None \<Rightarrow> ret Panic
            | Some m \<Rightarrow> do {
                u \<leftarrow> update_Secret E (secret\<lparr>Data := Some (m(key \<mapsto> content))\<rparr>);
                ret (Return (opt_err u))
              })
     })"

definition sm_Delete :: "env \<Rightarrow> secret_manager \<Rightarrow> string \<Rightarrow> string \<Rightarrow> gerror option prog" where
  "sm_Delete E sm name namespace = do {
     r \<leftarrow> get_Secret E (namespace, name);
     case r of
       Inl err \<Rightarrow> if IsNotFound err then ret None else ret (Some err)
     | Inr secret \<Rightarrow> delete_Secret E secret
   }"

fun sm_DeleteMultiple ::
    "env \<Rightarrow> secret_manager \<Rightarrow> string \<Rightarrow> string list \<Rightarrow> gerror option prog" where
  "sm_DeleteMultiple E sm namespace [] = ret None"
| "sm_DeleteMultiple E sm namespace (name # names) = do {
     e \<leftarrow> sm_Delete E sm name namespace;
     case e of
       Some err \<Rightarrow> ret (Some err)
     | None \<Rightarrow> sm_DeleteMultiple E sm namespace names
   }"

lemma only_sm_Create [only_intros]:
  "(\<And>r. P (KCreate (OSecret (sm_secret sm n ns k c t)) r)) \<Longrightarrow> only P (sm_Create E sm n ns k c t)"
  unfolding sm_Create_def create_Secret_def by (intro only_intros)

lemma only_sm_Delete [only_intros]:
  "P (KGet KindSecret (ns, n)) \<Longrightarrow> (\<And>k r. P (KDelete KindSecret k r)) \<Longrightarrow> only P (sm_Delete E sm n ns)"
  unfolding sm_Delete_def get_Secret_def delete_Secret_def by (intro only_intros)

lemma only_sm_DeleteMultiple [only_intros]:
  assumes "\<And>n. n \<in> set names \<Longrightarrow> P (KGet KindSecret (ns, n))" and "\<And>k r. P (KDelete KindSecret k r)"
  shows "only P (sm_DeleteMultiple E sm ns names)"
  using assms(1) by (induction names) (auto intro!: only_intros assms(2))

section \<open>Secrets that are gone\<close>

text \<open>
  \<open>secret_gone E start key g\<close>: since \<open>start\<close>, the Secret was found to be gone, or it was read and its
  deletion succeeded right after.
\<close>

definition secret_gone :: "env \<Rightarrow> hist \<Rightarrow> namespaced_name \<Rightarrow> hist \<Rightarrow> bool" where
  "secret_gone E start key g \<longleftrightarrow>
     (\<exists>g0 rest. g = g0 @ KGet KindSecret key # rest \<and> length start \<le> length g0 \<and>
        (case kget_secret (Kube E) g0 key of
           Inl err \<Rightarrow> IsNotFound err
         | Inr s \<Rightarrow> \<exists>rest'. rest = KDelete KindSecret (nsname s) None # rest'))"

lemma secret_gone_append: "secret_gone E start key g \<Longrightarrow> secret_gone E start key (g @ es)"
  unfolding secret_gone_def by (force split: sum.splits)

lemma secret_gone_found:
  "kget_secret (Kube E) h key = Inl err \<Longrightarrow> IsNotFound err \<Longrightarrow> length start \<le> length h \<Longrightarrow>
   secret_gone E start key (h @ [KGet KindSecret key])"
  unfolding secret_gone_def by (intro exI [of _ h] exI [of _ "[]"]) simp

lemma secret_gone_deleted:
  "kget_secret (Kube E) h key = Inr s \<Longrightarrow> length start \<le> length h \<Longrightarrow>
   secret_gone E start key (h @ [KGet KindSecret key, KDelete KindSecret (nsname s) None])"
  unfolding secret_gone_def by (intro exI [of _ h] exI) auto

lemma sm_Delete_gone:
  "length start \<le> length h \<Longrightarrow>
   wp (sm_Delete E sm n ns) (\<lambda>r g. r = None \<longrightarrow> secret_gone E start (ns, n) g) h"
  by (auto simp: sm_Delete_def get_Secret_def delete_Secret_def wp_simps secret_gone_found secret_gone_deleted
      split: sum.split)

lemma sm_DeleteMultiple_gone:
  "length start \<le> length h \<Longrightarrow>
   wp (sm_DeleteMultiple E sm ns names)
     (\<lambda>r g. r = None \<longrightarrow> (\<forall>n \<in> set names. secret_gone E start (ns, n) g)) h"
proof (induction names arbitrary: h)
  case Nil
  then show ?case by (simp add: wp_simps)
next
  case (Cons n names h)
  have "only (\<lambda>_. True) (sm_Delete E sm n ns)" by (intro only_intros) simp_all
  then have grows: "wp (sm_Delete E sm n ns) (\<lambda>_ g. \<exists>es. g = h @ es) h"
    by (rule wp_only) simp
  have kept: "wp (sm_DeleteMultiple E sm ns names) (\<lambda>_ g'. \<exists>es. g' = g @ es) g" for g
    by (rule wp_only [OF only_sm_DeleteMultiple [where P = "\<lambda>_. True"]]) simp_all
  show ?case
    unfolding sm_DeleteMultiple.simps
  proof (intro wp_intros wp_mono [OF wp_conj [OF sm_Delete_gone [OF Cons.prems] grows]])
    fix r g
    assume r: "(r = None \<longrightarrow> secret_gone E start (ns, n) g) \<and> (\<exists>es. g = h @ es)" and "r = None"
    then have here: "secret_gone E start (ns, n) g" and later: "length start \<le> length g"
      using Cons.prems by auto
    show "wp (sm_DeleteMultiple E sm ns names)
        (\<lambda>r g. r = None \<longrightarrow> (\<forall>m \<in> set (n # names). secret_gone E start (ns, m) g)) g"
      by (rule wp_mono [OF wp_conj [OF Cons.IH [OF later] kept]])
        (use secret_gone_append [OF here] in auto)
  qed simp_all
qed

end
