(* ===== verification/RetryConfig.thy ===== *)
theory RetryConfig
  imports Environment
begin

text \<open>
  The retry configuration of \<^verbatim>\<open>internal/config/config.go\<close> and the operation timeout of
  \<^verbatim>\<open>internal/talos/client.go\<close>: durations read from environment variables and the exponential
  backoff with its 64-bit arithmetic.

  The random factor of \<^verbatim>\<open>jitter\<close> is computed in \<^verbatim>\<open>float64\<close>: every operation rounds its exact
  rational result with the rounding function of the environment, and the conversion to
  \<^verbatim>\<open>time.Duration\<close> truncates towards zero.
\<close>

section \<open>Durations from the environment\<close>

definition jitterFactor :: rat where
  "jitterFactor = 1 / 10"

definition maxExponentShift :: int32 where
  "maxExponentShift = 10"

definition getDurationEnv :: "env \<Rightarrow> string \<Rightarrow> int \<Rightarrow> duration \<Rightarrow> duration" where
  "getDurationEnv E key defaultValue unit =
     (let value = os_Getenv E key
      in if value \<noteq> [] then
           (case Atoi value of
              Some parsed \<Rightarrow> word_of_int parsed * unit
            | None \<Rightarrow> word_of_int defaultValue * unit)
         else word_of_int defaultValue * unit)"

definition RetryBaseDelay :: "env \<Rightarrow> duration" where
  "RetryBaseDelay E = getDurationEnv E ''RETRY_BASE_DELAY'' 5 Second"

definition RetryMaxDelay :: "env \<Rightarrow> duration" where
  "RetryMaxDelay E = getDurationEnv E ''RETRY_MAX_DELAY'' 300 Second"

definition defaultOperationTimeout :: duration where
  "defaultOperationTimeout = 60 * Second"

definition OperationTimeout :: "env \<Rightarrow> duration" where
  "OperationTimeout E =
     (let v = os_Getenv E ''TALOS_OPERATION_TIMEOUT''
      in if v \<noteq> [] then
           (case Atoi v of
              Some n \<Rightarrow> if 0 < n then word_of_int n * Second else defaultOperationTimeout
            | None \<Rightarrow> defaultOperationTimeout)
         else defaultOperationTimeout)"

section \<open>Backoff\<close>

text \<open>The delay before jitter: \<^verbatim>\<open>retryCount\<close> is signed, and so are the comparisons of durations.\<close>

definition backoff :: "duration \<Rightarrow> duration \<Rightarrow> int32 \<Rightarrow> duration" where
  "backoff base maxDelay retryCount =
     (if sint retryCount \<le> 0 then base
      else
        let shift = (let shift = retryCount - 1
                     in if sint maxExponentShift < sint shift then maxExponentShift else shift);
            delay = base * push_bit (nat (sint shift)) 1
        in if sint maxDelay < sint delay then maxDelay else delay)"

definition trunc :: "rat \<Rightarrow> int" where
  "trunc x = (if 0 \<le> x then \<lfloor>x\<rfloor> else \<lceil>x\<rceil>)"

definition jitter_with :: "(rat \<Rightarrow> rat) \<Rightarrow> rat \<Rightarrow> duration \<Rightarrow> duration" where
  "jitter_with fl r d =
     (let factor = fl (1 + fl (fl jitterFactor * fl (fl (r * 2) - 1)))
      in word_of_int (trunc (fl (fl (of_int (sint d)) * factor))))"

definition jitter :: "env \<Rightarrow> duration \<Rightarrow> duration prog" where
  "jitter E d = do {
     r \<leftarrow> rand_Float64 E;
     ret (jitter_with (float64_round (Lib E)) r d)
   }"

definition GetRetryDelay :: "env \<Rightarrow> int32 \<Rightarrow> duration prog" where
  "GetRetryDelay E retryCount =
     (if sint retryCount \<le> 0 then jitter E (RetryBaseDelay E)
      else do {
        let shift = retryCount - 1;
        let shift = (if sint maxExponentShift < sint shift then maxExponentShift else shift);
        let delay = RetryBaseDelay E * push_bit (nat (sint shift)) 1;
        let delay = (if sint (RetryMaxDelay E) < sint delay then RetryMaxDelay E else delay);
        jitter E delay
      })"

lemma GetRetryDelay_backoff:
  "GetRetryDelay E n =
     (if sint n \<le> 0 then jitter E (RetryBaseDelay E)
      else jitter E (backoff (RetryBaseDelay E) (RetryMaxDelay E) n))"
  by (simp add: GetRetryDelay_def backoff_def Let_def)

lemma only_jitter [only_intros]: "P RandRead \<Longrightarrow> only P (jitter E d)"
  unfolding jitter_def rand_Float64_def by (intro only_intros) simp

lemma only_GetRetryDelay [only_intros]: "P RandRead \<Longrightarrow> only P (GetRetryDelay E n)"
  unfolding GetRetryDelay_def by (intro only_intros)

lemma wp_jitter [wp_simps]:
  "wp (jitter E d) Q h =
     Q (jitter_with (float64_round (Lib E)) (rand_float (Host E) h) d) (h @ [RandRead])"
  by (simp add: jitter_def rand_Float64_def wp_simps)

definition retry_delay :: "env \<Rightarrow> hist \<Rightarrow> int32 \<Rightarrow> duration" where
  "retry_delay E h n =
     jitter_with (float64_round (Lib E)) (rand_float (Host E) h)
       (backoff (RetryBaseDelay E) (RetryMaxDelay E) n)"

lemma wp_GetRetryDelay [wp_simps]:
  "wp (GetRetryDelay E n) Q h = Q (retry_delay E h n) (h @ [RandRead])"
  by (simp add: GetRetryDelay_backoff wp_simps retry_delay_def backoff_def)

section \<open>Bounds\<close>

lemma sint_Second: "sint Second = 1000000000"
  by (simp add: Second_def)

lemma sint_default_base: "sint (word_of_int 5 * Second) = 5000000000"
  by (simp add: Second_def)

lemma sint_default_max: "sint (word_of_int 300 * Second) = 300000000000"
  by (simp add: Second_def)

text \<open>Without the variables set, the base is five seconds and the cap is five minutes.\<close>

lemma default_delays:
  "getenv (Host E) ''RETRY_BASE_DELAY'' = None \<Longrightarrow> RetryBaseDelay E = 5 * Second"
  "getenv (Host E) ''RETRY_MAX_DELAY'' = None \<Longrightarrow> RetryMaxDelay E = 300 * Second"
  by (simp_all add: RetryBaseDelay_def RetryMaxDelay_def getDurationEnv_def os_Getenv_def)

text \<open>
  The shift never leaves 0..10, so a base up to \<open>2 ^ 52\<close> ns (52 days) does not overflow.
\<close>

definition shift_of :: "int32 \<Rightarrow> nat" where
  "shift_of n = nat (min 10 (sint n - 1))"

lemma sint_of_int64: "- (2 ^ 63) \<le> i \<Longrightarrow> i < 2 ^ 63 \<Longrightarrow> sint (word_of_int i :: int64) = i"
  by (simp add: sint_sbintrunc' signed_take_bit_int_eq_self)

lemma sint_of_int32: "- (2 ^ 31) \<le> i \<Longrightarrow> i < 2 ^ 31 \<Longrightarrow> sint (word_of_int i :: int32) = i"
  by (simp add: sint_sbintrunc' signed_take_bit_int_eq_self)

lemma sint_minus_one:
  fixes n :: int32
  assumes "0 < sint n"
  shows "sint (n - 1) = sint n - 1"
proof -
  have "sint n < 2 ^ 31" using sint_lt [of n] by simp
  then have "sint (word_of_int (sint n - 1) :: int32) = sint n - 1"
    using assms by (intro sint_of_int32) linarith+
  then show ?thesis by simp
qed

lemma sint_mult_small:
  fixes d :: int64
  assumes "0 \<le> sint d" and "sint d \<le> 2 ^ 52" and "k \<le> 10"
  shows "sint (d * push_bit k 1) = sint d * 2 ^ k"
proof -
  have "(2 :: int) ^ k \<le> 2 ^ 10" using assms(3) by (intro power_increasing) simp_all
  then have small: "sint d * 2 ^ k \<le> 2 ^ 52 * 2 ^ 10"
    using assms(1,2) by (intro mult_mono) simp_all
  have "sint (word_of_int (sint d * 2 ^ k) :: int64) = sint d * 2 ^ k"
    using small assms(1) by (intro sint_of_int64) (auto intro: order_trans [of _ 0])
  then show ?thesis by (simp add: push_bit_eq_mult)
qed

lemma sint_shift_select:
  assumes "0 < sint n"
  shows "nat (sint (if sint maxExponentShift < sint (n - 1) then maxExponentShift else n - 1))
           = shift_of n"
  using assms by (simp add: sint_minus_one shift_of_def maxExponentShift_def)

lemma sint_backoff:
  assumes "0 < sint n" and "0 \<le> sint b" and "sint b \<le> 2 ^ 52"
  shows "sint (backoff b m n) = min (sint m) (sint b * 2 ^ shift_of n)"
proof -
  have "shift_of n \<le> 10" by (simp add: shift_of_def)
  then have "sint (b * push_bit (shift_of n) 1) = sint b * 2 ^ shift_of n"
    using assms(2,3) by (intro sint_mult_small)
  then show ?thesis
    using assms(1) sint_shift_select [OF assms(1)] by (simp add: backoff_def Let_def)
qed

section \<open>The bound of the jitter\<close>

text \<open>
  What is needed of \<^verbatim>\<open>float64\<close> rounding: it is to nearest, with 53 bits, so the error is at most
  \<open>\<bar>x\<bar> / 2 ^ 53\<close> for normal numbers and far less than \<open>1 / 2 ^ 53\<close> for subnormal ones.
\<close>

definition float64_law :: "(rat \<Rightarrow> rat) \<Rightarrow> bool" where
  "float64_law fl \<longleftrightarrow> (\<forall>x. \<bar>x\<bar> \<le> 2 ^ 64 \<longrightarrow> \<bar>fl x - x\<bar> \<le> (\<bar>x\<bar> + 1) / 2 ^ 53)"

lemma float64_err: "float64_law fl \<Longrightarrow> \<bar>x\<bar> \<le> b \<Longrightarrow> b \<le> 2 ^ 64 \<Longrightarrow> \<bar>fl x - x\<bar> \<le> (b + 1) / 2 ^ 53"
  unfolding float64_law_def by (rule order_trans [of _ "(\<bar>x\<bar> + 1) / 2 ^ 53"]) (auto simp: divide_right_mono)

lemma abs_shift: "\<bar>x - y\<bar> \<le> e \<Longrightarrow> \<bar>y\<bar> \<le> b \<Longrightarrow> b + e \<le> c \<Longrightarrow> \<bar>x\<bar> \<le> (c :: rat)"
  unfolding abs_le_iff by linarith

lemma trunc_near: "\<bar>of_int (trunc x) - x\<bar> \<le> (1 :: rat)"
  by (simp add: trunc_def) linarith

lemma jitter_factor_bound:
  assumes law: "float64_law fl" and r: "0 \<le> r" "r < 1"
  shows "\<bar>fl (1 + fl (fl jitterFactor * fl (fl (r * 2) - 1))) - 1\<bar> \<le> 1 / 10 + 1 / 2 ^ 48"
proof -
  let ?a = "fl (r * 2)" and ?t = "fl jitterFactor"
  let ?b = "fl (?a - 1)"
  let ?c = "fl (?t * ?b)"
  have a: "\<bar>?a - r * 2\<bar> \<le> 3 / 2 ^ 53"
    using float64_err [OF law, of "r * 2" 2] r by simp
  then have a1: "\<bar>?a - 1\<bar> \<le> 1 + 3 / 2 ^ 53" using r unfolding abs_le_iff by linarith
  have "\<bar>?b - (?a - 1)\<bar> \<le> 3 / 2 ^ 53"
    using float64_err [OF law, of "?a - 1" 2] a1 by simp
  then have b: "\<bar>?b\<bar> \<le> 1 + 1 / 2 ^ 50" using a1 by (rule abs_shift) simp
  have "\<bar>?t - jitterFactor\<bar> \<le> 2 / 2 ^ 53"
    using float64_err [OF law, of jitterFactor 1] by (simp add: jitterFactor_def)
  then have t: "\<bar>?t\<bar> \<le> 1 / 10 + 1 / 2 ^ 52"
    by (rule abs_shift [where b = "1 / 10"]) (simp_all add: jitterFactor_def)
  have "\<bar>?t * ?b\<bar> \<le> (1 / 10 + 1 / 2 ^ 52) * (1 + 1 / 2 ^ 50)"
    unfolding abs_mult using t b by (intro mult_mono) simp_all
  then have tb: "\<bar>?t * ?b\<bar> \<le> 1 / 10 + 1 / 2 ^ 50" by (rule order_trans) simp
  have "\<bar>?c - ?t * ?b\<bar> \<le> 2 / 2 ^ 53"
    using float64_err [OF law, of "?t * ?b" 1] order_trans [OF tb, of 1] by simp
  then have c: "\<bar>?c\<bar> \<le> 1 / 10 + 1 / 2 ^ 49" using tb by (rule abs_shift) simp
  then have "\<bar>1 + ?c\<bar> \<le> 2" by (intro abs_shift [of "1 + ?c" ?c 1 "1 / 10 + 1 / 2 ^ 49"]) simp_all
  then have "\<bar>fl (1 + ?c) - (1 + ?c)\<bar> \<le> 3 / 2 ^ 53"
    using float64_err [OF law, of "1 + ?c" 2] by simp
  then have "\<bar>(fl (1 + ?c) - 1) - ?c\<bar> \<le> 3 / 2 ^ 53" by (simp add: algebra_simps)
  then show ?thesis using c by (rule abs_shift) simp
qed

lemma jittered_near:
  assumes law: "float64_law fl" and r: "0 \<le> r" "r < 1" and D: "0 \<le> D" "D \<le> 2 ^ 62"
  shows "\<bar>fl (fl D * fl (1 + fl (fl jitterFactor * fl (fl (r * 2) - 1)))) - D\<bar> \<le> D / 10 + D / 2 ^ 46 + 1"
proof -
  define f where "f = fl (1 + fl (fl jitterFactor * fl (fl (r * 2) - 1)))"
  have f: "\<bar>f - 1\<bar> \<le> 1 / 10 + 1 / 2 ^ 48"
    unfolding f_def using law r by (rule jitter_factor_bound)
  then have f2: "\<bar>f\<bar> \<le> 2" by (rule abs_shift [where b = 1]) simp_all
  have dd: "\<bar>fl D - D\<bar> \<le> (D + 1) / 2 ^ 53" using float64_err [OF law, of D D] D by simp
  have "fl D * f - D = (fl D - D) * f + D * (f - 1)" by (simp add: algebra_simps)
  then have "\<bar>fl D * f - D\<bar> \<le> \<bar>fl D - D\<bar> * \<bar>f\<bar> + \<bar>D\<bar> * \<bar>f - 1\<bar>"
    by (simp add: abs_triangle_ineq abs_mult [symmetric])
  also have "\<dots> \<le> (D + 1) / 2 ^ 53 * 2 + D * (1 / 10 + 1 / 2 ^ 48)"
    using dd f f2 D by (intro add_mono mult_mono) simp_all
  finally have prod: "\<bar>fl D * f - D\<bar> \<le> (D + 1) / 2 ^ 53 * 2 + D * (1 / 10 + 1 / 2 ^ 48)" .
  then have small: "\<bar>fl D * f\<bar> \<le> 2 * D + 1"
    by (rule abs_shift [where b = D]) (use D in \<open>simp_all add: field_simps\<close>)
  have "\<bar>fl (fl D * f) - fl D * f\<bar> \<le> (2 * D + 2) / 2 ^ 53"
    using float64_err [OF law small] D by simp
  then have "\<bar>fl (fl D * f) - D - (fl D * f - D)\<bar> \<le> (2 * D + 2) / 2 ^ 53" by simp
  then show ?thesis unfolding f_def [symmetric]
    using prod by (rule abs_shift) (use D in \<open>simp add: field_simps\<close>)
qed

lemma jitter_with_bound:
  assumes law: "float64_law fl" and r: "0 \<le> r" "r < 1" and d: "0 \<le> sint d" "sint d \<le> 2 ^ 62"
  shows "\<bar>sint (jitter_with fl r d) - sint d\<bar> \<le> sint d div 10 + sint d div 2 ^ 46 + 4"
proof -
  obtain i where i: "sint d = i" by blast
  define D :: rat where "D = of_int i"
  define p where "p = fl (fl D * fl (1 + fl (fl jitterFactor * fl (fl (r * 2) - 1))))"
  have D: "0 \<le> D" "D \<le> 2 ^ 62" using d by (simp_all add: D_def i)
  have "\<bar>p - D\<bar> \<le> D / 10 + D / 2 ^ 46 + 1"
    unfolding p_def using law r D by (rule jittered_near)
  with trunc_near [of p] have near: "\<bar>of_int (trunc p) - D\<bar> \<le> D / 10 + D / 2 ^ 46 + 2" by linarith
  have quotient: "rat_of_int i / of_int k \<le> of_int (i div k) + 1" if "0 < k" for k
    using that floor_correct [of "rat_of_int i / of_int k"] by (simp add: floor_divide_of_int_eq)
  have "rat_of_int \<bar>trunc p - i\<bar> \<le> of_int (i div 10 + i div 2 ^ 46 + 4)"
    using near quotient [of 10] quotient [of "2 ^ 46"] by (simp add: D_def)
  then have bound: "\<bar>trunc p - i\<bar> \<le> i div 10 + i div 2 ^ 46 + 4" by (simp only: of_int_le_iff)
  have "i div 10 \<le> 2 ^ 62 div 10" and "i div 2 ^ 46 \<le> 2 ^ 62 div 2 ^ 46"
    using d by (auto simp: i intro: zdiv_mono1)
  with bound d have "- (2 ^ 63) \<le> trunc p" and "trunc p < 2 ^ 63" by (simp_all add: i)
  then have "sint (word_of_int (trunc p) :: duration) = trunc p" by (rule sint_of_int64)
  moreover have "jitter_with fl r d = word_of_int (trunc p)"
    by (simp add: jitter_with_def Let_def p_def D_def i del: of_int_sint)
  ultimately show ?thesis using bound by (simp add: i)
qed

text \<open>
  The delay of every attempt: a cap of five minutes on a base of five seconds doubled at each
  attempt, give or take a tenth.
\<close>

lemma retry_delay_bound:
  assumes "float64_law (float64_round (Lib E))" and "0 \<le> rand_float (Host E) h" "rand_float (Host E) h < 1"
    and "getenv (Host E) ''RETRY_BASE_DELAY'' = None" and "getenv (Host E) ''RETRY_MAX_DELAY'' = None"
  shows "\<bar>sint (retry_delay E h n) - min 300000000000 (5000000000 * 2 ^ shift_of n)\<bar>
           \<le> min 300000000000 (5000000000 * 2 ^ shift_of n) div 10 + 5"
proof -
  let ?b = "backoff (RetryBaseDelay E) (RetryMaxDelay E) n"
  have base: "sint (RetryBaseDelay E) = 5000000000" and cap: "sint (RetryMaxDelay E) = 300000000000"
    using assms(4,5) by (simp_all add: default_delays Second_def)
  have b: "sint ?b = min 300000000000 (5000000000 * 2 ^ shift_of n)"
  proof (cases "0 < sint n")
    case True
    then show ?thesis using sint_backoff [of n "RetryBaseDelay E" "RetryMaxDelay E"] base cap by simp
  next
    case False
    then show ?thesis by (simp add: backoff_def base shift_of_def)
  qed
  have "0 \<le> sint ?b" and "sint ?b \<le> 300000000000" by (simp_all add: b)
  then have "\<bar>sint (retry_delay E h n) - sint ?b\<bar> \<le> sint ?b div 10 + sint ?b div 2 ^ 46 + 4"
    unfolding retry_delay_def using assms(1-3) by (intro jitter_with_bound) simp_all
  moreover have "sint ?b div 2 ^ 46 \<le> 0"
    using \<open>0 \<le> sint ?b\<close> \<open>sint ?b \<le> 300000000000\<close> by (simp add: div_pos_pos_trivial)
  ultimately show ?thesis unfolding b [symmetric] by linarith
qed

end
