(* ===== verification/TalosClient.thy ===== *)
theory TalosClient
  imports RetryConfig Metrics
begin

text \<open>
  The Talos side of the operator: \<^verbatim>\<open>internal/talos/client.go\<close>, the error classes of
  \<^verbatim>\<open>internal/talos/context.go\<close> and the production \<^verbatim>\<open>TalosDialer\<close> of
  \<^verbatim>\<open>internal/controller/talos_dialer.go\<close>. Each operation of \<^verbatim>\<open>realConnection\<close> delegates to the function
  of the same purpose here, so the two share one definition.
\<close>

section \<open>Error classes\<close>

definition IsContextCancelled :: "gerror \<Rightarrow> bool" where
  "IsContextCancelled err =
     (if err_cause err = ErrCanceled \<or> err_cause err = ErrDeadlineExceeded then True
      else case grpc_status err of
             Some code \<Rightarrow> code = CodeCanceled \<or> code = CodeDeadlineExceeded
           | None \<Rightarrow> False)"

definition IsAlreadyExists :: "gerror \<Rightarrow> bool" where
  "IsAlreadyExists err =
     (case grpc_status err of Some code \<Rightarrow> code = CodeAlreadyExists | None \<Rightarrow> False)"

lemma IsContextCancelled_wrap [simp]: "IsContextCancelled (ErrWrap f as e) = IsContextCancelled e"
  by (simp add: IsContextCancelled_def)

lemma IsContextCancelled_fmt [simp]: "\<not> IsContextCancelled (ErrFmt f as)"
  by (simp add: IsContextCancelled_def)

section \<open>Connections\<close>

definition withTimeout :: "env \<Rightarrow> duration option" where
  "withTimeout E = (if 0 < sint (OperationTimeout E) then Some (OperationTimeout E) else None)"

definition NewClient :: "env \<Rightarrow> bytes \<Rightarrow> string \<Rightarrow> (gerror + talos_conn) prog" where
  "NewClient E talosconfigBytes endpoint =
     (case talosconfig_parse (Lib E) talosconfigBytes of
        Inl err \<Rightarrow> ret (Inl (ErrWrap ''parse talosconfig: %w'' [] err))
      | Inr cfg \<Rightarrow> do {
          let c = \<lparr>ConnEndpoint = endpoint, ConnCreds = MutualTLS cfg\<rparr>;
          r \<leftarrow> talosclient_New E c;
          ret (case r of Some err \<Rightarrow> Inl err | None \<Rightarrow> Inr c)
        })"

fun show_nat :: "nat \<Rightarrow> string" where
  "show_nat n = (if n < 10 then [char_of (48 + n)] else show_nat (n div 10) @ [char_of (48 + n mod 10)])"

declare show_nat.simps [simp del]

definition NewClientInsecure :: "env \<Rightarrow> string \<Rightarrow> (gerror + talos_conn) prog" where
  "NewClientInsecure E endpoint = do {
     let c = \<lparr>ConnEndpoint = endpoint @ '':'' @ show_nat (apid_port (Lib E)),
              ConnCreds = InsecureSkipVerify\<rparr>;
     r \<leftarrow> talosclient_New E c;
     ret (case r of Some err \<Rightarrow> Inl err | None \<Rightarrow> Inr c)
   }"

definition conn_Dial :: "env \<Rightarrow> bytes \<Rightarrow> string \<Rightarrow> (gerror + talos_conn) prog" where
  "conn_Dial E talosconfigBytes endpoint = NewClient E talosconfigBytes endpoint"

definition conn_DialInsecure :: "env \<Rightarrow> string \<Rightarrow> (gerror + talos_conn) prog" where
  "conn_DialInsecure E endpoint = NewClientInsecure E endpoint"

definition conn_Close :: "talos_conn \<Rightarrow> unit prog" where
  "conn_Close c = tell (TClose c)"

section \<open>Operations on a connection\<close>

definition rpc :: "env \<Rightarrow> talos_conn \<Rightarrow> string \<Rightarrow> rpc_request \<Rightarrow> rpc_call" where
  "rpc E c node req =
     \<lparr>CallConn = c, CallNode = node, CallTimeout = withTimeout E, CallReq = req\<rparr>"

definition observe_call :: "env \<Rightarrow> string \<Rightarrow> string \<Rightarrow> time \<Rightarrow> unit prog" where
  "observe_call E operation result start = do {
     now \<leftarrow> time_Now E;
     metric_observe APICallDuration [operation, result] (now - start)
   }"

fun record_apply_messages :: "apply_message list \<Rightarrow> string \<Rightarrow> unit prog" where
  "record_apply_messages [] cluster = ret ()"
| "record_apply_messages (msg # msgs) cluster = do {
     metric_inc ConfigApplyModeTotal [ApplyMode msg, cluster];
     record_apply_messages msgs cluster
   }"

definition conn_ApplyConfig ::
    "env \<Rightarrow> talos_conn \<Rightarrow> string \<Rightarrow> bytes \<Rightarrow> string \<Rightarrow> gerror option prog" where
  "conn_ApplyConfig E c nodeIP configBytes cluster = do {
     start \<leftarrow> time_Now E;
     resp \<leftarrow> talos_apply E (rpc E c nodeIP (ReqApplyConfiguration configBytes ApplyAuto));
     observe_call E ''apply_config'' (if opt_err resp \<noteq> None then ''error'' else ''success'') start;
     case resp of
       Inl err \<Rightarrow> ret (Some err)
     | Inr msgs \<Rightarrow> do { record_apply_messages msgs cluster; ret None }
   }"

definition timed_unit :: "env \<Rightarrow> string \<Rightarrow> rpc_call \<Rightarrow> gerror option prog" where
  "timed_unit E operation call = do {
     start \<leftarrow> time_Now E;
     err \<leftarrow> talos_unit E call;
     observe_call E operation (ResultLabel err) start;
     ret err
   }"

definition conn_Bootstrap :: "env \<Rightarrow> talos_conn \<Rightarrow> string \<Rightarrow> gerror option prog" where
  "conn_Bootstrap E c endpoint = timed_unit E ''bootstrap'' (rpc E c endpoint ReqBootstrap)"

definition conn_GetKubeconfig :: "env \<Rightarrow> talos_conn \<Rightarrow> string \<Rightarrow> (gerror + bytes) prog" where
  "conn_GetKubeconfig E c endpoint = do {
     start \<leftarrow> time_Now E;
     b \<leftarrow> talos_kubeconfig E (rpc E c endpoint ReqKubeconfig);
     observe_call E ''get_kubeconfig'' (ResultLabel (opt_err b)) start;
     ret b
   }"

definition conn_GetMachineConfig :: "env \<Rightarrow> talos_conn \<Rightarrow> string \<Rightarrow> (gerror + bytes) prog" where
  "conn_GetMachineConfig E c nodeIP = do {
     start \<leftarrow> time_Now E;
     r \<leftarrow> talos_cosi E (rpc E c nodeIP (ReqCosiGet ''config.NamespaceName'' ''config.MachineConfigType'' ''config.ActiveID''));
     observe_call E ''get_machine_config'' (ResultLabel (opt_err r)) start;
     case r of
       Inl err \<Rightarrow> ret (Inl err)
     | Inr (CosiMachineConfig b) \<Rightarrow> ret b
     | Inr _ \<Rightarrow> ret (Inl (ErrFmt ''unexpected resource type %T'' []))
   }"

definition conn_GetHostname :: "env \<Rightarrow> talos_conn \<Rightarrow> string \<Rightarrow> (gerror + string) prog" where
  "conn_GetHostname E c nodeIP = do {
     start \<leftarrow> time_Now E;
     r \<leftarrow> talos_cosi E (rpc E c nodeIP (ReqCosiGet ''network.NamespaceName'' ''network.HostnameStatusType'' ''network.HostnameID''));
     observe_call E ''get_hostname'' (ResultLabel (opt_err r)) start;
     case r of
       Inl err \<Rightarrow> ret (Inl err)
     | Inr (CosiHostnameStatus hn) \<Rightarrow> ret (Inr hn)
     | Inr _ \<Rightarrow> ret (Inl (ErrFmt ''unexpected resource type %T'' []))
   }"

text \<open>Only the first message counts; a missing version or platform leaves the empty string.\<close>

definition conn_GetVersion :: "env \<Rightarrow> talos_conn \<Rightarrow> string \<Rightarrow> (gerror + string \<times> string) prog" where
  "conn_GetVersion E c nodeIP = do {
     start \<leftarrow> time_Now E;
     resp \<leftarrow> talos_version E (rpc E c nodeIP ReqVersion);
     observe_call E ''get_version'' (ResultLabel (opt_err resp)) start;
     case resp of
       Inl err \<Rightarrow> ret (Inl err)
     | Inr [] \<Rightarrow> ret (Inl (ErrFmt ''no version message returned for node %s'' [FStr nodeIP]))
     | Inr (msg # _) \<Rightarrow>
         ret (Inr (case VersionTag msg of None \<Rightarrow> [] | Some tag \<Rightarrow> tag,
                   case PlatformMode msg of None \<Rightarrow> [] | Some mode \<Rightarrow> mode))
   }"

definition conn_Upgrade :: "env \<Rightarrow> talos_conn \<Rightarrow> string \<Rightarrow> string \<Rightarrow> gerror option prog" where
  "conn_Upgrade E c nodeIP img =
     timed_unit E ''upgrade_node'' (rpc E c nodeIP (ReqUpgrade img False False))"

definition conn_Reset :: "env \<Rightarrow> talos_conn \<Rightarrow> string \<Rightarrow> bool \<Rightarrow> gerror option prog" where
  "conn_Reset E c nodeIP graceful =
     timed_unit E ''reset_node''
       (rpc E c nodeIP (ReqReset graceful True [(''STATE'', True), (''EPHEMERAL'', True)]))"

definition conn_EtcdLeave :: "env \<Rightarrow> talos_conn \<Rightarrow> string \<Rightarrow> gerror option prog" where
  "conn_EtcdLeave E c nodeIP = timed_unit E ''etcd_leave'' (rpc E c nodeIP ReqEtcdLeaveCluster)"

section \<open>Forced removal of an etcd member\<close>

fun find_peer_url :: "env \<Rightarrow> string list \<Rightarrow> string \<Rightarrow> bool" where
  "find_peer_url E [] deadNodeIP = False"
| "find_peer_url E (peerURL # urls) deadNodeIP =
     (case url_host (Lib E) peerURL of
        None \<Rightarrow> find_peer_url E urls deadNodeIP
      | Some hostname \<Rightarrow>
          if hostname = deadNodeIP then True else find_peer_url E urls deadNodeIP)"

fun find_member :: "env \<Rightarrow> etcd_member list \<Rightarrow> string \<Rightarrow> int64 option" where
  "find_member E [] deadNodeIP = None"
| "find_member E (m # members) deadNodeIP =
     (if find_peer_url E (PeerUrls m) deadNodeIP then Some (MemberId m)
      else find_member E members deadNodeIP)"

fun findEtcdMemberID :: "env \<Rightarrow> etcd_members list \<Rightarrow> string \<Rightarrow> int64" where
  "findEtcdMemberID E [] deadNodeIP = 0"
| "findEtcdMemberID E (msg # messages) deadNodeIP =
     (case find_member E msg deadNodeIP of
        Some i \<Rightarrow> i
      | None \<Rightarrow> findEtcdMemberID E messages deadNodeIP)"

definition conn_EtcdForceRemove ::
    "env \<Rightarrow> talos_conn \<Rightarrow> string \<Rightarrow> string \<Rightarrow> gerror option prog" where
  "conn_EtcdForceRemove E c survivorIP deadNodeIP = do {
     start \<leftarrow> time_Now E;
     resp \<leftarrow> talos_members E (rpc E c survivorIP ReqEtcdMemberList);
     case resp of
       Inl err \<Rightarrow> do {
         observe_call E ''etcd_force_remove'' ''error'' start;
         ret (Some (ErrWrap ''list etcd members: %w'' [] err))
       }
     | Inr messages \<Rightarrow>
         let memberID = findEtcdMemberID E messages deadNodeIP in
         if memberID = 0 then do {
           observe_call E ''etcd_force_remove'' ''success'' start;
           ret None
         }
         else do {
           err \<leftarrow> talos_unit E (rpc E c survivorIP (ReqEtcdRemoveMemberByID memberID));
           observe_call E ''etcd_force_remove'' (ResultLabel err) start;
           ret err
         }
   }"

section \<open>Generated secrets and configurations\<close>

definition GenSecretsBundle :: "env \<Rightarrow> string \<Rightarrow> (gerror + secrets_bundle \<times> bytes) prog" where
  "GenSecretsBundle E talosVersion =
     (case parse_contract (Lib E) talosVersion of
        Inl err \<Rightarrow> ret (Inl (ErrWrap ''parse version: %w'' [] err))
      | Inr contract \<Rightarrow> do {
          r \<leftarrow> secrets_NewBundle E contract;
          case r of
            Inl err \<Rightarrow> ret (Inl (ErrWrap ''gen secrets: %w'' [] err))
          | Inr bundle \<Rightarrow>
              (case bundle_marshal (Lib E) bundle of
                 Inl err \<Rightarrow> ret (Inl (ErrWrap ''marshal secrets: %w'' [] err))
               | Inr data \<Rightarrow> ret (Inr (bundle, data)))
        })"

definition LoadOrGenSecretsBundle ::
    "env \<Rightarrow> bytes \<Rightarrow> string \<Rightarrow> (gerror + secrets_bundle \<times> bytes) prog" where
  "LoadOrGenSecretsBundle E existingJSON talosVersion =
     (if 0 < length existingJSON then
        (case bundle_unmarshal (Lib E) existingJSON of
           Inr bundle \<Rightarrow> ret (Inr (bundle, existingJSON))
         | Inl _ \<Rightarrow> GenSecretsBundle E talosVersion)
      else GenSecretsBundle E talosVersion)"

record cluster_configs =
  ControlPlane :: bytes
  Worker :: bytes
  Talosconfig :: bytes

definition GenConfig ::
    "env \<Rightarrow> string \<Rightarrow> string list \<Rightarrow> string \<Rightarrow> secrets_bundle \<Rightarrow> string \<Rightarrow> gerror + cluster_configs" where
  "GenConfig E clusterName endpoints talosVersion bundle kubernetesVersion =
     (case endpoints of
        [] \<Rightarrow> Inl (ErrFmt ''no endpoints configured'' [])
      | endpoint # _ \<Rightarrow>
     (case parse_contract (Lib E) talosVersion of
        Inl err \<Rightarrow> Inl (ErrWrap ''parse version: %w'' [] err)
      | Inr contract \<Rightarrow>
     (let k8sVersion = (if kubernetesVersion = [] then default_kubernetes_version (Lib E)
                        else kubernetesVersion) in
      case generate_input (Lib E)
             \<lparr>GenClusterName = clusterName, GenEndpoint = ''https://'' @ endpoint @ '':6443'',
              GenK8sVersion = k8sVersion, GenContract = contract, GenBundle = bundle,
              GenEndpointList = endpoints\<rparr> of
        Inl err \<Rightarrow> Inl (ErrWrap ''build input: %w'' [] err)
      | Inr input \<Rightarrow>
     (case input_config (Lib E) input TypeControlPlane of
        Inl err \<Rightarrow> Inl (ErrWrap ''gen controlplane: %w'' [] err)
      | Inr cp \<Rightarrow>
     (case input_config (Lib E) input TypeWorker of
        Inl err \<Rightarrow> Inl (ErrWrap ''gen worker: %w'' [] err)
      | Inr w \<Rightarrow>
     (case input_talosconfig (Lib E) input of
        Inl err \<Rightarrow> Inl (ErrWrap ''gen talosconfig: %w'' [] err)
      | Inr tc \<Rightarrow>
     (case config_bytes (Lib E) cp of
        Inl err \<Rightarrow> Inl (ErrWrap ''encode controlplane: %w'' [] err)
      | Inr cpBytes \<Rightarrow>
     (case config_bytes (Lib E) w of
        Inl err \<Rightarrow> Inl (ErrWrap ''encode worker: %w'' [] err)
      | Inr wBytes \<Rightarrow>
     (case client_config_bytes (Lib E) tc of
        Inl err \<Rightarrow> Inl (ErrWrap ''encode talosconfig: %w'' [] err)
      | Inr tcBytes \<Rightarrow>
        Inr \<lparr>ControlPlane = cpBytes, Worker = wBytes, Talosconfig = tcBytes\<rparr>)))))))))"

section \<open>Dialling one of several endpoints\<close>

text \<open>
  \<^verbatim>\<open>dialAny\<close> takes the dialer as an argument, and so does its model. The result is the connection (nil
  is \<open>None\<close>), the endpoint and the error; an empty list of endpoints gives no connection and no error.
\<close>

fun dial_loop ::
    "(bytes \<Rightarrow> string \<Rightarrow> (gerror + 'c) prog) \<Rightarrow> bytes \<Rightarrow> string list \<Rightarrow> gerror option \<Rightarrow>
     ('c option \<times> string \<times> gerror option) prog" where
  "dial_loop dial cfg [] lastErr = ret (None, [], lastErr)"
| "dial_loop dial cfg (ep # eps) lastErr = do {
     r \<leftarrow> dial cfg ep;
     case r of
       Inr conn \<Rightarrow> ret (Some conn, ep, None)
     | Inl err \<Rightarrow> dial_loop dial cfg eps (Some (ErrWrap ''dial %s: %w'' [FStr ep] err))
   }"

definition dialAny ::
    "(bytes \<Rightarrow> string \<Rightarrow> (gerror + 'c) prog) \<Rightarrow> bytes \<Rightarrow> string list \<Rightarrow>
     ('c option \<times> string \<times> gerror option) prog" where
  "dialAny dial cfg endpoints = dial_loop dial cfg endpoints None"

text \<open>
  What a client of \<^verbatim>\<open>TalosDialer\<close> relies on: a connection goes to the endpoint that was asked for,
  and dialling does nothing but dial.
\<close>

locale talos_dialer =
  fixes dial :: "bytes \<Rightarrow> string \<Rightarrow> (gerror + 'c) prog"
    and goes_to :: "'c \<Rightarrow> string"
    and dial_event :: "event \<Rightarrow> bool"
  assumes dial_endpoint: "wp (dial cfg ep) (\<lambda>r _. \<forall>c. r = Inr c \<longrightarrow> goes_to c = ep) h"
    and dial_only: "only dial_event (dial cfg ep)"
begin

lemma dial_loop_connects:
  "wp (dial_loop dial cfg eps e)
     (\<lambda>(c, ep, err) _.
        case c of
          Some conn \<Rightarrow> ep \<in> set eps \<and> goes_to conn = ep \<and> err = None
        | None \<Rightarrow> (eps = [] \<and> err = e) \<or> (eps \<noteq> [] \<and> err \<noteq> None)) h"
proof (induction eps arbitrary: e h)
  case Nil
  then show ?case by (simp add: wp_simps)
next
  case (Cons ep eps e h)
  obtain r h1 where r: "run_state (dial cfg ep) h = (r, h1)" by (cases "run_state (dial cfg ep) h")
  have reached: "\<forall>c. r = Inr c \<longrightarrow> goes_to c = ep" using wpD [OF dial_endpoint r] .
  note step = wp_simps wp_def [of "dial cfg ep"] r
  show ?case
  proof (cases r)
    case (Inl x)
    show ?thesis
      using Cons.IH [of "Some (ErrWrap ''dial %s: %w'' [FStr ep] x)" h1]
      by (simp add: step Inl, elim wp_mono) (auto split: option.splits)
  next
    case (Inr conn)
    with reached show ?thesis by (simp add: step)
  qed
qed

lemma dialAny_connects:
  "eps \<noteq> [] \<Longrightarrow>
   wp (dialAny dial cfg eps)
     (\<lambda>(c, ep, err) _.
        case c of
          Some conn \<Rightarrow> ep \<in> set eps \<and> goes_to conn = ep \<and> err = None
        | None \<Rightarrow> err \<noteq> None) h"
  unfolding dialAny_def by (rule wp_mono [OF dial_loop_connects]) (auto split: option.splits)

lemma only_dialAny: "only dial_event (dialAny dial cfg eps)"
proof -
  have "only dial_event (dial_loop dial cfg eps e)" for e
    by (induction eps arbitrary: e) (auto intro!: only_intros dial_only)
  then show ?thesis by (simp add: dialAny_def)
qed

end

definition is_dial :: "event \<Rightarrow> bool" where
  "is_dial e = (case e of TNew _ _ \<Rightarrow> True | _ \<Rightarrow> False)"

definition is_mtls_dial :: "event \<Rightarrow> bool" where
  "is_mtls_dial e =
     (case e of
        TNew c _ \<Rightarrow> (case ConnCreds c of MutualTLS _ \<Rightarrow> True | InsecureSkipVerify \<Rightarrow> False)
      | _ \<Rightarrow> False)"

lemma only_conn_Dial [only_intros]:
  assumes "\<And>cfg r. P (TNew \<lparr>ConnEndpoint = ep, ConnCreds = MutualTLS cfg\<rparr> r)"
  shows "only P (conn_Dial E bs ep)"
  unfolding conn_Dial_def NewClient_def talosclient_New_def
  by (intro only_intros) (simp add: assms)

lemma only_conn_DialInsecure [only_intros]:
  assumes "\<And>ep r. P (TNew \<lparr>ConnEndpoint = ep, ConnCreds = InsecureSkipVerify\<rparr> r)"
  shows "only P (conn_DialInsecure E ep)"
  unfolding conn_DialInsecure_def NewClientInsecure_def talosclient_New_def
  by (intro only_intros) (simp add: assms)

lemma conn_Dial_creds:
  "wp (conn_Dial E bs ep)
     (\<lambda>r _. \<forall>c. r = Inr c \<longrightarrow> ConnEndpoint c = ep \<and>
        (\<exists>cfg. talosconfig_parse (Lib E) bs = Inr cfg \<and> ConnCreds c = MutualTLS cfg)) h"
  by (auto simp: conn_Dial_def NewClient_def talosclient_New_def wp_simps
      split: sum.splits option.splits)

interpretation real_dialer: talos_dialer "conn_Dial E" ConnEndpoint is_mtls_dial
proof
  fix cfg ep h
  show "wp (conn_Dial E cfg ep) (\<lambda>r _. \<forall>c. r = Inr c \<longrightarrow> ConnEndpoint c = ep) h"
    by (rule wp_mono [OF conn_Dial_creds]) auto
  show "only is_mtls_dial (conn_Dial E cfg ep)"
    by (intro only_intros) (simp add: is_mtls_dial_def)
qed

section \<open>What the operations append\<close>

lemma only_case_cosi [only_intros]:
  "(\<And>b. x = CosiMachineConfig b \<Longrightarrow> only P (f b)) \<Longrightarrow>
   (\<And>s. x = CosiHostnameStatus s \<Longrightarrow> only P (g s)) \<Longrightarrow> (\<And>s. x = CosiOther s \<Longrightarrow> only P (k s)) \<Longrightarrow>
   only P (case x of CosiMachineConfig b \<Rightarrow> f b | CosiHostnameStatus s \<Rightarrow> g s | CosiOther s \<Rightarrow> k s)"
  by (cases x) simp_all

lemma wp_case_cosi [wp_simps]:
  "wp (case x of CosiMachineConfig b \<Rightarrow> f b | CosiHostnameStatus s \<Rightarrow> g s | CosiOther s \<Rightarrow> k s) Q h =
   (case x of CosiMachineConfig b \<Rightarrow> wp (f b) Q h | CosiHostnameStatus s \<Rightarrow> wp (g s) Q h
    | CosiOther s \<Rightarrow> wp (k s) Q h)"
  by (cases x) simp_all

text \<open>
  The events of one operation: clock readings, the call itself and its latency. \<open>on_node c node\<close>
  says that a call goes over the connection \<open>c\<close> to the node \<open>node\<close> with the configured deadline.
\<close>

definition on_node :: "env \<Rightarrow> talos_conn \<Rightarrow> string \<Rightarrow> event \<Rightarrow> bool" where
  "on_node E c node e =
     (case e of
        TCall cl _ \<Rightarrow> CallConn cl = c \<and> CallNode cl = node \<and> CallTimeout cl = withTimeout E
      | ClockRead \<Rightarrow> True
      | MetricObserve v ls _ \<Rightarrow> v = fst APICallDuration \<and> length ls = 2
      | MetricInc v ls \<Rightarrow> v = fst ConfigApplyModeTotal \<and> length ls = 2
      | _ \<Rightarrow> False)"

lemma on_node_simps [simp]:
  "on_node E c node (TCall (rpc E c node req) r)"
  "on_node E c node ClockRead"
  "on_node E c node (MetricObserve (fst APICallDuration) [a, b] t)"
  "on_node E c node (MetricInc (fst ConfigApplyModeTotal) [a, b])"
  by (simp_all add: on_node_def rpc_def)

lemma only_observe_call [only_intros]:
  "P ClockRead \<Longrightarrow> (\<And>t. P (MetricObserve (fst APICallDuration) [op, res] t)) \<Longrightarrow>
   only P (observe_call E op res start)"
  unfolding observe_call_def time_Now_def by (intro only_intros) simp_all

lemma only_timed_unit [only_intros]:
  assumes "P ClockRead" and "\<And>r. P (TCall cl r)"
    and "\<And>res t. P (MetricObserve (fst APICallDuration) [op, res] t)"
  shows "only P (timed_unit E op cl)"
  unfolding timed_unit_def time_Now_def talos_unit_def by (intro only_intros assms)

lemma only_record_apply_messages:
  "(\<And>m. P (MetricInc (fst ConfigApplyModeTotal) [m, cluster])) \<Longrightarrow>
   only P (record_apply_messages msgs cluster)"
  by (induction msgs) (auto intro!: only_intros)

text \<open>
  The operations of a Talos connection share one contract: whatever they do happens over their
  connection, on their node.
\<close>

locale talos_connection =
  fixes applyConfig :: "'c \<Rightarrow> string \<Rightarrow> bytes \<Rightarrow> string \<Rightarrow> gerror option prog"
    and bootstrap :: "'c \<Rightarrow> string \<Rightarrow> gerror option prog"
    and getKubeconfig :: "'c \<Rightarrow> string \<Rightarrow> (gerror + bytes) prog"
    and getMachineConfig :: "'c \<Rightarrow> string \<Rightarrow> (gerror + bytes) prog"
    and getHostname :: "'c \<Rightarrow> string \<Rightarrow> (gerror + string) prog"
    and getVersion :: "'c \<Rightarrow> string \<Rightarrow> (gerror + string \<times> string) prog"
    and etcdLeave :: "'c \<Rightarrow> string \<Rightarrow> gerror option prog"
    and etcdForceRemove :: "'c \<Rightarrow> string \<Rightarrow> string \<Rightarrow> gerror option prog"
    and reset :: "'c \<Rightarrow> string \<Rightarrow> bool \<Rightarrow> gerror option prog"
    and upgrade :: "'c \<Rightarrow> string \<Rightarrow> string \<Rightarrow> gerror option prog"
    and on :: "'c \<Rightarrow> string \<Rightarrow> event \<Rightarrow> bool"
  assumes only_apply: "only (on c n) (applyConfig c n bs cl)"
    and only_bootstrap: "only (on c n) (bootstrap c n)"
    and only_getKubeconfig: "only (on c n) (getKubeconfig c n)"
    and only_getMachineConfig: "only (on c n) (getMachineConfig c n)"
    and only_getHostname: "only (on c n) (getHostname c n)"
    and only_getVersion: "only (on c n) (getVersion c n)"
    and only_etcdLeave: "only (on c n) (etcdLeave c n)"
    and only_etcdForceRemove: "only (on c n) (etcdForceRemove c n dead)"
    and only_reset: "only (on c n) (reset c n g)"
    and only_upgrade: "only (on c n) (upgrade c n img)"
begin

lemmas only_ops =
  only_apply only_bootstrap only_getKubeconfig only_getMachineConfig only_getHostname only_getVersion
  only_etcdLeave only_etcdForceRemove only_reset only_upgrade

text \<open>Any condition on events that the node's own events satisfy holds of every operation.\<close>

lemma only_ops_mono:
  assumes "\<And>e. on c n e \<Longrightarrow> P e"
  shows "only P (applyConfig c n bs cl)" and "only P (bootstrap c n)" and "only P (getKubeconfig c n)"
    and "only P (getMachineConfig c n)" and "only P (getHostname c n)" and "only P (getVersion c n)"
    and "only P (etcdLeave c n)" and "only P (etcdForceRemove c n dead)" and "only P (reset c n g)"
    and "only P (upgrade c n img)"
  using assms by (auto intro: only_mono only_ops)

end

interpretation real_conn: talos_connection "conn_ApplyConfig E" "conn_Bootstrap E"
    "conn_GetKubeconfig E" "conn_GetMachineConfig E" "conn_GetHostname E" "conn_GetVersion E"
    "conn_EtcdLeave E" "conn_EtcdForceRemove E" "conn_Reset E" "conn_Upgrade E" "on_node E"
  by unfold_locales
    (auto simp: conn_ApplyConfig_def conn_Bootstrap_def conn_GetKubeconfig_def
      conn_GetMachineConfig_def conn_GetHostname_def conn_GetVersion_def conn_EtcdLeave_def
      conn_EtcdForceRemove_def conn_Reset_def conn_Upgrade_def time_Now_def talos_apply_def
      talos_kubeconfig_def talos_cosi_def talos_version_def talos_members_def talos_unit_def
      intro!: only_intros only_record_apply_messages)

text \<open>
  The entry a search for a dead node stops at: a peer URL whose host name is the node's address. The
  search looks at the messages of the member list in order.
\<close>

definition member_at :: "env \<Rightarrow> string \<Rightarrow> etcd_member \<Rightarrow> bool" where
  "member_at E ip m = (\<exists>u \<in> set (PeerUrls m). url_host (Lib E) u = Some ip)"

lemma find_peer_url_iff: "find_peer_url E us ip \<longleftrightarrow> (\<exists>u \<in> set us. url_host (Lib E) u = Some ip)"
  by (induction us) (auto split: option.split)

lemma find_member_filter:
  "find_member E ms ip =
     (case filter (member_at E ip) ms of [] \<Rightarrow> None | m # _ \<Rightarrow> Some (MemberId m))"
  by (induction ms) (auto simp: find_peer_url_iff member_at_def)

text \<open>
  Dialling a list of endpoints with the real dialer: a connection returned goes to the endpoint
  that is returned with it, which is one of the list, and comes without an error; no connection
  comes with an error unless the list was empty.
\<close>

theorem dialAny_real_connects:
  "wp (dialAny (conn_Dial E) cfg eps)
     (\<lambda>(c, ep, err) _.
        case c of
          Some conn \<Rightarrow> ep \<in> set eps \<and> ConnEndpoint conn = ep \<and> err = None
        | None \<Rightarrow> (err = None) = (eps = [])) h"
  unfolding dialAny_def
  by (rule wp_mono [OF real_dialer.dial_loop_connects]) (auto split: option.splits)

text \<open>
  C34. The forced removal picks the member by exact host name: the identifier is that of the first
  member, over all messages of the answer in order, that has a peer URL at the dead node's address,
  and 0 when there is none.
\<close>

theorem findEtcdMemberID_first_exact:
  "findEtcdMemberID E messages ip =
     (case filter (member_at E ip) (concat messages) of [] \<Rightarrow> 0 | m # _ \<Rightarrow> MemberId m)"
  by (induction messages) (auto simp: find_member_filter split: list.splits)

end
