(* ===== verification/Drain.thy ===== *)
theory Drain
  imports SecretStore TalosClient
begin

text \<open>
  Draining the Kubernetes node behind a \<^verbatim>\<open>TalosNode\<close> (\<^verbatim>\<open>talosnode_drain.go\<close>): finding it, cordoning it,
  evicting its pods until none is left or the timeout is over, and deleting the Node object.

  The polling loop of \<^verbatim>\<open>drainPods\<close> runs on fuel, one unit per poll; \<open>None\<close> means that the fuel is
  used up. A tick of the loop's ticker comes at least \<open>drainPollInterval\<close> after the one before,
  so the fuel \<open>drain_fuel timeout\<close> is enough, which \<open>drain_loop_returns\<close> proves.
\<close>

record ctrl_result =
  RequeueAfter :: duration

definition no_requeue :: ctrl_result where
  "no_requeue = \<lparr>RequeueAfter = 0\<rparr>"

definition requeue_after :: "duration \<Rightarrow> ctrl_result" where
  "requeue_after d = \<lparr>RequeueAfter = d\<rparr>"

text \<open>The fields of \<^verbatim>\<open>TalosNodeReconciler\<close> beside its clients: recorder, remote client, factory.\<close>

record node_reconciler =
  Recorder :: bool
  NewRemoteClient :: "(bytes \<Rightarrow> gerror + remote_client) option"
  Factory :: "(string list \<Rightarrow> (gerror + string) prog) option"

section \<open>Finding the node\<close>

definition resolveNodeName :: "env \<Rightarrow> talos_node \<Rightarrow> (gerror + string) prog" where
  "resolveNodeName E node = do {
     r \<leftarrow> getSecret E (clusterTalosconfigName (ClusterRef (NodeSpec node))) (Namespace node);
     case r of
       Inl err \<Rightarrow> ret (Inl (ErrWrap ''get talosconfig secret: %w'' [] err))
     | Inr talosconfigSecret \<Rightarrow>
         (case secretKey talosconfigSecret ''talosconfig'' of
            Inl err \<Rightarrow> ret (Inl (ErrWrap ''read talosconfig: %w'' [] err))
          | Inr talosconfigBytes \<Rightarrow> do {
              d \<leftarrow> conn_Dial E talosconfigBytes (NodeIP (NodeSpec node));
              case d of
                Inl err \<Rightarrow> ret (Inl (ErrWrap ''dial node %s: %w'' [FStr (NodeIP (NodeSpec node))] err))
              | Inr conn \<Rightarrow> do {
                  hn \<leftarrow> conn_GetHostname E conn (NodeIP (NodeSpec node));
                  conn_Close conn;
                  ret hn
                }
            })
   }"

definition buildRemoteClient ::
    "env \<Rightarrow> node_reconciler \<Rightarrow> string \<Rightarrow> string \<Rightarrow> (gerror + remote_client) prog" where
  "buildRemoteClient E R clusterRef namespace = do {
     r \<leftarrow> getSecret E (clusterKubeconfigName clusterRef) namespace;
     case r of
       Inl err \<Rightarrow> ret (Inl err)
     | Inr kubeconfigSecret \<Rightarrow>
         (case secretKey kubeconfigSecret ''kubeconfig'' of
            Inl err \<Rightarrow> ret (Inl (ErrWrap ''read kubeconfig: %w'' [] err))
          | Inr kubeconfigBytes \<Rightarrow> ret (remoteClientOrFallback E (NewRemoteClient R) kubeconfigBytes))
   }"

section \<open>Cordon and eviction\<close>

definition cordon_once :: "env \<Rightarrow> remote_client \<Rightarrow> string \<Rightarrow> gerror option prog" where
  "cordon_once E c nodeName = do {
     r \<leftarrow> remote_get_node E c nodeName;
     case r of
       Inl err \<Rightarrow> ret (Some (ErrWrap ''get node: %w'' [] err))
     | Inr node \<Rightarrow>
         if Unschedulable node then ret None
         else remote_update_node E c (node\<lparr>Unschedulable := True\<rparr>)
   }"

definition cordonNode :: "env \<Rightarrow> remote_client \<Rightarrow> string \<Rightarrow> gerror option prog" where
  "cordonNode E c nodeName = RetryOnConflict E (cordon_once E c nodeName)"

fun owned_by_daemonset :: "owner_reference list \<Rightarrow> bool" where
  "owned_by_daemonset [] = False"
| "owned_by_daemonset (owner # owners) =
     (if OwnerKind owner = ''DaemonSet'' then True else owned_by_daemonset owners)"

definition isEvictable :: "pod \<Rightarrow> bool" where
  "isEvictable pod =
     (if owned_by_daemonset (OwnerReferences pod) then False
      else if annotation (Annotations pod) ''kubernetes.io/config.mirror'' \<noteq> '''' then False
      else if PodPhase pod = ''Succeeded'' \<or> PodPhase pod = ''Failed'' then False
      else True)"

fun evict_pods :: "env \<Rightarrow> remote_client \<Rightarrow> pod list \<Rightarrow> nat \<Rightarrow> (gerror + nat) prog" where
  "evict_pods E c [] pending = ret (Inr pending)"
| "evict_pods E c (pod # pods) pending =
     (if \<not> isEvictable pod then evict_pods E c pods pending
      else if DeletionTimestamp pod \<noteq> None then evict_pods E c pods (Suc pending)
      else do {
        r \<leftarrow> remote_evict E c (Namespace pod, Name pod);
        case r of
          None \<Rightarrow> evict_pods E c pods (Suc pending)
        | Some err \<Rightarrow>
            if IsTooManyRequests err then evict_pods E c pods (Suc pending)
            else if \<not> IsNotFound err then
              ret (Inl (ErrWrap ''evict pod %s/%s: %w'' [FStr (Namespace pod), FStr (Name pod)] err))
            else evict_pods E c pods (Suc pending)
      })"

fun drain_loop ::
    "nat \<Rightarrow> env \<Rightarrow> remote_client \<Rightarrow> string \<Rightarrow> duration \<Rightarrow> time \<Rightarrow> gerror option option prog" where
  "drain_loop 0 E c nodeName timeout deadline = ret None"
| "drain_loop (Suc fuel) E c nodeName timeout deadline = do {
     now \<leftarrow> time_Now E;
     (if \<not> now < deadline then ret (Some (Some (ErrFmt ''drain timeout after %v'' [FDur timeout])))
      else do {
        ctxErr \<leftarrow> ctx_Err E;
        case ctxErr of
          Some err \<Rightarrow> ret (Some (Some err))
        | None \<Rightarrow> do {
            r \<leftarrow> remote_list_pods E c nodeName;
            case r of
              Inl err \<Rightarrow> ret (Some (Some (ErrWrap ''list pods: %w'' [] err)))
            | Inr pods \<Rightarrow> do {
                e \<leftarrow> evict_pods E c pods 0;
                case e of
                  Inl err \<Rightarrow> ret (Some (Some err))
                | Inr pending \<Rightarrow>
                    if pending = 0 then ret (Some None)
                    else do {
                      w \<leftarrow> wait_tick E;
                      case w of
                        Some err \<Rightarrow> ret (Some (Some err))
                      | None \<Rightarrow> drain_loop fuel E c nodeName timeout deadline
                    }
              }
          }
      })
   }"

definition drain_fuel :: "duration \<Rightarrow> nat" where
  "drain_fuel timeout = nat (sint timeout) div 5000000000 + 2"

definition drainPods :: "env \<Rightarrow> remote_client \<Rightarrow> string \<Rightarrow> duration \<Rightarrow> gerror option prog" where
  "drainPods E c nodeName timeout = do {
     start \<leftarrow> time_Now E;
     r \<leftarrow> drain_loop (drain_fuel timeout) E c nodeName timeout (start + sint timeout);
     ret (case r of
            Some e \<Rightarrow> e
          | None \<Rightarrow> Some (ErrFmt ''drain timeout after %v'' [FDur timeout]))
   }"

definition deleteNodeObject :: "env \<Rightarrow> remote_client \<Rightarrow> string \<Rightarrow> gerror option prog" where
  "deleteNodeObject E c nodeName = remote_delete_node E c nodeName"

section \<open>The whole drain\<close>

text \<open>The result is \<^verbatim>\<open>(done, result, error)\<close>.\<close>

definition drainAndDeleteNode ::
    "env \<Rightarrow> node_reconciler \<Rightarrow> talos_node \<Rightarrow> (bool \<times> ctrl_result \<times> gerror option) prog" where
  "drainAndDeleteNode E R node = do {
     rc \<leftarrow> buildRemoteClient E R (ClusterRef (NodeSpec node)) (Namespace node);
     case rc of
       Inl err \<Rightarrow>
         if IsNotFound err then ret (True, no_requeue, None) else ret (False, no_requeue, Some err)
     | Inr remoteClient \<Rightarrow> do {
         nn \<leftarrow> resolveNodeName E node;
         case nn of
           Inl _ \<Rightarrow> ret (True, no_requeue, None)
         | Inr nodeName \<Rightarrow> do {
             g \<leftarrow> remote_get_node E remoteClient nodeName;
             case g of
               Inl err \<Rightarrow>
                 if IsNotFound err then ret (True, no_requeue, None)
                 else ret (False, no_requeue, Some (ErrWrap ''get node %s: %w'' [FStr nodeName] err))
             | Inr _ \<Rightarrow> do {
                 let timeout = (case DrainTimeout (NodeSpec node) of
                                  None \<Rightarrow> defaultDrainTimeout | Some d \<Rightarrow> d);
                 ce \<leftarrow> cordonNode E remoteClient nodeName;
                 case ce of
                   Some err \<Rightarrow> ret (False, no_requeue, Some (ErrWrap ''cordon node: %w'' [] err))
                 | None \<Rightarrow> do {
                     de \<leftarrow> drainPods E remoteClient nodeName timeout;
                     case de of
                       Some _ \<Rightarrow> do {
                         metric_inc NodeDrainTotal [''timeout'', ClusterRef (NodeSpec node)];
                         ret (False, requeue_after drainRequeueDelay, None)
                       }
                     | None \<Rightarrow> do {
                         xe \<leftarrow> deleteNodeObject E remoteClient nodeName;
                         case xe of
                           Some err \<Rightarrow>
                             ret (False, no_requeue, Some (ErrWrap ''delete node object: %w'' [] err))
                         | None \<Rightarrow> do {
                             metric_inc NodeDrainTotal [''success'', ClusterRef (NodeSpec node)];
                             ret (True, no_requeue, None)
                           }
                       }
                   }
               }
           }
       }
   }"

section \<open>Evictability\<close>

lemma owned_by_daemonset_iff:
  "owned_by_daemonset owners \<longleftrightarrow> (\<exists>ow \<in> set owners. OwnerKind ow = ''DaemonSet'')"
  by (induction owners) auto

lemma isEvictable_iff:
  "isEvictable pod \<longleftrightarrow>
     (\<forall>ow \<in> set (OwnerReferences pod). OwnerKind ow \<noteq> ''DaemonSet'') \<and>
     annotation (Annotations pod) ''kubernetes.io/config.mirror'' = '''' \<and>
     PodPhase pod \<notin> {''Succeeded'', ''Failed''}"
  by (auto simp: isEvictable_def owned_by_daemonset_iff)

text \<open>Pods that eviction may be asked for.\<close>

definition to_evict :: "pod \<Rightarrow> bool" where
  "to_evict pod \<longleftrightarrow> isEvictable pod \<and> DeletionTimestamp pod = None"

lemma only_evict_pods:
  assumes "\<And>pod r. pod \<in> set pods \<Longrightarrow> to_evict pod \<Longrightarrow> P (REvict c (Namespace pod, Name pod) r)"
  shows "only P (evict_pods E c pods n)"
  using assms
proof (induction pods arbitrary: n)
  case Nil
  then show ?case by (simp add: only_return)
next
  case (Cons pod pods n)
  have step: "only P (remote_evict E c (Namespace pod, Name pod))" if "to_evict pod"
    unfolding remote_evict_def using Cons.prems [of pod] that by (intro only_ask) simp
  have rest: "only P (evict_pods E c pods k)" for k
    using Cons by simp
  show ?case
    by (auto intro!: only_intros step rest simp: to_evict_def)
qed

text \<open>The number of pods counted is the number of evictable ones, terminating or not.\<close>

lemma evict_pods_pending:
  "wp (evict_pods E c pods n)
     (\<lambda>r _. \<forall>k. r = Inr k \<longrightarrow> k = n + length (filter isEvictable pods)) h"
proof (induction pods arbitrary: n h)
  case Nil
  then show ?case by (simp add: wp_simps)
next
  case (Cons pod pods n h)
  have rest: "isEvictable pod \<Longrightarrow> wp (evict_pods E c pods (Suc n))
     (\<lambda>r _. \<forall>k. r = Inr k \<longrightarrow> k = n + length (filter isEvictable (pod # pods))) h'" for h'
    using Cons.IH [of "Suc n" h'] by (rule wp_mono) simp
  show ?case
    using Cons.IH [of n h] rest
    by (auto simp: wp_simps remote_evict_def split: option.split)
qed

section \<open>Termination of the polling loop\<close>

text \<open>
  The documented behaviour of a ticker made at the reading of the clock that opens \<open>drainPods\<close>: its
  \<open>k\<close>-th tick is delivered no earlier than \<open>k\<close> intervals after that reading, so no clock reading
  behind \<open>k\<close> ticks shows less.
\<close>

definition ticks :: "event list \<Rightarrow> nat" where
  "ticks es = length (filter (\<lambda>e. e = TickWait None) es)"

definition ticker_law :: "env \<Rightarrow> hist \<Rightarrow> bool" where
  "ticker_law E h \<longleftrightarrow>
     (\<forall>es. clock (Host E) h + sint drainPollInterval * int (ticks es) \<le> clock (Host E) (h @ ClockRead # es))"

lemma ticks_simps [simp]:
  "ticks [] = 0" "ticks (xs @ ys) = ticks xs + ticks ys" "ticks (TickWait None # es) = Suc (ticks es)"
  "e \<noteq> TickWait None \<Longrightarrow> ticks (e # es) = ticks es"
  by (simp_all add: ticks_def)

lemma ticks_evict_pods:
  "wp (evict_pods E c pods n) (\<lambda>r h'. \<exists>es. h' = h @ es \<and> ticks es = 0) h"
proof (rule wp_only)
  show "only (\<lambda>e. e \<noteq> TickWait None) (evict_pods E c pods n)"
    by (rule only_evict_pods) simp
  show "list_all (\<lambda>e. e \<noteq> TickWait None) es \<Longrightarrow> \<exists>es'. h @ es = h @ es' \<and> ticks es' = 0" for es
    by (auto simp: ticks_def list_all_iff filter_empty_conv)
qed

text \<open>With \<open>k\<close> ticks behind it, fuel for the rest of the timeout is enough.\<close>

lemma drain_loop_returns:
  assumes law: "ticker_law E h0" and deadline: "deadline = clock (Host E) h0 + t"
    and fuel: "t < sint drainPollInterval * int (ticks es + f)"
  shows "wp (drain_loop (Suc f) E c n timeout deadline) (\<lambda>r _. r \<noteq> None) (h0 @ ClockRead # es)"
  using fuel
proof (induction f arbitrary: es)
  case 0
  have "\<not> clock (Host E) (h0 @ ClockRead # es) < deadline"
    using law [unfolded ticker_law_def, rule_format, of es] 0 deadline by simp
  then show ?case by (simp add: wp_simps time_Now_def)
next
  case (Suc f)
  have again: "wp (drain_loop (Suc f) E c n timeout deadline) (\<lambda>r _. r \<noteq> None)
      (h0 @ ClockRead # es @ ClockRead # CtxCheck # RListPods c n # es' @ [TickWait None])"
    if "ticks es' = 0" for es'
    using Suc.IH [of "es @ ClockRead # CtxCheck # RListPods c n # es' @ [TickWait None]"] Suc.prems that
    by simp
  have evicted: "wp (evict_pods E c pods 0)
      (\<lambda>e. wp (case e of
              Inl err \<Rightarrow> ret (Some (Some err))
            | Inr pending \<Rightarrow>
                if pending = 0 then ret (Some None)
                else do {
                  w \<leftarrow> wait_tick E;
                  case w of
                    Some err \<Rightarrow> ret (Some (Some err))
                  | None \<Rightarrow> drain_loop (Suc f) E c n timeout deadline
                }) (\<lambda>r _. r \<noteq> None)) (h0 @ ClockRead # es @ [ClockRead, CtxCheck, RListPods c n])"
    for pods
    by (rule wp_mono [OF ticks_evict_pods])
      (auto simp: wp_simps wait_tick_def again split: sum.splits option.splits simp del: drain_loop.simps not_None_eq)
  show ?case
    using evicted
    by (subst drain_loop.simps)
      (simp add: wp_simps time_Now_def ctx_Err_def remote_list_pods_def del: drain_loop.simps not_None_eq
        split: option.split sum.split)
qed

lemma drain_fuel_enough: "sint timeout < sint drainPollInterval * (int (drain_fuel timeout) - 1)"
proof (cases "0 \<le> sint timeout")
  case True
  have "sint timeout < 5000000000 * (sint timeout div 5000000000 + 1)"
    by presburger
  with True show ?thesis by (simp add: drain_fuel_def delay_defs nat_div_distrib zdiv_int)
next
  case False
  then show ?thesis by (simp add: drain_fuel_def delay_defs)
qed

text \<open>
  C26. The drain loop ends: with a ticker that waits at least the poll interval for each tick, the fuel
  that \<^verbatim>\<open>drainPods\<close> gives its loop is never used up, whatever the pods, the API server and the timeout.
\<close>

theorem drainPods_loop_returns:
  assumes "ticker_law E h"
  shows "wp (drain_loop (drain_fuel timeout) E c n timeout (clock (Host E) h + sint timeout))
           (\<lambda>r _. r \<noteq> None) (h @ [ClockRead])"
proof -
  obtain f where f: "drain_fuel timeout = Suc f" by (simp add: drain_fuel_def)
  have "sint timeout < sint drainPollInterval * int (ticks [] + f)"
    using drain_fuel_enough [of timeout] by (simp add: f)
  from drain_loop_returns [OF assms refl this] show ?thesis by (simp add: f)
qed

section \<open>What a successful drain has seen\<close>

text \<open>
  A drain succeeds only when the last listing of the node's pods has no evictable pod.
\<close>

definition listed_empty :: "env \<Rightarrow> remote_client \<Rightarrow> string \<Rightarrow> hist \<Rightarrow> bool" where
  "listed_empty E c n h' \<longleftrightarrow>
     (\<exists>g pods. h' = g @ [RListPods c n] \<and> rlist_pods (Remote E) g c n = Inr pods \<and>
        filter isEvictable pods = [])"

lemma evict_pods_none:
  "filter isEvictable pods = [] \<Longrightarrow> evict_pods E c pods n = ret (Inr n)"
  by (induction pods) (auto split: if_splits)

lemma drain_loop_success:
  "wp (drain_loop f E c n timeout deadline) (\<lambda>r h'. r = Some None \<longrightarrow> listed_empty E c n h') h"
proof (induction f arbitrary: h)
  case 0
  then show ?case by (simp add: wp_simps)
next
  case (Suc f)
  have evicted: "wp (evict_pods E c pods 0)
      (\<lambda>e. wp (case e of
              Inl err \<Rightarrow> ret (Some (Some err))
            | Inr pending \<Rightarrow>
                if pending = 0 then ret (Some None)
                else do {
                  w \<leftarrow> wait_tick E;
                  case w of
                    Some err \<Rightarrow> ret (Some (Some err))
                  | None \<Rightarrow> drain_loop f E c n timeout deadline
                }) (\<lambda>r h'. r = Some None \<longrightarrow> listed_empty E c n h'))
      (g @ [RListPods c n])"
    if listed: "rlist_pods (Remote E) g c n = Inr pods" for g pods
  proof (cases "filter isEvictable pods = []")
    case True
    with listed show ?thesis
      by (auto simp: evict_pods_none wp_simps listed_empty_def)
  next
    case False
    show ?thesis
      by (rule wp_mono [OF evict_pods_pending])
        (use False Suc in \<open>auto simp: wp_simps wait_tick_def split: sum.splits option.splits\<close>)
  qed
  show ?case
    using evicted [of "h @ [ClockRead, CtxCheck]"]
    by (simp add: wp_simps time_Now_def ctx_Err_def remote_list_pods_def split: option.split sum.split)
qed

section \<open>The order of a drain\<close>

text \<open>
  \<open>cordoned E start c n g\<close>: since \<open>start\<close>, the Kubernetes node was read as unschedulable, or an update
  that makes it so succeeded. \<open>listed E start c n pod g\<close>: since then a listing of its pods had \<open>pod\<close>.
\<close>

definition cordoned :: "env \<Rightarrow> hist \<Rightarrow> remote_client \<Rightarrow> hist \<Rightarrow> bool" where
  "cordoned E start c g \<longleftrightarrow>
     (\<exists>g0 e rest. g = g0 @ e # rest \<and> length start \<le> length g0 \<and>
        ((\<exists>n k. e = RGetNode c n \<and> rget_node (Remote E) g0 c n = Inr k \<and> Unschedulable k) \<or>
         (\<exists>k. e = RUpdateNode c k None \<and> Unschedulable k)))"

definition drain_guard :: "env \<Rightarrow> hist \<Rightarrow> hist \<Rightarrow> event \<Rightarrow> bool" where
  "drain_guard E start g e \<longleftrightarrow>
     (\<forall>c p r. e = REvict c p r \<longrightarrow>
        cordoned E start c g \<and>
        (\<exists>g0 n pods pod rest. g = g0 @ RListPods c n # rest \<and> rlist_pods (Remote E) g0 c n = Inr pods \<and>
           pod \<in> set pods \<and> to_evict pod \<and> p = (Namespace pod, Name pod))) \<and>
     (\<forall>c n r. e = RDeleteNode c n r \<longrightarrow> cordoned E start c g \<and> listed_empty E c n g)"

lemma cordoned_append: "cordoned E start c g \<Longrightarrow> cordoned E start c (g @ es)"
  unfolding cordoned_def by fastforce

lemma drain_guard_other:
  "(\<And>c p r. e \<noteq> REvict c p r) \<Longrightarrow> (\<And>c n r. e \<noteq> RDeleteNode c n r) \<Longrightarrow> drain_guard E start g e"
  by (simp add: drain_guard_def)

lemma cordonNode_cordons:
  assumes "length start \<le> length h"
  shows "wp (cordonNode E c n) (\<lambda>r g. r = None \<longrightarrow> cordoned E start c g) h"
proof -
  let ?Q = "\<lambda>r g. r = None \<longrightarrow> cordoned E start c g"
  have "wp (cordon_once E c n) (\<lambda>r g. ?Q r g \<and> length start \<le> length g) g" if later: "length start \<le> length g" for g
  proof -
    have found: "cordoned E start c (g @ [RGetNode c n])"
      if "rget_node (Remote E) g c n = Inr k" and "Unschedulable k" for k
      unfolding cordoned_def using that later by (intro exI [of _ g] exI [of _ "RGetNode c n"] exI) auto
    have made: "cordoned E start c (g @ [x, RUpdateNode c k None])" if "Unschedulable k" for x k
      unfolding cordoned_def using that later
      by (intro exI [of _ "g @ [x]"] exI [of _ "RUpdateNode c k None"] exI) auto
    show ?thesis
      using later found made
      by (auto simp: cordon_once_def remote_get_node_def remote_update_node_def wp_simps split: sum.split)
  qed
  then show ?thesis
    unfolding cordonNode_def using assms
    by (intro wp_RetryOnConflict_inv [where I = "\<lambda>g. length start \<le> length g"])
qed

lemma evict_pods_guarded:
  assumes "cordoned E start c g" and "rlist_pods (Remote E) g c n = Inr pods"
    and "\<And>r es. Q r ((g @ [RListPods c n]) @ es)"
  shows "wpg (drain_guard E start) (evict_pods E c pods 0) Q (g @ [RListPods c n])"
proof (rule wpg_extend [where P = "\<lambda>e. \<exists>pod \<in> set pods. to_evict pod \<and>
    (\<exists>r. e = REvict c (Namespace pod, Name pod) r)"])
  show "only (\<lambda>e. \<exists>pod \<in> set pods. to_evict pod \<and> (\<exists>r. e = REvict c (Namespace pod, Name pod) r))
      (evict_pods E c pods 0)"
    by (rule only_evict_pods) blast
  fix es e
  assume "\<exists>pod \<in> set pods. to_evict pod \<and> (\<exists>r. e = REvict c (Namespace pod, Name pod) r)"
  moreover have "cordoned E start c ((g @ [RListPods c n]) @ es)"
    using cordoned_append [OF assms(1), of "RListPods c n # es"] by simp
  ultimately show "drain_guard E start ((g @ [RListPods c n]) @ es) e"
    using assms(2) by (fastforce simp: drain_guard_def)
qed (rule assms(3))

lemma drain_loop_guarded:
  "cordoned E start c h \<Longrightarrow> wpg (drain_guard E start) (drain_loop f E c n t d) (\<lambda>_ g. cordoned E start c g) h"
proof (induction f arbitrary: h)
  case 0
  then show ?case by (simp add: wpg_return)
next
  case (Suc f)
  note more = cordoned_append [OF Suc.prems]
  show ?case
    unfolding drain_loop.simps time_Now_def ctx_Err_def remote_list_pods_def wait_tick_def
    by (intro wpg_intros evict_pods_guarded Suc.IH; (simp add: drain_guard_other more; fail)?)
qed

lemma wpg_and_wp: "wpg G m Q h \<Longrightarrow> wp m R h \<Longrightarrow> wpg G m (\<lambda>a s. Q a s \<and> R a s) h"
  by (auto simp: wpg_def wp_run_state)

lemma drainPods_guarded:
  assumes "cordoned E start c h" and "\<And>g. cordoned E start c g \<Longrightarrow> listed_empty E c n g \<Longrightarrow> Q None g"
    and "\<And>g e. Q (Some e) g"
  shows "wpg (drain_guard E start) (drainPods E c n t) Q h"
proof -
  have result: "Q r g" if "cordoned E start c g" and "r = None \<longrightarrow> listed_empty E c n g" for r g
    using that assms(2,3) by (cases r) simp_all
  have polled: "wpg (drain_guard E start) (drain_loop f E c n t d)
      (\<lambda>r g. cordoned E start c g \<and> (r = Some None \<longrightarrow> listed_empty E c n g)) (h @ [ClockRead])" for f d
    using cordoned_append [OF assms(1)]
    by (intro wpg_and_wp drain_loop_guarded drain_loop_success)
  show ?thesis
    unfolding drainPods_def time_Now_def
    by (intro wpg_intros wpg_mono [OF polled])
      (auto simp: drain_guard_other result assms(3) split: option.split)
qed

definition drain_quiet :: "event \<Rightarrow> bool" where
  "drain_quiet e \<longleftrightarrow> (\<forall>c p r. e \<noteq> REvict c p r) \<and> (\<forall>c n r. e \<noteq> RDeleteNode c n r)"

lemma drain_quiet_guard: "drain_quiet e \<Longrightarrow> drain_guard E start g e"
  unfolding drain_quiet_def by (intro drain_guard_other) blast+


end
