(* ===== verification/Conditions.thy ===== *)
theory Conditions
  imports Environment
begin

text \<open>
  The status conditions of \<^verbatim>\<open>internal/talos/conditions.go\<close>: lookup, update in place or append, and
  the contract both sides rely on as a locale.
\<close>

section \<open>Operations\<close>

fun HasCondition :: "condition list \<Rightarrow> string \<Rightarrow> condition_status \<Rightarrow> bool" where
  "HasCondition [] conditionType status = False"
| "HasCondition (c # conditions) conditionType status =
     (if CondType c = conditionType \<and> CondStatus c = status then True
      else HasCondition conditions conditionType status)"

text \<open>
  The loop of \<^verbatim>\<open>SetCondition\<close>: the first entry of the type is replaced in place and keeps its
  transition time when the status is the same; without one the condition is appended.
\<close>

fun SetCondition :: "time \<Rightarrow> condition list \<Rightarrow> condition \<Rightarrow> condition list" where
  "SetCondition now [] condition = [condition\<lparr>LastTransitionTime := now\<rparr>]"
| "SetCondition now (c # conditions) condition =
     (if CondType c \<noteq> CondType condition then c # SetCondition now conditions condition
      else if CondStatus c = CondStatus condition
        then condition\<lparr>LastTransitionTime := LastTransitionTime c\<rparr> # conditions
        else condition\<lparr>LastTransitionTime := now\<rparr> # conditions)"

definition set_condition_status ::
    "time \<Rightarrow> condition list \<Rightarrow> string \<Rightarrow> condition_status \<Rightarrow> string \<Rightarrow> message \<Rightarrow> condition list" where
  "set_condition_status now conditions condType status reason msg =
     SetCondition now conditions
       \<lparr>CondType = condType, CondStatus = status, LastTransitionTime = 0,
        CondReason = reason, CondMessage = msg\<rparr>"

definition SetConditionStatus ::
    "env \<Rightarrow> condition list \<Rightarrow> string \<Rightarrow> condition_status \<Rightarrow> string \<Rightarrow> message \<Rightarrow> condition list prog" where
  "SetConditionStatus E conditions condType status reason msg = do {
     now \<leftarrow> time_Now E;
     ret (set_condition_status now conditions condType status reason msg)
   }"

section \<open>The contract of a condition store\<close>

locale condition_store =
  fixes has :: "'c \<Rightarrow> string \<Rightarrow> condition_status \<Rightarrow> bool"
    and put :: "'c \<Rightarrow> string \<Rightarrow> condition_status \<Rightarrow> 'c"
    and wf :: "'c \<Rightarrow> bool"
  assumes has_put_same: "wf c \<Longrightarrow> has (put c t s) t s' \<longleftrightarrow> s' = s"
    and has_put_other: "t' \<noteq> t \<Longrightarrow> has (put c t s) t' s' \<longleftrightarrow> has c t' s'"
    and wf_put: "wf c \<Longrightarrow> wf (put c t s)"
begin

lemma put_visible: "wf c \<Longrightarrow> has (put c t s) t s"
  by (simp add: has_put_same)

lemma put_overrides: "wf c \<Longrightarrow> s \<noteq> s' \<Longrightarrow> \<not> has (put (put c t s') t s) t s'"
  by (simp add: has_put_same wf_put)

lemma put_commutes: "wf c \<Longrightarrow> t \<noteq> u \<Longrightarrow> has (put (put c t s) u s') x y \<longleftrightarrow> has (put (put c u s') t s) x y"
  by (cases "x = t"; cases "x = u") (auto simp: has_put_same has_put_other wf_put)

end

text \<open>The API requires at most one condition of a type: this is the store's invariant.\<close>

definition wf_conditions :: "condition list \<Rightarrow> bool" where
  "wf_conditions cs \<longleftrightarrow> distinct (map CondType cs)"

lemma HasCondition_iff: "HasCondition cs t s \<longleftrightarrow> (\<exists>c \<in> set cs. CondType c = t \<and> CondStatus c = s)"
  by (induction cs) auto

lemma SetCondition_types:
  "set (map CondType (SetCondition now cs c)) = insert (CondType c) (set (map CondType cs))"
  by (induction cs) auto

lemma SetCondition_wf: "wf_conditions cs \<Longrightarrow> wf_conditions (SetCondition now cs c)"
proof (induction cs)
  case Nil
  then show ?case by (simp add: wf_conditions_def)
next
  case (Cons d cs)
  then show ?case
    using SetCondition_types [of now cs c] by (auto simp: wf_conditions_def)
qed

lemma SetCondition_has: "HasCondition (SetCondition now cs c) (CondType c) (CondStatus c)"
  by (induction cs) auto

lemma SetCondition_other:
  "t \<noteq> CondType c \<Longrightarrow> HasCondition (SetCondition now cs c) t s \<longleftrightarrow> HasCondition cs t s"
  by (induction cs) auto

lemma SetCondition_same:
  assumes "wf_conditions cs"
  shows "HasCondition (SetCondition now cs c) (CondType c) s \<longleftrightarrow> s = CondStatus c"
  using assms
proof (induction cs)
  case Nil
  then show ?case by auto
next
  case (Cons d cs)
  then show ?case by (auto simp: wf_conditions_def HasCondition_iff image_iff)
qed

interpretation conds: condition_store HasCondition
    "\<lambda>cs t s. set_condition_status now cs t s reason msg" wf_conditions
proof
  fix c :: "condition list" and t s s'
  let ?c = "\<lparr>CondType = t, CondStatus = s, LastTransitionTime = 0, CondReason = reason, CondMessage = msg\<rparr>"
  show "wf_conditions c \<Longrightarrow> HasCondition (set_condition_status now c t s reason msg) t s' \<longleftrightarrow> s' = s"
    using SetCondition_same [of c now ?c s'] by (simp add: set_condition_status_def)
  show "wf_conditions c \<Longrightarrow> wf_conditions (set_condition_status now c t s reason msg)"
    by (simp add: set_condition_status_def SetCondition_wf)
  fix t' assume "t' \<noteq> t"
  then show "HasCondition (set_condition_status now c t s reason msg) t' s' \<longleftrightarrow> HasCondition c t' s'"
    by (simp add: set_condition_status_def SetCondition_other)
qed

lemma has_set_condition_status [simp]:
  "HasCondition (set_condition_status now cs t s reason msg) t s"
  using SetCondition_has [of now cs "\<lparr>CondType = t, CondStatus = s, LastTransitionTime = 0,
      CondReason = reason, CondMessage = msg\<rparr>"]
  by (simp add: set_condition_status_def)

lemmas has_set_condition_other [simp] = conds.has_put_other

lemma only_SetConditionStatus [only_intros]:
  "P ClockRead \<Longrightarrow> only P (SetConditionStatus E cs t s r m)"
  unfolding SetConditionStatus_def time_Now_def by (intro only_intros) simp

lemma wp_SetConditionStatus [wp_simps]:
  "wp (SetConditionStatus E cs t s r m) Q h =
     Q (set_condition_status (clock (Host E) h) cs t s r m) (h @ [ClockRead])"
  by (simp add: SetConditionStatus_def time_Now_def wp_simps)

lemma wpg_SetConditionStatus [wpg_intros]:
  "G h ClockRead \<Longrightarrow> Q (set_condition_status (clock (Host E) h) cs t s r m) (h @ [ClockRead]) \<Longrightarrow>
   wpg G (SetConditionStatus E cs t s r m) Q h"
  unfolding SetConditionStatus_def time_Now_def by (intro wpg_intros) simp_all

text \<open>The transition time of a condition moves exactly when its status does.\<close>

definition transition_time :: "condition list \<Rightarrow> string \<Rightarrow> time option" where
  "transition_time cs t = map_option LastTransitionTime (find (\<lambda>c. CondType c = t) cs)"

definition status_of :: "condition list \<Rightarrow> string \<Rightarrow> condition_status option" where
  "status_of cs t = map_option CondStatus (find (\<lambda>c. CondType c = t) cs)"

text \<open>
  Setting a condition makes it hold with the given status and no other, leaves every condition of
  another type as it was, and keeps the list free of duplicates.
\<close>

theorem SetConditionStatus_contract:
  assumes "wf_conditions cs"
  shows "wp (SetConditionStatus E cs t s reason msg)
           (\<lambda>cs' _. wf_conditions cs' \<and>
              (\<forall>t' s'. HasCondition cs' t' s' = (if t' = t then s' = s else HasCondition cs t' s'))) h"
  using assms by (simp add: wp_SetConditionStatus conds.wf_put conds.has_put_same)

text \<open>
  The transition time of a condition moves exactly when its status does: it is kept when the
  condition was there with the same status and is the clock otherwise.
\<close>

theorem SetCondition_transition_time:
  "transition_time (SetCondition now cs c) (CondType c) =
     (if status_of cs (CondType c) = Some (CondStatus c) then transition_time cs (CondType c)
      else Some now)"
  by (induction cs) (auto simp: transition_time_def status_of_def split: if_splits)

end
