(* ===== verification/Finalizers.thy ===== *)
theory Finalizers
  imports Environment
begin

text \<open>
  The finalizer list of \<^verbatim>\<open>internal/talos/finalizer.go\<close>, its contract as a locale, and the operations
  of \<^verbatim>\<open>internal/controller/helpers.go\<close> that rest on it alone.
\<close>

section \<open>Operations\<close>

fun ContainsFinalizer :: "string list \<Rightarrow> string \<Rightarrow> bool" where
  "ContainsFinalizer [] finalizer = False"
| "ContainsFinalizer (f # list) finalizer =
     (if f = finalizer then True else ContainsFinalizer list finalizer)"

definition AddFinalizer :: "string list \<Rightarrow> string \<Rightarrow> string list" where
  "AddFinalizer list finalizer =
     (if \<not> ContainsFinalizer list finalizer then list @ [finalizer] else list)"

fun RemoveFinalizer :: "string list \<Rightarrow> string \<Rightarrow> string list" where
  "RemoveFinalizer [] finalizer = []"
| "RemoveFinalizer (f # list) finalizer =
     (if f \<noteq> finalizer then f # RemoveFinalizer list finalizer
      else RemoveFinalizer list finalizer)"

section \<open>The contract of a finalizer list\<close>

text \<open>
  What a controller relies on: adding makes the finalizer present, removing makes it absent, and
  neither touches another finalizer; adding where it is present changes nothing.
\<close>

locale finalizer_list =
  fixes contains :: "'l \<Rightarrow> 'f \<Rightarrow> bool"
    and add :: "'l \<Rightarrow> 'f \<Rightarrow> 'l"
    and remove :: "'l \<Rightarrow> 'f \<Rightarrow> 'l"
  assumes contains_add: "contains (add l f) g \<longleftrightarrow> g = f \<or> contains l g"
    and contains_remove: "contains (remove l f) g \<longleftrightarrow> g \<noteq> f \<and> contains l g"
    and add_present: "contains l f \<Longrightarrow> add l f = l"
begin

lemma add_idem: "add (add l f) f = add l f"
  by (rule add_present) (simp add: contains_add)

lemma removed_is_absent: "\<not> contains (remove l f) f"
  by (simp add: contains_remove)

lemma others_survive_cycle: "g \<noteq> f \<Longrightarrow> contains (remove (add l f) f) g \<longleftrightarrow> contains l g"
  by (simp add: contains_add contains_remove)

end

lemma ContainsFinalizer_set: "ContainsFinalizer list f \<longleftrightarrow> f \<in> set list"
  by (induction list) auto

lemma RemoveFinalizer_filter: "RemoveFinalizer list f = filter (\<lambda>g. g \<noteq> f) list"
  by (induction list) simp_all

lemma AddFinalizer_set: "set (AddFinalizer list f) = insert f (set list)"
  by (auto simp: AddFinalizer_def ContainsFinalizer_set)

interpretation fin: finalizer_list ContainsFinalizer AddFinalizer RemoveFinalizer
  by unfold_locales
    (auto simp: ContainsFinalizer_set AddFinalizer_set RemoveFinalizer_filter AddFinalizer_def)

lemma AddFinalizer_distinct: "distinct list \<Longrightarrow> distinct (AddFinalizer list f)"
  by (simp add: AddFinalizer_def ContainsFinalizer_set)

lemma RemoveFinalizer_AddFinalizer:
  "\<not> ContainsFinalizer list f \<Longrightarrow> RemoveFinalizer (AddFinalizer list f) f = list"
  by (auto simp: AddFinalizer_def RemoveFinalizer_filter ContainsFinalizer_set filter_id_conv)

text \<open>
  The finalizer life cycle: adding is idempotent and makes the finalizer present, removing makes
  it absent, no other finalizer is touched by either, and removing what was added to a list without
  it restores the list.
\<close>

theorem finalizer_cycle:
  "AddFinalizer (AddFinalizer l f) f = AddFinalizer l f
   \<and> ContainsFinalizer (AddFinalizer l f) f
   \<and> ContainsFinalizer (RemoveFinalizer l f) g = (g \<noteq> f \<and> ContainsFinalizer l g)
   \<and> ContainsFinalizer (AddFinalizer l f) g = (g = f \<or> ContainsFinalizer l g)
   \<and> RemoveFinalizer (AddFinalizer l f) f = (if ContainsFinalizer l f then RemoveFinalizer l f else l)"
  by (simp add: fin.add_idem fin.contains_add fin.contains_remove fin.add_present
      RemoveFinalizer_AddFinalizer)

section \<open>ensureFinalizer\<close>

text \<open>
  The Go function works on any \<^verbatim>\<open>client.Object\<close>: here it takes the update call of the object's
  type. It returns the error, if any, and the object as it is in memory afterwards: the server's
  answer on success, the locally changed object on failure.
\<close>

definition ensureFinalizer ::
    "('a object_meta_scheme \<Rightarrow> (gerror + 'a object_meta_scheme) prog) \<Rightarrow>
     'a object_meta_scheme \<Rightarrow> (gerror option \<times> 'a object_meta_scheme) prog" where
  "ensureFinalizer update obj =
     (if ContainsFinalizer (Finalizers obj) FinalizerCleanup then ret (None, obj)
      else do {
        let obj' = obj\<lparr>Finalizers := AddFinalizer (Finalizers obj) FinalizerCleanup\<rparr>;
        r \<leftarrow> update obj';
        case r of
          Inl err \<Rightarrow> ret (Some (ErrWrap ''add finalizer: %w'' [] err), obj')
        | Inr obj'' \<Rightarrow> ret (None, obj'')
      })"

lemma ensureFinalizer_present:
  "ContainsFinalizer (Finalizers obj) FinalizerCleanup \<Longrightarrow> ensureFinalizer update obj = ret (None, obj)"
  by (simp add: ensureFinalizer_def)

lemma only_ensureFinalizer [only_intros]:
  assumes "\<And>obj. only P (update obj)"
  shows "only P (ensureFinalizer update obj)"
  unfolding ensureFinalizer_def by (intro only_intros assms)

end
