(* ===== verification/Patches.thy ===== *)
theory Patches
  imports SecretStore
begin

text \<open>
  The patch engine of \<^verbatim>\<open>talosnode_controller.go\<close>: \<^verbatim>\<open>mergePatches\<close>, \<^verbatim>\<open>applyRawPatch\<close> and
  \<^verbatim>\<open>configsDiffer\<close>, with the algebra of the deep merge.

  Go ranges over the patch once per key, in no particular order; since the entries of different
  keys do not interact, the merged map is given key by key.
\<close>

section \<open>Deep merge\<close>

text \<open>
  \<open>merge_value old v\<close> is what the loop body stores for a patch entry \<open>v\<close> over the entry \<open>old\<close> of the
  base: two mappings are merged, anything else is replaced.
\<close>

primrec merge_value :: "yval \<Rightarrow> yval option \<Rightarrow> yval"
  and merge_entry :: "yval option \<Rightarrow> yval option \<Rightarrow> yval option"
where
  "merge_value YNull old = YNull"
| "merge_value (YBool b) old = YBool b"
| "merge_value (YNum n) old = YNum n"
| "merge_value (YStr s) old = YStr s"
| "merge_value (YSeq xs) old = YSeq xs"
| "merge_value (YMap p) old =
     (case old of
        Some (YMap b) \<Rightarrow> YMap (\<lambda>k. merge_entry (p k) (b k))
      | _ \<Rightarrow> YMap p)"
| "merge_entry None old = old"
| "merge_entry (Some v) old = Some (merge_value v old)"

definition merge_maps :: "ymap \<Rightarrow> ymap \<Rightarrow> ymap" where
  "merge_maps base patch = (\<lambda>k. merge_entry (patch k) (base k))"

text \<open>A nil map ranges like an empty one; the result is never nil.\<close>

definition entries :: "ymap option \<Rightarrow> ymap" where
  "entries m = (case m of None \<Rightarrow> Map.empty | Some f \<Rightarrow> f)"

definition mergePatches :: "ymap option \<Rightarrow> ymap option \<Rightarrow> ymap option" where
  "mergePatches base patch = Some (merge_maps (entries base) (entries patch))"

section \<open>Applying one patch\<close>

definition applyRawPatch ::
    "env \<Rightarrow> bytes \<Rightarrow> ymap option \<Rightarrow> string list \<Rightarrow> gerror + ymap option \<times> string list" where
  "applyRawPatch E raw baseConfig standalonePatches =
     (case yaml_unmarshal (Lib E) raw of
        Inl err \<Rightarrow> Inl (ErrWrap ''unmarshal patch: %w'' [] err)
      | Inr p \<Rightarrow>
          (case entries p ''apiVersion'' of
             Some _ \<Rightarrow> Inr (baseConfig, standalonePatches @ [TrimSpace raw])
           | None \<Rightarrow> Inr (mergePatches baseConfig p, standalonePatches)))"

definition configsDiffer :: "env \<Rightarrow> bytes \<Rightarrow> bytes \<Rightarrow> gerror + bool" where
  "configsDiffer E local remote =
     (case yaml_unmarshal (Lib E) local of
        Inl err \<Rightarrow> Inl (ErrWrap ''parse local config: %w'' [] err)
      | Inr localMap \<Rightarrow>
          (case yaml_unmarshal (Lib E) remote of
             Inl err \<Rightarrow> Inl (ErrWrap ''parse remote config: %w'' [] err)
           | Inr remoteMap \<Rightarrow> Inr (localMap \<noteq> remoteMap)))"

text \<open>The inline patches in order, then the standalone documents behind the marshalled base.\<close>

fun applyInlinePatches ::
    "env \<Rightarrow> bytes list \<Rightarrow> ymap option \<Rightarrow> string list \<Rightarrow> gerror + ymap option \<times> string list" where
  "applyInlinePatches E [] baseConfig standalone = Inr (baseConfig, standalone)"
| "applyInlinePatches E (patch # patches) baseConfig standalone =
     (case applyRawPatch E patch baseConfig standalone of
        Inl err \<Rightarrow> Inl (ErrWrap ''apply inline patch: %w'' [] err)
      | Inr (baseConfig', standalone') \<Rightarrow> applyInlinePatches E patches baseConfig' standalone')"

definition newline :: string where
  "newline = [byte 10]"

fun appendDocuments :: "bytes \<Rightarrow> string list \<Rightarrow> bytes" where
  "appendDocuments configBytes [] = configBytes"
| "appendDocuments configBytes (doc # docs) =
     appendDocuments (configBytes @ newline @ ''---'' @ newline @ doc @ newline) docs"

section \<open>Paths\<close>

text \<open>
  The value at a path of keys, and the abstract view of a merge: the patch decides every path it
  sets below mappings, and leaves every other path to the base.
\<close>

fun lookup_path :: "yval option \<Rightarrow> string list \<Rightarrow> yval option" where
  "lookup_path v [] = v"
| "lookup_path (Some (YMap m)) (k # ks) = lookup_path (m k) ks"
| "lookup_path _ (k # ks) = None"

lemma lookup_path_None [simp]: "lookup_path None ks = None"
  by (cases ks) simp_all

definition is_map :: "yval \<Rightarrow> bool" where
  "is_map v = (case v of YMap _ \<Rightarrow> True | _ \<Rightarrow> False)"

lemma merge_value_scalar: "\<not> is_map v \<Longrightarrow> merge_value v old = v"
  by (cases v) (simp_all add: is_map_def)

lemma merge_value_over_scalar: "(\<And>b. old \<noteq> Some (YMap b)) \<Longrightarrow> merge_value v old = v"
  by (cases v) (auto split: option.splits yval.splits)

lemma merge_entry_None [simp]: "merge_entry x None = x"
  by (cases x) (simp_all add: merge_value_over_scalar)

lemma lookup_path_ConsE:
  assumes "lookup_path v (k # ks) = Some x"
  obtains m where "v = Some (YMap m)" and "lookup_path (m k) ks = Some x"
proof (cases v)
  case None
  with assms show ?thesis by simp
next
  case (Some w)
  with assms that show ?thesis by (cases w) simp_all
qed

text \<open>What the patch holds at a path that leads to a scalar or a sequence wins.\<close>

lemma merge_entry_patch_wins:
  assumes "lookup_path p ks = Some v" and "\<not> is_map v"
  shows "lookup_path (merge_entry p b) ks = Some v"
  using assms
proof (induction ks arbitrary: p b)
  case Nil
  then show ?case by (simp add: merge_value_scalar)
next
  case (Cons k ks p b)
  from Cons.prems(1) obtain m where "p = Some (YMap m)" and "lookup_path (m k) ks = Some v"
    by (rule lookup_path_ConsE)
  with Cons show ?case
    by (auto split: option.split yval.split)
qed

text \<open>A path that leaves the patch inside a mapping keeps the value of the base.\<close>

lemma merge_entry_base_kept:
  assumes "lookup_path p (ks @ [k]) = None" and "lookup_path p ks = Some (YMap m)"
    and "lookup_path b (ks @ [k]) = Some v"
  shows "lookup_path (merge_entry p b) (ks @ [k]) = Some v"
  using assms
proof (induction ks arbitrary: p b)
  case (Nil p b)
  from Nil.prems(3) obtain g where "b = Some (YMap g)" and "g k = Some v"
    by (auto elim: lookup_path_ConsE)
  with Nil.prems(1,2) show ?case by simp
next
  case (Cons j ks p b)
  from Cons.prems(2,3) obtain f g where "p = Some (YMap f)" and "b = Some (YMap g)"
    by (auto elim!: lookup_path_ConsE)
  with Cons show ?case by simp
qed

text \<open>
  \<open>blocked p ks\<close>: on the way down the path, before its end, the patch holds something that is not a
  mapping.
\<close>

fun blocked :: "yval option \<Rightarrow> string list \<Rightarrow> bool" where
  "blocked v [] = False"
| "blocked (Some (YMap m)) (k # ks) = blocked (m k) ks"
| "blocked (Some _) (k # ks) = True"
| "blocked None (k # ks) = False"

lemma blocked_None [simp]: "\<not> blocked None ks"
  by (cases ks) simp_all

lemma lookup_merge_entry:
  "lookup_path (merge_entry p b) ks =
     (case lookup_path p ks of
        Some v \<Rightarrow> Some (merge_value v (lookup_path b ks))
      | None \<Rightarrow> if blocked p ks then None else lookup_path b ks)"
proof (induction ks arbitrary: p b)
  case Nil
  then show ?case by (cases p) simp_all
next
  case (Cons k ks p b)
  show ?case
  proof (cases "\<exists>f. p = Some (YMap f)")
    case True
    then obtain f where f: "p = Some (YMap f)" by blast
    show ?thesis
    proof (cases "\<exists>g. b = Some (YMap g)")
      case True
      then show ?thesis using f Cons by (auto split: option.split)
    next
      case False
      then have "lookup_path b (k # ks) = None" using lookup_path_ConsE by (metis not_None_eq)
      with False f show ?thesis
        by (auto simp: merge_value_over_scalar split: option.split yval.split)
    qed
  next
    case False
    then show ?thesis by (cases p; cases "the p") (auto split: option.split)
  qed
qed

text \<open>
  C33. The deep merge, path by path: where the patch has a value, the result has that value merged over
  the base's at the same path (so a scalar or a list of the patch replaces what was there); where the
  patch has none, the result keeps the base's value, except below a key that the patch overrides with
  something that is not a mapping.
\<close>

theorem mergePatches_paths:
  "lookup_path (Some (YMap (entries (mergePatches base patch)))) ks =
     (let p = Some (YMap (entries patch)); b = Some (YMap (entries base)) in
      case lookup_path p ks of
        Some v \<Rightarrow> Some (merge_value v (lookup_path b ks))
      | None \<Rightarrow> if blocked p ks then None else lookup_path b ks)"
proof -
  have "Some (YMap (entries (mergePatches base patch))) =
      merge_entry (Some (YMap (entries patch))) (Some (YMap (entries base)))"
    by (simp add: mergePatches_def entries_def merge_maps_def)
  then show ?thesis by (simp only: lookup_merge_entry Let_def)
qed

text \<open>Merging the same patch twice changes nothing more.\<close>

lemma merge_value_idem: "merge_value v (Some (merge_value v old)) = merge_value v old"
proof (induction v arbitrary: old)
  case (YMap p)
  have in_range: "p k \<in> range p" for k by simp
  have below: "merge_value x (Some (merge_value x old')) = merge_value x old'"
    if "p k = Some x" for k x old'
    using YMap.IH [of "p k" x old'] in_range [of k] that by simp
  then have "merge_entry (p k) (merge_entry (p k) old') = merge_entry (p k) old'" for k old'
    by (cases "p k") (simp_all add: below)
  moreover have "merge_entry (p k) (p k) = p k" for k
    using below [of k _ None] by (cases "p k") (simp_all add: merge_value_over_scalar)
  ultimately show ?case
    by (auto simp: fun_eq_iff split: option.split yval.split)
qed simp_all

lemma merge_entry_idem: "merge_entry x (merge_entry x old) = merge_entry x old"
  by (cases x) (simp_all add: merge_value_idem)

text \<open>
  Merging the same patch twice is merging it once, so a rendered configuration does not depend on how
  often a patch is listed in a row.
\<close>

theorem mergePatches_idem: "mergePatches (mergePatches base patch) patch = mergePatches base patch"
  by (simp add: mergePatches_def entries_def merge_maps_def merge_entry_idem)

lemma mergePatches_keys:
  "dom (merge_maps base patch) = dom base \<union> dom patch"
  by (auto simp: merge_maps_def dom_def) (metis merge_entry.simps option.exhaust)+

lemma mergePatches_nil_patch: "entries (mergePatches base None) = entries base"
  by (simp add: mergePatches_def entries_def merge_maps_def)

lemma mergePatches_nil_base: "entries (mergePatches None patch) = entries patch"
  by (simp add: mergePatches_def entries_def merge_maps_def)

text \<open>
  Patches without a conflict commute: where no path of one is decided by the other, the order in
  which \<^verbatim>\<open>spec.patches\<close> lists them does not matter. Here for patches over different top-level keys.
\<close>

lemma merge_maps_commute:
  "dom p \<inter> dom q = {} \<Longrightarrow> merge_maps (merge_maps b p) q = merge_maps (merge_maps b q) p"
proof
  fix k assume "dom p \<inter> dom q = {}"
  then have "p k = None \<or> q k = None" by blast
  then show "merge_maps (merge_maps b p) q k = merge_maps (merge_maps b q) p k"
    by (auto simp: merge_maps_def)
qed

section \<open>The documents of a rendered configuration\<close>

lemma appendDocuments_append:
  "appendDocuments bs (xs @ ys) = appendDocuments (appendDocuments bs xs) ys"
  by (induction xs arbitrary: bs) simp_all

lemma appendDocuments_concat:
  "appendDocuments bs docs =
     bs @ concat (map (\<lambda>doc. newline @ ''---'' @ newline @ doc @ newline) docs)"
  by (induction docs arbitrary: bs) simp_all

lemma applyRawPatch_standalone:
  "applyRawPatch E raw b ss = Inr (b', ss') \<Longrightarrow> \<exists>new. ss' = ss @ new \<and> length new \<le> 1"
  by (auto simp: applyRawPatch_def split: sum.splits option.splits)

end
