(* ===== verification/Versions.thy ===== *)
theory Versions
  imports SecretStore
begin

text \<open>
  Versions, installer images and extension lists: the pure functions of
  \<^verbatim>\<open>talosnode_upgrade.go\<close> and \<^verbatim>\<open>talosnode_extensions.go\<close>, and the Image Factory client of
  \<^verbatim>\<open>internal/factory/factory.go\<close>.
\<close>

section \<open>Images and versions\<close>

definition versionFromImage :: "string \<Rightarrow> string" where
  "versionFromImage img =
     (let i = LastIndex img CHR '':''
      in if i < 0 \<or> i = int (length img) - 1 then [] else drop (nat (i + 1)) img)"

text \<open>
  \<^verbatim>\<open>semver.ParseTolerant\<close> and \<^verbatim>\<open>GT\<close> are the environment's; an unparseable version is never a downgrade.
\<close>

definition isDowngrade :: "env \<Rightarrow> string \<Rightarrow> string \<Rightarrow> bool" where
  "isDowngrade E current target =
     (if current = [] \<or> target = [] then False
      else case semver_parse (Lib E) current of
             None \<Rightarrow> False
           | Some cv \<Rightarrow>
               (case semver_parse (Lib E) target of
                  None \<Rightarrow> False
                | Some tv \<Rightarrow> semver_gt (Lib E) cv tv))"

definition normalizeVersion :: "string \<Rightarrow> string" where
  "normalizeVersion v = (if v \<noteq> [] \<and> \<not> HasPrefix v ''v'' then ''v'' @ v else v)"

definition canonicalExtensions :: "string list \<Rightarrow> string" where
  "canonicalExtensions extensions = Join (sort_Strings extensions) '',''"

section \<open>Facts\<close>

lemma versionFromImage_tagged:
  "CHR '':'' \<notin> set v \<Longrightarrow> v \<noteq> [] \<Longrightarrow> versionFromImage (repo @ CHR '':'' # v) = v"
  by (simp add: versionFromImage_def LastIndex_append Let_def nat_add_distrib)

lemma versionFromImage_no_tag: "CHR '':'' \<notin> set img \<Longrightarrow> versionFromImage img = []"
  by (simp add: versionFromImage_def LastIndex_absent)

lemma versionFromImage_empty_tag: "versionFromImage (repo @ '':'') = []"
  using LastIndex_append [of "CHR '':''" "[]" repo] by (simp add: versionFromImage_def)

text \<open>The inverse direction: an image whose version is not empty ends in a colon and that version.\<close>

lemma versionFromImage_inverse:
  assumes "versionFromImage img \<noteq> []"
  shows "\<exists>repo. img = repo @ CHR '':'' # versionFromImage img \<and> CHR '':'' \<notin> set (versionFromImage img)"
proof -
  have "CHR '':'' \<in> set img"
    using assms versionFromImage_no_tag by blast
  then obtain repo v where img: "img = repo @ CHR '':'' # v" and v: "CHR '':'' \<notin> set v"
    using split_list_last by force
  have "v \<noteq> []" using assms img versionFromImage_empty_tag by auto
  with img v show ?thesis by (auto simp: versionFromImage_tagged)
qed

lemma normalizeVersion_idem: "normalizeVersion (normalizeVersion v) = normalizeVersion v"
  by (simp add: normalizeVersion_def HasPrefix_def)

lemma normalizeVersion_prefix: "v \<noteq> [] \<Longrightarrow> HasPrefix (normalizeVersion v) ''v''"
  by (simp add: normalizeVersion_def HasPrefix_def)

lemma normalizeVersion_with_v: "HasPrefix v ''v'' \<Longrightarrow> normalizeVersion v = v"
  by (simp add: normalizeVersion_def)

lemma canonicalExtensions_order: "mset xs = mset ys \<Longrightarrow> canonicalExtensions xs = canonicalExtensions ys"
  using sort_Strings_mset [of xs ys] by (simp add: canonicalExtensions_def)

lemma set_sort_Strings [simp]: "set (sort_Strings xs) = set xs"
  by (simp add: sort_Strings_def)

lemma sort_Strings_eq_Nil [simp]: "sort_Strings xs = [] \<longleftrightarrow> xs = []"
  by (metis set_empty set_sort_Strings)

lemma canonicalExtensions_inject:
  assumes "canonicalExtensions xs = canonicalExtensions ys"
    and "\<forall>s \<in> set xs. CHR '','' \<notin> set s" and "\<forall>s \<in> set ys. CHR '','' \<notin> set s"
    and "xs \<noteq> []" and "ys \<noteq> []"
  shows "mset xs = mset ys"
proof -
  have "sort_Strings xs = sort_Strings ys"
    using assms by (intro Join_inject [of _ "CHR '',''"]) (auto simp: canonicalExtensions_def)
  then show ?thesis by (simp add: sort_Strings_mset)
qed

lemma canonicalExtensions_Nil: "canonicalExtensions [] = []"
  by (simp add: canonicalExtensions_def sort_Strings_def)

lemma canonicalExtensions_nonempty:
  assumes "xs \<noteq> []" and "\<forall>s \<in> set xs. s \<noteq> []"
  shows "canonicalExtensions xs \<noteq> []"
proof (cases "sort_Strings xs")
  case Nil
  with assms show ?thesis by simp
next
  case (Cons s ss)
  then have "s \<in> set xs" by (metis list.set_intros(1) set_sort_Strings)
  with assms Cons show ?thesis
    by (cases ss) (auto simp: canonicalExtensions_def)
qed

lemma isDowngrade_irreflexive:
  "(\<And>v. \<not> semver_gt (Lib E) v v) \<Longrightarrow> \<not> isDowngrade E v v"
  by (auto simp: isDowngrade_def split: option.splits)

section \<open>The Image Factory client\<close>

record http_client =
  BaseURL :: string
  ClientTimeout :: duration

definition DefaultURL :: string where
  "DefaultURL = ''https://factory.talos.dev''"

definition factory_NewWithURL :: "string \<Rightarrow> http_client" where
  "factory_NewWithURL baseURL = \<lparr>BaseURL = baseURL, ClientTimeout = 30 * Second\<rparr>"

definition factory_New :: "http_client" where
  "factory_New = \<lparr>BaseURL = DefaultURL, ClientTimeout = 30 * Second\<rparr>"

definition CreateSchematic :: "env \<Rightarrow> http_client \<Rightarrow> string list \<Rightarrow> (gerror + string) prog" where
  "CreateSchematic E c extensions =
     (case schematic_marshal (Lib E) extensions of
        Inl err \<Rightarrow> ret (Inl (ErrWrap ''marshal request: %w'' [] err))
      | Inr body \<Rightarrow>
          let url = BaseURL c @ ''/schematics'' in
          (case request_valid (Lib E) url of
             Some err \<Rightarrow> ret (Inl (ErrWrap ''build request: %w'' [] err))
           | None \<Rightarrow> do {
               r \<leftarrow> http_Do E \<lparr>HttpMethod = ''POST'', HttpURL = url,
                              HttpContentType = ''application/json'', HttpBody = body,
                              HttpTimeout = ClientTimeout c\<rparr>;
               case r of
                 Inl err \<Rightarrow> ret (Inl (ErrWrap ''post schematic: %w'' [] err))
               | Inr resp \<Rightarrow>
                   if StatusCode resp \<noteq> 201
                   then ret (Inl (ErrFmt ''factory returned HTTP %d: %s''
                                   [FInt (StatusCode resp), FStr (RespBody resp)]))
                   else
                     (case schematic_decode (Lib E) (RespBody resp) of
                        Inl err \<Rightarrow> ret (Inl (ErrWrap ''decode response: %w'' [] err))
                      | Inr sid \<Rightarrow>
                          if sid = []
                          then ret (Inl (ErrFmt ''factory returned empty schematic ID'' []))
                          else ret (Inr sid))
             }))"

lemma only_CreateSchematic [only_intros]:
  "(\<And>q. P (HttpDo q)) \<Longrightarrow> only P (CreateSchematic E c xs)"
  unfolding CreateSchematic_def http_Do_def by (intro only_intros) simp

lemma CreateSchematic_nonempty: "wp (CreateSchematic E c xs) (\<lambda>r _. r \<noteq> Inr []) h"
  by (auto simp: CreateSchematic_def http_Do_def wp_simps Let_def split: sum.split option.split)

text \<open>
  The tag of an image reference: the version read off an image is \<open>v\<close>, for a \<open>v\<close> that is not
  empty, exactly when the image ends in a colon and \<open>v\<close>, and \<open>v\<close> has no colon of its own.
\<close>

theorem versionFromImage_iff:
  "(versionFromImage img = v \<and> v \<noteq> []) =
     ((\<exists>repo. img = repo @ CHR '':'' # v) \<and> CHR '':'' \<notin> set v \<and> v \<noteq> [])"
  using versionFromImage_inverse [of img] by (auto simp: versionFromImage_tagged)

text \<open>
  The recorded form of an extension list: two lists of names without commas have the same form
  exactly when they hold the same extensions, as often, in any order.
\<close>

theorem canonicalExtensions_iff:
  assumes "\<forall>s \<in> set xs. CHR '','' \<notin> set s \<and> s \<noteq> []" and "\<forall>s \<in> set ys. CHR '','' \<notin> set s \<and> s \<noteq> []"
  shows "canonicalExtensions xs = canonicalExtensions ys \<longleftrightarrow> mset xs = mset ys"
proof
  assume "mset xs = mset ys"
  then show "canonicalExtensions xs = canonicalExtensions ys" by (rule canonicalExtensions_order)
next
  assume same: "canonicalExtensions xs = canonicalExtensions ys"
  have empty: "zs = []" if "canonicalExtensions zs = []" "\<forall>s \<in> set zs. s \<noteq> []" for zs
    using that canonicalExtensions_nonempty by blast
  show "mset xs = mset ys"
  proof (cases "xs = [] \<or> ys = []")
    case True
    then show ?thesis using same assms empty by (auto simp: canonicalExtensions_Nil)
  next
    case False
    then show ?thesis using canonicalExtensions_inject [OF same] assms by blast
  qed
qed

theorem canonicalExtensions_iff_witness:
  "canonicalExtensions [''siderolabs/zfs'', ''siderolabs/drbd''] = canonicalExtensions [''siderolabs/drbd'', ''siderolabs/zfs'']
   \<and> canonicalExtensions [''siderolabs/zfs''] \<noteq> canonicalExtensions [''siderolabs/drbd'']"
  using canonicalExtensions_iff [of "[''siderolabs/zfs'', ''siderolabs/drbd'']" "[''siderolabs/drbd'', ''siderolabs/zfs'']"]
    canonicalExtensions_iff [of "[''siderolabs/zfs'']" "[''siderolabs/drbd'']"]
  by simp

end
