(* ===== verification/NodeConn.thy ===== *)
theory NodeConn
  imports Drain Conditions Finalizers Patches Versions
begin

text \<open>
  What every part of the node controller shares (\<^verbatim>\<open>talosnode_controller.go\<close>): the resolution of a
  node's credentials, the dial-call-close pattern, the phase gauge, and the small predicates on a
  node.
\<close>

section \<open>Connections to a node\<close>

text \<open>\<^verbatim>\<open>defer conn.Close()\<close>: the connection is closed when the function returns, on every path.\<close>

definition deferring_close :: "talos_conn \<Rightarrow> 'a prog \<Rightarrow> 'a prog" where
  "deferring_close conn body = do {
     r \<leftarrow> body;
     conn_Close conn;
     ret r
   }"

definition withConn ::
    "env \<Rightarrow> bytes \<Rightarrow> string \<Rightarrow> (talos_conn \<Rightarrow> gerror option prog) \<Rightarrow> gerror option prog" where
  "withConn E talosconfig endpoint act = do {
     d \<leftarrow> conn_Dial E talosconfig endpoint;
     case d of
       Inl err \<Rightarrow> ret (Some (ErrWrap ''dial %s: %w'' [FStr endpoint] err))
     | Inr conn \<Rightarrow> deferring_close conn (act conn)
   }"

text \<open>
  The three outcomes of \<^verbatim>\<open>loadTalosconfig\<close>: an error, skip (\<open>None\<close>), or the talosconfig with the
  endpoints of the cluster.
\<close>

definition loadTalosconfig ::
    "env \<Rightarrow> talos_node \<Rightarrow> (gerror + (bytes \<times> string list) option) prog" where
  "loadTalosconfig E node = do {
     c \<leftarrow> get_TalosCluster E (Namespace node, ClusterRef (NodeSpec node));
     case c of
       Inl err \<Rightarrow> if IsNotFound err then ret (Inr None) else ret (Inl err)
     | Inr cluster \<Rightarrow> do {
         s \<leftarrow> getSecret E (clusterTalosconfigName (Name cluster)) (Namespace node);
         case s of
           Inl err \<Rightarrow> if IsNotFound err then ret (Inr None) else ret (Inl err)
         | Inr secret \<Rightarrow>
             (case secretKey secret ''talosconfig'' of
                Inl err \<Rightarrow> ret (Inl (ErrWrap ''read talosconfig secret: %w'' [] err))
              | Inr talosconfigBytes \<Rightarrow>
                  ret (Inr (Some (talosconfigBytes, Endpoints (ClusterSpec cluster)))))
       }
   }"

section \<open>The phase gauge of a node\<close>

definition record_node_phase :: "talos_node \<Rightarrow> TalosNodePhase \<Rightarrow> TalosNodePhase \<Rightarrow> unit prog" where
  "record_node_phase node from_phase to_phase =
     RecordNodePhase (Name node) (Namespace node) (ClusterRef (NodeSpec node))
       (node_role_string (Role (NodeSpec node))) (NodeIP (NodeSpec node))
       (node_phase_string from_phase) (node_phase_string to_phase)"

section \<open>Predicates on a node\<close>

definition isNodeUpToDate :: "talos_node \<Rightarrow> bool" where
  "isNodeUpToDate node \<longleftrightarrow>
     ObservedGeneration (NodeStatus node) = Generation node \<and>
     NodePhase (NodeStatus node) = TalosNodePhaseReady \<and>
     HasCondition (Conditions (NodeStatus node)) TalosNodeConditionConfigApplied ConditionTrue"

definition driftEnabled :: "talos_node \<Rightarrow> bool" where
  "driftEnabled node = (case DriftDetection (NodeSpec node) of None \<Rightarrow> True | Some b \<Rightarrow> b)"

section \<open>Rules\<close>

lemma only_deferring_close [only_intros]:
  "only P body \<Longrightarrow> P (TClose conn) \<Longrightarrow> only P (deferring_close conn body)"
  unfolding deferring_close_def conn_Close_def by (intro only_intros)

lemma only_withConn:
  assumes "\<And>cfg r. P (TNew \<lparr>ConnEndpoint = ep, ConnCreds = MutualTLS cfg\<rparr> r)"
    and "\<And>c. P (TClose c)" and "\<And>c. only P (act c)"
  shows "only P (withConn E tc ep act)"
  unfolding withConn_def by (intro only_intros assms)

lemma only_loadTalosconfig [only_intros]:
  assumes "\<And>k. P (KGet KindCluster k)" and "\<And>k. P (KGet KindSecret k)"
  shows "only P (loadTalosconfig E node)"
  unfolding loadTalosconfig_def get_TalosCluster_def by (intro only_intros assms)

lemma only_record_node_phase [only_intros]:
  "(\<And>a b c d e p v. P (MetricSet (fst NodePhaseVec) [a, b, c, d, e, p] v)) \<Longrightarrow>
   only P (record_node_phase node f t)"
  unfolding record_node_phase_def by (intro only_intros)

lemma wp_record_node_phase [wp_simps]:
  "wp (record_node_phase node f t) Q h =
     Q () (h @ phase_events NodePhaseVec
       [Name node, Namespace node, ClusterRef (NodeSpec node), node_role_string (Role (NodeSpec node)),
        NodeIP (NodeSpec node)] (node_phase_string f) (node_phase_string t))"
  by (simp add: record_node_phase_def wp_simps)

lemma wpg_deferring_close [wpg_intros]:
  assumes "wpg G body (\<lambda>a g. G g (TClose conn) \<and> Q a (g @ [TClose conn])) h"
  shows "wpg G (deferring_close conn body) Q h"
  unfolding deferring_close_def conn_Close_def
  by (intro wpg_intros wpg_mono [OF assms]) simp_all

lemma returns_deferring_close [returns_intros]:
  "returns P body \<Longrightarrow> returns P (deferring_close conn body)"
  unfolding deferring_close_def
  by (rule returns_bind_with [where R = P]) (auto intro: returns_intros)

text \<open>
  Events that only read, record or talk to the metrics registry: none of them changes the managed
  machines or the objects of the API.
\<close>

definition harmless :: "event \<Rightarrow> bool" where
  "harmless e =
     (case e of
        KGet _ _ \<Rightarrow> True | KList _ _ \<Rightarrow> True | TNew _ _ \<Rightarrow> True | TClose _ \<Rightarrow> True
      | Recorded _ _ _ _ _ \<Rightarrow> True | MetricSet _ _ _ \<Rightarrow> True | MetricInc _ _ \<Rightarrow> True
      | MetricObserve _ _ _ \<Rightarrow> True | ClockRead \<Rightarrow> True | RandRead \<Rightarrow> True | CtxCheck \<Rightarrow> True
      | TickWait _ \<Rightarrow> True | RGetNode _ _ \<Rightarrow> True | RListPods _ _ \<Rightarrow> True | RServerVersion _ \<Rightarrow> True
      | TCall c _ \<Rightarrow>
          (case CallReq c of
             ReqCosiGet _ _ _ \<Rightarrow> True | ReqVersion \<Rightarrow> True | ReqKubeconfig \<Rightarrow> True
           | ReqEtcdMemberList \<Rightarrow> True | _ \<Rightarrow> False)
      | _ \<Rightarrow> False)"

lemma harmless_simps [simp]:
  "harmless (KGet kd k)" "harmless (KList kd ns)" "harmless (TNew c r)" "harmless (TClose c)"
  "harmless (Recorded kd k et s m)" "harmless (MetricSet v ls x)" "harmless (MetricInc v ls)"
  "harmless (MetricObserve v ls t)" "harmless ClockRead" "harmless RandRead" "harmless CtxCheck"
  "harmless (TickWait r)" "harmless (RGetNode rc s)" "harmless (RListPods rc s)" "harmless (RServerVersion rc)"
  by (simp_all add: harmless_def)

lemma harmless_call [simp]:
  "harmless (TCall (rpc E c n ReqVersion) r)" "harmless (TCall (rpc E c n (ReqCosiGet x y z)) r)"
  "harmless (TCall (rpc E c n ReqKubeconfig) r)" "harmless (TCall (rpc E c n ReqEtcdMemberList) r)"
  by (simp_all add: harmless_def rpc_def)

section \<open>Frames\<close>

text \<open>
  A condition on events is a frame if it accepts every event that only reads, or that records a
  metric with the right labels. The frame rule of a function says which other events the condition
  must accept so that the function appends nothing else; it is proved once and used for every
  condition.
\<close>

named_theorems frame_intros "frame rules"

definition frame :: "(event \<Rightarrow> bool) \<Rightarrow> bool" where
  "frame P \<longleftrightarrow> (\<forall>e. harmless e \<and> metric_ok e \<longrightarrow> P e)"

lemma frameD: "frame P \<Longrightarrow> harmless e \<Longrightarrow> metric_ok e \<Longrightarrow> P e"
  by (simp add: frame_def)

lemma frame_harmless [simp]: "frame harmless" "frame metric_ok"
  by (simp_all add: frame_def)

lemma frame_reads [frame_intros]:
  assumes "frame P"
  shows "only P (conn_Dial E tb ip)" "only P (conn_DialInsecure E ip)" "only P (conn_GetVersion E c ip)"
    "only P (conn_GetHostname E c ip)" "only P (conn_GetMachineConfig E c ip)"
    "only P (conn_GetKubeconfig E c ip)" "only P (loadTalosconfig E node)" "only P (conn_Close c)"
  unfolding conn_GetVersion_def conn_GetHostname_def conn_GetMachineConfig_def conn_GetKubeconfig_def
    conn_Close_def call_defs
  by (intro only_intros; simp add: frameD [OF assms] metric_arity)+

lemma frame_dialAny [frame_intros]: "frame P \<Longrightarrow> only P (dialAny (conn_Dial E) tb peers)"
  by (rule only_mono [OF real_dialer.only_dialAny]) (auto simp: is_mtls_dial_def frame_def split: event.splits)

lemma frame_calls [frame_intros]:
  assumes "frame P"
  shows "(\<And>r. P (TCall (rpc E c ip (ReqApplyConfiguration bs ApplyAuto)) r)) \<Longrightarrow> only P (conn_ApplyConfig E c ip bs cl)"
    and "(\<And>r. P (TCall (rpc E c ip ReqBootstrap) r)) \<Longrightarrow> only P (conn_Bootstrap E c ip)"
    and "(\<And>r. P (TCall (rpc E c ip (ReqUpgrade img False False)) r)) \<Longrightarrow> only P (conn_Upgrade E c ip img)"
    and "(\<And>r. P (TCall (rpc E c ip (ReqReset b True [(''STATE'', True), (''EPHEMERAL'', True)])) r)) \<Longrightarrow>
      only P (conn_Reset E c ip b)"
    and "(\<And>r. P (TCall (rpc E c ip ReqEtcdLeaveCluster) r)) \<Longrightarrow> only P (conn_EtcdLeave E c ip)"
    and "(\<And>i r. P (TCall (rpc E c ip (ReqEtcdRemoveMemberByID i)) r)) \<Longrightarrow> only P (conn_EtcdForceRemove E c ip dead)"
  unfolding conn_ApplyConfig_def conn_Bootstrap_def conn_Upgrade_def conn_Reset_def conn_EtcdLeave_def
    conn_EtcdForceRemove_def call_defs
  by (intro only_intros only_record_apply_messages; simp add: frameD [OF assms] metric_arity)+

lemma frame_withConn [frame_intros]:
  "frame P \<Longrightarrow> (\<And>c. only P (act c)) \<Longrightarrow> only P (withConn E tc ep act)"
  by (intro only_withConn) (simp_all add: frame_def)

lemma frame_deferring_close [frame_intros]:
  "frame P \<Longrightarrow> only P body \<Longrightarrow> only P (deferring_close c body)"
  by (intro only_deferring_close) (simp_all add: frame_def)

text \<open>Draining evicts pods, and updates and deletes the Kubernetes node.\<close>

lemma frame_drain [frame_intros]:
  assumes "frame P" and "\<And>c n r. P (RUpdateNode c n r)" and "\<And>c k r. P (REvict c k r)"
    and "\<And>c n r. P (RDeleteNode c n r)"
  shows "only P (drainAndDeleteNode E R node)"
proof -
  have loop: "only P (drain_loop f E c nm t d)" for f c nm t d
    by (induction f) (auto intro!: only_intros only_evict_pods simp: call_defs frameD [OF assms(1)] assms(3))
  show ?thesis
    unfolding drainAndDeleteNode_def buildRemoteClient_def resolveNodeName_def cordonNode_def
      cordon_once_def drainPods_def deleteNodeObject_def call_defs
    by (intro only_intros frame_intros loop; simp add: frameD [OF assms(1)] assms metric_arity)
qed

section \<open>Steps that only read and record\<close>

lemmas only_harmless_Dial = frame_reads(1) [OF frame_harmless(1)]
lemmas only_harmless_GetVersion = frame_reads(3) [OF frame_harmless(1)]
lemmas only_harmless_GetHostname = frame_reads(4) [OF frame_harmless(1)]
lemmas only_harmless_GetMachineConfig = frame_reads(5) [OF frame_harmless(1)]
lemmas only_harmless_GetKubeconfig = frame_reads(6) [OF frame_harmless(1)]
lemmas only_harmless_load = frame_reads(7) [OF frame_harmless(1)]

lemma only_harmless_emit: "only harmless (emitEvent rec kd ob et r m)"
  by (intro only_intros) simp

lemma only_harmless_record: "only harmless (record_node_phase node f t)"
  by (intro only_intros) simp

lemma only_harmless_inc: "only harmless (metric_inc v ls)"
  by (intro only_intros) simp

lemma only_harmless_secret: "only harmless (getSecret E n ns)"
  by (intro only_intros) simp

lemmas only_harmless =
  only_harmless_Dial only_harmless_load only_harmless_GetVersion only_harmless_GetHostname
  only_harmless_GetMachineConfig only_harmless_GetKubeconfig only_harmless_emit only_harmless_record
  only_harmless_inc only_harmless_secret

lemma only_harmless_clock: "only harmless (time_Now E)"
  unfolding time_Now_def by (intro only_intros) simp

lemma only_harmless_observe: "only harmless (metric_observe v ls t)"
  by (intro only_intros) simp

text \<open>
  A step that only reads and records is stepped over: the guard must accept its events, and what
  follows runs from a history that such events extend.
\<close>

lemmas wpg_harmless =
  only_harmless [THEN wpg_only] only_harmless_clock [THEN wpg_only]
  only_harmless_observe [THEN wpg_only]

end
