(* ===== verification/NodeUpgrade.thy ===== *)
theory NodeUpgrade
  imports NodeConn
begin

text \<open>
  The upgrade state machine of a node (\<^verbatim>\<open>talosnode_upgrade.go\<close>): starting an upgrade and polling for
  its completion. The object in memory is not used again by the caller of either function, so
  only the result \<^verbatim>\<open>(ctrl.Result, error)\<close> is returned.
\<close>

type_synonym reconcile_result = "ctrl_result \<times> gerror option"

section \<open>Operations\<close>

text \<open>The upgrade RPC was refused: the trigger is recorded and the phase becomes Error.\<close>

definition upgradeFailed ::
    "env \<Rightarrow> node_reconciler \<Rightarrow> talos_node \<Rightarrow> string \<Rightarrow> gerror \<Rightarrow> reconcile_result prog" where
  "upgradeFailed E R node img err = do {
     emitEvent (Recorder R) KindNode node EventTypeWarning ''NodeUpgradeFailed''
       (Sprintf ''upgrade RPC failed: %v'' [FErr err]);
     metric_inc NodeUpgradeTotal [''error'', ClusterRef (NodeSpec node)];
     (_, node) \<leftarrow> patchAnnotations E node [(AnnotationLastUpgrade, img)] [];
     let node = node\<lparr>NodeStatus := (NodeStatus node)\<lparr>NodePhase := TalosNodePhaseError\<rparr>\<rparr>;
     s \<leftarrow> status_update_TalosNode E node;
     (case s of
        Inl _ \<Rightarrow> ret ()
      | Inr node \<Rightarrow> record_node_phase node TalosNodePhaseUpgrading TalosNodePhaseError);
     ret (no_requeue, None)
   }"

text \<open>
  The part behind the guards: persist phase Upgrading, send the RPC, record the trigger.
\<close>

definition startUpgrade ::
    "env \<Rightarrow> node_reconciler \<Rightarrow> talos_node \<Rightarrow> talos_conn \<Rightarrow> string \<Rightarrow> reconcile_result prog" where
  "startUpgrade E R node conn img = do {
     emitEvent (Recorder R) KindNode node EventTypeNormal ''NodeUpgradeTriggered''
       (Sprintf ''Upgrading Talos to %s'' [FStr img]);
     let fromPhase = NodePhase (NodeStatus node);
     conditions \<leftarrow> SetConditionStatus E (Conditions (NodeStatus node))
       TalosNodeConditionTalosVersionUpToDate ConditionFalse ''Upgrading''
       (Sprintf ''Upgrading Talos to %s'' [FStr (versionFromImage img)]);
     let node = node\<lparr>NodeStatus := (NodeStatus node)
                  \<lparr>NodePhase := TalosNodePhaseUpgrading, Conditions := conditions\<rparr>\<rparr>;
     s \<leftarrow> status_update_TalosNode E node;
     case s of
       Inl err \<Rightarrow> ret (no_requeue, Some (ErrWrap ''update phase to Upgrading: %w'' [] err))
     | Inr node \<Rightarrow> do {
         record_node_phase node fromPhase TalosNodePhaseUpgrading;
         u \<leftarrow> conn_Upgrade E conn (NodeIP (NodeSpec node)) img;
         case u of
           Some err \<Rightarrow> upgradeFailed E R node img err
         | None \<Rightarrow> do {
             _ \<leftarrow> patchAnnotations E node [(AnnotationLastUpgrade, img)] [];
             ret (requeue_after upgradeCheckInterval, None)
           }
       }
   }"

definition handleUpgrade ::
    "env \<Rightarrow> node_reconciler \<Rightarrow> talos_node \<Rightarrow> string \<Rightarrow> reconcile_result prog" where
  "handleUpgrade E R node img =
     (let targetVersion = versionFromImage img;
          current = CurrentTalosVersion (NodeStatus node);
          ip = NodeIP (NodeSpec node);
          cluster = ClusterRef (NodeSpec node)
      in
      if targetVersion = [] then do {
        emitEvent (Recorder R) KindNode node EventTypeWarning ''UpgradeInvalidImage''
          (Sprintf ''upgrade skipped: image %q has no version tag (expected format: registry/installer:vX.Y.Z)''
            [FStr img]);
        ret (no_requeue, None)
      }
      else if isDowngrade E current targetVersion then do {
        emitEvent (Recorder R) KindNode node EventTypeWarning ''DowngradeBlocked''
          (Sprintf ''downgrade from %s to %s is not allowed; set the annotation to a newer version''
            [FStr current, FStr targetVersion]);
        metric_inc NodeUpgradeTotal [''blocked'', cluster];
        _ \<leftarrow> patchAnnotations E node [(AnnotationLastUpgrade, img)] [];
        ret (no_requeue, None)
      }
      else do {
        t \<leftarrow> loadTalosconfig E node;
        case t of
          Inl err \<Rightarrow> ret (no_requeue, Some (ErrWrap ''load talosconfig: %w'' [] err))
        | Inr None \<Rightarrow> do {
            emitEvent (Recorder R) KindNode node EventTypeWarning ''UpgradeWaiting''
              (Sprintf ''upgrade to %s pending: talosconfig or cluster secret not found'' [FStr img]);
            ret (requeue_after upgradeCheckInterval, None)
          }
        | Inr (Some (talosconfig, _)) \<Rightarrow> do {
            d \<leftarrow> conn_Dial E talosconfig ip;
            case d of
              Inl _ \<Rightarrow> ret (requeue_after upgradeCheckInterval, None)
            | Inr conn \<Rightarrow> deferring_close conn (do {
                v \<leftarrow> conn_GetVersion E conn ip;
                case v of
                  Inl _ \<Rightarrow> ret (requeue_after upgradeCheckInterval, None)
                | Inr (_, mode) \<Rightarrow>
                    if mode = ''container'' then do {
                      emitEvent (Recorder R) KindNode node EventTypeWarning ''UpgradeSkipped''
                        (Sprintf ''upgrade skipped: node %s is in container mode (Talos container nodes do not support upgrades)''
                          [FStr ip]);
                      metric_inc NodeUpgradeTotal [''skipped'', cluster];
                      ret (no_requeue, None)
                    }
                    else startUpgrade E R node conn img
              })
          }
      })"

definition setExtensionsUpToDate :: "env \<Rightarrow> talos_node \<Rightarrow> talos_node prog" where
  "setExtensionsUpToDate E node = do {
     let extensions = SystemExtensions (NodeSpec node);
     conditions \<leftarrow> SetConditionStatus E (Conditions (NodeStatus node))
       TalosNodeConditionExtensionsUpToDate ConditionTrue ''Installed''
       (Sprintf ''%d extension(s) installed and up to date'' [FInt (int (length extensions))]);
     ret (node\<lparr>NodeStatus := (NodeStatus node)
            \<lparr>InstalledExtensions := extensions, Conditions := conditions\<rparr>\<rparr>)
   }"

text \<open>The node answers with the version that was waited for: it becomes Ready.\<close>

definition completeUpgrade ::
    "env \<Rightarrow> node_reconciler \<Rightarrow> talos_node \<Rightarrow> string \<Rightarrow> string \<Rightarrow> reconcile_result prog" where
  "completeUpgrade E R node img tag = do {
     emitEvent (Recorder R) KindNode node EventTypeNormal ''NodeUpgradeComplete''
       (Sprintf ''Talos upgraded successfully to %s (version %s)'' [FStr img, FStr tag]);
     metric_inc NodeUpgradeTotal [''success'', ClusterRef (NodeSpec node)];
     conditions \<leftarrow> SetConditionStatus E (Conditions (NodeStatus node))
       TalosNodeConditionTalosVersionUpToDate ConditionTrue ''Upgraded''
       (Sprintf ''Talos version %s installed'' [FStr tag]);
     let node = node\<lparr>NodeStatus := (NodeStatus node)
                  \<lparr>CurrentTalosVersion := tag, Conditions := conditions\<rparr>\<rparr>;
     node \<leftarrow> (if 0 < length (SystemExtensions (NodeSpec node)) then setExtensionsUpToDate E node
              else ret node);
     let fromPhase = NodePhase (NodeStatus node);
     now \<leftarrow> time_Now E;
     let node = node\<lparr>NodeStatus := (NodeStatus node)
                  \<lparr>NodePhase := TalosNodePhaseReady, LastUpdateTime := Some now\<rparr>\<rparr>;
     s \<leftarrow> status_update_TalosNode E node;
     case s of
       Inl err \<Rightarrow> ret (no_requeue, Some (ErrWrap ''update post-upgrade status: %w'' [] err))
     | Inr node \<Rightarrow> do {
         record_node_phase node fromPhase TalosNodePhaseReady;
         (if driftEnabled node then ret (requeue_after driftCheckInterval, None)
          else ret (no_requeue, None))
       }
   }"

definition checkUpgradeComplete ::
    "env \<Rightarrow> node_reconciler \<Rightarrow> talos_node \<Rightarrow> reconcile_result prog" where
  "checkUpgradeComplete E R node =
     (let img = annotation (Annotations node) AnnotationLastUpgrade;
          expected = versionFromImage img;
          ip = NodeIP (NodeSpec node)
      in do {
        t \<leftarrow> loadTalosconfig E node;
        case t of
          Inl err \<Rightarrow> ret (no_requeue, Some (ErrWrap ''load talosconfig: %w'' [] err))
        | Inr None \<Rightarrow> ret (requeue_after upgradeCheckInterval, None)
        | Inr (Some (talosconfig, _)) \<Rightarrow> do {
            d \<leftarrow> conn_Dial E talosconfig ip;
            case d of
              Inl _ \<Rightarrow> ret (requeue_after upgradeCheckInterval, None)
            | Inr conn \<Rightarrow> deferring_close conn (do {
                v \<leftarrow> conn_GetVersion E conn ip;
                case v of
                  Inl _ \<Rightarrow> ret (requeue_after upgradeCheckInterval, None)
                | Inr (tag, _) \<Rightarrow>
                    if expected \<noteq> [] \<and> tag \<noteq> expected
                    then ret (requeue_after upgradeCheckInterval, None)
                    else completeUpgrade E R node img tag
              })
          }
      })"

section \<open>What the two functions may append\<close>

lemma frame_handleUpgrade [frame_intros]:
  assumes "frame P" and "\<And>a b r. P (KPatch (ONode a) (ONode b) r)" and "\<And>a r. P (KStatusUpdate (ONode a) r)"
    and "\<And>c ip r. P (TCall (rpc E c ip (ReqUpgrade img False False)) r)"
  shows "only P (handleUpgrade E R node img)"
  unfolding handleUpgrade_def startUpgrade_def upgradeFailed_def call_defs
  by (intro only_intros frame_intros; simp add: assms frameD [OF assms(1)] metric_arity)

lemma frame_checkUpgradeComplete [frame_intros]:
  assumes "frame P" and "\<And>a r. P (KStatusUpdate (ONode a) r)"
  shows "only P (checkUpgradeComplete E R node)"
  unfolding checkUpgradeComplete_def completeUpgrade_def setExtensionsUpToDate_def call_defs
  by (intro only_intros frame_intros; simp add: assms frameD [OF assms(1)] metric_arity)

section \<open>The guards of the upgrade RPC\<close>

text \<open>
  \<open>answered_version E start ip tag mode g\<close>: since \<open>start\<close>, the node answered a version request with
  this tag and platform mode. \<open>persisted_upgrading node start g\<close>: since \<open>start\<close>, a status update of
  the node with phase Upgrading succeeded, and nothing but reads and records came after it.
\<close>

definition answered_version :: "env \<Rightarrow> hist \<Rightarrow> string \<Rightarrow> string \<Rightarrow> string \<Rightarrow> hist \<Rightarrow> bool" where
  "answered_version E start ip tag mode g \<longleftrightarrow>
     (\<exists>g0 cl m ms rest.
        g = g0 @ TCall cl None # rest \<and> length start \<le> length g0 \<and> CallReq cl = ReqVersion \<and>
        CallNode cl = ip \<and> tcall_version (Talos E) g0 cl = Inr (m # ms) \<and>
        tag = (case VersionTag m of None \<Rightarrow> [] | Some v \<Rightarrow> v) \<and>
        mode = (case PlatformMode m of None \<Rightarrow> [] | Some v \<Rightarrow> v))"

definition persisted_upgrading :: "talos_node \<Rightarrow> hist \<Rightarrow> hist \<Rightarrow> bool" where
  "persisted_upgrading node start g \<longleftrightarrow>
     (\<exists>g0 n rest.
        g = g0 @ KStatusUpdate (ONode n) None # rest \<and> length start \<le> length g0 \<and>
        nsname n = nsname node \<and> NodePhase (NodeStatus n) = TalosNodePhaseUpgrading \<and>
        list_all harmless rest)"

definition upgrade_guard :: "env \<Rightarrow> talos_node \<Rightarrow> string \<Rightarrow> hist \<Rightarrow> hist \<Rightarrow> event \<Rightarrow> bool" where
  "upgrade_guard E node img start g e \<longleftrightarrow>
     (\<forall>cl r i preserve force.
        e = TCall cl r \<and> CallReq cl = ReqUpgrade i preserve force \<longrightarrow>
        i = img \<and> \<not> force \<and> versionFromImage img \<noteq> [] \<and>
        \<not> isDowngrade E (CurrentTalosVersion (NodeStatus node)) (versionFromImage img) \<and>
        (\<exists>tag mode. answered_version E start (NodeIP (NodeSpec node)) tag mode g \<and> mode \<noteq> ''container'') \<and>
        persisted_upgrading node start g)"

lemma answered_version_append:
  "answered_version E start ip tag mode g \<Longrightarrow> answered_version E start ip tag mode (g @ es)"
  unfolding answered_version_def by fastforce

lemma persisted_upgrading_append:
  "persisted_upgrading node start g \<Longrightarrow> list_all harmless es \<Longrightarrow> persisted_upgrading node start (g @ es)"
  unfolding persisted_upgrading_def by fastforce

lemma persisted_upgradingI:
  "length start \<le> length g \<Longrightarrow> nsname n = nsname node \<Longrightarrow>
   NodePhase (NodeStatus n) = TalosNodePhaseUpgrading \<Longrightarrow>
   persisted_upgrading node start (g @ [KStatusUpdate (ONode n) None])"
  unfolding persisted_upgrading_def by fastforce

lemma upgrade_guard_other:
  "(\<And>cl r i p f. e = TCall cl r \<Longrightarrow> CallReq cl \<noteq> ReqUpgrade i p f) \<Longrightarrow> upgrade_guard E node img start g e"
  by (auto simp: upgrade_guard_def)

lemma harmless_no_upgrade: "harmless e \<Longrightarrow> upgrade_guard E node img start g e"
  by (rule upgrade_guard_other) (auto simp: harmless_def)

lemma conn_GetVersion_answers:
  assumes "length start \<le> length h"
  shows "wp (conn_GetVersion E c ip)
           (\<lambda>r g. \<forall>tag mode. r = Inr (tag, mode) \<longrightarrow> answered_version E start ip tag mode g) h"
proof -
  have "answered_version E start ip (case VersionTag m of None \<Rightarrow> [] | Some v \<Rightarrow> v)
      (case PlatformMode m of None \<Rightarrow> [] | Some v \<Rightarrow> v)
      (h @ ClockRead # TCall (rpc E c ip ReqVersion) None # rest)"
    if "tcall_version (Talos E) (h @ [ClockRead]) (rpc E c ip ReqVersion) = Inr (m # ms)" for m ms rest
    unfolding answered_version_def
    using that assms by (intro exI [of _ "h @ [ClockRead]"] exI [of _ "rpc E c ip ReqVersion"]) (simp add: rpc_def)
  then show ?thesis
    by (auto simp: conn_GetVersion_def time_Now_def talos_version_def observe_call_def wp_simps
        split: sum.split list.split)
qed

lemma only_no_upgrade_patch: "only (\<lambda>e. \<forall>g. upgrade_guard E node img start g e) (patchAnnotations E n sets dels)"
  by (intro only_intros) (simp add: upgrade_guard_def)

lemma only_no_upgrade_failed:
  "only (\<lambda>e. \<forall>g. upgrade_guard E node img start g e) (upgradeFailed E R n img' err)"
  unfolding upgradeFailed_def status_update_TalosNode_def
  by (intro only_intros) (simp_all add: upgrade_guard_def)

lemmas wpg_no_upgrade = only_no_upgrade_patch [THEN wpg_only] only_no_upgrade_failed [THEN wpg_only]

lemma startUpgrade_guarded:
  assumes tag: "versionFromImage img \<noteq> []"
    and newer: "\<not> isDowngrade E (CurrentTalosVersion (NodeStatus node)) (versionFromImage img)"
    and seen: "\<exists>tag mode. answered_version E start (NodeIP (NodeSpec node)) tag mode h \<and> mode \<noteq> ''container''"
    and later: "length start \<le> length h"
  shows "wpg (upgrade_guard E node img start) (startUpgrade E R node conn img) (\<lambda>_ _. True) h"
proof -
  have ready: "upgrade_guard E node img start (((((h @ as) @ bs) @ [KStatusUpdate (ONode n) (opt_err s)]) @ cs) @ ds)
      (TCall (rpc E c ip (ReqUpgrade img False False)) r)"
    if "s = Inr x" and "list_all harmless cs" and "list_all harmless ds" and "nsname n = nsname node"
      and "NodePhase (NodeStatus n) = TalosNodePhaseUpgrading" for as bs n c ip r s x cs ds
  proof -
    let ?k = "((h @ as) @ bs) @ [KStatusUpdate (ONode n) (opt_err s)]"
    have "persisted_upgrading node start ?k"
      using persisted_upgradingI [of start "(h @ as) @ bs" n node] later that by simp
    then have "persisted_upgrading node start (?k @ cs @ ds)"
      using that(2,3) by (intro persisted_upgrading_append [of node start "?k"]) simp_all
    moreover from seen obtain tag mode where
      "answered_version E start (NodeIP (NodeSpec node)) tag mode h" and mode: "mode \<noteq> ''container''"
      by blast
    then have "answered_version E start (NodeIP (NodeSpec node)) tag mode (?k @ cs @ ds)"
      using answered_version_append [of E start _ tag mode h "as @ bs @ KStatusUpdate (ONode n) (opt_err s) # cs @ ds"]
      by simp
    ultimately show ?thesis
      using tag newer mode by (auto simp: upgrade_guard_def rpc_def)
  qed
  note rules = wpg_intros wpg_harmless
    wpg_no_upgrade [where node = node and img = img and start = start]
  show ?thesis
    unfolding startUpgrade_def status_update_TalosNode_def conn_Upgrade_def timed_unit_def
      observe_call_def talos_unit_def
    by (intro rules;
        (rule TrueI | erule harmless_no_upgrade | erule spec
          | (rule ready; (assumption | simp add: nsname_def))
          | simp add: upgrade_guard_def))
qed


section \<open>The guards of Ready\<close>

text \<open>
  Every status that the completion check writes is Ready, holds the version the node answered in
  this run, and that version is the tag of the recorded upgrade, unless nothing was recorded.
\<close>

definition complete_guard :: "env \<Rightarrow> talos_node \<Rightarrow> hist \<Rightarrow> hist \<Rightarrow> event \<Rightarrow> bool" where
  "complete_guard E node start g e \<longleftrightarrow>
     (\<forall>n r. e = KStatusUpdate (ONode n) r \<longrightarrow>
        nsname n = nsname node \<and> NodePhase (NodeStatus n) = TalosNodePhaseReady \<and>
        HasCondition (Conditions (NodeStatus n)) TalosNodeConditionTalosVersionUpToDate ConditionTrue \<and>
        (SystemExtensions (NodeSpec node) \<noteq> [] \<longrightarrow>
           InstalledExtensions (NodeStatus n) = SystemExtensions (NodeSpec node) \<and>
           HasCondition (Conditions (NodeStatus n)) TalosNodeConditionExtensionsUpToDate ConditionTrue) \<and>
        (\<exists>mode. answered_version E start (NodeIP (NodeSpec node))
           (CurrentTalosVersion (NodeStatus n)) mode g) \<and>
        versionFromImage (annotation (Annotations node) AnnotationLastUpgrade)
          \<in> {[], CurrentTalosVersion (NodeStatus n)})"

lemma harmless_complete: "harmless e \<Longrightarrow> complete_guard E node start g e"
  by (auto simp: complete_guard_def harmless_def)

lemma completeUpgrade_guarded:
  assumes seen: "answered_version E start (NodeIP (NodeSpec node)) tag mode h"
    and expected: "versionFromImage (annotation (Annotations node) AnnotationLastUpgrade) \<in> {[], tag}"
  shows "wpg (complete_guard E node start) (completeUpgrade E R node img tag) (\<lambda>_ _. True) h"
proof -
  have seen': "\<exists>mode. answered_version E start (NodeIP (NodeSpec node)) tag mode (h @ es)" for es
    using answered_version_append [OF seen] by blast
  have written: "complete_guard E node start (h @ es) (KStatusUpdate (ONode n) r)"
    if "nsname n = nsname node" and "NodePhase (NodeStatus n) = TalosNodePhaseReady"
      and "CurrentTalosVersion (NodeStatus n) = tag"
      and "HasCondition (Conditions (NodeStatus n)) TalosNodeConditionTalosVersionUpToDate ConditionTrue"
      and "SystemExtensions (NodeSpec node) \<noteq> [] \<Longrightarrow>
           InstalledExtensions (NodeStatus n) = SystemExtensions (NodeSpec node) \<and>
           HasCondition (Conditions (NodeStatus n)) TalosNodeConditionExtensionsUpToDate ConditionTrue"
    for es n r
    using that seen' expected by (auto simp: complete_guard_def)
  show ?thesis
    unfolding completeUpgrade_def setExtensionsUpToDate_def status_update_TalosNode_def time_Now_def
    by (intro wpg_intros wpg_harmless;
        (rule TrueI | erule harmless_complete | (simp add: harmless_complete; fail)
          | (simp only: append_assoc, rule written;
             simp add: nsname_def condition_type_defs)))
qed

text \<open>
  C27. Completing an upgrade: every status the check writes is Ready with the version condition true and
  holds the version the node answered in this run; that version is the tag of the recorded upgrade
  unless nothing was recorded; requested extensions are recorded as installed with their condition.
\<close>

theorem checkUpgradeComplete_guarded:
  "wpg (complete_guard E node h) (checkUpgradeComplete E R node) (\<lambda>_ _. True) h"
proof -
  have version: "wpg (complete_guard E node h) (conn_GetVersion E c ip) Q g"
    if "length h \<le> length g" and "\<And>r fs. list_all harmless fs \<Longrightarrow>
        \<forall>tag mode. r = Inr (tag, mode) \<longrightarrow> answered_version E h ip tag mode (g @ fs) \<Longrightarrow> Q r (g @ fs)"
    for c ip Q g
    using only_harmless_GetVersion conn_GetVersion_answers [OF that(1)]
    by (rule wpg_only_wp) (simp_all add: harmless_complete that(2))
  show ?thesis
    unfolding checkUpgradeComplete_def
    by (intro wpg_intros version wpg_harmless;
        (rule TrueI | erule harmless_complete
          | (rule wpg_mono [OF completeUpgrade_guarded]; auto simp: harmless_complete; fail)
          | simp add: harmless_complete))
qed

end
