(* ===== verification/NodeExtensions.thy ===== *)
theory NodeExtensions
  imports NodeUpgrade
begin

text \<open>
  The declarative version and extension path (\<^verbatim>\<open>talosnode_extensions.go\<close>): the installer image a
  spec asks for, with the schematic cached in annotations, and the decision to upgrade to it.
\<close>

section \<open>Operations\<close>

record desired_image_result =
  DesiredImage :: string
  NewSchematicID :: string
  NewCanonical :: string

definition standard_installer :: string where
  "standard_installer = ''ghcr.io/siderolabs/installer:''"

definition factory_installer :: string where
  "factory_installer = ''factory.talos.dev/installer/''"

definition computeDesiredImage ::
    "env \<Rightarrow> node_reconciler \<Rightarrow> talos_node \<Rightarrow> (gerror + desired_image_result) prog" where
  "computeDesiredImage E R node =
     (let version = normalizeVersion (TalosVersion (NodeSpec node));
          extensions = SystemExtensions (NodeSpec node);
          cluster = ClusterRef (NodeSpec node)
      in
      if length extensions = 0
      then ret (Inr \<lparr>DesiredImage = standard_installer @ version, NewSchematicID = [], NewCanonical = []\<rparr>)
      else
        let canonical = canonicalExtensions extensions;
            cachedExtensions = annotation (Annotations node) AnnotationLastExtensions;
            cachedSchematic = annotation (Annotations node) AnnotationCurrentSchematic
        in
        if canonical = cachedExtensions \<and> cachedSchematic \<noteq> [] then do {
          metric_inc ExtensionSchematicTotal [''cached'', cluster];
          ret (Inr \<lparr>DesiredImage = factory_installer @ cachedSchematic @ '':'' @ version,
                    NewSchematicID = [], NewCanonical = []\<rparr>)
        }
        else (case Factory R of
                None \<Rightarrow>
                  ret (Inl (ErrFmt ''spec.systemExtensions is set but no factory client is configured'' []))
              | Some create \<Rightarrow> do {
                  r \<leftarrow> create extensions;
                  case r of
                    Inl err \<Rightarrow> do {
                      metric_inc ExtensionSchematicTotal [''error'', cluster];
                      ret (Inl (ErrWrap ''create schematic: %w'' [] err))
                    }
                  | Inr schematicID \<Rightarrow> do {
                      metric_inc ExtensionSchematicTotal [''success'', cluster];
                      ret (Inr \<lparr>DesiredImage = factory_installer @ schematicID @ '':'' @ version,
                                NewSchematicID = schematicID, NewCanonical = canonical\<rparr>)
                    }
                }))"

text \<open>
  The result is \<^verbatim>\<open>(result, done, error)\<close> and the node in memory, which the caller goes on with when
  nothing was to be done.
\<close>

definition reconcileVersion ::
    "env \<Rightarrow> node_reconciler \<Rightarrow> talos_node \<Rightarrow>
     (ctrl_result \<times> bool \<times> gerror option \<times> talos_node) prog" where
  "reconcileVersion E R node =
     (if TalosVersion (NodeSpec node) = [] then ret (no_requeue, False, None, node)
      else if \<not> HasCondition (Conditions (NodeStatus node)) TalosNodeConditionConfigApplied ConditionTrue
      then ret (no_requeue, False, None, node)
      else do {
        d \<leftarrow> computeDesiredImage E R node;
        case d of
          Inl err \<Rightarrow> do {
            emitEvent (Recorder R) KindNode node EventTypeWarning ''ExtensionSchematicFailed''
              (Sprintf ''failed to compute desired image: %v'' [FErr err]);
            ret (no_requeue, True, Some err, node)
          }
        | Inr desired \<Rightarrow> do {
            (pErr, node) \<leftarrow>
              (if NewSchematicID desired \<noteq> [] then
                 patchAnnotations E node
                   [(AnnotationCurrentSchematic, NewSchematicID desired),
                    (AnnotationLastExtensions, NewCanonical desired)] []
               else ret (None, node));
            case pErr of
              Some err \<Rightarrow>
                ret (no_requeue, True, Some (ErrWrap ''persist schematic annotations: %w'' [] err), node)
            | None \<Rightarrow>
                let schemaDirty = (NewSchematicID desired \<noteq> []);
                    current = CurrentTalosVersion (NodeStatus node);
                    needsUpgrade =
                      (normalizeVersion (TalosVersion (NodeSpec node)) \<noteq> normalizeVersion current
                       \<or> schemaDirty)
                in
                if \<not> needsUpgrade then ret (no_requeue, False, None, node)
                else if isDowngrade E current (normalizeVersion (TalosVersion (NodeSpec node)))
                then ret (no_requeue, False, None, node)
                else do {
                  (result, err) \<leftarrow> handleUpgrade E R node (DesiredImage desired);
                  ret (result, True, err, node)
                }
          }
      })"

section \<open>The interface to the Image Factory\<close>

text \<open>
  What the reconciler relies on: a schematic identifier is never empty, since it is stored as the
  mark of a changed schematic, and asking for one does nothing but ask.
\<close>

locale image_factory =
  fixes create :: "string list \<Rightarrow> (gerror + string) prog"
    and asks :: "event \<Rightarrow> bool"
  assumes create_nonempty: "wp (create xs) (\<lambda>r _. r \<noteq> Inr []) h"
    and create_only: "only asks (create xs)"
begin

text \<open>
  A fresh schematic is announced exactly when the factory was called, together with the canonical
  form of the extensions it stands for; the image then names that schematic.
\<close>

lemma computeDesiredImage_fresh:
  assumes "Factory R = Some create" and "SystemExtensions (NodeSpec node) \<noteq> []"
    and "annotation (Annotations node) AnnotationLastExtensions
           \<noteq> canonicalExtensions (SystemExtensions (NodeSpec node))"
  shows "wp (computeDesiredImage E R node)
           (\<lambda>r _. \<forall>d. r = Inr d \<longrightarrow>
              NewSchematicID d \<noteq> [] \<and>
              NewCanonical d = canonicalExtensions (SystemExtensions (NodeSpec node)) \<and>
              DesiredImage d = factory_installer @ NewSchematicID d @ '':'' @
                normalizeVersion (TalosVersion (NodeSpec node))) h"
proof -
  let ?m = "create (SystemExtensions (NodeSpec node))"
  obtain r h1 where r: "run_state ?m h = (r, h1)" by (cases "run_state ?m h")
  have "r \<noteq> Inr []" using wpD [OF create_nonempty r] .
  with assms show ?thesis
    by (cases r) (auto simp: computeDesiredImage_def Let_def wp_simps wp_def [of ?m] r)
qed

end

definition asks_http :: "event \<Rightarrow> bool" where
  "asks_http e = (case e of HttpDo _ \<Rightarrow> True | _ \<Rightarrow> False)"

interpretation real_factory: image_factory "CreateSchematic E c" asks_http
  by unfold_locales (auto intro: CreateSchematic_nonempty only_CreateSchematic simp: asks_http_def)

text \<open>A reconciler whose factory, if it has one, does nothing but ask over HTTP.\<close>

definition quiet_factory :: "node_reconciler \<Rightarrow> bool" where
  "quiet_factory R \<longleftrightarrow> (\<forall>create xs. Factory R = Some create \<longrightarrow> only asks_http (create xs))"

lemma frame_image [frame_intros]:
  assumes "frame P" and "quiet_factory R" and "\<And>q. P (HttpDo q)"
  shows "only P (computeDesiredImage E R node)"
  unfolding computeDesiredImage_def
proof (intro only_intros)
  fix create assume "Factory R = Some create"
  then have "only asks_http (create xs)" for xs
    using assms(2) by (simp add: quiet_factory_def)
  then show "only P (create xs)" for xs
    by (rule only_mono) (auto simp: asks_http_def assms(3) split: event.splits)
qed (simp_all add: frameD [OF assms(1)] metric_arity)

lemma frame_reconcileVersion [frame_intros]:
  assumes "frame P" and "quiet_factory R" and "\<And>q. P (HttpDo q)"
    and "\<And>a b r. P (KPatch (ONode a) (ONode b) r)" and "\<And>a r. P (KStatusUpdate (ONode a) r)"
    and "\<And>c ip img r. TalosVersion (NodeSpec node) \<noteq> [] \<Longrightarrow>
      HasCondition (Conditions (NodeStatus node)) TalosNodeConditionConfigApplied ConditionTrue \<Longrightarrow>
      P (TCall (rpc E c ip (ReqUpgrade img False False)) r)"
  shows "only P (reconcileVersion E R node)"
  unfolding reconcileVersion_def
  by (intro only_intros frame_intros; simp add: assms frameD [OF assms(1)] metric_arity)

section \<open>The desired image\<close>

text \<open>Whatever the path, the image carries the normalized version of the spec as its tag.\<close>

text \<open>
  The desired image carries the normalized version of the spec as its tag on every path: the
  standard installer, a cached schematic and a new one. So the image of a declarative upgrade is
  one that \<^verbatim>\<open>handleUpgrade\<close> accepts, and reads the wanted version off.
\<close>

theorem computeDesiredImage_tag:
  assumes "TalosVersion (NodeSpec node) \<noteq> []" and "CHR '':'' \<notin> set (TalosVersion (NodeSpec node))"
  shows "wp (computeDesiredImage E R node)
           (\<lambda>r _. \<forall>d. r = Inr d \<longrightarrow>
              versionFromImage (DesiredImage d) = normalizeVersion (TalosVersion (NodeSpec node))) h"
proof -
  let ?v = "normalizeVersion (TalosVersion (NodeSpec node))"
  have v: "CHR '':'' \<notin> set ?v" "?v \<noteq> []"
    using assms by (auto simp: normalizeVersion_def)
  have tagged: "versionFromImage (p @ '':'' @ ?v) = ?v" for p
    using versionFromImage_tagged [OF v, of p] by simp
  have standard: "versionFromImage (standard_installer @ ?v) = ?v"
    using tagged [of "''ghcr.io/siderolabs/installer''"] by (simp add: standard_installer_def)
  have factory: "versionFromImage (factory_installer @ s @ '':'' @ ?v) = ?v" for s
    using tagged [of "factory_installer @ s"] by simp
  have created: "wp m Q h'" if "\<And>r g. Q r g" for m :: "(gerror + string) prog" and Q h'
    using that by (simp add: wp_run_state)
  show ?thesis
    unfolding computeDesiredImage_def Let_def
    by (auto simp: wp_simps standard factory created simp del: append.simps split: option.split sum.split)
qed

section \<open>When the version path does nothing\<close>

text \<open>
  \<open>schematic_recorded n\<close>: the annotations of \<open>n\<close> name a schematic for its extensions. \<open>version_current n\<close>:
  the configuration is applied and the running version is the one of the spec.
\<close>

definition schematic_recorded :: "talos_node \<Rightarrow> bool" where
  "schematic_recorded n \<longleftrightarrow>
     annotation (Annotations n) AnnotationLastExtensions = canonicalExtensions (SystemExtensions (NodeSpec n)) \<and>
     annotation (Annotations n) AnnotationCurrentSchematic \<noteq> []"

definition version_current :: "talos_node \<Rightarrow> bool" where
  "version_current n \<longleftrightarrow>
     normalizeVersion (TalosVersion (NodeSpec n)) = normalizeVersion (CurrentTalosVersion (NodeStatus n))"

lemma reconcileVersion_recorded:
  assumes "version_current n" and "SystemExtensions (NodeSpec n) = [] \<or> schematic_recorded n"
  shows "\<exists>es. run_state (reconcileVersion E R n) h = ((no_requeue, False, None, n), h @ es) \<and>
      set es \<subseteq> {MetricInc (fst ExtensionSchematicTotal) [''cached'', ClusterRef (NodeSpec n)]}"
  using assms
  by (auto simp: reconcileVersion_def computeDesiredImage_def schematic_recorded_def version_current_def
      metric_inc_def Let_def)

lemma patched_schematic_recorded:
  "i \<noteq> [] \<Longrightarrow> schematic_recorded (n\<lparr>Annotations := set_annotations (Annotations n)
     [(AnnotationCurrentSchematic, i), (AnnotationLastExtensions, canonicalExtensions (SystemExtensions (NodeSpec n)))]\<rparr>)"
  by (simp add: schematic_recorded_def annotation_defs)

end
