(* ===== verification/NodeApply.thy ===== *)
theory NodeApply
  imports NodeExtensions
begin

text \<open>
  Applying and watching the machine configuration of a node (\<^verbatim>\<open>talosnode_controller.go\<close>):
  \<^verbatim>\<open>applyConfig\<close>, \<^verbatim>\<open>saveNodeConfig\<close>, \<^verbatim>\<open>checkDrift\<close>, \<^verbatim>\<open>setError\<close>, the size gauge.

  \<^verbatim>\<open>applyConfig\<close> changes the node its caller goes on with, so its model returns the error, if any,
  and the node as it is in memory afterwards.
\<close>

section \<open>Rendering the configuration\<close>

fun applySecretPatches ::
    "env \<Rightarrow> string \<Rightarrow> secret_key_selector list \<Rightarrow> ymap option \<Rightarrow> string list \<Rightarrow>
     (gerror + ymap option \<times> string list) prog" where
  "applySecretPatches E namespace [] baseConfig standalonePatches =
     ret (Inr (baseConfig, standalonePatches))"
| "applySecretPatches E namespace (ref # refs) baseConfig standalonePatches = do {
     s \<leftarrow> getSecret E (SelName ref) namespace;
     case s of
       Inl err \<Rightarrow> ret (Inl (ErrWrap ''get patch secret %q: %w'' [FStr (SelName ref)] err))
     | Inr secret \<Rightarrow>
         (case data_lookup secret (SelKey ref) of
            None \<Rightarrow>
              ret (Inl (ErrFmt ''patch secret %q has no key %q'' [FStr (SelName ref), FStr (SelKey ref)]))
          | Some raw \<Rightarrow>
              (case applyRawPatch E raw baseConfig standalonePatches of
                 Inl err \<Rightarrow>
                   ret (Inl (ErrWrap ''apply patch from secret %q key %q: %w''
                               [FStr (SelName ref), FStr (SelKey ref)] err))
               | Inr (baseConfig, standalonePatches) \<Rightarrow>
                   applySecretPatches E namespace refs baseConfig standalonePatches))
   }"

definition config_source :: "TalosNodeRole \<Rightarrow> string \<Rightarrow> string \<times> string" where
  "config_source role clusterName =
     (if role = TalosNodeRoleWorker then (clusterWorkerName clusterName, ''worker.yaml'')
      else (clusterControlPlaneName clusterName, ''controlplane.yaml''))"

definition renderConfig :: "env \<Rightarrow> talos_node \<Rightarrow> talos_cluster \<Rightarrow> (gerror + bytes) prog" where
  "renderConfig E node cluster = do {
     let (secretName, key) = config_source (Role (NodeSpec node)) (Name cluster);
     s \<leftarrow> getSecret E secretName (Namespace node);
     case s of
       Inl err \<Rightarrow> ret (Inl (ErrWrap ''get config secret: %w'' [] err))
     | Inr configSecret \<Rightarrow>
         (case secretKey configSecret key of
            Inl err \<Rightarrow> ret (Inl (ErrWrap ''read base config: %w'' [] err))
          | Inr baseConfigBytes \<Rightarrow>
              (case yaml_unmarshal (Lib E) baseConfigBytes of
                 Inl err \<Rightarrow> ret (Inl (ErrWrap ''unmarshal config: %w'' [] err))
               | Inr baseConfig \<Rightarrow>
                   (case applyInlinePatches E (Patches (NodeSpec node)) baseConfig [] of
                      Inl err \<Rightarrow> ret (Inl err)
                    | Inr (baseConfig, standalonePatches) \<Rightarrow> do {
                        p \<leftarrow> applySecretPatches E (Namespace node) (PatchesFrom (NodeSpec node))
                               baseConfig standalonePatches;
                        case p of
                          Inl err \<Rightarrow> ret (Inl err)
                        | Inr (baseConfig, standalonePatches) \<Rightarrow>
                            (case yaml_marshal (Lib E) baseConfig of
                               Inl err \<Rightarrow> ret (Inl (ErrWrap ''marshal config: %w'' [] err))
                             | Inr configBytes \<Rightarrow>
                                 ret (Inr (appendDocuments configBytes standalonePatches)))
                      })))
   }"

section \<open>Reaching the node\<close>

text \<open>
  A node without the condition ConfigApplied is in maintenance mode and dialled without TLS
  authentication; if that fails and the talosconfig is at hand, it may be running already.
\<close>

definition dialForApply ::
    "env \<Rightarrow> bool \<Rightarrow> gerror + bytes \<Rightarrow> string \<Rightarrow> (gerror + talos_conn) prog" where
  "dialForApply E firstApply talosconfig ip =
     (if firstApply then do {
        d \<leftarrow> conn_DialInsecure E ip;
        case d of
          Inr conn \<Rightarrow> ret (Inr conn)
        | Inl err \<Rightarrow>
            (case talosconfig of
               Inl _ \<Rightarrow> ret (Inl (ErrWrap ''create client: %w'' [] err))
             | Inr talosconfigBytes \<Rightarrow> do {
                 d' \<leftarrow> conn_Dial E talosconfigBytes ip;
                 ret (case d' of Inl err' \<Rightarrow> Inl (ErrWrap ''create client: %w'' [] err')
                      | Inr conn \<Rightarrow> Inr conn)
               })
      }
      else
        (case talosconfig of
           Inl tcErr \<Rightarrow> ret (Inl (ErrWrap ''get talosconfig secret: %w'' [] tcErr))
         | Inr talosconfigBytes \<Rightarrow> do {
             d \<leftarrow> conn_Dial E talosconfigBytes ip;
             ret (case d of Inl err \<Rightarrow> Inl (ErrWrap ''create client: %w'' [] err)
                  | Inr conn \<Rightarrow> Inr conn)
           }))"

section \<open>Saving and finishing\<close>

definition config_size_labels :: "talos_node \<Rightarrow> string list" where
  "config_size_labels node =
     [Name node, Namespace node, ClusterRef (NodeSpec node), node_role_string (Role (NodeSpec node)),
      NodeIP (NodeSpec node)]"

definition saveNodeConfig :: "env \<Rightarrow> talos_node \<Rightarrow> bytes \<Rightarrow> gerror option prog" where
  "saveNodeConfig E node configBytes = do {
     metric_set NodeConfigSizeBytes (config_size_labels node) (int (length configBytes));
     upsertSecret E (nodeConfigName (Name node)) (Namespace node)
       (newSecret (nodeConfigName (Name node)) (Namespace node) ''config.yaml'' configBytes)
       (\<lambda>s. s\<lparr>Data := Some [''config.yaml'' \<mapsto> configBytes]\<rparr>)
   }"

definition refreshConfigSizeMetric :: "env \<Rightarrow> talos_node \<Rightarrow> unit prog" where
  "refreshConfigSizeMetric E node = do {
     s \<leftarrow> getSecret E (nodeConfigName (Name node)) (Namespace node);
     case s of
       Inl _ \<Rightarrow> ret ()
     | Inr secret \<Rightarrow>
         (let size = length (case data_lookup secret ''config.yaml'' of None \<Rightarrow> [] | Some v \<Rightarrow> v)
          in if 0 < size then metric_set NodeConfigSizeBytes (config_size_labels node) (int size)
             else ret ())
   }"

definition finishApply :: "env \<Rightarrow> talos_node \<Rightarrow> (gerror option \<times> talos_node) prog" where
  "finishApply E node = do {
     conditions \<leftarrow> SetConditionStatus E (Conditions (NodeStatus node))
       TalosNodeConditionConfigApplied ConditionTrue ''Applied'' (Lit ''Configuration applied successfully'');
     now \<leftarrow> time_Now E;
     let node = node\<lparr>NodeStatus := (NodeStatus node)
                  \<lparr>NodePhase := TalosNodePhaseReady, NodeMessage := Lit ''Configuration applied'',
                   RetryCount := 0, Conditions := conditions, LastUpdateTime := Some now\<rparr>\<rparr>;
     s \<leftarrow> status_update_TalosNode E node;
     case s of
       Inl err \<Rightarrow> ret (Some err, node)
     | Inr node \<Rightarrow> do {
         record_node_phase node TalosNodePhaseApplying TalosNodePhaseReady;
         metric_inc ConfigApplyTotal
           [node_role_string (Role (NodeSpec node)), ''success'', ClusterRef (NodeSpec node)];
         ret (None, node)
       }
   }"

section \<open>applyConfig\<close>

text \<open>What \<^verbatim>\<open>applyConfig\<close> does once the rendered configuration is there.\<close>

definition pushConfig ::
    "env \<Rightarrow> talos_node \<Rightarrow> talos_cluster \<Rightarrow> bool \<Rightarrow> bytes \<Rightarrow> (gerror option \<times> talos_node) prog" where
  "pushConfig E node cluster firstApply configBytes = do {
     t \<leftarrow> getSecret E (clusterTalosconfigName (Name cluster)) (Namespace node);
     let talosconfig = (case t of Inl err \<Rightarrow> Inl err
                        | Inr talosconfigSecret \<Rightarrow> secretKey talosconfigSecret ''talosconfig'');
     d \<leftarrow> dialForApply E firstApply talosconfig (NodeIP (NodeSpec node));
     case d of
       Inl err \<Rightarrow> ret (Some err, node)
     | Inr conn \<Rightarrow> deferring_close conn (do {
         a \<leftarrow> conn_ApplyConfig E conn (NodeIP (NodeSpec node)) configBytes (Name cluster);
         case a of
           Some err \<Rightarrow> ret (Some (ErrWrap ''apply config: %w'' [] err), node)
         | None \<Rightarrow> do {
             sv \<leftarrow> saveNodeConfig E node configBytes;
             case sv of
               Some err \<Rightarrow> ret (Some (ErrWrap ''save node config: %w'' [] err), node)
             | None \<Rightarrow> finishApply E node
           }
       })
   }"

definition applyConfig :: "env \<Rightarrow> talos_node \<Rightarrow> (gerror option \<times> talos_node) prog" where
  "applyConfig E node = do {
     let firstApply = (\<not> HasCondition (Conditions (NodeStatus node))
                            TalosNodeConditionConfigApplied ConditionTrue);
     let fromPhase = NodePhase (NodeStatus node);
     let node = node\<lparr>NodeStatus := (NodeStatus node)
                  \<lparr>ObservedGeneration := Generation node, NodePhase := TalosNodePhaseApplying\<rparr>\<rparr>;
     s \<leftarrow> status_update_TalosNode E node;
     case s of
       Inl err \<Rightarrow> ret (Some (ErrWrap ''update status: %w'' [] err), node)
     | Inr node \<Rightarrow> do {
         record_node_phase node fromPhase TalosNodePhaseApplying;
         c \<leftarrow> get_TalosCluster E (Namespace node, ClusterRef (NodeSpec node));
         case c of
           Inl err \<Rightarrow> ret (Some (ErrWrap ''get cluster: %w'' [] err), node)
         | Inr cluster \<Rightarrow> do {
             r \<leftarrow> renderConfig E node cluster;
             case r of
               Inl err \<Rightarrow> ret (Some err, node)
             | Inr configBytes \<Rightarrow> pushConfig E node cluster firstApply configBytes
           }
       }
   }"

section \<open>Errors\<close>

definition node_setError ::
    "env \<Rightarrow> node_reconciler \<Rightarrow> talos_node \<Rightarrow> gerror \<Rightarrow> reconcile_result prog" where
  "node_setError E R node err = do {
     let fromPhase = NodePhase (NodeStatus node);
     let node = node\<lparr>NodeStatus := (NodeStatus node)
                  \<lparr>NodePhase := TalosNodePhaseError, RetryCount := RetryCount (NodeStatus node) + 1,
                   NodeMessage := ErrorText err\<rparr>\<rparr>;
     delay \<leftarrow> GetRetryDelay E (RetryCount (NodeStatus node));
     record_node_phase node fromPhase TalosNodePhaseError;
     metric_inc ConfigApplyTotal
       [node_role_string (Role (NodeSpec node)), ''error'', ClusterRef (NodeSpec node)];
     emitEvent (Recorder R) KindNode node EventTypeWarning ''ApplyFailed'' (ErrorText err);
     _ \<leftarrow> status_update_TalosNode E node;
     ret (requeue_after delay, None)
   }"

text \<open>What the callers of \<^verbatim>\<open>applyConfig\<close> do with its error.\<close>

definition applyFailure ::
    "env \<Rightarrow> node_reconciler \<Rightarrow> talos_node \<Rightarrow> gerror \<Rightarrow> reconcile_result prog" where
  "applyFailure E R node err =
     (if IsContextCancelled err then ret (no_requeue, None) else node_setError E R node err)"

section \<open>Drift\<close>

definition driftResult :: "talos_node \<Rightarrow> string \<Rightarrow> reconcile_result prog" where
  "driftResult node result = do {
     metric_inc DriftCheckTotal [result, ClusterRef (NodeSpec node), Name node];
     ret (requeue_after driftCheckInterval, None)
   }"

definition reapplyDrifted ::
    "env \<Rightarrow> node_reconciler \<Rightarrow> talos_node \<Rightarrow> reconcile_result prog" where
  "reapplyDrifted E R node = do {
     metric_inc DriftCheckTotal [''drifted'', ClusterRef (NodeSpec node), Name node];
     emitEvent (Recorder R) KindNode node EventTypeWarning ''DriftDetected''
       (Lit ''Node config drift detected, re-applying'');
     (e, node) \<leftarrow> applyConfig E node;
     case e of
       Some err \<Rightarrow> applyFailure E R node err
     | None \<Rightarrow> ret (requeue_after driftCheckInterval, None)
   }"

definition checkDrift :: "env \<Rightarrow> node_reconciler \<Rightarrow> talos_node \<Rightarrow> reconcile_result prog" where
  "checkDrift E R node = do {
     t \<leftarrow> getSecretOrSkip E (clusterTalosconfigName (ClusterRef (NodeSpec node))) (Namespace node);
     case t of
       Inl err \<Rightarrow> ret (no_requeue, Some err)
     | Inr None \<Rightarrow> ret (requeue_after driftCheckInterval, None)
     | Inr (Some talosconfigSecret) \<Rightarrow> do {
         sv \<leftarrow> getSecretOrSkip E (nodeConfigName (Name node)) (Namespace node);
         case sv of
           Inl err \<Rightarrow> ret (no_requeue, Some err)
         | Inr None \<Rightarrow> ret (requeue_after driftCheckInterval, None)
         | Inr (Some savedSecret) \<Rightarrow>
             (case secretKey talosconfigSecret ''talosconfig'' of
                Inl _ \<Rightarrow> driftResult node ''error''
              | Inr talosconfigBytes \<Rightarrow> do {
                  d \<leftarrow> conn_Dial E talosconfigBytes (NodeIP (NodeSpec node));
                  case d of
                    Inl _ \<Rightarrow> driftResult node ''unreachable''
                  | Inr conn \<Rightarrow> deferring_close conn (do {
                      r \<leftarrow> conn_GetMachineConfig E conn (NodeIP (NodeSpec node));
                      case r of
                        Inl _ \<Rightarrow> driftResult node ''error''
                      | Inr remoteBytes \<Rightarrow>
                          (case secretKey savedSecret ''config.yaml'' of
                             Inl _ \<Rightarrow> driftResult node ''error''
                           | Inr savedConfig \<Rightarrow>
                               (case configsDiffer E savedConfig remoteBytes of
                                  Inl _ \<Rightarrow> driftResult node ''error''
                                | Inr drifted \<Rightarrow>
                                    if \<not> drifted then driftResult node ''in_sync''
                                    else reapplyDrifted E R node))
                    })
                })
       }
   }"

section \<open>What the functions may append\<close>

lemma frame_renderConfig [frame_intros]:
  assumes "\<And>k. P (KGet KindSecret k)"
  shows "only P (renderConfig E node cluster)"
proof -
  have "only P (applySecretPatches E ns refs b ss)" for ns refs b ss
    by (induction refs arbitrary: b ss) (auto intro!: only_intros simp: assms)
  then show ?thesis
    unfolding renderConfig_def by (intro only_intros; simp add: assms)
qed

lemma frame_reads_config [frame_intros]:
  assumes "frame P"
  shows "only P (dialForApply E first tc ip)" "only P (refreshConfigSizeMetric E node)"
    "only P (driftResult node res)"
  unfolding dialForApply_def refreshConfigSizeMetric_def driftResult_def config_size_labels_def
  by (intro only_intros frame_intros; simp add: assms frameD [OF assms] metric_arity)+

lemma frame_saveNodeConfig [frame_intros]:
  assumes "frame P" and "\<And>s r. P (KCreate (OSecret s) r)" and "\<And>s r. P (KUpdate (OSecret s) r)"
  shows "only P (saveNodeConfig E node bs)"
  unfolding saveNodeConfig_def config_size_labels_def
  by (intro only_intros; simp add: assms frameD [OF assms(1)] metric_arity)

lemma frame_applyConfig [frame_intros]:
  assumes "frame P" and "\<And>s r. P (KCreate (OSecret s) r)" and "\<And>s r. P (KUpdate (OSecret s) r)"
    and "\<And>a r. P (KStatusUpdate (ONode a) r)"
    and "\<And>c ip bs r. P (TCall (rpc E c ip (ReqApplyConfiguration bs ApplyAuto)) r)"
  shows "only P (applyConfig E node)"
  unfolding applyConfig_def pushConfig_def finishApply_def call_defs
  by (intro only_intros frame_intros; simp add: assms frameD [OF assms(1)] metric_arity)

lemma frame_applyFailure [frame_intros]:
  assumes "frame P" and "\<And>a r. P (KStatusUpdate (ONode a) r)"
  shows "only P (applyFailure E R node err)"
  unfolding applyFailure_def node_setError_def call_defs
  by (intro only_intros; simp add: assms frameD [OF assms(1)] metric_arity)

lemma frame_checkDrift [frame_intros]:
  assumes "frame P" and "\<And>s r. P (KCreate (OSecret s) r)" and "\<And>s r. P (KUpdate (OSecret s) r)"
    and "\<And>a r. P (KStatusUpdate (ONode a) r)"
    and "\<And>c ip bs r. P (TCall (rpc E c ip (ReqApplyConfiguration bs ApplyAuto)) r)"
  shows "only P (checkDrift E R node)"
  unfolding checkDrift_def reapplyDrifted_def
  by (intro only_intros frame_intros; simp add: assms frameD [OF assms(1)] metric_arity)

section \<open>The guards of an apply\<close>

text \<open>
  \<open>applied_and_saved start bs g\<close>: since \<open>start\<close>, an ApplyConfiguration call with these bytes
  succeeded, and after it a Secret with the same bytes under \<^verbatim>\<open>config.yaml\<close> was written.
\<close>

definition saves_config :: "bytes \<Rightarrow> event \<Rightarrow> bool" where
  "saves_config bs e \<longleftrightarrow>
     (\<exists>s. (e = KCreate (OSecret s) None \<or> e = KUpdate (OSecret s) None) \<and>
        Data s = Some [''config.yaml'' \<mapsto> bs])"

definition applied :: "hist \<Rightarrow> string \<Rightarrow> bytes \<Rightarrow> hist \<Rightarrow> bool" where
  "applied start ip bs g \<longleftrightarrow>
     (\<exists>g0 cl mode rest. g = g0 @ TCall cl None # rest \<and> length start \<le> length g0 \<and>
        CallNode cl = ip \<and> CallReq cl = ReqApplyConfiguration bs mode)"

definition applied_and_saved :: "hist \<Rightarrow> string \<Rightarrow> bytes \<Rightarrow> hist \<Rightarrow> bool" where
  "applied_and_saved start ip bs g \<longleftrightarrow>
     (\<exists>g0 w rest. g = g0 @ w # rest \<and> applied start ip bs g0 \<and> saves_config bs w)"

text \<open>
  Every status that \<^verbatim>\<open>applyConfig\<close> writes is Applying or Ready, for the generation that was read; it is
  Ready, with the condition set and the retry counter reset, only behind a successful apply whose
  bytes are saved. A node that has its configuration is only dialled with its credentials.
\<close>

definition apply_guard :: "env \<Rightarrow> talos_node \<Rightarrow> hist \<Rightarrow> hist \<Rightarrow> event \<Rightarrow> bool" where
  "apply_guard E node start g e \<longleftrightarrow>
     (\<forall>n r. e = KStatusUpdate (ONode n) r \<longrightarrow>
        NodePhase (NodeStatus n) = TalosNodePhaseApplying \<or>
        NodePhase (NodeStatus n) = TalosNodePhaseReady \<and> RetryCount (NodeStatus n) = 0 \<and>
        HasCondition (Conditions (NodeStatus n)) TalosNodeConditionConfigApplied ConditionTrue \<and>
        (\<exists>ip bs. applied_and_saved start ip bs g)) \<and>
     (\<forall>c r. e = TNew c r \<and>
        HasCondition (Conditions (NodeStatus node)) TalosNodeConditionConfigApplied ConditionTrue \<longrightarrow>
        (\<exists>cfg. ConnCreds c = MutualTLS cfg))"

lemma applied_append: "applied start ip bs g \<Longrightarrow> applied start ip bs (g @ es)"
  unfolding applied_def by fastforce

lemma applied_and_saved_append: "applied_and_saved start ip bs g \<Longrightarrow> applied_and_saved start ip bs (g @ es)"
  unfolding applied_and_saved_def by fastforce

lemma apply_guard_other:
  "(\<And>n r. e \<noteq> KStatusUpdate (ONode n) r) \<Longrightarrow> (\<And>c r. e \<noteq> TNew c r) \<Longrightarrow> apply_guard E node start g e"
  by (simp add: apply_guard_def)

lemma saveNodeConfig_saves:
  "wp (saveNodeConfig E node bs)
     (\<lambda>r h'. r = None \<longrightarrow> (\<exists>es w m. h' = h @ es @ [w, m] \<and> saves_config bs w)) h"
proof -
  let ?new = "newSecret (nodeConfigName (Name node)) (Namespace node) ''config.yaml'' bs"
  let ?upd = "\<lambda>s :: secret. s\<lparr>Data := Some [''config.yaml'' \<mapsto> bs]\<rparr>"
  have "saves_config bs w"
    if "w = KCreate (OSecret s) None \<and> s = ?new \<or> w = KUpdate (OSecret s) None \<and> s \<in> range ?upd" for s w
    using that by (auto simp: saves_config_def newSecret_def)
  then show ?thesis
    unfolding saveNodeConfig_def
    by (simp add: wp_simps) (rule wp_mono [OF upsertSecret_written]; fastforce)
qed

lemma applied_and_savedI:
  "applied start ip bs g \<Longrightarrow> saves_config bs w \<Longrightarrow> applied_and_saved start ip bs (g @ es @ [w, m])"
  unfolding applied_and_saved_def
  by (intro exI [of _ "g @ es"] exI [of _ w] exI [of _ "[m]"]) (simp add: applied_append)

text \<open>Neither dialling nor the calls on a connection write a status.\<close>

definition apply_neutral :: "talos_node \<Rightarrow> event \<Rightarrow> bool" where
  "apply_neutral node e \<longleftrightarrow>
     (\<forall>n r. e \<noteq> KStatusUpdate (ONode n) r) \<and>
     (\<forall>c r. e = TNew c r \<and>
        HasCondition (Conditions (NodeStatus node)) TalosNodeConditionConfigApplied ConditionTrue \<longrightarrow>
        (\<exists>cfg. ConnCreds c = MutualTLS cfg))"

lemma neutral_apply_guard: "apply_neutral node e \<Longrightarrow> apply_guard E node start g e"
  by (auto simp: apply_neutral_def apply_guard_def)

lemma harmless_neutral: "harmless e \<Longrightarrow> (\<And>c r. e \<noteq> TNew c r) \<Longrightarrow> apply_neutral node e"
  by (auto simp: apply_neutral_def harmless_def)

lemma on_node_neutral: "on_node E c ip e \<Longrightarrow> apply_neutral node e"
  by (auto simp: apply_neutral_def on_node_def split: event.splits)

lemma only_neutral_dial:
  assumes "firstApply \<longleftrightarrow>
    \<not> HasCondition (Conditions (NodeStatus node)) TalosNodeConditionConfigApplied ConditionTrue"
  shows "only (apply_neutral node) (dialForApply E firstApply tc ip)"
  unfolding dialForApply_def by (intro only_intros) (auto simp: apply_neutral_def assms)

lemma only_neutral_apply: "only (apply_neutral node) (conn_ApplyConfig E c ip bs cl)"
  by (intro real_conn.only_ops_mono) (erule on_node_neutral)

lemma only_neutral_save: "only (apply_neutral node) (saveNodeConfig E n bs)"
  unfolding saveNodeConfig_def by (intro only_intros) (simp_all add: apply_neutral_def)

lemma only_neutral_secret: "only (apply_neutral node) (getSecret E n ns)"
  by (intro only_intros) (simp add: apply_neutral_def)

lemma conn_ApplyConfig_applied:
  assumes "length start \<le> length h"
  shows "wp (conn_ApplyConfig E c ip bs cl) (\<lambda>r g. r = None \<longrightarrow> applied start ip bs g) h"
proof -
  have called: "applied start ip bs (h @ [ClockRead, TCall (rpc E c ip (ReqApplyConfiguration bs ApplyAuto)) None] @ rest)"
    for rest
    unfolding applied_def using assms
    by (intro exI [of _ "h @ [ClockRead]"] exI [of _ "rpc E c ip (ReqApplyConfiguration bs ApplyAuto)"])
      (simp add: rpc_def)
  have "wp (record_apply_messages msgs cl) (\<lambda>_ g. \<exists>es. g = k @ es) k" for msgs k
    by (rule wp_only [OF only_record_apply_messages [where P = "\<lambda>_. True"]]) simp_all
  then have recorded: "wp (record_apply_messages msgs cl) (\<lambda>_. applied start ip bs)
      (h @ [ClockRead, TCall (rpc E c ip (ReqApplyConfiguration bs ApplyAuto)) None] @ rest)" for msgs rest
    by (rule wp_mono) (auto intro: applied_append called [unfolded append_Cons append_Nil])
  have ret_None: "wp (ret None) Q = Q None" for Q :: "'z option \<Rightarrow> hist \<Rightarrow> bool"
    by (rule ext) (simp add: wp_return)
  show ?thesis
    using recorded
    by (simp add: ret_None conn_ApplyConfig_def time_Now_def talos_apply_def observe_call_def wp_simps
        split: sum.split)
qed

lemma finishApply_guarded:
  assumes "applied_and_saved start ip bs h"
  shows "wpg (apply_guard E node start) (finishApply E n) (\<lambda>_ _. True) h"
  unfolding finishApply_def status_update_TalosNode_def time_Now_def record_node_phase_def
    RecordNodePhase_def metric_set_def metric_inc_def
  using applied_and_saved_append [OF assms]
  by (intro wpg_intros; simp add: apply_guard_def) blast+

lemma pushConfig_guarded:
  assumes first: "firstApply \<longleftrightarrow>
      \<not> HasCondition (Conditions (NodeStatus node)) TalosNodeConditionConfigApplied ConditionTrue"
    and later: "length start \<le> length h"
  shows "wpg (apply_guard E node start) (pushConfig E n cluster firstApply bs) (\<lambda>_ _. True) h"
proof -
  let ?ip = "NodeIP (NodeSpec n)"
  have later': "length start \<le> length h + k" for k
    using later by simp
  have applying: "wpg (apply_guard E node start) (conn_ApplyConfig E c ?ip bs cl) Q g"
    if "length start \<le> length g"
      and "\<And>r es. (r = None \<longrightarrow> applied start ?ip bs (g @ es)) \<Longrightarrow> Q r (g @ es)" for c cl Q g
    using only_neutral_apply [of node] conn_ApplyConfig_applied [OF that(1)]
    by (rule wpg_only_wp) (simp_all add: neutral_apply_guard that(2))
  have save: "wpg (apply_guard E node start) (saveNodeConfig E n bs) Q g"
    if "applied start ?ip bs g"
      and "\<And>r es. (r = None \<longrightarrow> applied_and_saved start ?ip bs (g @ es)) \<Longrightarrow> Q r (g @ es)" for Q g
    using only_neutral_save [of node] saveNodeConfig_saves
    by (rule wpg_only_wp) (use that applied_and_savedI in \<open>fastforce simp: neutral_apply_guard\<close>)+
  note steps = only_neutral_dial [OF first, THEN wpg_only] only_neutral_secret [of node, THEN wpg_only]
  show ?thesis
    unfolding pushConfig_def
    by (intro wpg_intros applying steps save;
        (rule TrueI | erule neutral_apply_guard
          | (rule wpg_mono [OF finishApply_guarded [of start ?ip bs]]; simp add: apply_guard_def; fail)
          | simp add: apply_guard_def later'))
qed

text \<open>
  C12. Applying a configuration: every status written on the way is Applying, or it is Ready with the
  retry count reset and ConfigApplied true, and then the node accepted some configuration in this run
  and the same bytes were saved to its Secret afterwards. A node whose configuration was applied before
  is never talked to without its credentials.
\<close>

theorem applyConfig_guarded: "wpg (apply_guard E node h) (applyConfig E node) (\<lambda>_ _. True) h"
proof -
  have neutral: "harmless e \<Longrightarrow> (\<And>c r. e \<noteq> TNew c r) \<Longrightarrow> apply_guard E node h g e" for g e
    by (simp add: harmless_neutral neutral_apply_guard)
  have render: "only (apply_neutral node) (renderConfig E n c)" for n c
    by (rule frame_renderConfig) (simp add: apply_neutral_def)
  have recording: "only (apply_neutral node) (record_node_phase n f t)" for n f t
    by (intro only_intros) (simp add: apply_neutral_def)
  show ?thesis
    unfolding applyConfig_def status_update_TalosNode_def get_TalosCluster_def
    by (intro wpg_intros pushConfig_guarded render [THEN wpg_only] recording [THEN wpg_only];
        (rule TrueI | erule neutral_apply_guard | simp add: apply_guard_def))
qed

section \<open>The result of an apply\<close>

text \<open>
  When the server echoes status updates, a successful \<^verbatim>\<open>applyConfig\<close> leaves a node that
  \<^verbatim>\<open>isNodeUpToDate\<close> accepts, so the next reconcile does not apply again.
\<close>

lemma finishApply_up_to_date:
  assumes "node_status_echo E" and "ObservedGeneration (NodeStatus n) = Generation n"
  shows "returns (\<lambda>(e, n'). e = None \<longrightarrow> isNodeUpToDate n') (finishApply E n)"
proof -
  have echo: "kstatus_node (Kube E) g m = Inr m' \<Longrightarrow> m' = m" for g m m'
    using assms(1) unfolding node_status_echo_def by blast
  show ?thesis
    using assms(2)
    by (intro returns_wp)
      (auto simp: finishApply_def status_update_TalosNode_def time_Now_def wp_simps isNodeUpToDate_def
        Let_def dest!: echo split: sum.split)
qed

text \<open>
  Applying is effective: a node whose configuration was applied without an error is one that the
  next reconcile takes for up to date, so it is not applied again.
\<close>

theorem applyConfig_up_to_date:
  assumes "node_status_echo E"
  shows "returns (\<lambda>(e, n). e = None \<longrightarrow> isNodeUpToDate n) (applyConfig E node)"
proof -
  let ?P = "\<lambda>(e :: gerror option, n). e = None \<longrightarrow> isNodeUpToDate n"
  have push: "returns ?P (pushConfig E n c f bs)"
    if "ObservedGeneration (NodeStatus n) = Generation n" for n c f bs
    unfolding pushConfig_def
    by (intro returns_intros finishApply_up_to_date assms that) simp_all
  have status: "returns (\<lambda>r. \<forall>m. r = Inr m \<longrightarrow> m = n) (status_update_TalosNode E n)" for n
    unfolding status_update_TalosNode_def using assms
    by (intro returns_ask) (auto simp: node_status_echo_def)
  show ?thesis
    unfolding applyConfig_def Let_def
    by (intro returns_bind_with [OF status] returns_intros push) auto
qed

text \<open>
  A saved configuration is read back: for a Secret that nobody else writes, once \<^verbatim>\<open>saveNodeConfig\<close>
  succeeds, by creating the Secret or by updating the one that was there, a read of the node's
  Secret gives exactly the bytes that were saved.
\<close>

theorem saveNodeConfig_reads_back:
  assumes "secrets_read_writes E"
  shows "wp (saveNodeConfig E node bs)
           (\<lambda>r h'. r = None \<longrightarrow>
              (\<exists>s. kget_secret (Kube E) h' (Namespace node, nodeConfigName (Name node)) = Inr s \<and>
                 data_lookup s ''config.yaml'' = Some bs)) h"
  unfolding saveNodeConfig_def
  by (simp add: wp_simps, rule upsertSecret_wp [OF assms])
    (simp_all add: newSecret_def data_lookup_def nsname_def)

section \<open>The contract of recording an error\<close>

text \<open>
  The three reconcilers record an error in the same way: \<open>fail\<close> counts one more attempt, writes the
  object in its error phase as the last thing it does, and asks to be called again after the delay
  of that attempt. \<open>written\<close> is the event of the status update.
\<close>

definition default_retries :: "env \<Rightarrow> bool" where
  "default_retries E \<longleftrightarrow>
     float64_law (float64_round (Lib E)) \<and> (\<forall>h. 0 \<le> rand_float (Host E) h \<and> rand_float (Host E) h < 1) \<and>
     getenv (Host E) ''RETRY_BASE_DELAY'' = None \<and> getenv (Host E) ''RETRY_MAX_DELAY'' = None"

locale error_sink =
  fixes fail :: "env \<Rightarrow> 'o \<Rightarrow> gerror \<Rightarrow> reconcile_result prog"
    and attempts :: "'o \<Rightarrow> int32"
    and failed :: "'o \<Rightarrow> bool"
    and written :: "'o \<Rightarrow> gerror option \<Rightarrow> event"
  assumes fail_delay: "wp (fail E ob e)
      (\<lambda>(res, err) _. err = None \<and> res = requeue_after (retry_delay E h (attempts ob + 1))) h"
    and fail_written: "wp (fail E ob e)
      (\<lambda>_ g. \<exists>es ob' r. g = h @ es @ [written ob' r] \<and> attempts ob' = attempts ob + 1 \<and> failed ob') h"
begin

lemma fail_bounded:
  assumes "default_retries E"
  shows "wp (fail E ob e)
      (\<lambda>(res, err) _. err = None \<and> 4000000000 \<le> sint (RequeueAfter res) \<and>
         sint (RequeueAfter res) \<le> 331000000000) h"
proof -
  have "4000000000 \<le> sint (retry_delay E h n) \<and> sint (retry_delay E h n) \<le> 331000000000" for n
  proof -
    let ?m = "min 300000000000 (5000000000 * 2 ^ shift_of n) :: int"
    have m: "5000000000 \<le> ?m" "?m \<le> 300000000000" by simp_all
    have "\<bar>sint (retry_delay E h n) - ?m\<bar> \<le> ?m div 10 + 5"
      using assms by (intro retry_delay_bound) (simp_all add: default_retries_def)
    moreover have "k div 10 * 10 \<le> k" for k :: int by presburger
    then have "?m div 10 * 10 \<le> ?m" .
    ultimately show ?thesis using m by linarith
  qed
  then show ?thesis
    by (intro wp_mono [OF fail_delay]) (auto simp: requeue_after_def)
qed

lemma fail_never_errors: "returns (\<lambda>(res, err). err = None) (fail E ob e)"
  by (rule returns_wp, rule wp_mono [OF fail_delay]) auto

end

interpretation node_errors: error_sink "\<lambda>E. node_setError E R" "\<lambda>n. RetryCount (NodeStatus n)"
    "\<lambda>n. NodePhase (NodeStatus n) = TalosNodePhaseError" "\<lambda>n. KStatusUpdate (ONode n)"
proof
  fix E ob e h
  note run = node_setError_def status_update_TalosNode_def wp_simps Let_def
  show "wp (node_setError E R ob e)
      (\<lambda>(res, err) _. err = None \<and> res = requeue_after (retry_delay E h (RetryCount (NodeStatus ob) + 1))) h"
    by (simp add: run)
  show "wp (node_setError E R ob e)
      (\<lambda>_ g. \<exists>es ob' r. g = h @ es @ [KStatusUpdate (ONode ob') r] \<and>
         RetryCount (NodeStatus ob') = RetryCount (NodeStatus ob) + 1 \<and>
         NodePhase (NodeStatus ob') = TalosNodePhaseError) h"
    by (fastforce simp: run)
qed

end
