(* ===== verification/NodeDeletion.thy ===== *)
theory NodeDeletion
  imports NodeApply
begin

text \<open>
  Resetting and deleting a node (\<^verbatim>\<open>talosnode_controller.go\<close>): \<^verbatim>\<open>handleStandaloneReset\<close>, the stages of
  \<^verbatim>\<open>handleDeletion\<close>, and the etcd, endpoint and kubeconfig upkeep of a departing control plane.

  A stage of \<^verbatim>\<open>handleDeletion\<close> that may return early gives an option: \<open>Some\<close> of the function's result
  to return it, \<open>None\<close> to go on.
\<close>

section \<open>Reset\<close>

definition tryReset :: "env \<Rightarrow> talos_node \<Rightarrow> bool \<Rightarrow> gerror option prog" where
  "tryReset E node graceful = do {
     t \<leftarrow> loadTalosconfig E node;
     case t of
       Inl err \<Rightarrow> ret (Some (ErrWrap ''load talosconfig: %w'' [] err))
     | Inr None \<Rightarrow> ret (Some (ErrFmt ''talosconfig or cluster not found'' []))
     | Inr (Some (talosconfig, _)) \<Rightarrow>
         withConn E talosconfig (NodeIP (NodeSpec node))
           (\<lambda>conn. conn_Reset E conn (NodeIP (NodeSpec node)) graceful)
   }"

definition handleStandaloneReset ::
    "env \<Rightarrow> node_reconciler \<Rightarrow> talos_node \<Rightarrow> reconcile_result prog" where
  "handleStandaloneReset E R node = do {
     let resetID = annotation (Annotations node) AnnotationReset;
     (pErr, node) \<leftarrow> patchAnnotations E node [(AnnotationLastReset, resetID)] [];
     case pErr of
       Some err \<Rightarrow> ret (no_requeue, Some (ErrWrap ''set last-reset annotation: %w'' [] err))
     | None \<Rightarrow> do {
         emitEvent (Recorder R) KindNode node EventTypeNormal ''NodeResetTriggered''
           (Lit ''Node reset triggered via annotation'');
         rErr \<leftarrow> tryReset E node True;
         case rErr of
           Some err \<Rightarrow> do {
             emitEvent (Recorder R) KindNode node EventTypeWarning ''NodeResetFailed'' (ErrorText err);
             ret (no_requeue, None)
           }
         | None \<Rightarrow> do {
             emitEvent (Recorder R) KindNode node EventTypeNormal ''NodeResetComplete''
               (Lit ''Node reset successfully; config will be re-applied on next reconcile'');
             conditions \<leftarrow> SetConditionStatus E (Conditions (NodeStatus node))
               TalosNodeConditionConfigApplied ConditionFalse ''Reset''
               (Lit ''Node was reset; waiting for config re-apply'');
             let fromPhase = NodePhase (NodeStatus node);
             let node = node\<lparr>NodeStatus := (NodeStatus node)
                          \<lparr>Conditions := conditions, NodePhase := TalosNodePhasePending\<rparr>\<rparr>;
             record_node_phase node fromPhase TalosNodePhasePending;
             _ \<leftarrow> status_update_TalosNode E node;
             ret (no_requeue, None)
           }
       }
   }"

section \<open>Leaving etcd\<close>

definition tryEtcdLeave :: "env \<Rightarrow> string \<Rightarrow> bytes \<Rightarrow> gerror option prog" where
  "tryEtcdLeave E nodeIP talosconfig =
     withConn E talosconfig nodeIP (\<lambda>conn. conn_EtcdLeave E conn nodeIP)"

definition survivingPeers :: "string list \<Rightarrow> string \<Rightarrow> string list" where
  "survivingPeers endpoints excludeIP = filterExclude endpoints excludeIP"

text \<open>
  The graceful attempts, then the forced removal over a surviving peer. The result is
  \<^verbatim>\<open>(done, result, error)\<close>.
\<close>

definition gracefulEtcdLeave ::
    "env \<Rightarrow> talos_node \<Rightarrow> bytes \<Rightarrow> (bool \<times> ctrl_result \<times> gerror option) prog" where
  "gracefulEtcdLeave E node talosconfig = do {
     e \<leftarrow> tryEtcdLeave E (NodeIP (NodeSpec node)) talosconfig;
     case e of
       Some _ \<Rightarrow> do {
         let node = node\<lparr>NodeStatus := (NodeStatus node)
                      \<lparr>DeletionAttempts := DeletionAttempts (NodeStatus node) + 1\<rparr>\<rparr>;
         metric_inc EtcdLeaveTotal [''failed'', ClusterRef (NodeSpec node)];
         _ \<leftarrow> status_update_TalosNode E node;
         ret (False, requeue_after etcdLeaveRetryDelay, None)
       }
     | None \<Rightarrow> do {
         metric_inc EtcdLeaveTotal [''success'', ClusterRef (NodeSpec node)];
         ret (True, no_requeue, None)
       }
   }"

definition forceEtcdRemove ::
    "env \<Rightarrow> talos_node \<Rightarrow> bytes \<Rightarrow> string list \<Rightarrow> (bool \<times> ctrl_result \<times> gerror option) prog" where
  "forceEtcdRemove E node talosconfig endpoints =
     (let peers = survivingPeers endpoints (NodeIP (NodeSpec node))
      in if length peers = 0 then ret (True, no_requeue, None)
         else do {
           (c, survivorEP, err) \<leftarrow> dialAny (conn_Dial E) talosconfig peers;
           case (err, c) of
             (None, Some conn) \<Rightarrow> deferring_close conn (do {
               e \<leftarrow> conn_EtcdForceRemove E conn survivorEP (NodeIP (NodeSpec node));
               metric_inc EtcdLeaveTotal
                 [if e \<noteq> None then ''force_remove_failed'' else ''force_removed'',
                  ClusterRef (NodeSpec node)];
               ret (True, no_requeue, None)
             })
           | _ \<Rightarrow> ret (True, no_requeue, None)
         })"

definition handleEtcdLeave ::
    "env \<Rightarrow> talos_node \<Rightarrow> (bool \<times> ctrl_result \<times> gerror option) prog" where
  "handleEtcdLeave E node = do {
     t \<leftarrow> loadTalosconfig E node;
     case t of
       Inl err \<Rightarrow> ret (False, no_requeue, Some err)
     | Inr None \<Rightarrow> ret (True, no_requeue, None)
     | Inr (Some (talosconfig, endpoints)) \<Rightarrow>
         if sint (DeletionAttempts (NodeStatus node)) < sint etcdLeaveMaxAttempts
         then gracefulEtcdLeave E node talosconfig
         else forceEtcdRemove E node talosconfig endpoints
   }"

section \<open>Endpoints and kubeconfig\<close>

definition remove_endpoint_once :: "env \<Rightarrow> talos_node \<Rightarrow> gerror option prog" where
  "remove_endpoint_once E node = do {
     c \<leftarrow> get_TalosCluster E (Namespace node, ClusterRef (NodeSpec node));
     case c of
       Inl err \<Rightarrow> if IsNotFound err then ret None else ret (Some err)
     | Inr cluster \<Rightarrow>
         (let updated = filterExclude (Endpoints (ClusterSpec cluster)) (NodeIP (NodeSpec node))
          in if length updated = length (Endpoints (ClusterSpec cluster)) then ret None
             else if length updated = 0 then ret None
             else do {
               u \<leftarrow> update_TalosCluster E
                      (cluster\<lparr>ClusterSpec := (ClusterSpec cluster)\<lparr>Endpoints := updated\<rparr>\<rparr>);
               ret (opt_err u)
             })
   }"

definition removeEndpointFromCluster :: "env \<Rightarrow> talos_node \<Rightarrow> gerror option prog" where
  "removeEndpointFromCluster E node = RetryOnConflict E (remove_endpoint_once E node)"

text \<open>\<open>no_other_control_plane\<close> is the loop over the listed nodes.\<close>

fun no_other_control_plane :: "talos_node \<Rightarrow> talos_node list \<Rightarrow> bool" where
  "no_other_control_plane node [] = True"
| "no_other_control_plane node (n # ns) =
     (if Name n = Name node then no_other_control_plane node ns
      else if ClusterRef (NodeSpec n) \<noteq> ClusterRef (NodeSpec node) then no_other_control_plane node ns
      else if Role (NodeSpec n) \<noteq> TalosNodeRoleControlPlane then no_other_control_plane node ns
      else if DeletionTimestamp n \<noteq> None then no_other_control_plane node ns
      else False)"

definition isLastControlPlane :: "env \<Rightarrow> talos_node \<Rightarrow> (gerror + bool) prog" where
  "isLastControlPlane E node = do {
     c \<leftarrow> get_TalosCluster E (Namespace node, ClusterRef (NodeSpec node));
     case c of
       Inl err \<Rightarrow>
         if IsNotFound err then ret (Inr False) else ret (Inl (ErrWrap ''get cluster: %w'' [] err))
     | Inr _ \<Rightarrow> do {
         l \<leftarrow> list_TalosNodes E (Namespace node);
         case l of
           Inl err \<Rightarrow> ret (Inl (ErrWrap ''list TalosNodes: %w'' [] err))
         | Inr items \<Rightarrow> ret (Inr (no_other_control_plane node items))
       }
   }"

definition updateKubeconfigServer :: "env \<Rightarrow> bytes \<Rightarrow> string \<Rightarrow> gerror + bytes" where
  "updateKubeconfigServer E kubeconfigBytes endpoint =
     (case kubeconfig_load (Lib E) kubeconfigBytes of
        Inl err \<Rightarrow> Inl (ErrWrap ''load kubeconfig: %w'' [] err)
      | Inr cfg \<Rightarrow>
          kubeconfig_write (Lib E)
            (cfg\<lparr>Clusters := (\<lambda>k. map_option
                   (\<lambda>c. c\<lparr>Server := ''https://'' @ endpoint @ '':6443''\<rparr>) (Clusters cfg k))\<rparr>))"

definition refreshKubeconfig :: "env \<Rightarrow> talos_node \<Rightarrow> gerror option prog" where
  "refreshKubeconfig E node = do {
     c \<leftarrow> get_TalosCluster E (Namespace node, ClusterRef (NodeSpec node));
     case c of
       Inl err \<Rightarrow> if IsNotFound err then ret None else ret (Some err)
     | Inr cluster \<Rightarrow>
         (case Endpoints (ClusterSpec cluster) of
            [] \<Rightarrow> ret None
          | endpoint # _ \<Rightarrow> do {
              s \<leftarrow> getSecret E (clusterKubeconfigName (ClusterRef (NodeSpec node))) (Namespace node);
              case s of
                Inl err \<Rightarrow> if IsNotFound err then ret None else ret (Some err)
              | Inr kubeconfigSecret \<Rightarrow>
                  (case secretKey kubeconfigSecret ''kubeconfig'' of
                     Inl err \<Rightarrow> ret (Some (ErrWrap ''read kubeconfig: %w'' [] err))
                   | Inr kubeconfigBytes \<Rightarrow>
                       (case updateKubeconfigServer E kubeconfigBytes endpoint of
                          Inl err \<Rightarrow> ret (Some (ErrWrap ''rewrite kubeconfig server: %w'' [] err))
                        | Inr updated \<Rightarrow> do {
                            u \<leftarrow> update_Secret E (kubeconfigSecret\<lparr>Data :=
                                   map_option (\<lambda>m. m(''kubeconfig'' \<mapsto> updated)) (Data kubeconfigSecret)\<rparr>);
                            ret (opt_err u)
                          }))
            })
   }"

section \<open>The stages of handleDeletion\<close>

definition markDeleting :: "env \<Rightarrow> talos_node \<Rightarrow> (gerror option \<times> talos_node) prog" where
  "markDeleting E node =
     (if NodePhase (NodeStatus node) \<noteq> TalosNodePhaseDeleting then do {
        let fromPhase = NodePhase (NodeStatus node);
        let node = node\<lparr>NodeStatus := (NodeStatus node)\<lparr>NodePhase := TalosNodePhaseDeleting\<rparr>\<rparr>;
        record_node_phase node fromPhase TalosNodePhaseDeleting;
        s \<leftarrow> status_update_TalosNode E node;
        case s of
          Inl err \<Rightarrow> ret (Some (ErrWrap ''update deleting phase: %w'' [] err), node)
        | Inr node \<Rightarrow> ret (None, node)
      }
      else ret (None, node))"

definition guardLastControlPlane :: "env \<Rightarrow> talos_node \<Rightarrow> reconcile_result option prog" where
  "guardLastControlPlane E node =
     (if Role (NodeSpec node) = TalosNodeRoleControlPlane then do {
        last \<leftarrow> isLastControlPlane E node;
        ret (case last of
               Inl err \<Rightarrow> Some (no_requeue, Some (ErrWrap ''check last control plane: %w'' [] err))
             | Inr True \<Rightarrow> Some (requeue_after deletionGuardRequeueDelay, None)
             | Inr False \<Rightarrow> None)
      }
      else ret None)"

definition drainStage :: "env \<Rightarrow> node_reconciler \<Rightarrow> talos_node \<Rightarrow> reconcile_result option prog" where
  "drainStage E R node =
     (if skipDrain node then do {
        metric_inc NodeDrainTotal [''skipped'', ClusterRef (NodeSpec node)];
        ret None
      }
      else do {
        (finished, result, err) \<leftarrow> drainAndDeleteNode E R node;
        ret (case err of
               Some e \<Rightarrow> Some (no_requeue, Some e)
             | None \<Rightarrow> if \<not> finished then Some (result, None) else None)
      })"

definition etcdStage :: "env \<Rightarrow> talos_node \<Rightarrow> reconcile_result option prog" where
  "etcdStage E node =
     (if Role (NodeSpec node) = TalosNodeRoleControlPlane then do {
        (finished, result, err) \<leftarrow> handleEtcdLeave E node;
        ret (if \<not> finished then Some (result, err) else None)
      }
      else ret None)"

definition resetStage :: "env \<Rightarrow> node_reconciler \<Rightarrow> talos_node \<Rightarrow> unit prog" where
  "resetStage E R node =
     (if ResetOnDelete (NodeSpec node) then do {
        emitEvent (Recorder R) KindNode node EventTypeNormal ''NodeResetTriggered''
          (Lit ''Resetting node before cleanup (spec.resetOnDelete)'');
        e \<leftarrow> tryReset E node False;
        case e of
          Some err \<Rightarrow>
            emitEvent (Recorder R) KindNode node EventTypeWarning ''NodeResetFailed''
              (Sprintf ''reset-on-delete failed: %v'' [FErr err])
        | None \<Rightarrow>
            emitEvent (Recorder R) KindNode node EventTypeNormal ''NodeResetComplete''
              (Lit ''Node reset successfully'')
      }
      else ret ())"

definition deleteNodeConfig :: "env \<Rightarrow> talos_node \<Rightarrow> gerror option prog" where
  "deleteNodeConfig E node = do {
     s \<leftarrow> getSecret E (nodeConfigName (Name node)) (Namespace node);
     case s of
       Inl err \<Rightarrow> if \<not> IsNotFound err then ret (Some err) else ret None
     | Inr secret \<Rightarrow> delete_Secret E secret
   }"

definition retireEndpoint :: "env \<Rightarrow> talos_node \<Rightarrow> unit prog" where
  "retireEndpoint E node =
     (if Role (NodeSpec node) = TalosNodeRoleControlPlane then do {
        _ \<leftarrow> removeEndpointFromCluster E node;
        _ \<leftarrow> refreshKubeconfig E node;
        ret ()
      }
      else ret ())"

definition finishDeletion :: "env \<Rightarrow> talos_node \<Rightarrow> reconcile_result prog" where
  "finishDeletion E node = do {
     u \<leftarrow> update_TalosNode E
            (node\<lparr>Finalizers := RemoveFinalizer (Finalizers node) FinalizerCleanup\<rparr>);
     case u of
       Inl err \<Rightarrow> ret (no_requeue, Some err)
     | Inr _ \<Rightarrow> ret (no_requeue, None)
   }"

definition node_handleDeletion ::
    "env \<Rightarrow> node_reconciler \<Rightarrow> talos_node \<Rightarrow> reconcile_result prog" where
  "node_handleDeletion E R node =
     (if \<not> ContainsFinalizer (Finalizers node) FinalizerCleanup then ret (no_requeue, None)
      else do {
        (e, node) \<leftarrow> markDeleting E node;
        case e of
          Some err \<Rightarrow> ret (no_requeue, Some err)
        | None \<Rightarrow> do {
            blocked \<leftarrow> guardLastControlPlane E node;
            case blocked of
              Some res \<Rightarrow> ret res
            | None \<Rightarrow> do {
                undrained \<leftarrow> drainStage E R node;
                case undrained of
                  Some res \<Rightarrow> ret res
                | None \<Rightarrow> do {
                    inEtcd \<leftarrow> etcdStage E node;
                    case inEtcd of
                      Some res \<Rightarrow> ret res
                    | None \<Rightarrow> do {
                        resetStage E R node;
                        d \<leftarrow> deleteNodeConfig E node;
                        case d of
                          Some err \<Rightarrow> ret (no_requeue, Some err)
                        | None \<Rightarrow> do {
                            retireEndpoint E node;
                            finishDeletion E node
                          }
                      }
                  }
              }
          }
      })"

section \<open>What the operations may append\<close>

lemma frame_tryReset [frame_intros]:
  assumes "frame P"
    and "\<And>c ip r. P (TCall (rpc E c ip (ReqReset b True [(''STATE'', True), (''EPHEMERAL'', True)])) r)"
  shows "only P (tryReset E node b)"
  unfolding tryReset_def
  by (intro only_intros frame_intros; simp add: assms frameD [OF assms(1)])

lemma frame_handleStandaloneReset [frame_intros]:
  assumes "frame P" and "\<And>a b r. P (KPatch (ONode a) (ONode b) r)" and "\<And>a r. P (KStatusUpdate (ONode a) r)"
    and "\<And>c ip r. P (TCall (rpc E c ip (ReqReset True True [(''STATE'', True), (''EPHEMERAL'', True)])) r)"
  shows "only P (handleStandaloneReset E R node)"
  unfolding handleStandaloneReset_def call_defs
  by (intro only_intros frame_intros; simp add: assms frameD [OF assms(1)] metric_arity)

lemma frame_handleEtcdLeave [frame_intros]:
  assumes "frame P" and "\<And>a r. P (KStatusUpdate (ONode a) r)"
    and "\<And>c ip r. P (TCall (rpc E c ip ReqEtcdLeaveCluster) r)"
    and "\<And>c ip i r. P (TCall (rpc E c ip (ReqEtcdRemoveMemberByID i)) r)"
  shows "only P (handleEtcdLeave E node)"
  unfolding handleEtcdLeave_def gracefulEtcdLeave_def forceEtcdRemove_def tryEtcdLeave_def call_defs
  by (intro only_intros frame_intros; simp add: assms frameD [OF assms(1)] metric_arity)

text \<open>The stages of a deletion; what a stage asks for is conditional on the spec that lets it run.\<close>

lemma frame_guardLastControlPlane [frame_intros]: "frame P \<Longrightarrow> only P (guardLastControlPlane E node)"
  unfolding guardLastControlPlane_def isLastControlPlane_def call_defs
  by (intro only_intros; simp add: frameD)

lemma frame_markDeleting [frame_intros]:
  "frame P \<Longrightarrow> (\<And>a r. P (KStatusUpdate (ONode a) r)) \<Longrightarrow> only P (markDeleting E node)"
  unfolding markDeleting_def call_defs by (intro only_intros; simp add: frameD metric_arity)

lemma frame_drainStage [frame_intros]:
  assumes "frame P" and "\<And>c n r. \<not> skipDrain node \<Longrightarrow> P (RUpdateNode c n r)"
    and "\<And>c k r. \<not> skipDrain node \<Longrightarrow> P (REvict c k r)" and "\<And>c n r. \<not> skipDrain node \<Longrightarrow> P (RDeleteNode c n r)"
  shows "only P (drainStage E R node)"
  unfolding drainStage_def
  by (intro only_intros frame_intros; simp add: assms frameD [OF assms(1)] metric_arity)

lemma frame_etcdStage [frame_intros]:
  assumes "frame P" and "\<And>a r. P (KStatusUpdate (ONode a) r)"
    and "\<And>c ip r. Role (NodeSpec node) = TalosNodeRoleControlPlane \<Longrightarrow> P (TCall (rpc E c ip ReqEtcdLeaveCluster) r)"
    and "\<And>c ip i r. Role (NodeSpec node) = TalosNodeRoleControlPlane \<Longrightarrow>
      P (TCall (rpc E c ip (ReqEtcdRemoveMemberByID i)) r)"
  shows "only P (etcdStage E node)"
  unfolding etcdStage_def by (intro only_intros frame_intros; simp add: assms)

lemma frame_resetStage [frame_intros]:
  assumes "frame P" and "\<And>c ip r. ResetOnDelete (NodeSpec node) \<Longrightarrow>
      P (TCall (rpc E c ip (ReqReset False True [(''STATE'', True), (''EPHEMERAL'', True)])) r)"
  shows "only P (resetStage E R node)"
  unfolding resetStage_def by (intro only_intros frame_intros; simp add: assms frameD [OF assms(1)])

lemma frame_deleteNodeConfig [frame_intros]:
  "frame P \<Longrightarrow> (\<And>k r. P (KDelete KindSecret k r)) \<Longrightarrow> only P (deleteNodeConfig E node)"
  unfolding deleteNodeConfig_def call_defs by (intro only_intros; simp add: frameD)

lemma frame_retireEndpoint [frame_intros]:
  assumes "frame P" and "\<And>c r. Role (NodeSpec node) = TalosNodeRoleControlPlane \<Longrightarrow> P (KUpdate (OCluster c) r)"
    and "\<And>s r. Role (NodeSpec node) = TalosNodeRoleControlPlane \<Longrightarrow> P (KUpdate (OSecret s) r)"
  shows "only P (retireEndpoint E node)"
  unfolding retireEndpoint_def removeEndpointFromCluster_def remove_endpoint_once_def refreshKubeconfig_def call_defs
  by (intro only_intros; simp add: assms frameD [OF assms(1)])

lemma frame_finishDeletion [frame_intros]: "(\<And>n r. P (KUpdate (ONode n) r)) \<Longrightarrow> only P (finishDeletion E node)"
  unfolding finishDeletion_def call_defs by (intro only_intros; simp)

section \<open>Which control planes count\<close>

definition active_peer :: "talos_node \<Rightarrow> talos_node \<Rightarrow> bool" where
  "active_peer node n \<longleftrightarrow>
     Name n \<noteq> Name node \<and> ClusterRef (NodeSpec n) = ClusterRef (NodeSpec node) \<and>
     Role (NodeSpec n) = TalosNodeRoleControlPlane \<and> DeletionTimestamp n = None"

lemma no_other_control_plane_iff: "no_other_control_plane node ns \<longleftrightarrow> \<not> (\<exists>n \<in> set ns. active_peer node n)"
  by (induction ns) (auto simp: active_peer_def)

section \<open>What the stages may append\<close>

text \<open>No stage but the last one updates the node object itself.\<close>

definition stage_event :: "event \<Rightarrow> bool" where
  "stage_event e \<longleftrightarrow> (\<forall>n r. e \<noteq> KUpdate (ONode n) r)"

lemma stage_event_simps [simp]:
  "harmless e \<Longrightarrow> stage_event e" "on_node E c ip e \<Longrightarrow> stage_event e" "is_mtls_dial e \<Longrightarrow> stage_event e"
  "stage_event (TCall cl r)" "stage_event (KStatusUpdate ob r)" "stage_event (KDelete kd k r)"
  "stage_event (KUpdate (OCluster tc) r)" "stage_event (KUpdate (OSecret sec) r)"
  "stage_event (KCreate ob r)" "stage_event (KPatch ob ob' r)"
  "stage_event (RUpdateNode rc kn r)" "stage_event (REvict rc k r)" "stage_event (RDeleteNode rc s r)"
  by (auto simp: stage_event_def harmless_def on_node_def is_mtls_dial_def)

lemma frame_stage_event [simp]: "frame stage_event"
  by (simp add: frame_def)

lemma only_stages:
  "only stage_event (drainStage E R node)" "only stage_event (etcdStage E node)"
  "only stage_event (resetStage E R node)" "only stage_event (deleteNodeConfig E node)"
  "only stage_event (retireEndpoint E node)"
  by (intro frame_intros; simp)+

lemma only_finishDeletion: "only (\<lambda>_. True) (finishDeletion E node)"
  by (intro frame_intros; simp)

section \<open>The guard of the last control plane\<close>

text \<open>
  \<open>quorum_cleared E node start g\<close>: since \<open>start\<close>, either the cluster of the node was found to be
  gone, or a listing of the nodes showed another control plane of the cluster that is not
  terminating.
\<close>

definition quorum_cleared :: "env \<Rightarrow> talos_node \<Rightarrow> hist \<Rightarrow> hist \<Rightarrow> bool" where
  "quorum_cleared E node start g \<longleftrightarrow>
     (\<exists>g0 e rest. g = g0 @ e # rest \<and> length start \<le> length g0 \<and>
        ((\<exists>err. kget_cluster (Kube E) g0 (Namespace node, ClusterRef (NodeSpec node)) = Inl err \<and>
            IsNotFound err) \<or>
         (\<exists>items. e = KList KindNode (Namespace node) \<and>
            klist_nodes (Kube E) g0 (Namespace node) = Inr items \<and> (\<exists>n \<in> set items. active_peer node n))))"

lemma quorum_cleared_append: "quorum_cleared E node start g \<Longrightarrow> quorum_cleared E node start (g @ es)"
  unfolding quorum_cleared_def by fastforce

lemma quorum_clearedI_gone:
  "length start \<le> length g \<Longrightarrow> kget_cluster (Kube E) g (Namespace node, ClusterRef (NodeSpec node)) = Inl err \<Longrightarrow>
   IsNotFound err \<Longrightarrow> quorum_cleared E node start (g @ [e])"
  unfolding quorum_cleared_def by fastforce

lemma quorum_clearedI_peer:
  "length start \<le> length g \<Longrightarrow> klist_nodes (Kube E) g (Namespace node) = Inr items \<Longrightarrow>
   n \<in> set items \<Longrightarrow> active_peer node n \<Longrightarrow>
   quorum_cleared E node start (g @ [KList KindNode (Namespace node)])"
  unfolding quorum_cleared_def by fastforce

lemma guardLastControlPlane_cleared:
  assumes "length start \<le> length h"
  shows "wp (guardLastControlPlane E node)
           (\<lambda>r g. r = None \<longrightarrow> Role (NodeSpec node) = TalosNodeRoleControlPlane \<longrightarrow>
              quorum_cleared E node start g) h"
  using assms
  by (auto simp: guardLastControlPlane_def isLastControlPlane_def get_TalosCluster_def
      list_TalosNodes_def wp_simps no_other_control_plane_iff
      intro: quorum_clearedI_gone
        quorum_clearedI_peer [of start "h @ [KGet KindCluster k]" for k, simplified]
      split: sum.split bool.splits)

text \<open>
  The events that change something: all but reads, records and the phase of the node itself.
\<close>

definition changes :: "event \<Rightarrow> bool" where
  "changes e \<longleftrightarrow> \<not> harmless e \<and> (\<forall>n r. e \<noteq> KStatusUpdate n r)"

definition quorum_guard :: "env \<Rightarrow> talos_node \<Rightarrow> hist \<Rightarrow> hist \<Rightarrow> event \<Rightarrow> bool" where
  "quorum_guard E node start g e \<longleftrightarrow>
     (changes e \<longrightarrow> Role (NodeSpec node) = TalosNodeRoleControlPlane \<longrightarrow> quorum_cleared E node start g)"

lemma harmless_quorum: "harmless e \<Longrightarrow> quorum_guard E node start g e"
  by (simp add: quorum_guard_def changes_def)

lemmas only_harmless_guard = frame_guardLastControlPlane [OF frame_harmless(1)]

lemma status_update_echo:
  assumes "node_status_echo E"
    and "\<And>r. (\<forall>n'. r = Inr n' \<longrightarrow> n' = n) \<Longrightarrow> G h (KStatusUpdate (ONode n) (opt_err r))"
    and "\<And>r. (\<forall>n'. r = Inr n' \<longrightarrow> n' = n) \<Longrightarrow> Q r (h @ [KStatusUpdate (ONode n) (opt_err r)])"
  shows "wpg G (status_update_TalosNode E n) Q h"
  unfolding status_update_TalosNode_def using assms
  by (intro wpg_ask) (auto simp: node_status_echo_def)

lemma markDeleting_guarded:
  assumes "node_status_echo E"
  shows "wpg (quorum_guard E node start) (markDeleting E node)
           (\<lambda>(e, n) g. (\<exists>es. g = h @ es) \<and> NodeSpec n = NodeSpec node \<and> nsname n = nsname node \<and>
              Finalizers n = Finalizers node) h"
  unfolding markDeleting_def
  by (intro wpg_intros wpg_harmless status_update_echo [OF assms];
      (erule harmless_quorum | auto simp: quorum_guard_def changes_def nsname_def))

lemma quorum_same_node:
  "NodeSpec n = NodeSpec node \<Longrightarrow> nsname n = nsname node \<Longrightarrow> quorum_guard E n = quorum_guard E node"
  by (intro ext) (simp add: quorum_guard_def quorum_cleared_def active_peer_def nsname_def)

text \<open>
  C3. The last control plane: the deletion of a control plane changes nothing anywhere (no drain, no
  etcd call, no reset, no Secret deleted, no endpoint or finalizer removed) unless the run has found
  the cluster gone or another control plane of it that is not being deleted. Only the status of the
  node itself may be written before.
\<close>

theorem node_handleDeletion_quorum:
  assumes "node_status_echo E"
  shows "wpg (quorum_guard E node h) (node_handleDeletion E R node) (\<lambda>_ _. True) h"
proof -
  let ?G = "quorum_guard E node h"
  have guard: "wpg ?G (guardLastControlPlane E n) Q g"
    if "length h \<le> length g" and "NodeSpec n = NodeSpec node" and "nsname n = nsname node"
      and "\<And>r es. (r = None \<longrightarrow> (\<forall>k e. ?G (g @ es @ k) e)) \<Longrightarrow> Q r (g @ es)" for n Q g
    unfolding quorum_same_node [OF that(2,3), symmetric]
    using only_harmless_guard guardLastControlPlane_cleared [OF that(1)]
  proof (rule wpg_only_wp)
    fix r :: "reconcile_result option" and es
    assume "r = None \<longrightarrow> Role (NodeSpec n) = TalosNodeRoleControlPlane \<longrightarrow> quorum_cleared E n h (g @ es)"
    then show "Q r (g @ es)"
      using quorum_cleared_append [of E n h "g @ es"]
      by (intro that(4)) (auto simp: quorum_same_node [OF that(2,3), symmetric] quorum_guard_def)
  qed (erule harmless_quorum)
  show ?thesis
    unfolding node_handleDeletion_def
    by (intro wpg_intros wpg_mono [OF markDeleting_guarded [OF assms]] guard
        only_stages [THEN wpg_after] only_finishDeletion [THEN wpg_after]) auto
qed

section \<open>The finalizer\<close>

text \<open>The finalizer of a node goes only when the Secret with its configuration is gone.\<close>

definition finalizer_guard :: "env \<Rightarrow> hist \<Rightarrow> hist \<Rightarrow> event \<Rightarrow> bool" where
  "finalizer_guard E start g e \<longleftrightarrow>
     (\<forall>n r. e = KUpdate (ONode n) r \<longrightarrow>
        \<not> ContainsFinalizer (Finalizers n) FinalizerCleanup \<and>
        secret_gone E start (Namespace n, nodeConfigName (Name n)) g)"

lemma stage_finalizer: "stage_event e \<Longrightarrow> finalizer_guard E start g e"
  by (simp add: stage_event_def finalizer_guard_def)

lemma deleteNodeConfig_gone:
  "length start \<le> length h \<Longrightarrow>
   wp (deleteNodeConfig E n)
     (\<lambda>r g. r = None \<longrightarrow> secret_gone E start (Namespace n, nodeConfigName (Name n)) g) h"
  by (auto simp: deleteNodeConfig_def delete_Secret_def wp_simps secret_gone_found secret_gone_deleted
      split: sum.split)

text \<open>
  C23. Deleting a node: the node object is only ever updated to take the clean-up finalizer off, and
  that only when the Secret with its configuration was deleted or found missing in this run.
\<close>

theorem node_handleDeletion_finalizer:
  "wpg (finalizer_guard E h) (node_handleDeletion E R node) (\<lambda>_ _. True) h"
proof -
  have neutral: "only stage_event (markDeleting E node)" "only stage_event (guardLastControlPlane E n)" for n
    by (intro frame_intros; simp)+
  have config: "wpg (finalizer_guard E h) (deleteNodeConfig E n) Q g"
    if "length h \<le> length g"
      and "\<And>r es. (r = None \<longrightarrow> secret_gone E h (Namespace n, nodeConfigName (Name n)) (g @ es)) \<Longrightarrow> Q r (g @ es)" for n Q g
    using only_stages(4) deleteNodeConfig_gone [OF that(1)]
    by (rule wpg_only_wp) (simp_all add: stage_finalizer that(2))
  have finish: "wpg (finalizer_guard E h) (finishDeletion E n) (\<lambda>_ _. True) g"
    if "secret_gone E h (Namespace n, nodeConfigName (Name n)) g" for n g
    unfolding finishDeletion_def update_TalosNode_def using that
    by (intro wpg_intros) (simp_all add: finalizer_guard_def fin.removed_is_absent)
  show ?thesis
    unfolding node_handleDeletion_def
    by (intro wpg_intros neutral [THEN wpg_only] config only_stages [THEN wpg_only];
        (rule TrueI | erule stage_finalizer | (rule finish, rule secret_gone_append, simp; fail) | simp))
qed

section \<open>Resets\<close>

text \<open>
  A standalone reset is sent only behind a successful patch that records its request, and only as a
  graceful one.
\<close>

definition reset_guard :: "talos_node \<Rightarrow> hist \<Rightarrow> hist \<Rightarrow> event \<Rightarrow> bool" where
  "reset_guard node start g e \<longleftrightarrow>
     (\<forall>cl r graceful reboot labels.
        e = TCall cl r \<and> CallReq cl = ReqReset graceful reboot labels \<longrightarrow>
        graceful \<and> reboot \<and>
        (\<exists>g0 n rest. g = g0 @ KPatch (ONode node) (ONode n) None # rest \<and> length start \<le> length g0 \<and>
           annotation (Annotations n) AnnotationLastReset = annotation (Annotations node) AnnotationReset))"

lemma harmless_reset: "harmless e \<Longrightarrow> reset_guard node start g e"
  by (auto simp: reset_guard_def harmless_def)

text \<open>
  A standalone reset is sent only as a graceful one with a reboot, and only after a patch that
  records the request on the node succeeded in this run, so that a request is not carried out twice.
\<close>

theorem handleStandaloneReset_guarded:
  "wpg (reset_guard node h) (handleStandaloneReset E R node) (\<lambda>_ _. True) h"
proof -
  let ?last = "\<lambda>n. annotation (Annotations n) AnnotationLastReset"
  have sent: "reset_guard node h (h @ KPatch (ONode node) (ONode n) None # es) (TCall (rpc E c ip (ReqReset True True ls)) r)"
    if "?last n = annotation (Annotations node) AnnotationReset" for n es c ip ls r
  proof -
    have "\<exists>g0 m rest. h @ KPatch (ONode node) (ONode n) None # es = g0 @ KPatch (ONode node) (ONode m) None # rest \<and>
        length h \<le> length g0 \<and> ?last m = annotation (Annotations node) AnnotationReset"
      by (rule exI [of _ h], rule exI [of _ n], rule exI [of _ es]) (simp add: that)
    then show ?thesis by (auto simp: reset_guard_def rpc_def)
  qed
  have reset: "wpg (reset_guard node h) (tryReset E n' True) Q
      ((h @ [KPatch (ONode node) (ONode n) (opt_err p)]) @ es)"
    if "p = Inr x" and "?last n = annotation (Annotations node) AnnotationReset"
      and "\<And>r fs. Q r (((h @ [KPatch (ONode node) (ONode n) (opt_err p)]) @ es) @ fs)" for n n' p x Q es
    unfolding tryReset_def withConn_def conn_Reset_def timed_unit_def observe_call_def talos_unit_def
    using that
    by (intro wpg_intros wpg_harmless; (erule harmless_reset | simp add: sent harmless_reset))
  show ?thesis
    unfolding handleStandaloneReset_def patchAnnotations_def patch_TalosNode_def status_update_TalosNode_def
    by (intro wpg_intros wpg_harmless reset;
        (assumption | erule harmless_reset | simp add: reset_guard_def))
qed

section \<open>Leaving etcd\<close>

text \<open>
  Which etcd call goes where: the node itself is asked to leave while attempts are left; afterwards
  a surviving endpoint of the cluster, never the departing node, is asked for its members and to
  remove one.
\<close>

definition etcd_guard :: "talos_node \<Rightarrow> event \<Rightarrow> bool" where
  "etcd_guard node e \<longleftrightarrow>
     (\<forall>cl r. e = TCall cl r \<longrightarrow>
        (if sint (DeletionAttempts (NodeStatus node)) < sint etcdLeaveMaxAttempts
         then CallReq cl = ReqEtcdLeaveCluster \<and> CallNode cl = NodeIP (NodeSpec node)
         else (CallReq cl = ReqEtcdMemberList \<or> (\<exists>i. CallReq cl = ReqEtcdRemoveMemberByID i \<and> i \<noteq> 0)) \<and>
              CallNode cl \<noteq> NodeIP (NodeSpec node)))"

lemma etcd_guard_other: "(\<And>cl r. e \<noteq> TCall cl r) \<Longrightarrow> etcd_guard node e"
  by (simp add: etcd_guard_def)

lemma survivingPeers_set: "set (survivingPeers eps ip) = set eps - {ip}"
  by (auto simp: survivingPeers_def filterExclude_filter)

lemma only_conn_EtcdForceRemove:
  assumes "P ClockRead" and "\<And>r. P (TCall (rpc E c ep ReqEtcdMemberList) r)"
    and "\<And>i r. i \<noteq> 0 \<Longrightarrow> P (TCall (rpc E c ep (ReqEtcdRemoveMemberByID i)) r)"
    and "\<And>a b t. P (MetricObserve (fst APICallDuration) [a, b] t)"
  shows "only P (conn_EtcdForceRemove E c ep dead)"
  unfolding conn_EtcdForceRemove_def time_Now_def talos_members_def talos_unit_def
  by (intro only_intros assms) simp

lemma forceEtcdRemove_guarded:
  assumes "\<not> sint (DeletionAttempts (NodeStatus node)) < sint etcdLeaveMaxAttempts"
  shows "wpg (\<lambda>_. etcd_guard node) (forceEtcdRemove E node tc eps) (\<lambda>_ _. True) h"
proof -
  let ?ip = "NodeIP (NodeSpec node)"
  have dial: "wpg (\<lambda>_. etcd_guard node) (dialAny (conn_Dial E) tc (survivingPeers eps ?ip)) Q g"
    if ne: "length (survivingPeers eps ?ip) \<noteq> 0" and "\<And>c ep e es. (c \<noteq> None \<longrightarrow> ep \<in> set eps - {?ip}) \<Longrightarrow> Q (c, ep, e) (g @ es)"
    for Q g
  proof (rule wpg_only_wp [OF real_dialer.only_dialAny real_dialer.dialAny_connects])
    show "survivingPeers eps ?ip \<noteq> []" using ne by auto
  qed (use that(2) in \<open>auto simp: etcd_guard_def is_mtls_dial_def survivingPeers_set split: option.splits prod.splits\<close>)
  have remove: "only (etcd_guard node) (conn_EtcdForceRemove E c ep ?ip)" if "ep \<noteq> ?ip" for c ep
    using assms that by (intro only_conn_EtcdForceRemove) (simp_all add: etcd_guard_def rpc_def)
  have inc: "only (etcd_guard node) (metric_inc v ls)" for v ls
    by (intro only_intros) (simp add: etcd_guard_def)
  show ?thesis
    unfolding forceEtcdRemove_def Let_def
    by (intro wpg_intros dial remove [THEN wpg_only] inc [THEN wpg_only]; auto simp: etcd_guard_other)
qed

text \<open>
  C28. Leaving etcd: while attempts are left, the only call to Talos asks the node itself to leave; once
  they are used up, only other endpoints of the cluster are called, to list the members and to
  remove one with an identifier that is not 0.
\<close>

theorem handleEtcdLeave_guarded:
  "wpg (\<lambda>_. etcd_guard node) (handleEtcdLeave E node) (\<lambda>_ _. True) h"
proof -
  have load: "only (etcd_guard node) (loadTalosconfig E node)"
    by (intro only_intros) (simp_all add: etcd_guard_def)
  have graceful: "only (etcd_guard node) (gracefulEtcdLeave E node tc)"
    if "sint (DeletionAttempts (NodeStatus node)) < sint etcdLeaveMaxAttempts" for tc
    unfolding gracefulEtcdLeave_def tryEtcdLeave_def conn_EtcdLeave_def status_update_TalosNode_def
    using that by (intro only_intros only_withConn) (simp_all add: etcd_guard_def rpc_def)
  show ?thesis
    unfolding handleEtcdLeave_def
    by (intro wpg_intros load [THEN wpg_only] graceful [THEN wpg_only] forceEtcdRemove_guarded) simp_all
qed

text \<open>
  Leaving etcd never holds a deletion up for good: the node is requeued only while attempts are left,
  and then one more attempt was counted; afterwards the function is done whatever the peers answer.
\<close>

definition counted_attempt :: "talos_node \<Rightarrow> hist \<Rightarrow> bool" where
  "counted_attempt node g \<longleftrightarrow>
     (\<exists>g0 n r. g = g0 @ [KStatusUpdate (ONode n) r] \<and>
        DeletionAttempts (NodeStatus n) = DeletionAttempts (NodeStatus node) + 1)"

text \<open>
  Leaving etcd never holds a deletion up for good: the node is done, or an error is returned, or it
  is requeued after the retry delay, and the last happens only while attempts are left and behind a
  status update that counts one attempt more.
\<close>

theorem handleEtcdLeave_progress:
  "wp (handleEtcdLeave E node)
     (\<lambda>(finished, res, err) g.
        finished \<and> err = None \<or> \<not> finished \<and> err \<noteq> None \<or>
        \<not> finished \<and> err = None \<and> res = requeue_after etcdLeaveRetryDelay \<and>
        sint (DeletionAttempts (NodeStatus node)) < sint etcdLeaveMaxAttempts \<and> counted_attempt node g) h"
proof -
  let ?Q = "\<lambda>(finished, res, err) g.
        finished \<and> err = None \<or> \<not> finished \<and> err \<noteq> None \<or>
        \<not> finished \<and> err = None \<and> res = requeue_after etcdLeaveRetryDelay \<and>
        sint (DeletionAttempts (NodeStatus node)) < sint etcdLeaveMaxAttempts \<and> counted_attempt node g"
  have force: "returns (\<lambda>(finished, res, err). finished \<and> err = None) (forceEtcdRemove E node tc eps)" for tc eps
    unfolding forceEtcdRemove_def by (intro returns_intros) simp_all
  have forced: "wp (forceEtcdRemove E node tc eps) ?Q g" for tc eps g
    by (rule wp_returns [OF force]) auto
  have graceful: "wp (gracefulEtcdLeave E node tc) ?Q g"
    if "sint (DeletionAttempts (NodeStatus node)) < sint etcdLeaveMaxAttempts" for tc g
    unfolding gracefulEtcdLeave_def status_update_TalosNode_def
    using that
    by (subst wp_bind, rule_tac wp_any) (auto simp: wp_simps counted_attempt_def split: option.split)
  have load: "wp (loadTalosconfig E node) R g" if "\<And>r k. R r k" for R g
    using that by (rule wp_any)
  show ?thesis
    unfolding handleEtcdLeave_def by (intro wp_intros load forced graceful) simp_all
qed

section \<open>Endpoints\<close>

text \<open>
  The only update of the cluster takes the node's address, and nothing else, off the endpoints it
  read, and never the last one.
\<close>

definition endpoint_guard :: "env \<Rightarrow> talos_node \<Rightarrow> hist \<Rightarrow> event \<Rightarrow> bool" where
  "endpoint_guard E node g e \<longleftrightarrow>
     (\<forall>c r. e = KUpdate (OCluster c) r \<longrightarrow>
        (\<exists>g0 c0. g = g0 @ [KGet KindCluster (Namespace node, ClusterRef (NodeSpec node))] \<and>
           kget_cluster (Kube E) g0 (Namespace node, ClusterRef (NodeSpec node)) = Inr c0 \<and>
           NodeIP (NodeSpec node) \<in> set (Endpoints (ClusterSpec c0)) \<and>
           c = c0\<lparr>ClusterSpec := (ClusterSpec c0)\<lparr>Endpoints :=
                    filter (\<lambda>ep. ep \<noteq> NodeIP (NodeSpec node)) (Endpoints (ClusterSpec c0))\<rparr>\<rparr> \<and>
           Endpoints (ClusterSpec c) \<noteq> []))"

lemma wpg_retry_loop:
  assumes "\<And>h. wpg G fn (\<lambda>_ _. True) h"
  shows "wpg G (retry_loop n again fn) (\<lambda>_ _. True) h"
proof (induction n arbitrary: h)
  case 0
  then show ?case by (simp add: assms)
next
  case (Suc n)
  then show ?case
    by (simp only: retry_loop.simps) (intro wpg_intros wpg_mono [OF assms]; simp add: wpg_return)
qed

text \<open>
  C29. Retiring an endpoint: every update of the cluster takes the node's address, and nothing else, off
  the endpoints that were read right before, and is never made when no endpoint would be left.
\<close>

theorem removeEndpointFromCluster_guarded:
  "wpg (endpoint_guard E node) (removeEndpointFromCluster E node) (\<lambda>_ _. True) h"
  unfolding removeEndpointFromCluster_def RetryOnConflict_def
proof (rule wpg_retry_loop)
  fix h
  let ?k = "(Namespace node, ClusterRef (NodeSpec node))"
  have guard: "endpoint_guard E node (h @ [KGet KindCluster ?k]) (KUpdate (OCluster c) r)"
    if "q = kget_cluster (Kube E) h ?k" and "q = Inr c0"
      and "y = filterExclude (Endpoints (ClusterSpec c0)) (NodeIP (NodeSpec node))"
      and "length y \<noteq> length (Endpoints (ClusterSpec c0))" and "length y \<noteq> 0"
      and "c = c0\<lparr>ClusterSpec := (ClusterSpec c0)\<lparr>Endpoints := y\<rparr>\<rparr>" for q c0 c y r
    unfolding endpoint_guard_def
    using that that(4) [unfolded that(3) filterExclude_length]
    by (auto simp: filterExclude_length filterExclude_filter simp del: length_filter_less
        intro!: exI [of _ h] exI [of _ c0])
  show "wpg (endpoint_guard E node) (remove_endpoint_once E node) (\<lambda>_ _. True) h"
    unfolding remove_endpoint_once_def get_TalosCluster_def update_TalosCluster_def
    by (intro wpg_intros; (rule TrueI | (rule guard; (assumption | rule refl)) | simp add: endpoint_guard_def))
qed

section \<open>Rewriting the kubeconfig\<close>

text \<open>
  When writing and loading a kubeconfig are inverse, the rewritten one has the same clusters, each
  pointing at the endpoint with its other fields kept, and the same rest.
\<close>


end
