(* ===== verification/NodeController.thy ===== *)
theory NodeController
  imports NodeDeletion
begin

text \<open>
  The entry point of the node controller (\<^verbatim>\<open>TalosNodeReconciler.Reconcile\<close>) and the filter of the
  watch events that lead to it.
\<close>

section \<open>Operations\<close>

definition ignoreNotFound :: "gerror \<Rightarrow> gerror option" where
  "ignoreNotFound err = (if IsNotFound err then None else Some err)"

definition reconcileConfig ::
    "env \<Rightarrow> node_reconciler \<Rightarrow> talos_node \<Rightarrow> reconcile_result prog" where
  "reconcileConfig E R node =
     (if isNodeUpToDate node then
        (if driftEnabled node then checkDrift E R node else ret (no_requeue, None))
      else do {
        (e, node) \<leftarrow> applyConfig E node;
        case e of
          Some err \<Rightarrow> applyFailure E R node err
        | None \<Rightarrow> do {
            emitEvent (Recorder R) KindNode node EventTypeNormal ''Applied''
              (Lit ''Machine configuration applied successfully'');
            (if driftEnabled node then ret (requeue_after driftCheckInterval, None)
             else ret (no_requeue, None))
          }
      })"

definition reconcileLive ::
    "env \<Rightarrow> node_reconciler \<Rightarrow> talos_node \<Rightarrow> reconcile_result prog" where
  "reconcileLive E R node =
     (let v = annotation (Annotations node) AnnotationUpgrade
      in
      if NodePhase (NodeStatus node) = TalosNodePhaseUpgrading then checkUpgradeComplete E R node
      else if v \<noteq> [] \<and> v \<noteq> annotation (Annotations node) AnnotationLastUpgrade
      then handleUpgrade E R node v
      else do {
        (result, finished, err, node) \<leftarrow> reconcileVersion E R node;
        (if finished then ret (result, err)
         else
           let v = annotation (Annotations node) AnnotationReset
           in
           if v \<noteq> [] \<and> v \<noteq> annotation (Annotations node) AnnotationLastReset
           then handleStandaloneReset E R node
           else reconcileConfig E R node)
      })"

definition node_Reconcile ::
    "env \<Rightarrow> node_reconciler \<Rightarrow> namespaced_name \<Rightarrow> reconcile_result prog" where
  "node_Reconcile E R req = do {
     g \<leftarrow> get_TalosNode E req;
     case g of
       Inl err \<Rightarrow> ret (no_requeue, ignoreNotFound err)
     | Inr node \<Rightarrow> do {
         record_node_phase node (NodePhase (NodeStatus node)) (NodePhase (NodeStatus node));
         refreshConfigSizeMetric E node;
         (if DeletionTimestamp node \<noteq> None then node_handleDeletion E R node
          else do {
            (e, node) \<leftarrow> ensureFinalizer (update_TalosNode E) node;
            case e of
              Some err \<Rightarrow> ret (no_requeue, Some err)
            | None \<Rightarrow> reconcileLive E R node
          })
       }
   }"

text \<open>An update of a node is reconciled when its generation or its annotations have changed.\<close>

definition node_event_filter :: "talos_node \<Rightarrow> talos_node \<Rightarrow> bool" where
  "node_event_filter old new \<longleftrightarrow>
     Generation new \<noteq> Generation old \<or> Annotations new \<noteq> Annotations old"

lemma frame_reconcileConfig [frame_intros]:
  assumes "frame P" and "\<And>s r. P (KCreate (OSecret s) r)" and "\<And>s r. P (KUpdate (OSecret s) r)"
    and "\<And>a r. P (KStatusUpdate (ONode a) r)"
    and "\<And>c ip bs r. P (TCall (rpc E c ip (ReqApplyConfiguration bs ApplyAuto)) r)"
  shows "only P (reconcileConfig E R node)"
  unfolding reconcileConfig_def
  by (intro only_intros frame_intros; simp add: assms frameD [OF assms(1)])

section \<open>What a reconcile may ask of the machines\<close>

text \<open>
  \<open>permitted node e\<close>: the event \<open>e\<close> is allowed in a reconcile that read the object \<open>node\<close>. Upgrading,
  configuring and resetting on request are for a node that is not terminating and not upgrading;
  an upgrade needs a fresh annotation or a version in the spec, a graceful reset a fresh annotation.
  Leaving etcd, draining, deleting Secrets and changing the cluster are for a terminating node; the
  first and the last only for a control plane, draining only unless it is to be skipped, and the
  forced reset only when the spec asks for it. Nothing bootstraps etcd.
\<close>

definition fresh_request :: "talos_node \<Rightarrow> string \<Rightarrow> string \<Rightarrow> bool" where
  "fresh_request node request record \<longleftrightarrow>
     annotation (Annotations node) request \<noteq> [] \<and>
     annotation (Annotations node) request \<noteq> annotation (Annotations node) record"

definition serving :: "talos_node \<Rightarrow> bool" where
  "serving node \<longleftrightarrow>
     DeletionTimestamp node = None \<and> NodePhase (NodeStatus node) \<noteq> TalosNodePhaseUpgrading"

definition terminating :: "talos_node \<Rightarrow> bool" where
  "terminating node \<longleftrightarrow>
     DeletionTimestamp node \<noteq> None \<and> ContainsFinalizer (Finalizers node) FinalizerCleanup"

definition permitted_request :: "talos_node \<Rightarrow> rpc_request \<Rightarrow> bool" where
  "permitted_request node req \<longleftrightarrow>
     (case req of
        ReqUpgrade img _ force \<Rightarrow> serving node \<and> \<not> force \<and>
          (fresh_request node AnnotationUpgrade AnnotationLastUpgrade \<and>
             img = annotation (Annotations node) AnnotationUpgrade \<or>
           TalosVersion (NodeSpec node) \<noteq> [] \<and>
             HasCondition (Conditions (NodeStatus node)) TalosNodeConditionConfigApplied ConditionTrue)
      | ReqApplyConfiguration _ _ \<Rightarrow> serving node
      | ReqReset graceful _ _ \<Rightarrow>
          (if graceful then serving node \<and> fresh_request node AnnotationReset AnnotationLastReset
           else terminating node \<and> ResetOnDelete (NodeSpec node))
      | ReqEtcdLeaveCluster \<Rightarrow> terminating node \<and> Role (NodeSpec node) = TalosNodeRoleControlPlane
      | ReqEtcdRemoveMemberByID _ \<Rightarrow>
          terminating node \<and> Role (NodeSpec node) = TalosNodeRoleControlPlane
      | ReqBootstrap \<Rightarrow> False
      | _ \<Rightarrow> True)"

definition permitted :: "talos_node \<Rightarrow> event \<Rightarrow> bool" where
  "permitted node e \<longleftrightarrow>
     (case e of
        TCall cl _ \<Rightarrow> permitted_request node (CallReq cl)
      | RUpdateNode _ _ _ \<Rightarrow> terminating node \<and> \<not> skipDrain node
      | REvict _ _ _ \<Rightarrow> terminating node \<and> \<not> skipDrain node
      | RDeleteNode _ _ _ \<Rightarrow> terminating node \<and> \<not> skipDrain node
      | KDelete _ _ _ \<Rightarrow> terminating node
      | KUpdate (OCluster _) _ \<Rightarrow> terminating node \<and> Role (NodeSpec node) = TalosNodeRoleControlPlane
      | KUpdate (OBootstrap _) _ \<Rightarrow> False
      | _ \<Rightarrow> True)"

lemma permitted_simps [simp]:
  "permitted node (KGet kd k)" "permitted node (KList kd ns)" "permitted node (KCreate ob r)"
  "permitted node (KUpdate (ONode n) r)" "permitted node (KUpdate (OSecret s) r)"
  "permitted node (KStatusUpdate ob r)" "permitted node (KPatch ob ob' r)" "permitted node (TNew c r)"
  "permitted node (TClose c)" "permitted node (RGetNode rc nm)" "permitted node (RListPods rc nm)"
  "permitted node (RServerVersion rc)" "permitted node (HttpDo hr)" "permitted node (NewBundle ct)"
  "permitted node (Recorded kd k et nm m)" "permitted node (MetricSet v ls x)"
  "permitted node (MetricInc v ls)" "permitted node (MetricObserve v ls x)" "permitted node ClockRead"
  "permitted node RandRead" "permitted node CtxCheck" "permitted node (TickWait r)"
  by (simp_all add: permitted_def)

lemma permitted_harmless: "harmless e \<Longrightarrow> permitted node e"
  by (auto simp: harmless_def permitted_def permitted_request_def split: event.splits rpc_request.splits kobj.splits)

lemma permitted_iff [simp]:
  "permitted node (TCall (rpc E c ip req) r) \<longleftrightarrow> permitted_request node req"
  "permitted node (RUpdateNode rc kn r) \<longleftrightarrow> terminating node \<and> \<not> skipDrain node"
  "permitted node (REvict rc k r) \<longleftrightarrow> terminating node \<and> \<not> skipDrain node"
  "permitted node (RDeleteNode rc nm r) \<longleftrightarrow> terminating node \<and> \<not> skipDrain node"
  "permitted node (KDelete kd k r) \<longleftrightarrow> terminating node"
  "permitted node (KUpdate (OCluster tc) r) \<longleftrightarrow>
     terminating node \<and> Role (NodeSpec node) = TalosNodeRoleControlPlane"
  by (simp_all add: permitted_def rpc_def)

lemma permitted_frame [simp]: "frame (permitted node)"
  by (simp add: frame_def permitted_harmless)

lemma only_permitted_standaloneReset:
  assumes "serving node" and "fresh_request node AnnotationReset AnnotationLastReset"
  shows "only (permitted node) (handleStandaloneReset E R n)"
  by (intro frame_intros) (use assms in \<open>simp_all add: permitted_request_def\<close>)

text \<open>The version path leaves the request annotations of the node alone.\<close>

lemma only_permitted_version:
  assumes "quiet_factory R" and "serving node"
  shows "only (permitted node) (reconcileVersion E R node)"
  by (intro frame_intros assms(1)) (use assms(2) in \<open>simp_all add: permitted_request_def\<close>)

definition same_requests :: "talos_node \<Rightarrow> talos_node \<Rightarrow> bool" where
  "same_requests node n \<longleftrightarrow>
     fresh_request n AnnotationReset AnnotationLastReset = fresh_request node AnnotationReset AnnotationLastReset"

lemma node_update_echoD: "node_update_echo E \<Longrightarrow> kupdate_node (Kube E) h n = Inr n' \<Longrightarrow> n' = n"
  by (simp add: node_update_echo_def)

lemma node_patch_echoD: "node_patch_echo E \<Longrightarrow> kpatch_node (Kube E) h b n = Inr n' \<Longrightarrow> n' = n"
  by (simp add: node_patch_echo_def)

lemma reconcileVersion_same:
  assumes "node_patch_echo E"
  shows "returns (\<lambda>(res, finished, err, n). \<not> finished \<longrightarrow> same_requests node n) (reconcileVersion E R node)"
proof -
  have "returns (\<lambda>(pErr, n). pErr = None \<longrightarrow> same_requests node n)
      (patchAnnotations E node [(AnnotationCurrentSchematic, a), (AnnotationLastExtensions, b)] [])" for a b
    by (intro returns_wp) (auto simp: patchAnnotations_def patch_TalosNode_def wp_simps
        same_requests_def fresh_request_def annotation_defs Let_def
        dest!: node_patch_echoD [OF assms] split: sum.split)
  note patched = this
  have self: "same_requests node node" by (simp add: same_requests_def)
  have maybe: "returns (\<lambda>(pErr, n). pErr = None \<longrightarrow> same_requests node n)
      (if c then patchAnnotations E node [(AnnotationCurrentSchematic, a), (AnnotationLastExtensions, b)] []
       else ret (None, node))" for c a b
    by (simp add: patched self returns_ret)
  show ?thesis
    unfolding reconcileVersion_def
    apply (intro returns_if returns_bind [of _ _ "computeDesiredImage E R node"] returns_case_sum
       returns_bind_with [OF maybe])
    apply (simp_all add: self returns_ret)
    apply (auto intro!: returns_intros simp: self returns_ret Let_def)
    done
qed

text \<open>The stages of a deletion, for an object that differs from \<open>node\<close> in its status only.\<close>

lemma only_permitted_stages:
  assumes "terminating node" and "NodeSpec n = NodeSpec node" and "Annotations n = Annotations node"
  shows "only (permitted node) (drainStage E R n)" "only (permitted node) (etcdStage E n)"
    "only (permitted node) (resetStage E R n)" "only (permitted node) (deleteNodeConfig E n)"
    "only (permitted node) (retireEndpoint E n)" "only (permitted node) (guardLastControlPlane E n)"
    "only (permitted node) (finishDeletion E n)"
proof -
  have skip: "skipDrain n = skipDrain node" using assms(2,3) by (simp add: skipDrain_def)
  show "only (permitted node) (drainStage E R n)" "only (permitted node) (etcdStage E n)"
    "only (permitted node) (resetStage E R n)" "only (permitted node) (deleteNodeConfig E n)"
    "only (permitted node) (retireEndpoint E n)" "only (permitted node) (guardLastControlPlane E n)"
    "only (permitted node) (finishDeletion E n)"
    using assms(1,2) skip
    by (intro frame_intros; simp add: permitted_request_def)+
qed

lemma markDeleting_same:
  assumes "node_status_echo E"
  shows "wpg (\<lambda>_. permitted node) (markDeleting E node)
     (\<lambda>(e, n) _. NodeSpec n = NodeSpec node \<and> Annotations n = Annotations node) h"
  unfolding markDeleting_def
  by (intro wpg_intros wpg_harmless status_update_echo [OF assms]) (auto simp: permitted_harmless)

lemma node_handleDeletion_permitted:
  assumes "node_status_echo E" and "DeletionTimestamp node \<noteq> None"
  shows "wpg (\<lambda>_. permitted node) (node_handleDeletion E R node) (\<lambda>_ _. True) h"
  unfolding node_handleDeletion_def
  by (intro wpg_intros wpg_mono [OF markDeleting_same [OF assms(1)]]
      only_permitted_stages [THEN wpg_only]) (simp_all add: terminating_def assms(2))

lemma reconcileLive_permitted:
  assumes "node_patch_echo E" and "quiet_factory R" and "DeletionTimestamp node = None"
  shows "wpg (\<lambda>_. permitted node) (reconcileLive E R node) (\<lambda>_ _. True) h"
proof (cases "NodePhase (NodeStatus node) = TalosNodePhaseUpgrading")
  case True
  then show ?thesis
    unfolding reconcileLive_def
    by (intro wpg_intros frame_checkUpgradeComplete [THEN wpg_only]) simp_all
next
  case False
  with assms(3) have live: "serving node" by (simp add: serving_def)
  have upgrade: "permitted_request node (ReqUpgrade img False False)"
    if "img = annotation (Annotations node) AnnotationUpgrade" and "img \<noteq> []"
      and "img \<noteq> annotation (Annotations node) AnnotationLastUpgrade" for img
    using that live by (simp add: permitted_request_def fresh_request_def)
  have config: "only (permitted node) (reconcileConfig E R n)" for n
    by (intro frame_intros) (use live in \<open>simp_all add: permitted_request_def\<close>)
  have version: "wpg (\<lambda>_. permitted node) (reconcileVersion E R node) Q g"
    if "\<And>res finished err n es. \<not> finished \<longrightarrow> same_requests node n \<Longrightarrow> Q (res, finished, err, n) (g @ es)" for Q g
  proof -
    have "wp (reconcileVersion E R node) (\<lambda>(res, finished, err, n) _. \<not> finished \<longrightarrow> same_requests node n) g"
      by (rule wp_returns [OF reconcileVersion_same [OF assms(1)]]) auto
    from only_permitted_version [OF assms(2) live] this show ?thesis
      by (rule wpg_only_wp) (auto intro: that)
  qed
  show ?thesis
    unfolding reconcileLive_def using False
    by (intro wpg_intros version frame_handleUpgrade [THEN wpg_only]
        only_permitted_standaloneReset [THEN wpg_only] config [THEN wpg_only])
      (auto simp: live upgrade same_requests_def fresh_request_def)
qed

text \<open>The node that a reconcile works on, and what it may do with it.\<close>

definition reconcile_permits :: "env \<Rightarrow> namespaced_name \<Rightarrow> hist \<Rightarrow> event \<Rightarrow> bool" where
  "reconcile_permits E req start e \<longleftrightarrow>
     (case kget_node (Kube E) start req of Inl _ \<Rightarrow> harmless e | Inr node \<Rightarrow> permitted node e)"

lemma permitted_finalizers:
  "DeletionTimestamp node = None \<Longrightarrow> permitted (node\<lparr>Finalizers := fs\<rparr>) = permitted node"
  by (intro ext) (simp add: permitted_def permitted_request_def serving_def terminating_def fresh_request_def
      skipDrain_def split: event.split kobj.split rpc_request.split)

text \<open>
  C1. What a reconcile of a node may do to the machines, from the object it read: upgrades,
  configurations and graceful resets only for a node that is neither terminating nor upgrading, with
  a fresh request or a version in the spec; draining, leaving etcd, forced resets, deletions and
  changes of the cluster only for a terminating node with the finalizer, according to its role and
  spec; and etcd is never bootstrapped.
\<close>

theorem node_Reconcile_permitted:
  assumes "node_update_echo E" and "node_status_echo E" and "node_patch_echo E" and "quiet_factory R"
  shows "wpg (\<lambda>_. reconcile_permits E req h) (node_Reconcile E R req) (\<lambda>_ _. True) h"
proof (cases "kget_node (Kube E) h req")
  case (Inl err)
  then show ?thesis
    unfolding node_Reconcile_def get_TalosNode_def
    by (intro wpg_intros) (simp_all add: reconcile_permits_def)
next
  case (Inr node)
  have guard: "reconcile_permits E req h = permitted node"
    by (intro ext) (simp add: reconcile_permits_def Inr)
  have steps: "only (permitted node) (record_node_phase n f t)" "only (permitted node) (refreshConfigSizeMetric E n)"
    for n f t
    by (intro only_intros frame_intros; simp)+
  have live: "wpg (\<lambda>_. permitted node) (reconcileLive E R n) (\<lambda>_ _. True) g"
    if "DeletionTimestamp node = None" and "n = node \<or> n = node\<lparr>Finalizers := fs\<rparr>" for n fs g
    using reconcileLive_permitted [OF assms(3,4), of n g] that permitted_finalizers [OF that(1)] by auto
  have finalizer: "wpg (\<lambda>_. permitted node) (ensureFinalizer (update_TalosNode E) node) Q g"
    if "\<And>err n g'. err \<noteq> None \<or> n = node \<or> (\<exists>fs. n = node\<lparr>Finalizers := fs\<rparr>) \<Longrightarrow> Q (err, n) g'" for Q g
    unfolding ensureFinalizer_def update_TalosNode_def
    by (intro wpg_intros) (auto intro!: that dest!: sym [THEN node_update_echoD [OF assms(1)]])
  have rest: "wpg (\<lambda>_. permitted node)
      (if DeletionTimestamp node \<noteq> None then node_handleDeletion E R node
       else do {
         (e, node) \<leftarrow> ensureFinalizer (update_TalosNode E) node;
         case e of Some err \<Rightarrow> ret (no_requeue, Some err) | None \<Rightarrow> reconcileLive E R node
       }) (\<lambda>_ _. True) g" for g
    by (intro wpg_intros finalizer node_handleDeletion_permitted assms) (auto intro: live)
  show ?thesis
    unfolding node_Reconcile_def get_TalosNode_def guard
    by (intro wpg_bind wpg_ask; simp only: Inr sum.case permitted_simps;
      intro wpg_bind steps [THEN wpg_only] rest; assumption)
qed

end
