(* ===== verification/ClusterController.thy ===== *)
theory ClusterController
  imports NodeController
begin

text \<open>
  The cluster controller (\<^verbatim>\<open>taloscluster_controller.go\<close>): generating the secrets and machine
  configurations of a cluster once, and taking them down when no active node is left.
\<close>

section \<open>Operations\<close>

record cluster_reconciler =
  ClusterRecorder :: bool

definition record_cluster_phase :: "talos_cluster \<Rightarrow> TalosPhase \<Rightarrow> TalosPhase \<Rightarrow> unit prog" where
  "record_cluster_phase cluster from_phase to_phase =
     RecordClusterPhase (Name cluster) (Namespace cluster)
       (talos_phase_string from_phase) (talos_phase_string to_phase)"

text \<open>\<open>count_active\<close> is the loop of \<^verbatim>\<open>activeNodeCount\<close>.\<close>

fun count_active :: "string \<Rightarrow> talos_node list \<Rightarrow> nat \<Rightarrow> nat" where
  "count_active clusterName [] acc = acc"
| "count_active clusterName (n # ns) acc =
     count_active clusterName ns
       (if ClusterRef (NodeSpec n) = clusterName \<and> DeletionTimestamp n = None then Suc acc else acc)"

definition activeNodeCount :: "env \<Rightarrow> talos_cluster \<Rightarrow> (gerror + nat) prog" where
  "activeNodeCount E cluster = do {
     l \<leftarrow> list_TalosNodes E (Namespace cluster);
     case l of
       Inl err \<Rightarrow> ret (Inl err)
     | Inr items \<Rightarrow> ret (Inr (count_active (Name cluster) items 0))
   }"

definition cluster_handleDeletion :: "env \<Rightarrow> talos_cluster \<Rightarrow> reconcile_result prog" where
  "cluster_handleDeletion E cluster =
     (if \<not> ContainsFinalizer (Finalizers cluster) FinalizerCleanup then ret (no_requeue, None)
      else do {
        c \<leftarrow> activeNodeCount E cluster;
        case c of
          Inl err \<Rightarrow> ret (no_requeue, Some (ErrWrap ''count active nodes: %w'' [] err))
        | Inr active \<Rightarrow>
            if 0 < active then do {
              record_cluster_phase cluster (ClusterPhase (ClusterStatus cluster)) TalosPhaseDeleting;
              let cluster = cluster\<lparr>ClusterStatus :=
                              (ClusterStatus cluster)\<lparr>ClusterPhase := TalosPhaseDeleting\<rparr>\<rparr>;
              _ \<leftarrow> status_update_TalosCluster E cluster;
              ret (requeue_after deletionGuardRequeueDelay, None)
            }
            else do {
              let sm = NewSecretManager (Name cluster) (UID cluster);
              d \<leftarrow> sm_DeleteMultiple E sm (Namespace cluster)
                     [clusterSecretsName (Name cluster), clusterControlPlaneName (Name cluster),
                      clusterWorkerName (Name cluster), clusterTalosconfigName (Name cluster)];
              case d of
                Some err \<Rightarrow> ret (no_requeue, Some err)
              | None \<Rightarrow> do {
                  u \<leftarrow> update_TalosCluster E
                         (cluster\<lparr>Finalizers := RemoveFinalizer (Finalizers cluster) FinalizerCleanup\<rparr>);
                  ret (no_requeue, opt_err u)
                }
            }
      })"

definition isUpToDate :: "talos_cluster \<Rightarrow> bool" where
  "isUpToDate cluster \<longleftrightarrow>
     ObservedGeneration (ClusterStatus cluster) = Generation cluster \<and>
     ClusterPhase (ClusterStatus cluster) = TalosPhaseReady \<and>
     HasCondition (Conditions (ClusterStatus cluster)) TalosClusterConditionConfigsGenerated ConditionTrue"

text \<open>Setting both conditions of a cluster to one status, with one reason and two messages.\<close>

definition set_cluster_conditions ::
    "env \<Rightarrow> condition list \<Rightarrow> condition_status \<Rightarrow> string \<Rightarrow> string \<Rightarrow> string \<Rightarrow> condition list prog" where
  "set_cluster_conditions E conditions status reason secretsMsg configsMsg = do {
     conditions \<leftarrow> SetConditionStatus E conditions TalosClusterConditionSecretsGenerated status reason
                     (Lit secretsMsg);
     SetConditionStatus E conditions TalosClusterConditionConfigsGenerated status reason (Lit configsMsg)
   }"

text \<open>The bytes of the stored bundle; an error of the read counts as no bundle.\<close>

definition existingBundle :: "env \<Rightarrow> talos_cluster \<Rightarrow> bytes prog" where
  "existingBundle E cluster = do {
     s \<leftarrow> getSecret E (clusterSecretsName (Name cluster)) (Namespace cluster);
     ret (case s of
            Inl _ \<Rightarrow> []
          | Inr existingSecrets \<Rightarrow>
              (case data_lookup existingSecrets ''secrets.yaml'' of None \<Rightarrow> [] | Some v \<Rightarrow> v))
   }"

text \<open>The four Secrets of a cluster, each created unless it is there already.\<close>

definition storeConfigs ::
    "env \<Rightarrow> secret_manager \<Rightarrow> talos_cluster \<Rightarrow> cluster_configs \<Rightarrow> gerror option prog" where
  "storeConfigs E sm cluster configs = do {
     a \<leftarrow> sm_Create E sm (clusterControlPlaneName (Name cluster)) (Namespace cluster)
            ''controlplane.yaml'' (ControlPlane configs) SecretTypeOpaque;
     case a of
       Some err \<Rightarrow> ret (Some (ErrWrap ''store controlplane: %w'' [] err))
     | None \<Rightarrow> do {
         b \<leftarrow> sm_Create E sm (clusterWorkerName (Name cluster)) (Namespace cluster)
                ''worker.yaml'' (Worker configs) SecretTypeOpaque;
         case b of
           Some err \<Rightarrow> ret (Some (ErrWrap ''store worker: %w'' [] err))
         | None \<Rightarrow> do {
             c \<leftarrow> sm_Create E sm (clusterTalosconfigName (Name cluster)) (Namespace cluster)
                    ''talosconfig'' (Talosconfig configs) SecretTypeOpaque;
             ret (map_option (\<lambda>err. ErrWrap ''store talosconfig: %w'' [] err) c)
           }
       }
   }"

definition finishProvision :: "env \<Rightarrow> talos_cluster \<Rightarrow> (gerror option \<times> talos_cluster) prog" where
  "finishProvision E cluster = do {
     record_cluster_phase cluster TalosPhaseProvisioning TalosPhaseReady;
     now \<leftarrow> time_Now E;
     conditions \<leftarrow> set_cluster_conditions E (Conditions (ClusterStatus cluster)) ConditionTrue ''Generated''
       ''Cluster secrets generated successfully'' ''Cluster configs generated successfully'';
     let cluster = cluster\<lparr>ClusterStatus := (ClusterStatus cluster)
                     \<lparr>ClusterPhase := TalosPhaseReady, RetryCount := 0, LastUpdateTime := Some now,
                      Conditions := conditions\<rparr>\<rparr>;
     s \<leftarrow> status_update_TalosCluster E cluster;
     ret (case s of Inl err \<Rightarrow> (Some err, cluster) | Inr cluster \<Rightarrow> (None, cluster))
   }"

definition provision :: "env \<Rightarrow> talos_cluster \<Rightarrow> (gerror option \<times> talos_cluster) prog" where
  "provision E cluster = do {
     let fromPhase = ClusterPhase (ClusterStatus cluster);
     record_cluster_phase cluster fromPhase TalosPhaseProvisioning;
     conditions \<leftarrow> set_cluster_conditions E (Conditions (ClusterStatus cluster)) ConditionFalse ''Generating''
       ''Generating cluster secrets'' ''Generating cluster configs'';
     let cluster = cluster\<lparr>ClusterStatus := (ClusterStatus cluster)
                     \<lparr>ObservedGeneration := Generation cluster, ClusterPhase := TalosPhaseProvisioning,
                      Conditions := conditions\<rparr>\<rparr>;
     s \<leftarrow> status_update_TalosCluster E cluster;
     case s of
       Inl err \<Rightarrow> ret (Some (ErrWrap ''update status: %w'' [] err), cluster)
     | Inr cluster \<Rightarrow>
         if length (Endpoints (ClusterSpec cluster)) = 0
         then ret (Some (ErrFmt ''no endpoints configured'' []), cluster)
         else do {
           existing \<leftarrow> existingBundle E cluster;
           b \<leftarrow> LoadOrGenSecretsBundle E existing (ClusterTalosVersion (ClusterSpec cluster));
           case b of
             Inl err \<Rightarrow> ret (Some err, cluster)
           | Inr (bundle, bundleBytes) \<Rightarrow> do {
               let sm = NewSecretManager (Name cluster) (UID cluster);
               st \<leftarrow> sm_Create E sm (clusterSecretsName (Name cluster)) (Namespace cluster)
                      ''secrets.yaml'' bundleBytes SecretTypeOpaque;
               case st of
                 Some err \<Rightarrow> ret (Some (ErrWrap ''store secrets: %w'' [] err), cluster)
               | None \<Rightarrow>
                   (case GenConfig E (ClusterName (ClusterSpec cluster)) (Endpoints (ClusterSpec cluster))
                           (ClusterTalosVersion (ClusterSpec cluster)) bundle
                           (KubernetesVersion (ClusterSpec cluster)) of
                      Inl err \<Rightarrow> ret (Some err, cluster)
                    | Inr configs \<Rightarrow> do {
                        e \<leftarrow> storeConfigs E sm cluster configs;
                        case e of
                          Some err \<Rightarrow> ret (Some err, cluster)
                        | None \<Rightarrow> finishProvision E cluster
                      })
             }
         }
   }"

definition cluster_setError ::
    "env \<Rightarrow> cluster_reconciler \<Rightarrow> talos_cluster \<Rightarrow> gerror \<Rightarrow> reconcile_result prog" where
  "cluster_setError E R cluster err = do {
     let cluster = cluster\<lparr>ClusterStatus := (ClusterStatus cluster)
                     \<lparr>RetryCount := RetryCount (ClusterStatus cluster) + 1\<rparr>\<rparr>;
     delay \<leftarrow> GetRetryDelay E (RetryCount (ClusterStatus cluster));
     record_cluster_phase cluster (ClusterPhase (ClusterStatus cluster)) TalosPhaseError;
     let cluster = cluster\<lparr>ClusterStatus :=
                     (ClusterStatus cluster)\<lparr>ClusterPhase := TalosPhaseError\<rparr>\<rparr>;
     emitEvent (ClusterRecorder R) KindCluster cluster EventTypeWarning ''ProvisionFailed'' (ErrorText err);
     _ \<leftarrow> status_update_TalosCluster E cluster;
     ret (requeue_after delay, None)
   }"

definition cluster_Reconcile ::
    "env \<Rightarrow> cluster_reconciler \<Rightarrow> namespaced_name \<Rightarrow> reconcile_result prog" where
  "cluster_Reconcile E R req = do {
     g \<leftarrow> get_TalosCluster E req;
     case g of
       Inl err \<Rightarrow> ret (no_requeue, ignoreNotFound err)
     | Inr cluster \<Rightarrow> do {
         record_cluster_phase cluster (ClusterPhase (ClusterStatus cluster)) (ClusterPhase (ClusterStatus cluster));
         (if DeletionTimestamp cluster \<noteq> None then cluster_handleDeletion E cluster
          else do {
            (f, cluster) \<leftarrow> ensureFinalizer (update_TalosCluster E) cluster;
            case f of
              Some err \<Rightarrow> ret (no_requeue, Some err)
            | None \<Rightarrow>
                if isUpToDate cluster then ret (no_requeue, None)
                else do {
                  (e, cluster) \<leftarrow> provision E cluster;
                  case e of
                    Some err \<Rightarrow>
                      if IsContextCancelled err then ret (no_requeue, None)
                      else cluster_setError E R cluster (ErrWrap ''provision: %w'' [] err)
                  | None \<Rightarrow> do {
                      emitEvent (ClusterRecorder R) KindCluster cluster EventTypeNormal ''Provisioned''
                        (Lit ''Cluster configs and secrets generated successfully'');
                      ret (no_requeue, None)
                    }
                }
          })
       }
   }"

section \<open>Errors\<close>

interpretation cluster_errors: error_sink "\<lambda>E. cluster_setError E R" "\<lambda>c. RetryCount (ClusterStatus c)"
    "\<lambda>c. ClusterPhase (ClusterStatus c) = TalosPhaseError" "\<lambda>c. KStatusUpdate (OCluster c)"
proof
  fix E ob e h
  note run = cluster_setError_def status_update_TalosCluster_def record_cluster_phase_def wp_simps Let_def
  show "wp (cluster_setError E R ob e)
      (\<lambda>(res, err) _. err = None \<and> res = requeue_after (retry_delay E h (RetryCount (ClusterStatus ob) + 1))) h"
    by (simp add: run)
  show "wp (cluster_setError E R ob e)
      (\<lambda>_ g. \<exists>es ob' r. g = h @ es @ [KStatusUpdate (OCluster ob') r] \<and>
         RetryCount (ClusterStatus ob') = RetryCount (ClusterStatus ob) + 1 \<and>
         ClusterPhase (ClusterStatus ob') = TalosPhaseError) h"
    by (fastforce simp: run)
qed

section \<open>Deleting a cluster\<close>

lemma count_active_sum:
  "count_active c ns k = k + length (filter (\<lambda>n. ClusterRef (NodeSpec n) = c \<and> DeletionTimestamp n = None) ns)"
  by (induction ns arbitrary: k) auto

definition cluster_secret_names :: "string \<Rightarrow> string list" where
  "cluster_secret_names c =
     [clusterSecretsName c, clusterControlPlaneName c, clusterWorkerName c, clusterTalosconfigName c]"

text \<open>
  \<open>no_active_nodes E c start g\<close>: since \<open>start\<close>, a listing of the nodes showed none of the cluster that
  is not terminating. Secrets are deleted and the finalizer is removed only behind that; and the
  finalizer only when the four Secrets are gone.
\<close>

definition no_active_nodes :: "env \<Rightarrow> talos_cluster \<Rightarrow> hist \<Rightarrow> hist \<Rightarrow> bool" where
  "no_active_nodes E c start g \<longleftrightarrow>
     (\<exists>g0 items rest. g = g0 @ KList KindNode (Namespace c) # rest \<and> length start \<le> length g0 \<and>
        klist_nodes (Kube E) g0 (Namespace c) = Inr items \<and>
        (\<forall>n \<in> set items. ClusterRef (NodeSpec n) = Name c \<longrightarrow> DeletionTimestamp n \<noteq> None))"

definition teardown_guard :: "env \<Rightarrow> talos_cluster \<Rightarrow> hist \<Rightarrow> hist \<Rightarrow> event \<Rightarrow> bool" where
  "teardown_guard E c start g e \<longleftrightarrow>
     (\<forall>kd k r. e = KDelete kd k r \<longrightarrow> no_active_nodes E c start g) \<and>
     (\<forall>ob r. e = KUpdate ob r \<longrightarrow>
        no_active_nodes E c start g \<and>
        (\<forall>n \<in> set (cluster_secret_names (Name c)). secret_gone E start (Namespace c, n) g))"

lemma no_active_nodes_append: "no_active_nodes E c start g \<Longrightarrow> no_active_nodes E c start (g @ es)"
  unfolding no_active_nodes_def by fastforce

lemma teardown_other:
  "(\<And>kd k r. e \<noteq> KDelete kd k r) \<Longrightarrow> (\<And>ob r. e \<noteq> KUpdate ob r) \<Longrightarrow> teardown_guard E c start g e"
  by (simp add: teardown_guard_def)

lemma no_active_nodesI:
  assumes "klist_nodes (Kube E) h (Namespace c) = Inr items" and "count_active (Name c) items 0 = 0"
    and "length start \<le> length h"
  shows "no_active_nodes E c start (h @ [KList KindNode (Namespace c)])"
  unfolding no_active_nodes_def using assms
  by (intro exI [of _ h] exI [of _ items] exI [of _ "[]"]) (auto simp: count_active_sum filter_empty_conv)

lemma only_record_cluster_phase [only_intros]:
  "(\<And>a b p v. P (MetricSet (fst ClusterPhaseVec) [a, b, p] v)) \<Longrightarrow> only P (record_cluster_phase c f t)"
  unfolding record_cluster_phase_def by (intro only_intros)

text \<open>
  C14. Tearing a cluster down: Secrets are deleted, and the finalizer is removed, only behind a listing
  of this run that shows no node of the cluster that is not itself being deleted; and the finalizer is
  removed only when each of the four Secrets was deleted or found missing in this run.
\<close>

theorem cluster_handleDeletion_guarded:
  "wpg (teardown_guard E c h) (cluster_handleDeletion E c) (\<lambda>_ _. True) h"
proof -
  have listed: "wpg (teardown_guard E c h) (activeNodeCount E c) Q h"
    if "\<And>r. (r = Inr 0 \<longrightarrow> no_active_nodes E c h (h @ [KList KindNode (Namespace c)])) \<Longrightarrow>
        Q r (h @ [KList KindNode (Namespace c)])" for Q
    unfolding activeNodeCount_def list_TalosNodes_def
    by (intro wpg_intros) (auto simp: teardown_other intro!: that no_active_nodesI)
  have deleted: "wpg (teardown_guard E c h)
      (sm_DeleteMultiple E sm (Namespace c) (cluster_secret_names (Name c))) Q g"
    if "no_active_nodes E c h g" and "length h \<le> length g"
      and "\<And>r es. no_active_nodes E c h (g @ es) \<Longrightarrow>
        (r = None \<longrightarrow> (\<forall>n \<in> set (cluster_secret_names (Name c)). secret_gone E h (Namespace c, n) (g @ es))) \<Longrightarrow>
        Q r (g @ es)" for sm Q g
  proof (rule wpg_only_wp_extend [OF _ sm_DeleteMultiple_gone [OF that(2)]])
    show "only (\<lambda>e. \<forall>ob r. e \<noteq> KUpdate ob r) (sm_DeleteMultiple E sm (Namespace c) (cluster_secret_names (Name c)))"
      by (intro only_intros) simp_all
  qed (auto simp: teardown_guard_def no_active_nodes_append [OF that(1)] intro!: that(3))
  have phase: "only (\<lambda>e. \<forall>g. teardown_guard E c h g e) (record_cluster_phase c f t)" for f t
    by (intro only_intros) (simp add: teardown_other)
  show ?thesis
    unfolding cluster_handleDeletion_def status_update_TalosCluster_def update_TalosCluster_def
      cluster_secret_names_def [symmetric]
    by (intro wpg_intros listed deleted phase [THEN wpg_only];
        (rule TrueI | erule spec | simp add: teardown_guard_def))
qed

section \<open>Provisioning\<close>

text \<open>
  \<open>ensured start ns n g\<close>: since \<open>start\<close>, a creation of the Secret succeeded or was answered with
  AlreadyExists.
\<close>

definition ensured :: "hist \<Rightarrow> string \<Rightarrow> string \<Rightarrow> hist \<Rightarrow> bool" where
  "ensured start ns n g \<longleftrightarrow>
     (\<exists>g0 s r rest. g = g0 @ KCreate (OSecret s) r # rest \<and> length start \<le> length g0 \<and>
        nsname s = (ns, n) \<and> (case r of None \<Rightarrow> True | Some err \<Rightarrow> IsAlreadyExistsApi err))"

lemma ensured_append: "ensured start ns n g \<Longrightarrow> ensured start ns n (g @ es)"
  unfolding ensured_def by fastforce

lemma ensured_more: "ensured start ns n (g @ es) \<Longrightarrow> ensured start ns n (g @ es @ fs)"
  and ensured_more2: "ensured start ns n (g @ es @ fs) \<Longrightarrow> ensured start ns n (g @ es @ fs @ ks)"
  using ensured_append [of start ns n "g @ es" fs] ensured_append [of start ns n "g @ es @ fs" ks] by simp_all

lemma sm_Create_ensures:
  assumes "length start \<le> length h"
  shows "wp (sm_Create E sm n ns k v t) (\<lambda>r g. r = None \<longrightarrow> ensured start ns n g) h"
proof -
  let ?s = "sm_secret sm n ns k v t"
  have "ensured start ns n (h @ [KCreate (OSecret ?s) r])"
    if "case r of None \<Rightarrow> True | Some err \<Rightarrow> IsAlreadyExistsApi err" for r
    unfolding ensured_def using that assms
    by (intro exI [of _ h] exI [of _ ?s] exI [of _ r] exI [of _ "[]"])
      (simp add: sm_secret_def nsname_def)
  then show ?thesis
    by (auto simp: sm_Create_def create_Secret_def wp_simps split: option.split)
qed

text \<open>
  \<open>stored_bundle E c g\<close>: the bytes that \<open>existingBundle\<close> would read after the history \<open>g\<close>;
  \<open>bundle_unusable E g\<close>: the last call read the bundle of some cluster and what it found (an error
  counts as nothing found) does not load.
\<close>

definition stored_bundle :: "env \<Rightarrow> string \<Rightarrow> string \<Rightarrow> hist \<Rightarrow> bytes" where
  "stored_bundle E ns n g =
     (case kget_secret (Kube E) g (ns, clusterSecretsName n) of
        Inl _ \<Rightarrow> []
      | Inr s \<Rightarrow> (case data_lookup s ''secrets.yaml'' of None \<Rightarrow> [] | Some v \<Rightarrow> v))"

definition bundle_unusable :: "env \<Rightarrow> hist \<Rightarrow> bool" where
  "bundle_unusable E g \<longleftrightarrow>
     (\<exists>g0 ns n. g = g0 @ [KGet KindSecret (ns, clusterSecretsName n)] \<and>
        (stored_bundle E ns n g0 = [] \<or> (\<exists>err. bundle_unmarshal (Lib E) (stored_bundle E ns n g0) = Inl err)))"

text \<open>
  Provisioning generates secrets only when the stored ones do not load, creates Secrets and writes
  the status, and nothing else: no Secret is ever changed. Ready, with both conditions, comes only
  behind the four Secrets.
\<close>

definition provision_guard :: "env \<Rightarrow> hist \<Rightarrow> hist \<Rightarrow> event \<Rightarrow> bool" where
  "provision_guard E start g e \<longleftrightarrow>
     (\<forall>c' r. e = KStatusUpdate (OCluster c') r \<longrightarrow>
        ClusterPhase (ClusterStatus c') = TalosPhaseProvisioning \<or>
        ClusterPhase (ClusterStatus c') = TalosPhaseReady \<and> RetryCount (ClusterStatus c') = 0 \<and>
        HasCondition (Conditions (ClusterStatus c')) TalosClusterConditionSecretsGenerated ConditionTrue \<and>
        HasCondition (Conditions (ClusterStatus c')) TalosClusterConditionConfigsGenerated ConditionTrue \<and>
        (\<forall>n \<in> set (cluster_secret_names (Name c')). ensured start (Namespace c') n g)) \<and>
     (\<forall>ct. e = NewBundle ct \<longrightarrow> bundle_unusable E g) \<and>
     (\<forall>ob r. e \<noteq> KUpdate ob r) \<and> (\<forall>kd k r. e \<noteq> KDelete kd k r)"

definition quiet_event :: "event \<Rightarrow> bool" where
  "quiet_event e \<longleftrightarrow> (case e of KStatusUpdate _ _ \<Rightarrow> False | NewBundle _ \<Rightarrow> False | KUpdate _ _ \<Rightarrow> False
     | KDelete _ _ _ \<Rightarrow> False | _ \<Rightarrow> True)"

lemma quiet_event_simps [simp]:
  "quiet_event (KGet kd k)" "quiet_event (KCreate ob r)" "quiet_event ClockRead"
  "quiet_event (MetricSet m ls v)" "quiet_event (MetricInc m ls)"
  by (simp_all add: quiet_event_def)

lemma quiet_event_guard: "quiet_event e \<Longrightarrow> provision_guard E start g e"
  by (auto simp: quiet_event_def provision_guard_def)

lemma set_conditions_has:
  "wp (set_cluster_conditions E cs st re a b)
     (\<lambda>cs' g. HasCondition cs' TalosClusterConditionSecretsGenerated st \<and>
        HasCondition cs' TalosClusterConditionConfigsGenerated st \<and> g = h @ [ClockRead, ClockRead]) h"
  by (simp add: set_cluster_conditions_def wp_simps condition_type_defs)

lemma only_set_cluster_conditions [only_intros]:
  "P ClockRead \<Longrightarrow> only P (set_cluster_conditions E cs st re a b)"
  unfolding set_cluster_conditions_def by (intro only_intros)

lemma only_LoadOrGen [only_intros]:
  "(\<And>ct. P (NewBundle ct)) \<Longrightarrow> only P (LoadOrGenSecretsBundle E bs v)"
  unfolding LoadOrGenSecretsBundle_def GenSecretsBundle_def secrets_NewBundle_def
  by (intro only_intros) simp_all

lemma only_existingBundle [only_intros]:
  "(\<And>k. P (KGet KindSecret k)) \<Longrightarrow> only P (existingBundle E c)"
  unfolding existingBundle_def by (intro only_intros) simp

lemma only_storeConfigs [only_intros]:
  "(\<And>s r. P (KCreate (OSecret s) r)) \<Longrightarrow> only P (storeConfigs E sm c cfgs)"
  unfolding storeConfigs_def by (intro only_intros) simp_all

text \<open>What provisioning may append.\<close>

lemma only_provision:
  assumes "\<And>k. P (KGet KindSecret k)" and "\<And>s r. P (KCreate (OSecret s) r)"
    and "\<And>c r. P (KStatusUpdate (OCluster c) r)" and "\<And>ct. P (NewBundle ct)" and "P ClockRead"
    and "\<And>a b p v. P (MetricSet (fst ClusterPhaseVec) [a, b, p] v)"
  shows "only P (provision E c)"
  unfolding provision_def finishProvision_def status_update_TalosCluster_def time_Now_def
  by (intro only_intros assms)

lemma existingBundle_wp:
  "wp (existingBundle E c)
     (\<lambda>bs g. bs = stored_bundle E (Namespace c) (Name c) h \<and>
        g = h @ [KGet KindSecret (Namespace c, clusterSecretsName (Name c))]) h"
  by (simp add: existingBundle_def stored_bundle_def wp_simps)

lemma LoadOrGen_guarded:
  assumes "g = g0 @ [KGet KindSecret (ns, clusterSecretsName n)]" and "bs = stored_bundle E ns n g0"
    and "\<And>r es. Q r (g @ es)"
  shows "wpg (provision_guard E start) (LoadOrGenSecretsBundle E bs v) Q g"
proof -
  have "provision_guard E start g (NewBundle ct)"
    if "bs = [] \<or> (\<exists>err. bundle_unmarshal (Lib E) bs = Inl err)" for ct
    using that assms(1,2) by (auto simp: provision_guard_def bundle_unusable_def)
  moreover have "Q r g" and "Q r (g @ [e])" for r e
    using assms(3) [of r "[]"] assms(3) [of r "[e]"] by simp_all
  ultimately show ?thesis
    unfolding LoadOrGenSecretsBundle_def GenSecretsBundle_def secrets_NewBundle_def
    by (intro wpg_intros) auto
qed

text \<open>The steps of provisioning, as rules.\<close>

lemma quiet_guarded:
  "only quiet_event m \<Longrightarrow> (\<And>r es. Q r (g @ es)) \<Longrightarrow> wpg (provision_guard E start) m Q g"
  by (erule wpg_extend) (simp_all add: quiet_event_guard)

lemma sm_Create_guarded:
  assumes "length start \<le> length g" and "\<And>r es. (r = None \<longrightarrow> ensured start ns n (g @ es)) \<Longrightarrow> Q r (g @ es)"
  shows "wpg (provision_guard E start) (sm_Create E sm n ns k v t) Q g"
proof (rule wpg_only_wp [OF _ sm_Create_ensures [OF assms(1)]])
  show "only quiet_event (sm_Create E sm n ns k v t)"
    by (intro only_intros) simp_all
qed (simp_all add: quiet_event_guard assms(2))

lemma set_cluster_conditions_guarded:
  assumes "\<And>cs'. HasCondition cs' TalosClusterConditionSecretsGenerated st \<Longrightarrow>
      HasCondition cs' TalosClusterConditionConfigsGenerated st \<Longrightarrow> Q cs' (g @ [ClockRead, ClockRead])"
  shows "wpg (provision_guard E start) (set_cluster_conditions E cs st re a b) Q g"
proof (rule wpg_only_wp [OF _ set_conditions_has])
  show "only (\<lambda>e. e = ClockRead) (set_cluster_conditions E cs st re a b)"
    by (intro only_intros) simp
qed (auto simp: quiet_event_guard intro: assms)

lemma only_quiet [intro]:
  "only quiet_event (record_cluster_phase c f t)" "only quiet_event (existingBundle E c)"
  "only quiet_event (sm_Create E sm n ns k v ty)"
  by (intro only_intros; simp)+

lemma storeConfigs_guarded:
  assumes "length start \<le> length g" and "ensured start (Namespace c) (clusterSecretsName (Name c)) g"
    and "\<And>r es. (r = None \<longrightarrow> (\<forall>n \<in> set (cluster_secret_names (Name c)). ensured start (Namespace c) n (g @ es)))
          \<Longrightarrow> Q r (g @ es)"
  shows "wpg (provision_guard E start) (storeConfigs E sm c cfgs) Q g"
proof -
  have fin: "Q r g'" if "\<exists>es. g' = g @ es"
    and "r = None \<longrightarrow> (\<forall>n \<in> set (cluster_secret_names (Name c)). ensured start (Namespace c) n g')" for r g'
    using that assms(3) by auto
  show ?thesis
    unfolding storeConfigs_def using \<open>length start \<le> length g\<close>
    by (intro wpg_intros sm_Create_guarded fin)
      (auto simp: cluster_secret_names_def ensured_append [OF assms(2)] elim: ensured_more ensured_more2)
qed

lemma finishProvision_guarded:
  assumes "\<forall>n \<in> set (cluster_secret_names (Name c)). ensured start (Namespace c) n g"
  shows "wpg (provision_guard E start) (finishProvision E c) (\<lambda>_ _. True) g"
  unfolding finishProvision_def status_update_TalosCluster_def time_Now_def using assms
  by (intro wpg_intros set_cluster_conditions_guarded quiet_guarded [OF only_quiet(1)])
    (auto simp: provision_guard_def ensured_append)

text \<open>
  C13. Provisioning a cluster: every status written is Provisioning, or it is Ready with the retry count
  reset and both conditions true, and then all four Secrets were created or found in this run. New
  cluster secrets are generated only when the stored ones were just read and do not load. Nothing is
  updated or deleted.
\<close>

theorem provision_guarded: "wpg (provision_guard E h) (provision E c) (\<lambda>_ _. True) h"
proof -
  have start: "provision_guard E h g (KStatusUpdate (OCluster c') r)"
    if "ClusterPhase (ClusterStatus c') = TalosPhaseProvisioning" for g c' r
    using that by (simp add: provision_guard_def)
  have existing: "wpg (provision_guard E h) (existingBundle E c') Q g"
    if "Q (stored_bundle E (Namespace c') (Name c') g)
          (g @ [KGet KindSecret (Namespace c', clusterSecretsName (Name c'))])" for c' Q g
    by (rule wpg_only_wp [OF only_quiet(2) existingBundle_wp])
      (simp_all add: quiet_event_guard that)
  show ?thesis
    unfolding provision_def status_update_TalosCluster_def
    by (intro wpg_intros set_cluster_conditions_guarded quiet_guarded [OF only_quiet(1)] existing
        LoadOrGen_guarded sm_Create_guarded storeConfigs_guarded finishProvision_guarded start;
      (rule TrueI refl | simp))
qed

text \<open>A provisioned cluster is up to date, so the next reconcile leaves it alone.\<close>

lemma cluster_status_echoD:
  "cluster_status_echo E \<Longrightarrow> kstatus_cluster (Kube E) h c = Inr c' \<Longrightarrow> c' = c"
  by (simp add: cluster_status_echo_def)

lemma returns_status_cluster:
  "cluster_status_echo E \<Longrightarrow>
     returns (\<lambda>r. r = Inr c \<or> (\<exists>err. r = Inl err)) (status_update_TalosCluster E c)"
  unfolding status_update_TalosCluster_def
  by (rule returns_ask) (metis cluster_status_echoD sum.exhaust)

lemma finishProvision_up_to_date:
  assumes "cluster_status_echo E" and "ObservedGeneration (ClusterStatus c) = Generation c"
  shows "returns (\<lambda>(e, c'). e = None \<longrightarrow> isUpToDate c') (finishProvision E c)"
proof -
  have "returns (\<lambda>cs. HasCondition cs TalosClusterConditionConfigsGenerated st) (set_cluster_conditions E cs st re a b)"
    for cs st re a b
    by (rule returns_wp, rule wp_mono [OF set_conditions_has]) simp
  note conditions = this
  show ?thesis
    unfolding finishProvision_def using assms(2)
    by (intro returns_bind [of _ _ "record_cluster_phase c f t" for f t] returns_bind [of _ _ "time_Now E"]
        returns_bind_with [OF conditions] returns_let returns_bind_with [OF returns_status_cluster [OF assms(1)]]
        returns_ret) (auto simp: isUpToDate_def)
qed

text \<open>
  Provisioning is effective: a cluster that was provisioned without an error is one that the next
  reconcile takes for up to date.
\<close>

theorem provision_up_to_date:
  assumes "cluster_status_echo E"
  shows "returns (\<lambda>(e, c'). e = None \<longrightarrow> isUpToDate c') (provision E c)"
  unfolding provision_def
  by (intro returns_let returns_bind [of _ _ "record_cluster_phase c f t" for f t]
      returns_bind [of _ _ "set_cluster_conditions E cs st re a b" for cs st re a b]
      returns_bind_with [OF returns_status_cluster [OF assms]];
    intro returns_intros finishProvision_up_to_date assms) auto

end
