(* ===== verification/BootstrapController.thy ===== *)
theory BootstrapController
  imports ClusterController
begin

text \<open>
  The bootstrap controller (\<^verbatim>\<open>talosclusterbootstrap_controller.go\<close>): waiting for a ready control plane,
  bootstrapping etcd on the first endpoint, fetching the kubeconfig, and probing the API server.
\<close>

section \<open>Operations\<close>

record bootstrap_reconciler =
  BootstrapRecorder :: bool
  BootstrapNewRemoteClient :: "(bytes \<Rightarrow> gerror + remote_client) option"

definition record_bootstrap_phase ::
    "talos_cluster_bootstrap \<Rightarrow> TalosClusterBootstrapPhase \<Rightarrow> TalosClusterBootstrapPhase \<Rightarrow> unit prog" where
  "record_bootstrap_phase b from_phase to_phase =
     RecordBootstrapPhase (BootstrapClusterRef (BootstrapSpec b)) (Namespace b)
       (bootstrap_phase_string from_phase) (bootstrap_phase_string to_phase)"

definition bootstrap_setError ::
    "env \<Rightarrow> bootstrap_reconciler \<Rightarrow> talos_cluster_bootstrap \<Rightarrow> gerror \<Rightarrow> reconcile_result prog" where
  "bootstrap_setError E R b err = do {
     let b = b\<lparr>BootstrapStatus := (BootstrapStatus b)
               \<lparr>RetryCount := RetryCount (BootstrapStatus b) + 1\<rparr>\<rparr>;
     delay \<leftarrow> GetRetryDelay E (RetryCount (BootstrapStatus b));
     record_bootstrap_phase b (BootstrapPhase (BootstrapStatus b)) TalosClusterBootstrapPhaseError;
     let b = b\<lparr>BootstrapStatus := (BootstrapStatus b)
               \<lparr>BootstrapPhase := TalosClusterBootstrapPhaseError, BootstrapMessage := ErrorText err\<rparr>\<rparr>;
     emitEvent (BootstrapRecorder R) KindBootstrap b EventTypeWarning ''Failed'' (ErrorText err);
     _ \<leftarrow> status_update_TalosClusterBootstrap E b;
     ret (requeue_after delay, None)
   }"

text \<open>The probe of the API server: its error, if any.\<close>

definition probeAPIServer :: "env \<Rightarrow> bootstrap_reconciler \<Rightarrow> secret \<Rightarrow> gerror option prog" where
  "probeAPIServer E R kubeconfigSecret =
     (case secretKey kubeconfigSecret ''kubeconfig'' of
        Inl apiErr \<Rightarrow> ret (Some apiErr)
      | Inr kubeconfigBytes \<Rightarrow>
          (case remoteClientOrFallback E (BootstrapNewRemoteClient R) kubeconfigBytes of
             Inl apiErr \<Rightarrow> ret (Some apiErr)
           | Inr apiClient \<Rightarrow> remote_server_version E apiClient))"

definition keepWaiting ::
    "env \<Rightarrow> talos_cluster_bootstrap \<Rightarrow> gerror \<Rightarrow> reconcile_result prog" where
  "keepWaiting E b apiErr = do {
     record_bootstrap_phase b (BootstrapPhase (BootstrapStatus b))
       TalosClusterBootstrapPhaseWaitingForAPIServer;
     conditions \<leftarrow> SetConditionStatus E (Conditions (BootstrapStatus b))
       TalosClusterBootstrapConditionAPIServer ConditionFalse ''NotReady''
       (Sprintf ''API server unreachable: %v'' [FErr apiErr]);
     now \<leftarrow> time_Now E;
     let b = b\<lparr>BootstrapStatus := (BootstrapStatus b)
               \<lparr>BootstrapPhase := TalosClusterBootstrapPhaseWaitingForAPIServer,
                BootstrapMessage := Lit ''Waiting for Kubernetes API server to become reachable'',
                Conditions := conditions, LastUpdateTime := Some now\<rparr>\<rparr>;
     _ \<leftarrow> status_update_TalosClusterBootstrap E b;
     ret (requeue_after apiServerCheckDelay, None)
   }"

definition completeBootstrap ::
    "env \<Rightarrow> bootstrap_reconciler \<Rightarrow> talos_cluster_bootstrap \<Rightarrow> reconcile_result prog" where
  "completeBootstrap E R b = do {
     record_bootstrap_phase b (BootstrapPhase (BootstrapStatus b)) TalosClusterBootstrapPhaseCompleted;
     conditions \<leftarrow> SetConditionStatus E (Conditions (BootstrapStatus b))
       TalosClusterBootstrapConditionAPIServer ConditionTrue ''Ready''
       (Lit ''Kubernetes API server is reachable'');
     completedAt \<leftarrow> time_Now E;
     let b = b\<lparr>BootstrapStatus := (BootstrapStatus b)
               \<lparr>BootstrapPhase := TalosClusterBootstrapPhaseCompleted, RetryCount := 0,
                BootstrapMessage := Lit ''Bootstrap completed'', Conditions := conditions,
                LastUpdateTime := Some completedAt\<rparr>\<rparr>;
     s \<leftarrow> status_update_TalosClusterBootstrap E b;
     case s of
       Inl err \<Rightarrow> ret (no_requeue, Some (ErrWrap ''update completed status: %w'' [] err))
     | Inr b \<Rightarrow> do {
         now \<leftarrow> time_Now E;
         metric_observe BootstrapDuration [BootstrapClusterRef (BootstrapSpec b)] (now - CreationTimestamp b);
         emitEvent (BootstrapRecorder R) KindBootstrap b EventTypeNormal ''Completed''
           (Lit ''Bootstrap complete; kubeconfig stored and API server reachable'');
         ret (no_requeue, None)
       }
   }"

definition waitForAPIServer ::
    "env \<Rightarrow> bootstrap_reconciler \<Rightarrow> talos_cluster_bootstrap \<Rightarrow> talos_cluster \<Rightarrow> reconcile_result prog" where
  "waitForAPIServer E R b cluster = do {
     s \<leftarrow> getSecret E (clusterKubeconfigName (Name cluster)) (Namespace cluster);
     case s of
       Inl err \<Rightarrow> bootstrap_setError E R b (ErrWrap ''load kubeconfig secret: %w'' [] err)
     | Inr kubeconfigSecret \<Rightarrow> do {
         p \<leftarrow> probeAPIServer E R kubeconfigSecret;
         case p of
           Some apiErr \<Rightarrow> keepWaiting E b apiErr
         | None \<Rightarrow> completeBootstrap E R b
       }
   }"

definition isBootstrapUpToDate :: "talos_cluster_bootstrap \<Rightarrow> bool" where
  "isBootstrapUpToDate b \<longleftrightarrow>
     BootstrapPhase (BootstrapStatus b) = TalosClusterBootstrapPhaseCompleted \<and>
     ObservedGeneration (BootstrapStatus b) = Generation b \<and>
     HasCondition (Conditions (BootstrapStatus b)) TalosClusterBootstrapConditionAPIServer ConditionTrue"

fun count_ready :: "string \<Rightarrow> talos_node list \<Rightarrow> nat \<Rightarrow> nat" where
  "count_ready clusterRef [] acc = acc"
| "count_ready clusterRef (n # ns) acc =
     count_ready clusterRef ns
       (if ClusterRef (NodeSpec n) = clusterRef \<and> Role (NodeSpec n) = TalosNodeRoleControlPlane \<and>
           NodePhase (NodeStatus n) = TalosNodePhaseReady then Suc acc else acc)"

definition readyControlPlaneCount :: "env \<Rightarrow> string \<Rightarrow> string \<Rightarrow> (gerror + nat) prog" where
  "readyControlPlaneCount E namespace clusterRef = do {
     l \<leftarrow> list_TalosNodes E namespace;
     case l of
       Inl err \<Rightarrow> ret (Inl err)
     | Inr items \<Rightarrow> ret (Inr (count_ready clusterRef items 0))
   }"

text \<open>The result is \<^verbatim>\<open>(result, ready, error)\<close> and the object in memory.\<close>

definition waitForReadyNodes ::
    "env \<Rightarrow> talos_cluster_bootstrap \<Rightarrow>
     (ctrl_result \<times> bool \<times> gerror option \<times> talos_cluster_bootstrap) prog" where
  "waitForReadyNodes E b = do {
     r \<leftarrow> readyControlPlaneCount E (Namespace b) (BootstrapClusterRef (BootstrapSpec b));
     case r of
       Inl err \<Rightarrow> ret (no_requeue, False, Some (ErrWrap ''list nodes: %w'' [] err), b)
     | Inr ready \<Rightarrow>
         if 0 < ready then ret (no_requeue, True, None, b)
         else do {
           record_bootstrap_phase b (BootstrapPhase (BootstrapStatus b))
             TalosClusterBootstrapPhaseWaitingForNodes;
           let b = b\<lparr>BootstrapStatus := (BootstrapStatus b)
                     \<lparr>BootstrapPhase := TalosClusterBootstrapPhaseWaitingForNodes,
                      BootstrapMessage :=
                        Lit ''Waiting for at least one control plane node to reach Ready phase''\<rparr>\<rparr>;
           s \<leftarrow> status_update_TalosClusterBootstrap E b;
           case s of
             Inl err \<Rightarrow> ret (no_requeue, False, Some (ErrWrap ''update status: %w'' [] err), b)
           | Inr b \<Rightarrow> ret (requeue_after nodeReadyDelay, False, None, b)
         }
   }"

text \<open>Any error of reading the cluster or its kubeconfig Secret lets the deletion go on.\<close>

definition deleteKubeconfig :: "env \<Rightarrow> talos_cluster_bootstrap \<Rightarrow> gerror option prog" where
  "deleteKubeconfig E b = do {
     c \<leftarrow> get_TalosCluster E (Namespace b, BootstrapClusterRef (BootstrapSpec b));
     case c of
       Inl _ \<Rightarrow> ret None
     | Inr cluster \<Rightarrow> do {
         s \<leftarrow> getSecret E (clusterKubeconfigName (Name cluster)) (Namespace cluster);
         case s of
           Inl _ \<Rightarrow> ret None
         | Inr secret \<Rightarrow> do {
             d \<leftarrow> delete_Secret E secret;
             case d of
               None \<Rightarrow> ret None
             | Some delErr \<Rightarrow> if \<not> IsNotFound delErr then ret (Some delErr) else ret None
           }
       }
   }"

definition bootstrap_handleDeletion :: "env \<Rightarrow> talos_cluster_bootstrap \<Rightarrow> reconcile_result prog" where
  "bootstrap_handleDeletion E b =
     (if \<not> ContainsFinalizer (Finalizers b) FinalizerCleanup then ret (no_requeue, None)
      else do {
        d \<leftarrow> deleteKubeconfig E b;
        case d of
          Some err \<Rightarrow> ret (no_requeue, Some err)
        | None \<Rightarrow> do {
            u \<leftarrow> update_TalosClusterBootstrap E
                   (b\<lparr>Finalizers := RemoveFinalizer (Finalizers b) FinalizerCleanup\<rparr>);
            ret (no_requeue, opt_err u)
          }
      })"

definition saveKubeconfig :: "env \<Rightarrow> talos_cluster \<Rightarrow> bytes \<Rightarrow> gerror option prog" where
  "saveKubeconfig E cluster kubeconfig = do {
     let s = (newSecret (clusterKubeconfigName (Name cluster)) (Namespace cluster) ''kubeconfig'' kubeconfig)
       \<lparr>OwnerReferences :=
          [\<lparr>OwnerAPIVersion = ''talos.yuriykovalchuk.dev/v1alpha1'', OwnerKind = ''TalosCluster'',
            OwnerName = Name cluster, OwnerUID = UID cluster, OwnerController = Some True,
            OwnerBlockDeletion = None\<rparr>]\<rparr>;
     r \<leftarrow> create_Secret E s;
     case r of
       None \<Rightarrow> ret None
     | Some err \<Rightarrow> if \<not> IsAlreadyExistsApi err then ret (Some err) else ret None
   }"

section \<open>Bootstrapping and fetching the kubeconfig\<close>

text \<open>
  The \<^verbatim>\<open>Bootstrap\<close> call with the bookkeeping of its success. \<open>Inl\<close> is the early return of the
  caller, \<open>Inr\<close> the object to go on with.
\<close>

definition markBootstrapped ::
    "env \<Rightarrow> bootstrap_reconciler \<Rightarrow> talos_cluster_bootstrap \<Rightarrow>
     (reconcile_result + talos_cluster_bootstrap) prog" where
  "markBootstrapped E R b = do {
     conditions \<leftarrow> SetConditionStatus E (Conditions (BootstrapStatus b))
       TalosClusterBootstrapConditionBootstrapped ConditionTrue ''Bootstrapped''
       (Lit ''Cluster bootstrapped'');
     let b = b\<lparr>BootstrapStatus := (BootstrapStatus b)\<lparr>Conditions := conditions\<rparr>\<rparr>;
     emitEvent (BootstrapRecorder R) KindBootstrap b EventTypeNormal ''Bootstrapped''
       (Lit ''etcd bootstrap triggered successfully'');
     s \<leftarrow> status_update_TalosClusterBootstrap E b;
     case s of
       Inl err \<Rightarrow> ret (Inl (no_requeue, Some (ErrWrap ''update bootstrapped status: %w'' [] err)))
     | Inr b \<Rightarrow> ret (Inr b)
   }"

definition bootstrapEtcd ::
    "env \<Rightarrow> bootstrap_reconciler \<Rightarrow> talos_cluster_bootstrap \<Rightarrow> talos_conn \<Rightarrow> string \<Rightarrow>
     (reconcile_result + talos_cluster_bootstrap) prog" where
  "bootstrapEtcd E R b conn dialedTo = do {
     e \<leftarrow> conn_Bootstrap E conn dialedTo;
     case e of
       None \<Rightarrow> markBootstrapped E R b
     | Some err \<Rightarrow>
         if IsContextCancelled err then ret (Inl (no_requeue, None))
         else if \<not> IsAlreadyExists err then do {
           res \<leftarrow> bootstrap_setError E R b (ErrWrap ''bootstrap: %w'' [] err);
           ret (Inl res)
         }
         else markBootstrapped E R b
   }"

definition kubeconfigFailed ::
    "env \<Rightarrow> talos_cluster_bootstrap \<Rightarrow> gerror \<Rightarrow> reconcile_result prog" where
  "kubeconfigFailed E b err =
     (if IsContextCancelled err then ret (no_requeue, None)
      else do {
        let b = b\<lparr>BootstrapStatus := (BootstrapStatus b)
                  \<lparr>RetryCount := RetryCount (BootstrapStatus b) + 1\<rparr>\<rparr>;
        delay \<leftarrow> GetRetryDelay E (RetryCount (BootstrapStatus b));
        record_bootstrap_phase b TalosClusterBootstrapPhaseBootstrapping
          TalosClusterBootstrapPhaseWaitingForKubeconfig;
        conditions \<leftarrow> SetConditionStatus E (Conditions (BootstrapStatus b))
          TalosClusterBootstrapConditionKubeconfig ConditionFalse ''Retrying''
          (Sprintf ''Retrying (attempt %d)'' [FInt (sint (RetryCount (BootstrapStatus b)))]);
        let b = b\<lparr>BootstrapStatus := (BootstrapStatus b)
                  \<lparr>BootstrapPhase := TalosClusterBootstrapPhaseWaitingForKubeconfig,
                   Conditions := conditions\<rparr>\<rparr>;
        _ \<leftarrow> status_update_TalosClusterBootstrap E b;
        ret (requeue_after delay, None)
      })"

definition fetchKubeconfig ::
    "env \<Rightarrow> bootstrap_reconciler \<Rightarrow> talos_cluster_bootstrap \<Rightarrow> talos_cluster \<Rightarrow> talos_conn \<Rightarrow> string \<Rightarrow>
     reconcile_result prog" where
  "fetchKubeconfig E R b cluster conn dialedTo = do {
     k \<leftarrow> conn_GetKubeconfig E conn dialedTo;
     case k of
       Inl err \<Rightarrow> kubeconfigFailed E b err
     | Inr kubeconfig \<Rightarrow> do {
         e \<leftarrow> saveKubeconfig E cluster kubeconfig;
         case e of
           Some err \<Rightarrow> bootstrap_setError E R b (ErrWrap ''save kubeconfig: %w'' [] err)
         | None \<Rightarrow> do {
             conditions \<leftarrow> SetConditionStatus E (Conditions (BootstrapStatus b))
               TalosClusterBootstrapConditionKubeconfig ConditionTrue ''Retrieved''
               (Lit ''Kubeconfig retrieved'');
             let b = b\<lparr>BootstrapStatus := (BootstrapStatus b)\<lparr>Conditions := conditions\<rparr>\<rparr>;
             s \<leftarrow> status_update_TalosClusterBootstrap E b;
             case s of
               Inl err \<Rightarrow> ret (no_requeue, Some (ErrWrap ''update kubeconfig status: %w'' [] err))
             | Inr b \<Rightarrow> waitForAPIServer E R b cluster
           }
       }
   }"

text \<open>\<open>dialBootstrap\<close> gives the connection (or the error) and the endpoint that was dialled.\<close>

definition dialBootstrap ::
    "env \<Rightarrow> bool \<Rightarrow> bytes \<Rightarrow> string list \<Rightarrow> (talos_conn option \<times> string \<times> gerror option) prog" where
  "dialBootstrap E alreadyBootstrapped talosconfig endpoints =
     (if alreadyBootstrapped then dialAny (conn_Dial E) talosconfig endpoints
      else do {
        d \<leftarrow> conn_Dial E talosconfig (hd endpoints);
        ret (case d of
               Inl err \<Rightarrow> (None, hd endpoints, Some err)
             | Inr conn \<Rightarrow> (Some conn, hd endpoints, None))
      })"

definition talkToTalos ::
    "env \<Rightarrow> bootstrap_reconciler \<Rightarrow> talos_cluster_bootstrap \<Rightarrow> talos_cluster \<Rightarrow> bool \<Rightarrow>
     reconcile_result prog" where
  "talkToTalos E R b cluster alreadyBootstrapped = do {
     t \<leftarrow> getSecret E (clusterTalosconfigName (Name cluster)) (Namespace b);
     case t of
       Inl err \<Rightarrow> bootstrap_setError E R b (ErrWrap ''get talosconfig secret: %w'' [] err)
     | Inr talosconfigSecret \<Rightarrow>
         (case secretKey talosconfigSecret ''talosconfig'' of
            Inl err \<Rightarrow> bootstrap_setError E R b (ErrWrap ''read talosconfig: %w'' [] err)
          | Inr talosconfig \<Rightarrow> do {
              (c, dialedTo, dialErr) \<leftarrow>
                dialBootstrap E alreadyBootstrapped talosconfig (Endpoints (ClusterSpec cluster));
              case (dialErr, c) of
                (Some err, _) \<Rightarrow>
                  if IsContextCancelled err then ret (no_requeue, None)
                  else bootstrap_setError E R b (ErrWrap ''create client: %w'' [] err)
              | (None, None) \<Rightarrow> ret (no_requeue, None)
              | (None, Some conn) \<Rightarrow> deferring_close conn (do {
                  r \<leftarrow> (if alreadyBootstrapped then ret (Inr b)
                       else bootstrapEtcd E R b conn dialedTo);
                  case r of
                    Inl res \<Rightarrow> ret res
                  | Inr b \<Rightarrow> fetchKubeconfig E R b cluster conn dialedTo
                })
            })
   }"

definition startBootstrap ::
    "env \<Rightarrow> bootstrap_reconciler \<Rightarrow> talos_cluster_bootstrap \<Rightarrow> talos_cluster \<Rightarrow> reconcile_result prog" where
  "startBootstrap E R b cluster = do {
     let alreadyBootstrapped = HasCondition (Conditions (BootstrapStatus b))
           TalosClusterBootstrapConditionBootstrapped ConditionTrue;
     record_bootstrap_phase b (BootstrapPhase (BootstrapStatus b)) TalosClusterBootstrapPhaseBootstrapping;
     conditions \<leftarrow>
       (if \<not> alreadyBootstrapped
        then SetConditionStatus E (Conditions (BootstrapStatus b))
               TalosClusterBootstrapConditionBootstrapped ConditionFalse ''Bootstrapping''
               (Lit ''Bootstrapping cluster'')
        else ret (Conditions (BootstrapStatus b)));
     conditions \<leftarrow> SetConditionStatus E conditions
       TalosClusterBootstrapConditionKubeconfig ConditionFalse ''Retrieving'' (Lit ''Retrieving kubeconfig'');
     let b = b\<lparr>BootstrapStatus := (BootstrapStatus b)
               \<lparr>ObservedGeneration := Generation b,
                BootstrapPhase := TalosClusterBootstrapPhaseBootstrapping, Conditions := conditions\<rparr>\<rparr>;
     s \<leftarrow> status_update_TalosClusterBootstrap E b;
     case s of
       Inl err \<Rightarrow> ret (no_requeue, Some (ErrWrap ''update status: %w'' [] err))
     | Inr b \<Rightarrow> talkToTalos E R b cluster alreadyBootstrapped
   }"

section \<open>Reconcile\<close>

definition reconcileBootstrap ::
    "env \<Rightarrow> bootstrap_reconciler \<Rightarrow> talos_cluster_bootstrap \<Rightarrow> reconcile_result prog" where
  "reconcileBootstrap E R b =
     (if isBootstrapUpToDate b then ret (no_requeue, None)
      else do {
        c \<leftarrow> get_TalosCluster E (Namespace b, BootstrapClusterRef (BootstrapSpec b));
        case c of
          Inl err \<Rightarrow> bootstrap_setError E R b (ErrWrap ''get cluster: %w'' [] err)
        | Inr cluster \<Rightarrow>
            if length (Endpoints (ClusterSpec cluster)) = 0
            then bootstrap_setError E R b (ErrFmt ''cluster has no endpoints'' [])
            else do {
              (result, ready, err, b) \<leftarrow> waitForReadyNodes E b;
              case err of
                Some e \<Rightarrow> bootstrap_setError E R b e
              | None \<Rightarrow>
                  if \<not> ready then ret (result, None)
                  else if HasCondition (Conditions (BootstrapStatus b))
                            TalosClusterBootstrapConditionKubeconfig ConditionTrue
                  then waitForAPIServer E R b cluster
                  else startBootstrap E R b cluster
            }
      })"

definition bootstrap_Reconcile ::
    "env \<Rightarrow> bootstrap_reconciler \<Rightarrow> namespaced_name \<Rightarrow> reconcile_result prog" where
  "bootstrap_Reconcile E R req = do {
     g \<leftarrow> get_TalosClusterBootstrap E req;
     case g of
       Inl err \<Rightarrow> ret (no_requeue, ignoreNotFound err)
     | Inr b \<Rightarrow> do {
         record_bootstrap_phase b (BootstrapPhase (BootstrapStatus b)) (BootstrapPhase (BootstrapStatus b));
         (if DeletionTimestamp b \<noteq> None then bootstrap_handleDeletion E b
          else do {
            (f, b) \<leftarrow> ensureFinalizer (update_TalosClusterBootstrap E) b;
            case f of
              Some err \<Rightarrow> ret (no_requeue, Some err)
            | None \<Rightarrow> reconcileBootstrap E R b
          })
       }
   }"

section \<open>Which bootstraps a node wakes\<close>

fun bootstraps_of :: "string \<Rightarrow> talos_cluster_bootstrap list \<Rightarrow> namespaced_name list" where
  "bootstraps_of clusterRef [] = []"
| "bootstraps_of clusterRef (b # bs) =
     (if BootstrapClusterRef (BootstrapSpec b) = clusterRef then nsname b # bootstraps_of clusterRef bs
      else bootstraps_of clusterRef bs)"

definition nodeToBootstrap :: "env \<Rightarrow> kobj \<Rightarrow> namespaced_name list prog" where
  "nodeToBootstrap E obj =
     (case obj of
        ONode node \<Rightarrow>
          if Role (NodeSpec node) \<noteq> TalosNodeRoleControlPlane then ret []
          else do {
            l \<leftarrow> list_TalosClusterBootstraps E (Namespace node);
            ret (case l of
                   Inl _ \<Rightarrow> []
                 | Inr items \<Rightarrow> bootstraps_of (ClusterRef (NodeSpec node)) items)
          }
      | _ \<Rightarrow> ret [])"

datatype watch_event = CreateEvent kobj | UpdateEvent kobj kobj | DeleteEvent kobj | GenericEvent kobj

fun nodeReadyPredicate :: "watch_event \<Rightarrow> bool" where
  "nodeReadyPredicate (UpdateEvent (ONode oldNode) (ONode newNode)) =
     (Role (NodeSpec newNode) = TalosNodeRoleControlPlane \<and>
      NodePhase (NodeStatus oldNode) \<noteq> TalosNodePhaseReady \<and>
      NodePhase (NodeStatus newNode) = TalosNodePhaseReady)"
| "nodeReadyPredicate _ = False"

section \<open>Errors\<close>

interpretation bootstrap_errors: error_sink "\<lambda>E. bootstrap_setError E R" "\<lambda>b. RetryCount (BootstrapStatus b)"
    "\<lambda>b. BootstrapPhase (BootstrapStatus b) = TalosClusterBootstrapPhaseError" "\<lambda>b. KStatusUpdate (OBootstrap b)"
proof
  fix E ob e h
  note run = bootstrap_setError_def status_update_TalosClusterBootstrap_def record_bootstrap_phase_def
    wp_simps Let_def
  show "wp (bootstrap_setError E R ob e)
      (\<lambda>(res, err) _. err = None \<and> res = requeue_after (retry_delay E h (RetryCount (BootstrapStatus ob) + 1))) h"
    by (simp add: run)
  show "wp (bootstrap_setError E R ob e)
      (\<lambda>_ g. \<exists>es ob' r. g = h @ es @ [KStatusUpdate (OBootstrap ob') r] \<and>
         RetryCount (BootstrapStatus ob') = RetryCount (BootstrapStatus ob) + 1 \<and>
         BootstrapPhase (BootstrapStatus ob') = TalosClusterBootstrapPhaseError) h"
    by (fastforce simp: run)
qed

section \<open>What a reconcile of a bootstrap may do\<close>

definition ready_control_plane :: "string \<Rightarrow> talos_node \<Rightarrow> bool" where
  "ready_control_plane clusterRef n \<longleftrightarrow>
     ClusterRef (NodeSpec n) = clusterRef \<and> Role (NodeSpec n) = TalosNodeRoleControlPlane \<and>
     NodePhase (NodeStatus n) = TalosNodePhaseReady"

lemma count_ready_length: "count_ready c ns k = k + length (filter (ready_control_plane c) ns)"
  by (induction ns arbitrary: k) (auto simp: ready_control_plane_def)

abbreviation "bootstrapped b \<equiv>
  HasCondition (Conditions (BootstrapStatus b)) TalosClusterBootstrapConditionBootstrapped ConditionTrue"

abbreviation "has_kubeconfig b \<equiv>
  HasCondition (Conditions (BootstrapStatus b)) TalosClusterBootstrapConditionKubeconfig ConditionTrue"

text \<open>The facts that the steps of a bootstrap leave in the history.\<close>

definition ready_listed :: "env \<Rightarrow> talos_cluster_bootstrap \<Rightarrow> hist \<Rightarrow> event \<Rightarrow> bool" where
  "ready_listed E b g e \<longleftrightarrow>
     e = KList KindNode (Namespace b) \<and>
     (\<exists>items. klist_nodes (Kube E) g (Namespace b) = Inr items \<and>
        (\<exists>n \<in> set items. ready_control_plane (BootstrapClusterRef (BootstrapSpec b)) n))"

definition first_endpoint :: "env \<Rightarrow> talos_cluster_bootstrap \<Rightarrow> string \<Rightarrow> hist \<Rightarrow> event \<Rightarrow> bool" where
  "first_endpoint E b ep g e \<longleftrightarrow>
     (\<exists>c eps. e = KGet KindCluster (Namespace b, BootstrapClusterRef (BootstrapSpec b)) \<and>
        kget_cluster (Kube E) g (Namespace b, BootstrapClusterRef (BootstrapSpec b)) = Inr c \<and>
        Endpoints (ClusterSpec c) = ep # eps)"

definition etcd_bootstrapped :: "event \<Rightarrow> bool" where
  "etcd_bootstrapped e \<longleftrightarrow>
     (\<exists>cl r. e = TCall cl r \<and> CallReq cl = ReqBootstrap \<and>
        (case r of None \<Rightarrow> True | Some err \<Rightarrow> IsAlreadyExists err))"

definition bootstrap_recorded :: "event \<Rightarrow> bool" where
  "bootstrap_recorded e \<longleftrightarrow> (\<exists>b. e = KStatusUpdate (OBootstrap b) None \<and> bootstrapped b)"

definition kubeconfig_stored :: "event \<Rightarrow> bool" where
  "kubeconfig_stored e \<longleftrightarrow>
     (\<exists>s c r. e = KCreate (OSecret s) r \<and> Name s = clusterKubeconfigName c \<and>
        (case r of None \<Rightarrow> True | Some err \<Rightarrow> IsAlreadyExistsApi err))"

definition api_answered :: "env \<Rightarrow> hist \<Rightarrow> event \<Rightarrow> bool" where
  "api_answered E g e \<longleftrightarrow> (\<exists>rc. e = RServerVersion rc \<and> rserver_version (Remote E) g rc = None)"

text \<open>
  \<open>honest b start b' g\<close>: the conditions of \<open>b'\<close> that are true were true of \<open>b\<close>, or the history since
  \<open>start\<close> justifies them.
\<close>

definition honest :: "talos_cluster_bootstrap \<Rightarrow> hist \<Rightarrow> talos_cluster_bootstrap \<Rightarrow> hist \<Rightarrow> bool" where
  "honest b start b' g \<longleftrightarrow>
     (bootstrapped b' \<longrightarrow> bootstrapped b \<or> since start (\<lambda>_. etcd_bootstrapped) g) \<and>
     (has_kubeconfig b' \<longrightarrow> has_kubeconfig b \<or> since start (\<lambda>_. kubeconfig_stored) g)"

text \<open>
  The guard of a reconcile of \<open>b\<close>. Etcd is bootstrapped only while the object does not say that it
  is, behind a listing with a ready control plane, on the first endpoint of the cluster; the
  kubeconfig is fetched only when the bootstrap is recorded; the status is honest, and Completed
  comes only behind an answer of the API server of the new cluster.
\<close>

definition bootstrap_guard ::
    "env \<Rightarrow> talos_cluster_bootstrap \<Rightarrow> hist \<Rightarrow> hist \<Rightarrow> event \<Rightarrow> bool" where
  "bootstrap_guard E b start g e \<longleftrightarrow>
     (\<forall>cl r. e = TCall cl r \<longrightarrow>
        (CallReq cl = ReqBootstrap \<longrightarrow>
           \<not> bootstrapped b \<and> since start (ready_listed E b) g \<and>
           since start (first_endpoint E b (CallNode cl)) g \<and> ConnEndpoint (CallConn cl) = CallNode cl) \<and>
        (CallReq cl = ReqKubeconfig \<longrightarrow> bootstrapped b \<or> since start (\<lambda>_. bootstrap_recorded) g) \<and>
        CallReq cl \<in> {ReqBootstrap, ReqKubeconfig}) \<and>
     (\<forall>b' r. e = KStatusUpdate (OBootstrap b') r \<longrightarrow>
        honest b start b' g \<and>
        (BootstrapPhase (BootstrapStatus b') = TalosClusterBootstrapPhaseCompleted \<longrightarrow>
           since start (api_answered E) g \<and> RetryCount (BootstrapStatus b') = 0 \<and>
           HasCondition (Conditions (BootstrapStatus b')) TalosClusterBootstrapConditionAPIServer ConditionTrue))"

definition unguarded :: "event \<Rightarrow> bool" where
  "unguarded e \<longleftrightarrow> (case e of TCall _ _ \<Rightarrow> False | KStatusUpdate _ _ \<Rightarrow> False | _ \<Rightarrow> True)"

lemma unguarded_simps [simp]:
  "unguarded (KGet kd k)" "unguarded (KList kd ns)" "unguarded (KCreate ob r)" "unguarded (TNew c r)"
  "unguarded (TClose c)" "unguarded ClockRead" "unguarded RandRead" "unguarded (MetricSet v ls x)"
  "unguarded (MetricObserve v ls t)" "unguarded (Recorded kd k et s m)" "unguarded (RServerVersion rc)"
  by (simp_all add: unguarded_def)

lemma unguarded_guard: "unguarded e \<Longrightarrow> bootstrap_guard E b start g e"
  by (auto simp: unguarded_def bootstrap_guard_def)

lemma unguarded_step:
  "only unguarded m \<Longrightarrow> (\<And>r es. Q r (g @ es)) \<Longrightarrow> wpg (bootstrap_guard E b start) m Q g"
  by (erule wpg_extend) (simp_all add: unguarded_guard)

lemma only_record_bootstrap_phase [only_intros]:
  "(\<And>a c p v. P (MetricSet (fst BootstrapPhaseVec) [a, c, p] v)) \<Longrightarrow> only P (record_bootstrap_phase b f t)"
  unfolding record_bootstrap_phase_def by (intro only_intros)

lemma only_unguarded:
  "only unguarded (record_bootstrap_phase b f t)" "only unguarded (GetRetryDelay E n)"
  "only unguarded (emitEvent rec kd ob et r msg)" "only unguarded (getSecret E m ns)"
  "only unguarded (conn_Dial E tc ep)" "only unguarded (time_Now E)"
  "only unguarded (metric_observe v ls x)"
  unfolding time_Now_def by (intro only_intros; simp)+

lemmas unguarded_steps = only_unguarded [THEN unguarded_step]

lemma honest_append: "honest b start b' g \<Longrightarrow> honest b start b' (g @ es)"
  unfolding honest_def by (auto intro: since_append)

lemma honest_self: "honest b start b g"
  by (simp add: honest_def)


text \<open>Setting a condition keeps an object honest when it is set to false or justified.\<close>

lemma SetCondition_has_cases:
  "HasCondition (SetCondition now cs c) t s \<Longrightarrow> HasCondition cs t s \<or> t = CondType c \<and> s = CondStatus c"
  by (induction cs) (auto split: if_splits)

lemma set_condition_status_cases:
  "HasCondition (set_condition_status now cs t s reason msg) t' s' \<Longrightarrow>
     HasCondition cs t' s' \<or> t' = t \<and> s' = s"
  using SetCondition_has_cases [of now cs] by (fastforce simp: set_condition_status_def)

lemma bootstrap_conditions_distinct [simp]:
  "TalosClusterBootstrapConditionBootstrapped \<noteq> TalosClusterBootstrapConditionKubeconfig"
  "TalosClusterBootstrapConditionKubeconfig \<noteq> TalosClusterBootstrapConditionBootstrapped"
  "TalosClusterBootstrapConditionAPIServer \<noteq> TalosClusterBootstrapConditionKubeconfig"
  "TalosClusterBootstrapConditionKubeconfig \<noteq> TalosClusterBootstrapConditionAPIServer"
  "TalosClusterBootstrapConditionAPIServer \<noteq> TalosClusterBootstrapConditionBootstrapped"
  "TalosClusterBootstrapConditionBootstrapped \<noteq> TalosClusterBootstrapConditionAPIServer"
  by (simp_all add: condition_type_defs)

lemma honest_conditions:
  assumes "honest b start b' g"
    and "\<And>t. HasCondition (Conditions (BootstrapStatus b'')) t ConditionTrue \<Longrightarrow>
      HasCondition (Conditions (BootstrapStatus b')) t ConditionTrue \<or>
      t = TalosClusterBootstrapConditionAPIServer \<or>
      t = TalosClusterBootstrapConditionBootstrapped \<and> since start (\<lambda>_. etcd_bootstrapped) g \<or>
      t = TalosClusterBootstrapConditionKubeconfig \<and> since start (\<lambda>_. kubeconfig_stored) g"
  shows "honest b start b'' g"
  using assms(1) assms(2) [of TalosClusterBootstrapConditionBootstrapped]
    assms(2) [of TalosClusterBootstrapConditionKubeconfig]
  by (auto simp: honest_def)

lemma bootstrap_status_echoD:
  "bootstrap_status_echo E \<Longrightarrow> kstatus_bootstrap (Kube E) h b = Inr b' \<Longrightarrow> b' = b"
  by (simp add: bootstrap_status_echo_def)

lemma status_guarded:
  assumes "honest b start b' g"
    and "BootstrapPhase (BootstrapStatus b') \<noteq> TalosClusterBootstrapPhaseCompleted \<or>
      since start (api_answered E) g \<and> RetryCount (BootstrapStatus b') = 0 \<and>
      HasCondition (Conditions (BootstrapStatus b')) TalosClusterBootstrapConditionAPIServer ConditionTrue"
    and "\<And>err. Q (Inl err) (g @ [KStatusUpdate (OBootstrap b') (Some err)])"
    and "\<And>b''. kstatus_bootstrap (Kube E) g b' = Inr b'' \<Longrightarrow> Q (Inr b'') (g @ [KStatusUpdate (OBootstrap b') None])"
  shows "wpg (bootstrap_guard E b start) (status_update_TalosClusterBootstrap E b') Q g"
  unfolding status_update_TalosClusterBootstrap_def
proof (intro wpg_ask)
  fix r assume r: "r = kstatus_bootstrap (Kube E) g b'"
  show "bootstrap_guard E b start g (KStatusUpdate (OBootstrap b') (opt_err r))"
    using assms(1,2) by (auto simp: bootstrap_guard_def)
  show "Q r (g @ [KStatusUpdate (OBootstrap b') (opt_err r)])"
    using assms(3,4) r [symmetric] by (cases r) simp_all
qed

lemma bootstrap_setError_guarded:
  assumes "honest b start b' g" and "\<And>r es. Q r (g @ es)"
  shows "wpg (bootstrap_guard E b start) (bootstrap_setError E R b' err) Q g"
proof -
  have "honest b start b'' (g @ es)" if "Conditions (BootstrapStatus b'') = Conditions (BootstrapStatus b')" for b'' es
    using honest_append [OF assms(1), of es] that by (simp add: honest_def)
  note same = this
  show ?thesis
    unfolding bootstrap_setError_def
    by (intro wpg_intros unguarded_steps status_guarded) (simp_all add: same assms(2))
qed


lemma probeAPIServer_answers:
  assumes "length start \<le> length g"
  shows "wp (probeAPIServer E R s) (\<lambda>r g'. r = None \<longrightarrow> since start (api_answered E) g') g"
  using assms
  by (auto simp: probeAPIServer_def remote_server_version_def wp_simps api_answered_def since_last split: sum.split)

lemma probeAPIServer_guarded:
  assumes "length start \<le> length g"
    and "\<And>r es. (r = None \<longrightarrow> since start (api_answered E) (g @ es)) \<Longrightarrow> Q r (g @ es)"
  shows "wpg (bootstrap_guard E b start) (probeAPIServer E R s) Q g"
proof (rule wpg_only_wp [OF _ probeAPIServer_answers [OF assms(1)]])
  show "only unguarded (probeAPIServer E R s)"
    unfolding probeAPIServer_def remote_server_version_def by (intro only_intros) simp
qed (simp_all add: unguarded_guard assms(2))

lemma waitForAPIServer_guarded:
  assumes "honest b start b' g" and "length start \<le> length g"
  shows "wpg (bootstrap_guard E b start) (waitForAPIServer E R b' c) (\<lambda>_ _. True) g"
proof -
  have "honest b start b'' (g @ es)"
    if "Conditions (BootstrapStatus b'') = Conditions (BootstrapStatus b') \<or>
      (\<exists>now st re m. Conditions (BootstrapStatus b'') =
         set_condition_status now (Conditions (BootstrapStatus b')) TalosClusterBootstrapConditionAPIServer st re m)"
    for b'' es
    using that by (intro honest_conditions [OF honest_append [OF assms(1)]]) (auto dest: set_condition_status_cases)
  note same = this
  show ?thesis
    unfolding waitForAPIServer_def keepWaiting_def completeBootstrap_def
    by (intro wpg_intros unguarded_steps status_guarded bootstrap_setError_guarded probeAPIServer_guarded;
      (simp add: unguarded_guard trans_le_add1 [OF assms(2)])?;
      (rule same, auto | erule since_extend, simp)?)
qed


text \<open>
  \<open>fetching b start g\<close>: after \<open>g\<close>, the kubeconfig may be asked for.
\<close>

abbreviation fetching :: "talos_cluster_bootstrap \<Rightarrow> hist \<Rightarrow> hist \<Rightarrow> bool" where
  "fetching b start g \<equiv> bootstrapped b \<or> since start (\<lambda>_. bootstrap_recorded) g"

lemma fetching_append: "fetching b start g \<Longrightarrow> fetching b start (g @ es)"
  by (auto intro: since_append)

lemma conn_GetKubeconfig_guarded:
  assumes "fetching b start g" and "\<And>r es. Q r (g @ es)"
  shows "wpg (bootstrap_guard E b start) (conn_GetKubeconfig E c ep) Q g"
proof (rule wpg_extend)
  show "only (\<lambda>e. unguarded e \<or> (\<exists>r. e = TCall (rpc E c ep ReqKubeconfig) r)) (conn_GetKubeconfig E c ep)"
    unfolding conn_GetKubeconfig_def time_Now_def talos_kubeconfig_def by (intro only_intros) auto
  fix es e assume "unguarded e \<or> (\<exists>r. e = TCall (rpc E c ep ReqKubeconfig) r)"
  then show "bootstrap_guard E b start (g @ es) e"
    using fetching_append [OF assms(1), of es]
    by (elim disjE exE) (simp_all add: unguarded_guard, simp_all add: bootstrap_guard_def rpc_def)
qed (simp add: assms(2))

lemma saveKubeconfig_stores:
  assumes "length start \<le> length g"
  shows "wp (saveKubeconfig E c k) (\<lambda>r g'. r = None \<longrightarrow> since start (\<lambda>_. kubeconfig_stored) g') g"
  using assms
  by (auto simp: saveKubeconfig_def create_Secret_def wp_simps since_last kubeconfig_stored_def newSecret_def
      Let_def split: option.split)

lemma saveKubeconfig_guarded:
  assumes "length start \<le> length g"
    and "\<And>r es. (r = None \<longrightarrow> since start (\<lambda>_. kubeconfig_stored) (g @ es)) \<Longrightarrow> Q r (g @ es)"
  shows "wpg (bootstrap_guard E b start) (saveKubeconfig E c k) Q g"
proof (rule wpg_only_wp [OF _ saveKubeconfig_stores [OF assms(1)]])
  show "only unguarded (saveKubeconfig E c k)"
    unfolding saveKubeconfig_def create_Secret_def by (intro only_intros) simp
qed (simp_all add: unguarded_guard assms(2))

lemma kubeconfigFailed_guarded:
  assumes "honest b start b' g"
  shows "wpg (bootstrap_guard E b start) (kubeconfigFailed E b' err) (\<lambda>_ _. True) g"
proof -
  have "honest b start b'' (g @ es)"
    if "Conditions (BootstrapStatus b'') = set_condition_status now (Conditions (BootstrapStatus b'))
         TalosClusterBootstrapConditionKubeconfig ConditionFalse re m" for b'' es now re m
    using that by (intro honest_conditions [OF honest_append [OF assms]]) (auto dest: set_condition_status_cases)
  note same = this
  show ?thesis
    unfolding kubeconfigFailed_def
    by (intro wpg_intros unguarded_steps status_guarded; (simp add: unguarded_guard)?; (rule same, simp)?)
qed

lemma fetchKubeconfig_guarded:
  assumes "bootstrap_status_echo E" and "honest b start b' g" and "length start \<le> length g"
    and "fetching b start g" and "BootstrapPhase (BootstrapStatus b') \<noteq> TalosClusterBootstrapPhaseCompleted"
  shows "wpg (bootstrap_guard E b start) (fetchKubeconfig E R b' c conn ep) (\<lambda>_ _. True) g"
proof -
  have "honest b start b'' (g @ es)"
    if "since start (\<lambda>_. kubeconfig_stored) (g @ fs)" and "es = fs @ ks"
      and "Conditions (BootstrapStatus b'') = set_condition_status now (Conditions (BootstrapStatus b'))
         TalosClusterBootstrapConditionKubeconfig ConditionTrue re m" for b'' es fs ks now re m
    using that since_append [OF that(1), of ks]
    by (intro honest_conditions [OF honest_append [OF assms(2)]]) (auto dest: set_condition_status_cases)
  note same = this
  show ?thesis
    unfolding fetchKubeconfig_def
    by (intro wpg_intros conn_GetKubeconfig_guarded kubeconfigFailed_guarded saveKubeconfig_guarded
        bootstrap_setError_guarded status_guarded waitForAPIServer_guarded assms(4);
      (drule bootstrap_status_echoD [OF assms(1)])?;
      (simp add: unguarded_guard trans_le_add1 [OF assms(3)] le_SucI honest_append [OF assms(2)] assms(5))?;
      (rule same, assumption, simp, auto)?)
qed


lemma markBootstrapped_guarded:
  assumes "bootstrap_status_echo E" and "honest b start b' g" and "length start \<le> length g"
    and "since start (\<lambda>_. etcd_bootstrapped) g"
    and "BootstrapPhase (BootstrapStatus b') \<noteq> TalosClusterBootstrapPhaseCompleted"
    and "\<And>res es. Q (Inl res) (g @ es)"
    and "\<And>b'' es. honest b start b'' (g @ es) \<Longrightarrow> since start (\<lambda>_. bootstrap_recorded) (g @ es) \<Longrightarrow>
      BootstrapPhase (BootstrapStatus b'') \<noteq> TalosClusterBootstrapPhaseCompleted \<Longrightarrow> Q (Inr b'') (g @ es)"
  shows "wpg (bootstrap_guard E b start) (markBootstrapped E R b') Q g"
proof -
  have same: "honest b start b'' (g @ es)"
    if "Conditions (BootstrapStatus b'') = set_condition_status now (Conditions (BootstrapStatus b'))
         TalosClusterBootstrapConditionBootstrapped ConditionTrue re m" for b'' es now re m
    using that since_append [OF assms(4)]
    by (intro honest_conditions [OF honest_append [OF assms(2)]]) (auto dest: set_condition_status_cases)
  have recorded: "since start (\<lambda>_. bootstrap_recorded) (g @ es @ [KStatusUpdate (OBootstrap b'') None])"
    if "bootstrapped b''" for b'' es
    using since_now [of start "g @ es" "\<lambda>_. bootstrap_recorded"] that assms(3)
    by (simp add: bootstrap_recorded_def trans_le_add1)
  have marked: "Q (Inr b'') g'"
    if "g' = g @ ClockRead # es @ [KStatusUpdate (OBootstrap b'') None]"
      and "Conditions (BootstrapStatus b'') = set_condition_status now (Conditions (BootstrapStatus b'))
         TalosClusterBootstrapConditionBootstrapped ConditionTrue re m"
      and "BootstrapPhase (BootstrapStatus b'') = BootstrapPhase (BootstrapStatus b')" for b'' g' es now re m
    using assms(7) [of b'' "ClockRead # es @ [KStatusUpdate (OBootstrap b'') None]"] same [of b'' now re m] recorded [of b'' "ClockRead # es"] that
      assms(5) by simp
  show ?thesis
    unfolding markBootstrapped_def
    by (intro wpg_intros unguarded_steps status_guarded; (drule bootstrap_status_echoD [OF assms(1)])?;
      (simp add: unguarded_guard assms(5,6))?; (rule same, simp | rule marked, auto)?)
qed


lemma conn_Bootstrap_called:
  assumes "length start \<le> length g"
  shows "wp (conn_Bootstrap E c ep)
     (\<lambda>r g'. (case r of None \<Rightarrow> True | Some err \<Rightarrow> IsAlreadyExists err) \<longrightarrow>
        since start (\<lambda>_. etcd_bootstrapped) g') g"
proof -
  have called: "since start (\<lambda>_. etcd_bootstrapped) (g @ ClockRead # TCall (rpc E c ep ReqBootstrap) r # es)"
    if "case r of None \<Rightarrow> True | Some err \<Rightarrow> IsAlreadyExists err" for r es
    unfolding since_def using that assms
    by (intro exI [of _ "g @ [ClockRead]"] exI [of _ "TCall (rpc E c ep ReqBootstrap) r"] exI [of _ es])
      (simp add: etcd_bootstrapped_def rpc_def)
  show ?thesis
    by (auto simp: conn_Bootstrap_def timed_unit_def observe_call_def time_Now_def talos_unit_def wp_simps
        intro: called)
qed

text \<open>What must be known for the \<^verbatim>\<open>Bootstrap\<close> call on the endpoint \<open>ep\<close>.\<close>

definition may_bootstrap ::
    "env \<Rightarrow> talos_cluster_bootstrap \<Rightarrow> hist \<Rightarrow> talos_conn \<Rightarrow> string \<Rightarrow> hist \<Rightarrow> bool" where
  "may_bootstrap E b start c ep g \<longleftrightarrow>
     \<not> bootstrapped b \<and> since start (ready_listed E b) g \<and> since start (first_endpoint E b ep) g \<and>
     ConnEndpoint c = ep"

lemma conn_Bootstrap_guarded:
  assumes "may_bootstrap E b start c ep g" and "length start \<le> length g"
    and "\<And>r es. ((case r of None \<Rightarrow> True | Some err \<Rightarrow> IsAlreadyExists err) \<longrightarrow>
        since start (\<lambda>_. etcd_bootstrapped) (g @ es)) \<Longrightarrow> Q r (g @ es)"
  shows "wpg (bootstrap_guard E b start) (conn_Bootstrap E c ep) Q g"
proof (rule wpg_only_wp_extend [OF _ conn_Bootstrap_called [OF assms(2)]])
  show "only (\<lambda>e. unguarded e \<or> (\<exists>r. e = TCall (rpc E c ep ReqBootstrap) r)) (conn_Bootstrap E c ep)"
    unfolding conn_Bootstrap_def by (intro only_intros) auto
  fix es e assume "unguarded e \<or> (\<exists>r. e = TCall (rpc E c ep ReqBootstrap) r)"
  then show "bootstrap_guard E b start (g @ es) e"
    using assms(1) by (elim disjE exE)
      (simp_all add: unguarded_guard, simp_all add: bootstrap_guard_def rpc_def may_bootstrap_def since_append)
qed (rule assms(3))

lemma bootstrapEtcd_guarded:
  assumes "bootstrap_status_echo E" and "honest b start b' g" and "length start \<le> length g"
    and "may_bootstrap E b start c ep g"
    and "BootstrapPhase (BootstrapStatus b') \<noteq> TalosClusterBootstrapPhaseCompleted"
    and "\<And>res es. Q (Inl res) (g @ es)"
    and "\<And>b'' es. honest b start b'' (g @ es) \<Longrightarrow> since start (\<lambda>_. bootstrap_recorded) (g @ es) \<Longrightarrow>
      BootstrapPhase (BootstrapStatus b'') \<noteq> TalosClusterBootstrapPhaseCompleted \<Longrightarrow> Q (Inr b'') (g @ es)"
  shows "wpg (bootstrap_guard E b start) (bootstrapEtcd E R b' c ep) Q g"
  unfolding bootstrapEtcd_def
  by (intro wpg_intros conn_Bootstrap_guarded [OF assms(4,3)] markBootstrapped_guarded
      bootstrap_setError_guarded assms(1)) (simp_all add: assms(2-) honest_append trans_le_add1)

lemma dialBootstrap_endpoint:
  "wp (dialBootstrap E False tc eps) (\<lambda>(c, ep, err) _. ep = hd eps \<and> (\<forall>conn. c = Some conn \<longrightarrow> ConnEndpoint conn = ep)) g"
  unfolding dialBootstrap_def
  by (simp add: wp_simps, rule wp_mono [OF conn_Dial_creds]) (auto simp: wp_return split: sum.splits)

lemma dialBootstrap_guarded:
  assumes "\<And>c ep err es. (\<not> already \<longrightarrow> ep = hd eps \<and> (\<forall>conn. c = Some conn \<longrightarrow> ConnEndpoint conn = ep)) \<Longrightarrow>
      Q (c, ep, err) (g @ es)"
  shows "wpg (bootstrap_guard E b start) (dialBootstrap E already tc eps) Q g"
proof -
  have dial: "only unguarded (dialAny (conn_Dial E) tc eps)"
    by (rule only_mono [OF real_dialer.only_dialAny]) (auto simp: is_mtls_dial_def unguarded_def split: event.splits)
  have only: "only unguarded (dialBootstrap E already tc eps)"
    unfolding dialBootstrap_def by (intro only_intros dial) simp
  show ?thesis
  proof (cases already)
    case True
    then show ?thesis
      by (intro unguarded_step [OF only]) (use assms in auto)
  next
    case False
    with only have only': "only unguarded (dialBootstrap E False tc eps)" by simp
    have "wpg (bootstrap_guard E b start) (dialBootstrap E False tc eps) Q g"
      by (rule wpg_only_wp [OF only' dialBootstrap_endpoint])
        (use assms False in \<open>auto simp: unguarded_guard\<close>)
    with False show ?thesis by simp
  qed
qed

lemma talkToTalos_guarded:
  assumes "bootstrap_status_echo E" and "honest b start b' g" and "length start \<le> length g"
    and "BootstrapPhase (BootstrapStatus b') \<noteq> TalosClusterBootstrapPhaseCompleted"
    and "since start (ready_listed E b) g" and "since start (first_endpoint E b (hd (Endpoints (ClusterSpec c)))) g"
  shows "wpg (bootstrap_guard E b start) (talkToTalos E R b' c (bootstrapped b)) (\<lambda>_ _. True) g"
proof -
  note facts = assms honest_append trans_le_add1 since_append may_bootstrap_def unguarded_guard
  show ?thesis
    unfolding talkToTalos_def
    by (intro wpg_intros unguarded_steps dialBootstrap_guarded bootstrap_setError_guarded
        bootstrapEtcd_guarded fetchKubeconfig_guarded [THEN wpg_ends] assms(1); insert assms(2,4); simp add: facts)
qed


lemma readyControlPlaneCount_lists:
  assumes "length start \<le> length g"
  shows "wp (readyControlPlaneCount E (Namespace b) (BootstrapClusterRef (BootstrapSpec b)))
     (\<lambda>r g'. \<forall>n. r = Inr n \<and> 0 < n \<longrightarrow> since start (ready_listed E b) g') g"
proof -
  have "\<exists>n \<in> set ns. ready_control_plane c n" if "0 < count_ready c ns 0" for c ns
    using that by (auto simp: count_ready_length filter_empty_conv)
  then show ?thesis
    using assms
    by (auto simp: readyControlPlaneCount_def list_TalosNodes_def wp_simps since_last ready_listed_def
        split: sum.splits)
qed

lemma waitForReadyNodes_guarded:
  assumes "bootstrap_status_echo E" and "length start \<le> length g"
    and "\<And>res err b' es. honest b start b' (g @ es) \<Longrightarrow> Q (res, False, err, b') (g @ es)"
    and "\<And>es. since start (ready_listed E b) (g @ es) \<Longrightarrow> Q (no_requeue, True, None, b) (g @ es)"
  shows "wpg (bootstrap_guard E b start) (waitForReadyNodes E b) Q g"
proof -
  have counted: "wpg (bootstrap_guard E b start)
      (readyControlPlaneCount E (Namespace b) (BootstrapClusterRef (BootstrapSpec b))) P g"
    if "\<And>r es. \<forall>n. r = Inr n \<and> 0 < n \<longrightarrow> since start (ready_listed E b) (g @ es) \<Longrightarrow> P r (g @ es)" for P
  proof (rule wpg_only_wp [OF _ readyControlPlaneCount_lists [OF assms(2)]])
    show "only unguarded (readyControlPlaneCount E (Namespace b) (BootstrapClusterRef (BootstrapSpec b)))"
      unfolding readyControlPlaneCount_def list_TalosNodes_def by (intro only_intros) simp
  qed (simp_all add: unguarded_guard that)
  have same: "honest b start b' h" if "Conditions (BootstrapStatus b') = Conditions (BootstrapStatus b)" for b' h
    using that by (simp add: honest_def)
  show ?thesis
    unfolding waitForReadyNodes_def
    by (intro wpg_intros unguarded_steps counted status_guarded;
      (drule bootstrap_status_echoD [OF assms(1)])?;
      (simp add: assms same)?; (rule assms(3), auto simp: same)?)
qed

lemma startBootstrap_guarded:
  assumes "bootstrap_status_echo E" and "length start \<le> length g"
    and "since start (ready_listed E b) g" and "since start (first_endpoint E b (hd (Endpoints (ClusterSpec c)))) g"
  shows "wpg (bootstrap_guard E b start) (startBootstrap E R b c) (\<lambda>_ _. True) g"
proof -
  have "honest b start b' h"
    if "\<And>t. HasCondition (Conditions (BootstrapStatus b')) t ConditionTrue \<Longrightarrow>
      HasCondition (Conditions (BootstrapStatus b)) t ConditionTrue" for b' h
    using that by (simp add: honest_def)
  note same = this
  have talk: "wpg (bootstrap_guard E b start) (talkToTalos E R b' c already) (\<lambda>_ _. True) (g @ es)"
    if "already = bootstrapped b" and "BootstrapPhase (BootstrapStatus b') = TalosClusterBootstrapPhaseBootstrapping"
      and "\<And>t. HasCondition (Conditions (BootstrapStatus b')) t ConditionTrue \<Longrightarrow>
        HasCondition (Conditions (BootstrapStatus b)) t ConditionTrue" for b' already es
    unfolding that(1)
    by (rule talkToTalos_guarded) (simp_all add: assms that(2) trans_le_add1 since_append, rule same, erule that(3))
  show ?thesis
    unfolding startBootstrap_def
    by (intro wpg_intros unguarded_steps status_guarded; (drule bootstrap_status_echoD [OF assms(1)])?;
      (simp add: unguarded_guard)?; ((rule talk | rule same); auto dest!: set_condition_status_cases)?)
qed

text \<open>
  C4. The order of a bootstrap: etcd is bootstrapped only while the status does not say that it is,
  after a listing of this run with a ready control plane, over a connection to the first endpoint of
  the cluster; the kubeconfig is asked for only when the bootstrap is recorded, before or in this run;
  every status written claims only what held before or was done in this run; and Completed is
  written only after the API server of the new cluster answered. No other Talos call is made.
\<close>

theorem reconcileBootstrap_guarded:
  assumes "bootstrap_status_echo E"
  shows "wpg (bootstrap_guard E b h) (reconcileBootstrap E R b) (\<lambda>_ _. True) h"
proof -
  have first: "since h (first_endpoint E b (hd (Endpoints (ClusterSpec c)))) (h @ KGet KindCluster k # es)"
    if "k = (Namespace b, BootstrapClusterRef (BootstrapSpec b))" and "kget_cluster (Kube E) h k = Inr c"
      and "Endpoints (ClusterSpec c) \<noteq> []" for k c es
    using that unfolding since_def first_endpoint_def
    by (intro exI [of _ h] exI [of _ "KGet KindCluster k"] exI [of _ es]) (cases "Endpoints (ClusterSpec c)"; auto)
  have "bootstrap_guard E b h h (KGet KindCluster k)" for k by (simp add: unguarded_guard)
  note guards = this
  show ?thesis
    unfolding reconcileBootstrap_def get_TalosCluster_def
    by (intro wpg_intros waitForReadyNodes_guarded [OF assms] bootstrap_setError_guarded
        waitForAPIServer_guarded; (simp add: guards honest_self)?;
      (rule startBootstrap_guarded [OF assms], simp_all add: first)?)
qed

section \<open>The generation of a bootstrap that waits for its API server\<close>

definition keeps_generation :: "talos_cluster_bootstrap \<Rightarrow> event \<Rightarrow> bool" where
  "keeps_generation b e =
     (case e of
        KStatusUpdate (OBootstrap b') _ \<Rightarrow>
          ObservedGeneration (BootstrapStatus b') = ObservedGeneration (BootstrapStatus b)
      | _ \<Rightarrow> True)"


end
