(* ===== verification/Wiring.thy ===== *)
theory Wiring
  imports BootstrapController
begin

text \<open>
  How \<^verbatim>\<open>internal/run/run.go\<close> puts the operator together: the options of the manager and the three
  reconcilers with their production dependencies. The properties of this theory are about those
  reconcilers.
\<close>

section \<open>Options of the manager\<close>

definition os_LookupEnv :: "env \<Rightarrow> string \<Rightarrow> bool" where
  "os_LookupEnv E k \<longleftrightarrow> getenv (Host E) k \<noteq> None"

definition isInCluster :: "env \<Rightarrow> bool" where
  "isInCluster E \<longleftrightarrow> os_LookupEnv E ''KUBERNETES_SERVICE_HOST'' \<and> os_LookupEnv E ''KUBERNETES_PORT''"

definition podNamespace :: "env \<Rightarrow> string" where
  "podNamespace E =
     (let ns = os_Getenv E ''POD_NAMESPACE'' in if ns \<noteq> [] then ns else ''default'')"

record manager_options =
  MetricsBindAddress :: string
  HealthProbeBindAddress :: string
  LeaderElection :: bool
  LeaderElectionID :: string
  LeaderElectionNamespace :: string

text \<open>The flag \<^verbatim>\<open>--leader-elect\<close> is \<open>None\<close> when it is not given.\<close>

definition manager_options_of :: "env \<Rightarrow> bool option \<Rightarrow> manager_options" where
  "manager_options_of E flag =
     (let leaderElect = (case flag of None \<Rightarrow> isInCluster E | Some b \<Rightarrow> b);
          opts = \<lparr>MetricsBindAddress = '':8080'', HealthProbeBindAddress = '':8081'',
                  LeaderElection = False, LeaderElectionID = [], LeaderElectionNamespace = []\<rparr>
      in if leaderElect
         then opts\<lparr>LeaderElection := True, LeaderElectionID := ''yk-talos-management.lock'',
                   LeaderElectionNamespace := podNamespace E\<rparr>
         else opts)"

section \<open>The reconcilers\<close>

definition production_cluster :: cluster_reconciler where
  "production_cluster = \<lparr>ClusterRecorder = True\<rparr>"

definition production_node :: "env \<Rightarrow> node_reconciler" where
  "production_node E =
     \<lparr>Recorder = True, NewRemoteClient = None, Factory = Some (CreateSchematic E factory_New)\<rparr>"

definition production_bootstrap :: bootstrap_reconciler where
  "production_bootstrap = \<lparr>BootstrapRecorder = True, BootstrapNewRemoteClient = None\<rparr>"

lemma production_node_quiet: "quiet_factory (production_node E)"
  by (simp add: quiet_factory_def production_node_def real_factory.create_only)

lemma leader_election_scoped:
  "LeaderElection (manager_options_of E flag) \<longleftrightarrow> LeaderElectionNamespace (manager_options_of E flag) \<noteq> []"
  by (simp add: manager_options_of_def podNamespace_def Let_def)

section \<open>Metrics\<close>

lemma node_Reconcile_metrics: "only metric_ok (node_Reconcile E (production_node E) req)"
  unfolding node_Reconcile_def reconcileLive_def node_handleDeletion_def call_defs
  by (intro only_intros frame_intros production_node_quiet; simp add: metric_arity)

lemma cluster_Reconcile_metrics: "only metric_ok (cluster_Reconcile E R req)"
  unfolding cluster_Reconcile_def cluster_handleDeletion_def activeNodeCount_def cluster_setError_def call_defs
  by (intro only_intros only_provision; simp add: metric_arity)

lemma bootstrap_Reconcile_metrics: "only metric_ok (bootstrap_Reconcile E R req)"
  unfolding bootstrap_Reconcile_def reconcileBootstrap_def bootstrap_handleDeletion_def deleteKubeconfig_def
    bootstrap_setError_def waitForReadyNodes_def readyControlPlaneCount_def startBootstrap_def talkToTalos_def
    dialBootstrap_def bootstrapEtcd_def markBootstrapped_def fetchKubeconfig_def kubeconfigFailed_def
    saveKubeconfig_def waitForAPIServer_def probeAPIServer_def keepWaiting_def completeBootstrap_def call_defs
  by (intro only_intros frame_intros; simp add: metric_arity)

end
