(* ===== verification/Sample.thy ===== *)
theory Sample
  imports Wiring
begin

text \<open>
  One concrete environment, which satisfies every law that the properties name as a hypothesis: the
  Kubernetes objects are those that the history wrote last, every service answers, the clock moves
  by the poll interval at every tick. The objects that are there at the start are those of the
  initial history. The bundle, the configurations and the credentials of a cluster are the same bytes,
  and no two generated bundles of a history have the same.
\<close>

section \<open>The objects after a history\<close>

definition put_object :: "('a object_meta_scheme) list \<Rightarrow> 'a object_meta_scheme \<Rightarrow> 'a object_meta_scheme list" where
  "put_object os x = x # filter (\<lambda>y. nsname y \<noteq> nsname x) os"

definition find_object ::
    "('a object_meta_scheme) list \<Rightarrow> namespaced_name \<Rightarrow> gerror + 'a object_meta_scheme" where
  "find_object os k =
     (case find (\<lambda>x. nsname x = k) os of None \<Rightarrow> Inl (ErrApi NotFound (snd k)) | Some x \<Rightarrow> Inr x)"

fun written :: "event \<Rightarrow> kobj option" where
  "written (KCreate ob None) = Some ob"
| "written (KUpdate ob None) = Some ob"
| "written (KStatusUpdate ob None) = Some ob"
| "written (KPatch _ ob None) = Some ob"
| "written _ = None"

definition nodes_at :: "hist \<Rightarrow> talos_node list" where
  "nodes_at = foldl (\<lambda>os e. case written e of Some (ONode n) \<Rightarrow> put_object os n | _ \<Rightarrow> os) []"

definition clusters_at :: "hist \<Rightarrow> talos_cluster list" where
  "clusters_at = foldl (\<lambda>os e. case written e of Some (OCluster c) \<Rightarrow> put_object os c | _ \<Rightarrow> os) []"

definition bootstraps_at :: "hist \<Rightarrow> talos_cluster_bootstrap list" where
  "bootstraps_at = foldl (\<lambda>os e. case written e of Some (OBootstrap b) \<Rightarrow> put_object os b | _ \<Rightarrow> os) []"

definition secret_step :: "secret list \<Rightarrow> event \<Rightarrow> secret list" where
  "secret_step os e =
     (case e of
        KDelete KindSecret k None \<Rightarrow> filter (\<lambda>s. nsname s \<noteq> k) os
      | KStatusUpdate _ _ \<Rightarrow> os
      | _ \<Rightarrow> (case written e of Some (OSecret s) \<Rightarrow> put_object os s | _ \<Rightarrow> os))"

definition secrets_at :: "hist \<Rightarrow> secret list" where
  "secrets_at = foldl secret_step []"

section \<open>The environment\<close>

definition sample_kube :: kube_api where
  "sample_kube =
     \<lparr>kget_node = (\<lambda>h. find_object (nodes_at h)),
      kget_cluster = (\<lambda>h. find_object (clusters_at h)),
      kget_bootstrap = (\<lambda>h. find_object (bootstraps_at h)),
      kget_secret = (\<lambda>h. find_object (secrets_at h)),
      klist_nodes = (\<lambda>h ns. Inr (filter (\<lambda>n. Namespace n = ns) (nodes_at h))),
      klist_bootstraps = (\<lambda>h ns. Inr (filter (\<lambda>b. Namespace b = ns) (bootstraps_at h))),
      kupdate_node = (\<lambda>_. Inr), kupdate_cluster = (\<lambda>_. Inr), kupdate_bootstrap = (\<lambda>_. Inr),
      kupdate_secret = (\<lambda>_. Inr), kstatus_node = (\<lambda>_. Inr), kstatus_cluster = (\<lambda>_. Inr),
      kstatus_bootstrap = (\<lambda>_. Inr), kpatch_node = (\<lambda>_ _. Inr),
      kcreate_secret = (\<lambda>h s. if nsname s \<in> nsname ` set (secrets_at h)
                              then Some (ErrApi AlreadyExists (Name s)) else None),
      kdelete_secret = (\<lambda>_ _. None)\<rparr>"

definition sample_talos :: talos_api where
  "sample_talos =
     \<lparr>tnew = (\<lambda>_ _. None), tcall_apply = (\<lambda>_ _. Inr [\<lparr>ApplyMode = ''NO_REBOOT'', ApplyWarnings = []\<rparr>]),
      tcall_unit = (\<lambda>_ _. None), tcall_kubeconfig = (\<lambda>_ _. Inr ''kubeconfig''),
      tcall_cosi = (\<lambda>_ _. Inr (CosiHostnameStatus ''host'')),
      tcall_version = (\<lambda>_ _. Inr [\<lparr>VersionTag = Some ''v1.9.0'', PlatformMode = Some ''metal''\<rparr>]),
      tcall_members = (\<lambda>_ _. Inr [[\<lparr>MemberId = 7, PeerUrls = [''https://10.0.0.9:2380'']\<rparr>]])\<rparr>"

definition sample_remote :: remote_api where
  "sample_remote =
     \<lparr>rget_node = (\<lambda>_ _ n. Inl (ErrApi NotFound n)), rupdate_node = (\<lambda>_ _ _. None),
      rlist_pods = (\<lambda>_ _ _. Inr []), revict = (\<lambda>_ _ _. None), rdelete_node = (\<lambda>_ _ _. None),
      rserver_version = (\<lambda>_ _. None)\<rparr>"

definition sample_host :: host_api where
  "sample_host =
     \<lparr>clock = (\<lambda>h. 5000000000 * int (ticks h)), rand_float = (\<lambda>_. 0), ctx_err = (\<lambda>_. None),
      tick_wait = (\<lambda>_. None), getenv = (\<lambda>_. None),
      http_do = (\<lambda>_ _. Inr \<lparr>StatusCode = 201, RespBody = ''schematic''\<rparr>),
      new_bundle = (\<lambda>h _. Inr (SecretsBundle (replicate (Suc (length h)) CHR ''x''))), retry_steps = 5\<rparr>"

definition sample_lib :: library_api where
  "sample_lib =
     \<lparr>yaml_unmarshal = (\<lambda>_. Inr (Some Map.empty)), yaml_marshal = (\<lambda>_. Inr ''machine: {}''),
      talosconfig_parse = (\<lambda>bs. Inr (TalosConfig bs)), semver_parse = (\<lambda>_. None),
      semver_gt = (\<lambda>_ _. False), url_host = Some, parse_contract = (\<lambda>v. Inr (Contract v)),
      bundle_marshal = (\<lambda>b. case b of SecretsBundle bs \<Rightarrow> if bs = [] then Inl (ErrFmt ''empty'' []) else Inr bs),
      bundle_unmarshal = (\<lambda>bs. Inr (SecretsBundle bs)),
      generate_input = (\<lambda>o'. case GenBundle o' of SecretsBundle bs \<Rightarrow> Inr (GenInput bs)),
      input_config = (\<lambda>i _. case i of GenInput bs \<Rightarrow> Inr (MachineConfig bs)),
      input_talosconfig = (\<lambda>i. case i of GenInput bs \<Rightarrow> Inr (ClientConfig bs)),
      config_bytes = (\<lambda>c. case c of MachineConfig bs \<Rightarrow> Inr bs),
      client_config_bytes = (\<lambda>c. case c of ClientConfig bs \<Rightarrow> Inr bs),
      default_kubernetes_version = ''1.32.0'', apid_port = 50000,
      rest_config_of = (\<lambda>bs. Inr (RestConfig bs)), new_for_config = (\<lambda>_. Inr (RemoteClient ''client'')),
      kubeconfig_load = (\<lambda>bs. Inr \<lparr>Clusters = Map.empty, ConfigRest = bs\<rparr>),
      kubeconfig_write = (\<lambda>cfg. if Clusters cfg = Map.empty then Inr (ConfigRest cfg)
                                else Inl (ErrFmt ''unsupported'' [])),
      schematic_marshal = (\<lambda>_. Inr ''{}''), request_valid = (\<lambda>_. None), schematic_decode = Inr,
      float64_round = (\<lambda>x. x)\<rparr>"

definition sample_env :: env where
  "sample_env =
     \<lparr>Kube = sample_kube, Talos = sample_talos, Remote = sample_remote, Host = sample_host,
      Lib = sample_lib\<rparr>"

lemma sample_env_simps [simp]:
  "Kube sample_env = sample_kube" "Talos sample_env = sample_talos" "Remote sample_env = sample_remote"
  "Host sample_env = sample_host" "Lib sample_env = sample_lib"
  by (simp_all add: sample_env_def)

section \<open>The laws hold\<close>

lemma sample_echoes:
  "node_status_echo sample_env" "node_update_echo sample_env" "node_patch_echo sample_env"
  "cluster_status_echo sample_env" "bootstrap_status_echo sample_env"
  by (simp_all add: node_status_echo_def node_update_echo_def node_patch_echo_def
      cluster_status_echo_def bootstrap_status_echo_def sample_kube_def)

lemma sample_ticker: "ticker_law sample_env h"
  by (auto simp: ticker_law_def sample_host_def delay_defs ticks_def)

lemma sample_retries: "default_retries sample_env"
  by (simp add: default_retries_def sample_host_def sample_lib_def float64_law_def)

lemma sample_reads_writes: "secrets_read_writes sample_env"
  by (auto simp: secrets_read_writes_def sample_kube_def secrets_at_def secret_step_def find_object_def
      put_object_def find_Some_iff split: option.splits)

lemma sample_kubeconfig:
  "kubeconfig_write (Lib sample_env) cfg = Inr bs \<Longrightarrow> kubeconfig_load (Lib sample_env) bs = Inr cfg"
  by (cases cfg) (auto simp: sample_lib_def split: if_splits)

section \<open>Objects\<close>

definition sample_cluster :: talos_cluster where
  "sample_cluster =
     \<lparr>Name = ''c'', Namespace = ''ns'', UID = ''u'', Generation = 1, CreationTimestamp = 0,
      DeletionTimestamp = None, Finalizers = [FinalizerCleanup], Annotations = Map.empty, OwnerReferences = [],
      ClusterSpec = \<lparr>ClusterName = ''c'', Endpoints = [''10.0.0.1''], ClusterTalosVersion = ''v1.9.0'',
                     KubernetesVersion = []\<rparr>,
      ClusterStatus = \<lparr>ObservedGeneration = 0, RetryCount = 0, LastUpdateTime = None, Conditions = [],
                       ClusterPhase = TalosPhaseUnset\<rparr>\<rparr>"

definition sample_node :: talos_node where
  "sample_node =
     \<lparr>Name = ''n'', Namespace = ''ns'', UID = ''u'', Generation = 1, CreationTimestamp = 0,
      DeletionTimestamp = None, Finalizers = [FinalizerCleanup], Annotations = Map.empty, OwnerReferences = [],
      NodeSpec = \<lparr>ClusterRef = ''c'', Role = TalosNodeRoleControlPlane, NodeIP = ''10.0.0.1'', Patches = [],
                  PatchesFrom = [], DriftDetection = None, SkipDrain = False, DrainTimeout = None,
                  ResetOnDelete = False, TalosVersion = [], SystemExtensions = []\<rparr>,
      NodeStatus = \<lparr>ObservedGeneration = 0, RetryCount = 0, LastUpdateTime = None, Conditions = [],
                    NodePhase = TalosNodePhaseUnset, NodeMessage = Lit [], DeletionAttempts = 0,
                    CurrentTalosVersion = [], InstalledExtensions = []\<rparr>\<rparr>"

definition sample_bootstrap :: talos_cluster_bootstrap where
  "sample_bootstrap =
     \<lparr>Name = ''b'', Namespace = ''ns'', UID = ''u'', Generation = 1, CreationTimestamp = 0,
      DeletionTimestamp = None, Finalizers = [FinalizerCleanup], Annotations = Map.empty, OwnerReferences = [],
      BootstrapSpec = \<lparr>BootstrapClusterRef = ''c''\<rparr>,
      BootstrapStatus = \<lparr>ObservedGeneration = 0, RetryCount = 0, LastUpdateTime = None, Conditions = [],
                         BootstrapPhase = TalosClusterBootstrapPhaseUnset, BootstrapMessage = Lit []\<rparr>\<rparr>"

text \<open>A node on version 1.9.0 whose configuration is applied, with one extension asked for.\<close>

definition sample_upgrade_node :: talos_node where
  "sample_upgrade_node = sample_node
     \<lparr>NodeSpec := (NodeSpec sample_node)\<lparr>TalosVersion := ''1.9.0'', SystemExtensions := [''siderolabs/zfs'']\<rparr>,
      NodeStatus := (NodeStatus sample_node)\<lparr>CurrentTalosVersion := ''v1.9.0''\<rparr>\<rparr>"

definition sample_start :: hist where
  "sample_start =
     [KUpdate (OCluster sample_cluster) None, KUpdate (ONode sample_node) None,
      KUpdate (OBootstrap sample_bootstrap) None]"

end
