(* ===== verification/Runs.thy ===== *)
theory Runs
  imports Environment
begin

text \<open>
  What a history says about one stored object, and the histories in which one controller works on
  it. A view is what is followed of the object; \<open>replay upd init h\<close> is the view after the history \<open>h\<close>.
\<close>

section \<open>Replaying a history\<close>

definition replay :: "('v \<Rightarrow> event \<Rightarrow> 'v) \<Rightarrow> 'v \<Rightarrow> hist \<Rightarrow> 'v" where
  "replay upd init h = foldl upd init h"

lemma replay_Nil [simp]: "replay upd init [] = init"
  by (simp add: replay_def)

lemma replay_snoc: "replay upd init (h @ [e]) = upd (replay upd init h) e"
  by (simp add: replay_def)

section \<open>Runs\<close>

text \<open>
  The histories of one object: reconciles of it, which is the program \<open>prog\<close>, one at a time and each
  of them begun with a read that is \<open>current\<close>, and in between any events that satisfy \<open>other\<close>.
\<close>

inductive runs :: "(hist \<Rightarrow> bool) \<Rightarrow> 'r prog \<Rightarrow> (event \<Rightarrow> bool) \<Rightarrow> hist \<Rightarrow> bool"
  for current prog other where
  start: "runs current prog other []"
| reconcile: "runs current prog other h \<Longrightarrow> current h \<Longrightarrow> runs current prog other (snd (run_state prog h))"
| other: "runs current prog other h \<Longrightarrow> other e \<Longrightarrow> runs current prog other (h @ [e])"

lemma runs_others: "runs current prog other h \<Longrightarrow> list_all other es \<Longrightarrow> runs current prog other (h @ es)"
  by (induction es rule: rev_induct) (auto simp flip: append_assoc intro: runs.other)

section \<open>The contract of a status machine\<close>

text \<open>
  A view is changed by events \<open>upd\<close>; events that \<open>keep\<close> the objects leave it alone. \<open>own v e\<close>: the
  controller may append \<open>e\<close> when the view is \<open>v\<close>.
\<close>

locale status_machine =
  fixes upd :: "'v \<Rightarrow> event \<Rightarrow> 'v"
    and init :: 'v
    and keep :: "event \<Rightarrow> bool"
    and own :: "'v \<Rightarrow> event \<Rightarrow> bool"
  assumes keep_upd: "keep e \<Longrightarrow> upd v e = v"
    and keep_own: "keep e \<Longrightarrow> own v e"
begin

lemma replay_keep: "list_all keep es \<Longrightarrow> replay upd init (g @ es) = replay upd init g"
  by (induction es rule: rev_induct) (simp_all add: replay_snoc keep_upd flip: append_assoc)

text \<open>What follows a step that keeps the objects is verified for any later history of the same view.\<close>

lemma wpg_keep:
  assumes "only keep m" and "\<And>r g'. replay upd init g' = replay upd init g \<Longrightarrow> Q r g'"
  shows "wpg (\<lambda>g. own (replay upd init g)) m Q g"
  using assms(1) by (rule wpg_extend) (simp_all add: keep_own assms(2) replay_keep)

lemma wpg_own_ask:
  assumes "own (replay upd init g) (ev (f g))" and
    "\<And>g'. replay upd init g' = upd (replay upd init g) (ev (f g)) \<Longrightarrow> Q (f g) g'"
  shows "wpg (\<lambda>g. own (replay upd init g)) (ask f ev) Q g"
  using assms by (intro wpg_ask) (simp_all add: replay_snoc)

text \<open>
  An invariant of the view that every allowed event keeps, and that lets each reconcile append
  nothing but its own events, holds in every run, and every event of the run is allowed.
\<close>

lemma good_trace:
  assumes "good init" and "\<And>v e. good v \<Longrightarrow> any v e \<Longrightarrow> good (upd v e)"
    and "trace_ok (\<lambda>g. any (replay upd init g)) [] h"
  shows "good (replay upd init h)"
  using assms(3)
proof (induction h rule: rev_induct)
  case Nil
  then show ?case by (simp add: assms(1))
next
  case (snoc e h)
  then have "trace_ok (\<lambda>g. any (replay upd init g)) [] h" and "any (replay upd init h) e"
    by (auto simp: trace_ok_def)
  with snoc.IH assms(2) show ?case by (simp add: replay_snoc)
qed

lemma runs_trace:
  assumes "\<And>h. current h \<Longrightarrow> good (replay upd init h) \<Longrightarrow>
      wpg (\<lambda>g. own (replay upd init g)) prog (\<lambda>_ _. True) h"
    and "\<And>v e. own v e \<Longrightarrow> any v e" and "\<And>v e. other e \<Longrightarrow> any v e"
    and "good init" and "\<And>v e. good v \<Longrightarrow> any v e \<Longrightarrow> good (upd v e)"
    and "runs current prog other h"
  shows "trace_ok (\<lambda>g. any (replay upd init g)) [] h"
  using assms(6)
proof (induction rule: runs.induct)
  case (reconcile h)
  have "wpg (\<lambda>g. own (replay upd init g)) prog (\<lambda>_ _. True) h"
    using reconcile.hyps(2) good_trace [of good any, OF assms(4,5) reconcile.IH] by (rule assms(1))
  then obtain es where es: "snd (run_state prog h) = h @ es"
    and own: "trace_ok (\<lambda>g. own (replay upd init g)) h es"
    by (auto simp: wpg_def)
  from own have "trace_ok (\<lambda>g. any (replay upd init g)) h es"
    by (rule trace_ok_mono) (rule assms(2))
  with reconcile.IH show ?case by (simp add: es trace_ok_split)
qed (simp_all add: trace_ok_split assms(3))

end

end
