(* ===== verification/NodePhases.thy ===== *)
theory NodePhases
  imports NodeController Runs
begin

text \<open>
  The phases of a node as a state machine: the steps that status writes may take, the theorem that
  every reconcile takes only such steps, and the runs of the node controller, in which reconciles of
  a node alternate with any activity that does not write its status.
\<close>

section \<open>The machine\<close>

text \<open>
  \<open>phase_step d p q\<close>: with \<open>d\<close> telling that the node is being deleted, a status with phase \<open>q\<close> may
  follow a persisted phase \<open>p\<close>. A node that is neither upgrading nor being deleted is settled.
\<close>

definition settled :: "TalosNodePhase \<Rightarrow> bool" where
  "settled p \<longleftrightarrow> p \<noteq> TalosNodePhaseUpgrading \<and> p \<noteq> TalosNodePhaseDeleting"

inductive phase_step :: "bool \<Rightarrow> TalosNodePhase \<Rightarrow> TalosNodePhase \<Rightarrow> bool" where
  delete: "phase_step True p TalosNodePhaseDeleting"
| configure: "settled p \<Longrightarrow> phase_step False p TalosNodePhaseApplying"
| configured: "phase_step False TalosNodePhaseApplying TalosNodePhaseReady"
| failed: "settled p \<Longrightarrow> phase_step False p TalosNodePhaseError"
| upgrade: "settled p \<Longrightarrow> phase_step False p TalosNodePhaseUpgrading"
| refused: "phase_step False TalosNodePhaseUpgrading TalosNodePhaseError"
| upgraded: "phase_step False TalosNodePhaseUpgrading TalosNodePhaseReady"
| wiped: "settled p \<Longrightarrow> phase_step False p TalosNodePhasePending"

code_pred phase_step .

inductive_simps phase_step_to [simp]:
  "phase_step d p TalosNodePhaseUnset" "phase_step d p TalosNodePhasePending"
  "phase_step d p TalosNodePhaseApplying" "phase_step d p TalosNodePhaseReady"
  "phase_step d p TalosNodePhaseError" "phase_step d p TalosNodePhaseDeleting"
  "phase_step d p TalosNodePhaseUpgrading"

inductive_cases phase_step_from_deleting: "phase_step d TalosNodePhaseDeleting q"
inductive_cases phase_step_from_upgrading: "phase_step d TalosNodePhaseUpgrading q"

lemma settled_simps [simp]:
  "settled TalosNodePhaseUnset" "settled TalosNodePhasePending" "settled TalosNodePhaseApplying"
  "settled TalosNodePhaseReady" "settled TalosNodePhaseError" "\<not> settled TalosNodePhaseUpgrading"
  "\<not> settled TalosNodePhaseDeleting"
  by (simp_all add: settled_def)

lemma deleting_is_final: "phase_step d TalosNodePhaseDeleting q \<Longrightarrow> q = TalosNodePhaseDeleting"
  by (erule phase_step_from_deleting) simp_all

lemma upgrading_exits:
  "phase_step d TalosNodePhaseUpgrading q \<Longrightarrow>
   q = TalosNodePhaseReady \<or> q = TalosNodePhaseError \<or> q = TalosNodePhaseDeleting"
  by (erule phase_step_from_upgrading) simp_all

section \<open>The node as the API server stores it\<close>

text \<open>
  What a history says about the node \<open>k\<close>: its phase and whether it is terminating. The API server drops
  the status of a created object, a deletion of a node with finalizers sets its deletion timestamp,
  and only a successful status update changes the phase.
\<close>

record node_view =
  ViewPhase :: TalosNodePhase
  ViewTerminating :: bool

definition view_step :: "namespaced_name \<Rightarrow> node_view \<Rightarrow> event \<Rightarrow> node_view" where
  "view_step k v e =
     (case e of
        KCreate (ONode n) None \<Rightarrow>
          if nsname n = k then \<lparr>ViewPhase = TalosNodePhaseUnset, ViewTerminating = False\<rparr> else v
      | KDelete KindNode k' None \<Rightarrow> if k' = k then v\<lparr>ViewTerminating := True\<rparr> else v
      | KStatusUpdate (ONode n) None \<Rightarrow>
          if nsname n = k then v\<lparr>ViewPhase := NodePhase (NodeStatus n)\<rparr> else v
      | _ \<Rightarrow> v)"

definition fresh_node :: node_view where
  "fresh_node = \<lparr>ViewPhase = TalosNodePhaseUnset, ViewTerminating = False\<rparr>"

abbreviation stored :: "namespaced_name \<Rightarrow> hist \<Rightarrow> node_view" where
  "stored k \<equiv> replay (view_step k) fresh_node"

text \<open>
  \<open>keeps_nodes e\<close>: no node is created, deleted or written a status. \<open>node_own k v e\<close>: \<open>e\<close> is such an
  event, or it writes the status of the node \<open>k\<close> by a step of the machine from the view \<open>v\<close>.
\<close>

definition keeps_nodes :: "event \<Rightarrow> bool" where
  "keeps_nodes e \<longleftrightarrow>
     (case e of
        KCreate (ONode _) _ \<Rightarrow> False | KStatusUpdate (ONode _) _ \<Rightarrow> False | KDelete KindNode _ _ \<Rightarrow> False
      | _ \<Rightarrow> True)"

definition node_step :: "node_view \<Rightarrow> TalosNodePhase \<Rightarrow> bool" where
  "node_step v q = phase_step (ViewTerminating v) (ViewPhase v) q"

definition node_own :: "namespaced_name \<Rightarrow> node_view \<Rightarrow> event \<Rightarrow> bool" where
  "node_own k v e \<longleftrightarrow>
     (case e of
        KStatusUpdate (ONode n) _ \<Rightarrow> nsname n = k \<and> node_step v (NodePhase (NodeStatus n))
      | _ \<Rightarrow> keeps_nodes e)"

interpretation node_status: status_machine "view_step k" fresh_node keeps_nodes "node_own k" for k
proof
  show "keeps_nodes e \<Longrightarrow> view_step k v e = v" for v e
    by (auto simp: view_step_def keeps_nodes_def split: event.splits kobj.splits kind.splits option.splits)
  show "keeps_nodes e \<Longrightarrow> node_own k v e" for v e
    by (auto simp: node_own_def keeps_nodes_def split: event.splits kobj.splits)
qed

abbreviation phase_guard :: "namespaced_name \<Rightarrow> hist \<Rightarrow> event \<Rightarrow> bool" where
  "phase_guard k \<equiv> (\<lambda>g. node_own k (stored k g))"

lemma stored_write:
  "nsname n = k \<Longrightarrow> stored k (g @ [KStatusUpdate (ONode n) None]) =
     (stored k g)\<lparr>ViewPhase := NodePhase (NodeStatus n)\<rparr>"
  "stored k (g @ [KStatusUpdate (ONode n) (Some err)]) = stored k g"
  by (simp_all add: replay_snoc view_step_def)

lemma keeps_nodes_simps [simp]:
  "harmless e \<Longrightarrow> keeps_nodes e" "keeps_nodes (TCall cl r)" "keeps_nodes (KUpdate ob r)"
  "keeps_nodes (KPatch ob ob' r)" "keeps_nodes (KCreate (OSecret s) r)" "keeps_nodes (KDelete KindSecret k r)"
  "keeps_nodes (RUpdateNode rc kn r)" "keeps_nodes (REvict rc k r)"
  "keeps_nodes (RDeleteNode rc nm r)" "keeps_nodes (HttpDo q)"
  by (auto simp: keeps_nodes_def harmless_def split: event.splits kobj.splits kind.splits)

lemma nsname_simps [simp]:
  "nsname (n\<lparr>NodeStatus := st\<rparr>) = nsname n" "nsname (n'\<lparr>Annotations := as\<rparr>) = nsname n'"
  "nsname (n'\<lparr>Finalizers := fs\<rparr>) = nsname n'"
  by (simp_all add: nsname_def)

section \<open>Rules\<close>

lemmas wpg_quiet = node_status.wpg_keep
lemmas stored_keeps = node_status.replay_keep
lemmas keeps_guard = node_status.keep_own

lemma wpg_status:
  assumes "node_status_echo E" and "nsname n = k" and "node_step (stored k g) (NodePhase (NodeStatus n))"
    and "\<And>err g'. stored k g' = stored k g \<Longrightarrow> Q (Inl err) g'"
    and "\<And>g'. stored k g' = (stored k g)\<lparr>ViewPhase := NodePhase (NodeStatus n)\<rparr> \<Longrightarrow> Q (Inr n) g'"
  shows "wpg (phase_guard k) (status_update_TalosNode E n) Q g"
proof (rule status_update_echo [OF assms(1)])
  fix r :: "gerror + talos_node" assume r: "\<forall>n'. r = Inr n' \<longrightarrow> n' = n"
  show "phase_guard k g (KStatusUpdate (ONode n) (opt_err r))"
    using assms(2,3) by (simp add: node_own_def)
  show "Q r (g @ [KStatusUpdate (ONode n) (opt_err r)])"
    using assms(2,4,5) r by (cases r) (simp_all add: stored_write)
qed

lemma wpg_patch:
  assumes "node_patch_echo E" and "\<And>e n' g'. nsname n' = nsname n \<Longrightarrow> stored k g' = stored k g \<Longrightarrow> Q (e, n') g'"
  shows "wpg (phase_guard k) (patchAnnotations E n sets dels) Q g"
  unfolding patchAnnotations_def patch_TalosNode_def
  by (intro wpg_intros assms(2))
    (auto simp: keeps_guard stored_keeps dest!: sym [THEN node_patch_echoD [OF assms(1)]])

lemma frame_keeps_nodes [simp]: "frame keeps_nodes"
  by (simp add: frame_def)

lemma only_keeps_simple:
  "only keeps_nodes (get_TalosNode E k)" "only keeps_nodes (get_TalosCluster E k)"
  "only keeps_nodes (update_TalosNode E n)" "only keeps_nodes (time_Now E)"
  "only keeps_nodes (emitEvent rc kd n et s m)" "only keeps_nodes (record_node_phase n f t)"
  "only keeps_nodes (metric_inc v ls)" "only keeps_nodes (SetConditionStatus E cs ty st rs msg)"
  "only keeps_nodes (GetRetryDelay E attempts)" "only keeps_nodes (getSecret E s ns)"
  "only keeps_nodes (getSecretOrSkip E s ns)"
  unfolding call_defs by (intro only_intros; simp)+

lemma only_keeps_frames:
  "only keeps_nodes (conn_Dial E tb ip)" "only keeps_nodes (loadTalosconfig E n)"
  "only keeps_nodes (conn_ApplyConfig E c ip bs cl)" "only keeps_nodes (conn_Upgrade E c ip img)"
  "only keeps_nodes (conn_GetVersion E c ip)" "only keeps_nodes (conn_GetMachineConfig E c ip)"
  "only keeps_nodes (dialForApply E f tc ip)" "only keeps_nodes (renderConfig E n tcl)"
  "only keeps_nodes (saveNodeConfig E n bs)" "only keeps_nodes (refreshConfigSizeMetric E n)"
  "only keeps_nodes (tryReset E n b)"
  by (intro frame_intros; simp)+

lemmas wpg_quiet_steps = only_keeps_simple [THEN wpg_quiet] only_keeps_frames [THEN wpg_quiet]

lemma phase_harmless [simp]:
  "harmless e \<Longrightarrow> node_own k v e" "harmless e \<Longrightarrow> stored k (g @ [e]) = stored k g"
  by (simp_all add: keeps_guard stored_keeps)

section \<open>The handlers\<close>

text \<open>
  The handlers of a node that is not terminating take its stored phase through steps of the machine;
  an apply starts from a settled phase and leaves one, whether it succeeds or not.
\<close>

definition calm :: "node_view \<Rightarrow> bool" where
  "calm v \<longleftrightarrow> settled (ViewPhase v) \<and> \<not> ViewTerminating v"

definition echoes :: "env \<Rightarrow> bool" where
  "echoes E \<longleftrightarrow> node_status_echo E \<and> node_update_echo E \<and> node_patch_echo E"

lemmas phase_rules = wpg_intros wpg_status wpg_patch wpg_quiet_steps
lemmas phase_simps = node_step_def calm_def echoes_def

lemma finishApply_phase:
  assumes "echoes E" and "nsname n = k" and "stored k g = \<lparr>ViewPhase = TalosNodePhaseApplying, ViewTerminating = False\<rparr>"
    and "\<And>e n' g'. nsname n' = k \<Longrightarrow> calm (stored k g') \<Longrightarrow> Q (e, n') g'"
  shows "wpg (phase_guard k) (finishApply E n) Q g"
  unfolding finishApply_def using assms(1)
  by (intro phase_rules assms(4); auto simp: assms(2,3) phase_simps)

lemma pushConfig_phase:
  assumes "echoes E" and "nsname n = k" and "stored k g = \<lparr>ViewPhase = TalosNodePhaseApplying, ViewTerminating = False\<rparr>"
    and "\<And>e n' g'. nsname n' = k \<Longrightarrow> calm (stored k g') \<Longrightarrow> Q (e, n') g'"
  shows "wpg (phase_guard k) (pushConfig E n c first bs) Q g"
  unfolding pushConfig_def
  by (intro phase_rules finishApply_phase conjI assms(1,4); simp add: assms(2,3) phase_simps)

lemma applyConfig_phase:
  assumes "echoes E" and "nsname n = k" and "calm (stored k g)"
    and "\<And>e n' g'. nsname n' = k \<Longrightarrow> calm (stored k g') \<Longrightarrow> Q (e, n') g'"
  shows "wpg (phase_guard k) (applyConfig E n) Q g"
  unfolding applyConfig_def using assms(1,3)
  by (intro phase_rules pushConfig_phase assms(1,4); auto simp: assms(2) phase_simps)

lemma applyFailure_phase:
  assumes "echoes E" and "nsname n = k" and "calm (stored k g)"
  shows "wpg (phase_guard k) (applyFailure E R n err) (\<lambda>_ _. True) g"
  unfolding applyFailure_def node_setError_def using assms
  by (intro phase_rules; simp add: phase_simps)

lemma reapplyDrifted_phase:
  assumes "echoes E" and "nsname n = k" and "calm (stored k g)"
  shows "wpg (phase_guard k) (reapplyDrifted E R n) (\<lambda>_ _. True) g"
  unfolding reapplyDrifted_def
  by (intro phase_rules applyConfig_phase applyFailure_phase assms(1); simp add: assms)

lemma checkDrift_phase:
  assumes "echoes E" and "nsname n = k" and "calm (stored k g)"
  shows "wpg (phase_guard k) (checkDrift E R n) (\<lambda>_ _. True) g"
  unfolding checkDrift_def driftResult_def
  by (intro phase_rules conjI wpg_mono [OF reapplyDrifted_phase]; simp add: assms)

lemma reconcileConfig_phase:
  assumes "echoes E" and "nsname n = k" and "calm (stored k g)"
  shows "wpg (phase_guard k) (reconcileConfig E R n) (\<lambda>_ _. True) g"
  unfolding reconcileConfig_def
  by (intro phase_rules checkDrift_phase applyConfig_phase applyFailure_phase assms(1); simp add: assms)

lemma upgradeFailed_phase:
  assumes "echoes E" and "nsname n = k" and "stored k g = \<lparr>ViewPhase = TalosNodePhaseUpgrading, ViewTerminating = False\<rparr>"
  shows "wpg (phase_guard k) (upgradeFailed E R n img err) (\<lambda>_ _. True) g"
  unfolding upgradeFailed_def using assms
  by (intro phase_rules; simp add: phase_simps)

lemma startUpgrade_phase:
  assumes "echoes E" and "nsname n = k" and "calm (stored k g)"
  shows "wpg (phase_guard k) (startUpgrade E R n c img) (\<lambda>_ _. True) g"
  unfolding startUpgrade_def using assms
  by (intro phase_rules upgradeFailed_phase; auto simp: phase_simps)

lemma handleUpgrade_phase:
  assumes "echoes E" and "nsname n = k" and "calm (stored k g)"
  shows "wpg (phase_guard k) (handleUpgrade E R n img) (\<lambda>_ _. True) g"
  unfolding handleUpgrade_def using assms
  by (intro phase_rules conjI wpg_mono [OF startUpgrade_phase]; simp add: echoes_def)

lemma completeUpgrade_phase:
  assumes "echoes E" and "nsname n = k" and "stored k g = \<lparr>ViewPhase = TalosNodePhaseUpgrading, ViewTerminating = False\<rparr>"
  shows "wpg (phase_guard k) (completeUpgrade E R n img tag) (\<lambda>_ _. True) g"
  unfolding completeUpgrade_def setExtensionsUpToDate_def using assms
  by (intro phase_rules; simp add: phase_simps)

lemma checkUpgradeComplete_phase:
  assumes "echoes E" and "nsname n = k" and "stored k g = \<lparr>ViewPhase = TalosNodePhaseUpgrading, ViewTerminating = False\<rparr>"
  shows "wpg (phase_guard k) (checkUpgradeComplete E R n) (\<lambda>_ _. True) g"
  unfolding checkUpgradeComplete_def
  by (intro phase_rules conjI wpg_mono [OF completeUpgrade_phase]; simp add: assms)

lemma handleStandaloneReset_phase:
  assumes "echoes E" and "nsname n = k" and "calm (stored k g)"
  shows "wpg (phase_guard k) (handleStandaloneReset E R n) (\<lambda>_ _. True) g"
  unfolding handleStandaloneReset_def using assms
  by (intro phase_rules; simp add: phase_simps)

text \<open>The version path either ends the reconcile or leaves the stored view as it is.\<close>

lemma reconcileVersion_phase:
  assumes "echoes E" and "quiet_factory R" and "nsname n = k" and "calm (stored k g)"
    and "\<And>res err n' g'. Q (res, True, err, n') g'"
    and "\<And>res err n' g'. nsname n' = k \<Longrightarrow> stored k g' = stored k g \<Longrightarrow> Q (res, False, err, n') g'"
  shows "wpg (phase_guard k) (reconcileVersion E R n) Q g"
proof -
  have image: "only keeps_nodes (computeDesiredImage E R n)"
    by (intro frame_intros assms(2); simp)
  show ?thesis
    unfolding reconcileVersion_def
    by (intro phase_rules image [THEN wpg_quiet] wpg_mono [OF handleUpgrade_phase] assms(1,5,6);
      (use assms(1,3,4) in \<open>auto simp: echoes_def\<close>)?)
qed

lemma reconcileLive_phase:
  assumes "echoes E" and "quiet_factory R" and "nsname n = k"
    and "stored k g = \<lparr>ViewPhase = NodePhase (NodeStatus n), ViewTerminating = False\<rparr>"
    and "NodePhase (NodeStatus n) \<noteq> TalosNodePhaseDeleting"
  shows "wpg (phase_guard k) (reconcileLive E R n) (\<lambda>_ _. True) g"
proof -
  have "calm (stored k g)" if "NodePhase (NodeStatus n) \<noteq> TalosNodePhaseUpgrading"
    using that assms(4,5) by (simp add: calm_def settled_def)
  with assms show ?thesis
    unfolding reconcileLive_def
    by (intro wpg_intros checkUpgradeComplete_phase handleUpgrade_phase reconcileVersion_phase
        handleStandaloneReset_phase reconcileConfig_phase; simp)
qed

section \<open>Deletion\<close>

text \<open>A terminating node is only ever written with phase Deleting, whatever it was before.\<close>

lemma only_keeps_stages:
  "only keeps_nodes (drainStage E R n)" "only keeps_nodes (resetStage E R n)"
  "only keeps_nodes (deleteNodeConfig E n)" "only keeps_nodes (retireEndpoint E n)"
  "only keeps_nodes (finishDeletion E n)" "only keeps_nodes (guardLastControlPlane E n)"
  "only keeps_nodes (forceEtcdRemove E n tb eps)" "only keeps_nodes (tryEtcdLeave E ip tb)"
  unfolding forceEtcdRemove_def tryEtcdLeave_def
  by (intro only_intros frame_intros; simp)+

lemmas deletion_rules = phase_rules only_keeps_stages [THEN wpg_quiet]

lemma etcdStage_phase:
  assumes "echoes E" and "nsname n = k" and "ViewTerminating (stored k g)"
    and "NodePhase (NodeStatus n) = TalosNodePhaseDeleting"
    and "\<And>r g'. ViewTerminating (stored k g') \<Longrightarrow> Q r g'"
  shows "wpg (phase_guard k) (etcdStage E n) Q g"
  unfolding etcdStage_def handleEtcdLeave_def gracefulEtcdLeave_def using assms
  by (intro deletion_rules assms(5); simp add: phase_simps)

lemma node_handleDeletion_phase:
  assumes "echoes E" and "nsname n = k" and "ViewTerminating (stored k g)"
  shows "wpg (phase_guard k) (node_handleDeletion E R n) (\<lambda>_ _. True) g"
  unfolding node_handleDeletion_def markDeleting_def using assms
  by (intro deletion_rules etcdStage_phase; auto simp: phase_simps)

section \<open>A reconcile\<close>

text \<open>
  \<open>reads_current E k h\<close>: a read of the node \<open>k\<close> that finds it gives the stored phase and shows whether it
  is terminating. A reconcile that reads a stale object changes nothing of it: the resource
  version, which the model leaves out, makes the API server refuse its status updates.
\<close>

definition shows_view :: "namespaced_name \<Rightarrow> node_view \<Rightarrow> talos_node \<Rightarrow> bool" where
  "shows_view k v n \<longleftrightarrow>
     nsname n = k \<and> NodePhase (NodeStatus n) = ViewPhase v \<and>
     (DeletionTimestamp n \<noteq> None \<longleftrightarrow> ViewTerminating v)"

definition reads_current :: "env \<Rightarrow> namespaced_name \<Rightarrow> hist \<Rightarrow> bool" where
  "reads_current E k h \<longleftrightarrow>
     (case kget_node (Kube E) h k of Inl _ \<Rightarrow> True | Inr n \<Rightarrow> shows_view k (stored k h) n)"

text \<open>In the API server, a node with phase Deleting is one that is terminating.\<close>

definition view_ok :: "node_view \<Rightarrow> bool" where
  "view_ok v \<longleftrightarrow> (ViewPhase v = TalosNodePhaseDeleting \<longrightarrow> ViewTerminating v)"

text \<open>
  A reconcile writes no status but that of its node, and every such write takes the stored phase
  through a step of the machine.
\<close>

lemma node_Reconcile_phase:
  assumes "echoes E" and "quiet_factory R" and "reads_current E k h" and "view_ok (stored k h)"
  shows "wpg (phase_guard k) (node_Reconcile E R k) (\<lambda>_ _. True) h"
proof (cases "kget_node (Kube E) h k")
  case (Inl err)
  then show ?thesis
    unfolding node_Reconcile_def get_TalosNode_def by (intro wpg_intros) simp_all
next
  case (Inr n)
  with assms(3) have n: "nsname n = k" "ViewPhase (stored k h) = NodePhase (NodeStatus n)"
    "DeletionTimestamp n \<noteq> None \<longleftrightarrow> ViewTerminating (stored k h)"
    by (simp_all add: reads_current_def shows_view_def)
  from assms(1) have echo: "node_update_echo E" by (simp add: echoes_def)
  have finalizer: "wpg (phase_guard k) (ensureFinalizer (update_TalosNode E) n) Q g"
    if "\<And>err n' g'. stored k g' = stored k g \<Longrightarrow>
        err = None \<longrightarrow> NodeStatus n' = NodeStatus n \<and> nsname n' = nsname n \<Longrightarrow> Q (err, n') g'" for Q g
    unfolding ensureFinalizer_def update_TalosNode_def
    by (intro wpg_intros that)
      (auto simp: keeps_guard stored_keeps dest!: sym [THEN node_update_echoD [OF echo]])
  have body: "wpg (phase_guard k)
      (if DeletionTimestamp n \<noteq> None then node_handleDeletion E R n
       else do {
         (e, node) \<leftarrow> ensureFinalizer (update_TalosNode E) n;
         case e of Some err \<Rightarrow> ret (no_requeue, Some err) | None \<Rightarrow> reconcileLive E R node
       }) (\<lambda>_ _. True) g" if g: "stored k g = stored k h" for g
  proof (cases "DeletionTimestamp n")
    case None
    with n assms(4) g have v: "stored k g = \<lparr>ViewPhase = NodePhase (NodeStatus n), ViewTerminating = False\<rparr>"
      and live: "NodePhase (NodeStatus n) \<noteq> TalosNodePhaseDeleting"
      by (auto simp: view_ok_def)
    then show ?thesis
      using None n(1)
      by (simp del: not_None_eq) (intro wpg_intros finalizer; auto intro!: reconcileLive_phase assms(1,2))
  next
    case (Some t)
    with n g have "ViewTerminating (stored k g)" by auto
    with Some show ?thesis
      using node_handleDeletion_phase [OF assms(1) n(1), of g R] by simp
  qed
  show ?thesis
    unfolding node_Reconcile_def get_TalosNode_def
    apply (intro wpg_bind wpg_ask; simp only: Inr sum.case)
     apply (simp add: keeps_guard)
    apply (intro wpg_bind wpg_quiet_steps body; simp)
    done
qed

section \<open>Runs\<close>

text \<open>
  The histories of the node \<open>k\<close>: reconciles of it, one at a time, and in between any events but
  writes of its status, among them its creation and its deletion, reconciles of other objects and
  whatever users do.
\<close>

definition other_than :: "namespaced_name \<Rightarrow> event \<Rightarrow> bool" where
  "other_than k e \<longleftrightarrow> (\<forall>n r. e = KStatusUpdate (ONode n) r \<longrightarrow> nsname n \<noteq> k)"

abbreviation node_run :: "env \<Rightarrow> node_reconciler \<Rightarrow> namespaced_name \<Rightarrow> hist \<Rightarrow> bool" where
  "node_run E R k \<equiv> runs (reads_current E k) (node_Reconcile E R k) (other_than k)"

text \<open>\<open>node_any k v e\<close>: if \<open>e\<close> is a successful write of the status of \<open>k\<close>, it is a step of the machine.\<close>

definition node_any :: "namespaced_name \<Rightarrow> node_view \<Rightarrow> event \<Rightarrow> bool" where
  "node_any k v e \<longleftrightarrow>
     (\<forall>n. e = KStatusUpdate (ONode n) None \<and> nsname n = k \<longrightarrow> node_step v (NodePhase (NodeStatus n)))"

abbreviation steps_ok :: "namespaced_name \<Rightarrow> hist \<Rightarrow> hist \<Rightarrow> bool" where
  "steps_ok k g es \<equiv> trace_ok (\<lambda>g. node_any k (stored k g)) g es"

lemma view_step_ok: "view_ok v \<Longrightarrow> node_any k v e \<Longrightarrow> view_ok (view_step k v e)"
  by (auto simp: view_step_def view_ok_def node_any_def node_step_def
      split: event.split kobj.split kind.split option.split)

text \<open>Every history of a node consists of steps of the machine.\<close>

lemma node_run_ok:
  assumes "echoes E" and "quiet_factory R" and "node_run E R k h"
  shows "steps_ok k [] h"
proof (rule node_status.runs_trace [where good = view_ok, OF _ _ _ _ _ assms(3)])
  show "wpg (phase_guard k) (node_Reconcile E R k) (\<lambda>_ _. True) h"
    if "reads_current E k h" and "view_ok (stored k h)" for h
    using assms(1,2) that by (rule node_Reconcile_phase)
  show "view_ok fresh_node" by (simp add: view_ok_def fresh_node_def)
qed (auto simp: node_own_def node_any_def other_than_def intro: view_step_ok)

text \<open>
  C2. The phase of a node is a state machine: in every history of a node, each successful write of its
  status takes the phase that was stored, of a node that is terminating or not, through one step of
  \<open>phase_step\<close>: Ready comes from Applying or Upgrading only, an upgrading node becomes Ready or Error,
  a wiped node goes back to Pending, and a terminating node becomes Deleting, whatever it was.
\<close>

theorem node_run_steps:
  assumes "echoes E" and "quiet_factory R"
    and "node_run E R k (g @ KStatusUpdate (ONode n) None # rest)" and "nsname n = k"
  shows "phase_step (ViewTerminating (stored k g)) (ViewPhase (stored k g)) (NodePhase (NodeStatus n))"
  using node_run_ok [OF assms(1-3)] assms(4) by (simp add: trace_ok_split trace_ok_Cons node_any_def node_step_def)

lemma view_step_deleting:
  assumes "ViewPhase v = TalosNodePhaseDeleting" and "node_any k v e"
    and "\<And>n. nsname n = k \<Longrightarrow> KCreate (ONode n) None \<noteq> e"
  shows "ViewPhase (view_step k v e) = TalosNodePhaseDeleting"
  using assms
  by (auto simp: view_step_def node_any_def node_step_def dest: deleting_is_final
      split: event.split kobj.split kind.split option.split)

lemma steps_ok_deleting:
  assumes "steps_ok k g es" and "ViewPhase (stored k g) = TalosNodePhaseDeleting"
    and "\<And>n. nsname n = k \<Longrightarrow> KCreate (ONode n) None \<notin> set es"
  shows "ViewPhase (stored k (g @ es)) = TalosNodePhaseDeleting"
  using assms
proof (induction es arbitrary: g)
  case (Cons e es)
  have "node_any k (stored k g) e" and rest: "steps_ok k (g @ [e]) es"
    using Cons.prems(1) by (simp_all add: trace_ok_Cons)
  moreover have "KCreate (ONode n) None \<noteq> e" if "nsname n = k" for n
    using Cons.prems(3) [OF that] by auto
  ultimately have "ViewPhase (stored k (g @ [e])) = TalosNodePhaseDeleting"
    using Cons.prems(2) by (simp add: replay_snoc view_step_deleting)
  from Cons.IH [OF rest this] Cons.prems(3) show ?case by simp
qed simp

text \<open>
  C24. Deleting is final: once a node is stored with phase Deleting, its phase stays that in every later
  history, whatever upgrades, resets or changes are asked for, until a node of that name is created
  anew.
\<close>

theorem node_run_deleting_final:
  assumes "echoes E" and "quiet_factory R" and "node_run E R k (g @ es)"
    and "ViewPhase (stored k g) = TalosNodePhaseDeleting"
    and "\<And>n. nsname n = k \<Longrightarrow> KCreate (ONode n) None \<notin> set es"
  shows "ViewPhase (stored k (g @ es)) = TalosNodePhaseDeleting"
  using node_run_ok [OF assms(1-3)] by (intro steps_ok_deleting assms(4,5)) (simp_all add: trace_ok_split)

end
