(* ===== verification/BootstrapRuns.thy ===== *)
theory BootstrapRuns
  imports BootstrapController Runs
begin

text \<open>
  Etcd is bootstrapped once: what the API server holds of a bootstrap object, and the runs of its
  controller, in which a recorded bootstrap is neither repeated nor forgotten.
\<close>

section \<open>The record of a bootstrap\<close>

text \<open>
  \<open>recorded k h\<close>: after the history \<open>h\<close>, the stored object \<open>k\<close> has the condition Bootstrapped. A created
  object has no status.
\<close>

definition record_step :: "namespaced_name \<Rightarrow> bool \<Rightarrow> event \<Rightarrow> bool" where
  "record_step k v e =
     (case e of
        KCreate (OBootstrap b) None \<Rightarrow> if nsname b = k then False else v
      | KStatusUpdate (OBootstrap b) None \<Rightarrow> if nsname b = k then bootstrapped b else v
      | _ \<Rightarrow> v)"

abbreviation recorded :: "namespaced_name \<Rightarrow> hist \<Rightarrow> bool" where
  "recorded k \<equiv> replay (record_step k) False"

text \<open>
  A reconcile of \<open>k\<close> writes no other bootstrap object, forgets no recorded bootstrap, and sends the
  bootstrap call only while none is recorded.
\<close>

definition keeps_records :: "event \<Rightarrow> bool" where
  "keeps_records e =
     (case e of
        KCreate (OBootstrap _) _ \<Rightarrow> False | KStatusUpdate (OBootstrap _) _ \<Rightarrow> False
      | TCall cl _ \<Rightarrow> CallReq cl \<noteq> ReqBootstrap
      | _ \<Rightarrow> True)"

definition record_own :: "namespaced_name \<Rightarrow> bool \<Rightarrow> event \<Rightarrow> bool" where
  "record_own k v e =
     (case e of
        KStatusUpdate (OBootstrap b) _ \<Rightarrow> nsname b = k \<and> (v \<longrightarrow> bootstrapped b)
      | TCall cl _ \<Rightarrow> CallReq cl = ReqBootstrap \<longrightarrow> \<not> v
      | _ \<Rightarrow> keeps_records e)"

interpretation once: status_machine "record_step k" False keeps_records "record_own k" for k
proof
  show "keeps_records e \<Longrightarrow> record_step k v e = v" for v e
    by (auto simp: record_step_def keeps_records_def split: event.splits kobj.splits option.splits)
  show "keeps_records e \<Longrightarrow> record_own k v e" for v e
    by (auto simp: record_own_def keeps_records_def split: event.splits kobj.splits)
qed

abbreviation record_guard :: "namespaced_name \<Rightarrow> hist \<Rightarrow> event \<Rightarrow> bool" where
  "record_guard k \<equiv> (\<lambda>g. record_own k (recorded k g))"

lemma keeps_records_simps [simp]:
  "keeps_records (KGet kd nm)" "keeps_records (KList kd ns)" "keeps_records (KUpdate ob r)"
  "keeps_records (KCreate (OSecret sec) r)" "keeps_records (KDelete kd nm r)" "keeps_records (TNew c r)"
  "keeps_records (TClose c)" "keeps_records (RServerVersion rc)" "keeps_records (Recorded kd nm et s m)"
  "keeps_records (MetricSet v ls x)" "keeps_records (MetricInc v ls)" "keeps_records (MetricObserve v ls t)"
  "keeps_records ClockRead" "keeps_records RandRead"
  by (simp_all add: keeps_records_def)

lemma keeps_records_frame [simp]: "frame keeps_records"
  by (auto simp: frame_def harmless_def keeps_records_def split: event.splits rpc_request.splits)

lemma record_quiet [simp]:
  "keeps_records e \<Longrightarrow> record_own k v e" "list_all keeps_records es \<Longrightarrow> recorded k (g @ es) = recorded k g"
  by (simp_all add: once.keep_own once.replay_keep)

section \<open>The handlers\<close>

lemma bootstrap_nsname [simp]:
  "nsname (b\<lparr>BootstrapStatus := st\<rparr>) = nsname b" "nsname (b'\<lparr>Finalizers := fs\<rparr>) = nsname b'"
  by (simp_all add: nsname_def)

lemma wpg_record_status:
  assumes "bootstrap_status_echo E" and "nsname b = k" and "recorded k g \<longrightarrow> bootstrapped b"
    and "\<And>err g'. recorded k g' = recorded k g \<Longrightarrow> Q (Inl err) g'"
    and "\<And>g'. recorded k g' = bootstrapped b \<Longrightarrow> Q (Inr b) g'"
  shows "wpg (record_guard k) (status_update_TalosClusterBootstrap E b) Q g"
  unfolding status_update_TalosClusterBootstrap_def
proof (rule once.wpg_own_ask)
  let ?r = "kstatus_bootstrap (Kube E) g b"
  show "record_own k (recorded k g) (KStatusUpdate (OBootstrap b) (opt_err ?r))"
    using assms(2,3) by (simp add: record_own_def)
  fix g' assume "recorded k g' = record_step k (recorded k g) (KStatusUpdate (OBootstrap b) (opt_err ?r))"
  then show "Q ?r g'"
    using assms(2,4,5) bootstrap_status_echoD [OF assms(1), of g b]
    by (cases ?r) (auto simp: record_step_def)
qed

lemma wpg_record_Bootstrap:
  assumes "\<not> recorded k g" and "\<And>r g'. \<not> recorded k g' \<Longrightarrow> Q r g'"
  shows "wpg (record_guard k) (conn_Bootstrap E c ep) Q g"
  unfolding conn_Bootstrap_def timed_unit_def time_Now_def talos_unit_def observe_call_def metric_observe_def
  by (intro wpg_intros assms(2))
    (simp_all add: assms(1) record_own_def replay_snoc record_step_def flip: append_assoc)

lemma only_keeps_records:
  "only keeps_records (record_bootstrap_phase b f t)" "only keeps_records (GetRetryDelay E n)"
  "only keeps_records (emitEvent rec kd ob et r msg)" "only keeps_records (getSecret E m ns)"
  "only keeps_records (time_Now E)" "only keeps_records (metric_observe v ls x)"
  "only keeps_records (SetConditionStatus E cs ty st rs cm)" "only keeps_records (get_TalosCluster E key)"
  "only keeps_records (probeAPIServer E R sec)" "only keeps_records (saveKubeconfig E cl kc)"
  "only keeps_records (readyControlPlaneCount E ns cr)" "only keeps_records (update_TalosClusterBootstrap E tb)"
  unfolding probeAPIServer_def saveKubeconfig_def readyControlPlaneCount_def call_defs
  by (intro only_intros; simp)+

lemma only_keeps_records_frames:
  "only keeps_records (conn_GetKubeconfig E c ip)" "only keeps_records (conn_Dial E tb ip)"
  "only keeps_records (dialBootstrap E a tb eps)"
  unfolding dialBootstrap_def by (intro only_intros frame_intros; simp)+

lemmas record_rules = wpg_intros wpg_record_status wpg_record_Bootstrap
  only_keeps_records [THEN once.wpg_keep] only_keeps_records_frames [THEN once.wpg_keep]

text \<open>
  \<open>carries k b g\<close>: the object in memory is the object \<open>k\<close>, and has what is recorded of it.
\<close>

definition carries :: "namespaced_name \<Rightarrow> talos_cluster_bootstrap \<Rightarrow> hist \<Rightarrow> bool" where
  "carries k b g \<longleftrightarrow> nsname b = k \<and> (recorded k g \<longrightarrow> bootstrapped b)"

lemma setError_carries:
  assumes "bootstrap_status_echo E" and "carries k b g" and "\<And>r g'. Q r g'"
  shows "wpg (record_guard k) (bootstrap_setError E R b err) Q g"
  unfolding bootstrap_setError_def using assms(1,2)
  by (intro record_rules assms(3); simp add: carries_def)

lemma waitForAPIServer_carries:
  assumes "bootstrap_status_echo E" and "carries k b g"
  shows "wpg (record_guard k) (waitForAPIServer E R b c) (\<lambda>_ _. True) g"
  unfolding waitForAPIServer_def keepWaiting_def completeBootstrap_def using assms
  by (intro record_rules setError_carries; simp add: carries_def)

lemma kubeconfigFailed_carries:
  assumes "bootstrap_status_echo E" and "carries k b g"
  shows "wpg (record_guard k) (kubeconfigFailed E b err) (\<lambda>_ _. True) g"
  unfolding kubeconfigFailed_def using assms
  by (intro record_rules; simp add: carries_def)

lemma fetchKubeconfig_carries:
  assumes "bootstrap_status_echo E" and "carries k b g"
  shows "wpg (record_guard k) (fetchKubeconfig E R b c conn ep) (\<lambda>_ _. True) g"
  unfolding fetchKubeconfig_def using assms
  by (intro record_rules setError_carries waitForAPIServer_carries kubeconfigFailed_carries;
    auto simp: carries_def)

lemma bootstrapEtcd_carries:
  assumes "bootstrap_status_echo E" and "carries k b g" and "\<not> recorded k g"
    and "\<And>res g'. Q (Inl res) g'" and "\<And>b' g'. carries k b' g' \<Longrightarrow> Q (Inr b') g'"
  shows "wpg (record_guard k) (bootstrapEtcd E R b conn ep) Q g"
  unfolding bootstrapEtcd_def markBootstrapped_def using assms(1-3)
  by (intro record_rules setError_carries assms(4,5); auto simp: carries_def)

lemma talkToTalos_carries:
  assumes "bootstrap_status_echo E" and "carries k b g" and "recorded k g \<longrightarrow> already"
  shows "wpg (record_guard k) (talkToTalos E R b c already) (\<lambda>_ _. True) g"
  unfolding talkToTalos_def using assms
  by (intro record_rules setError_carries bootstrapEtcd_carries wpg_mono [OF fetchKubeconfig_carries];
    auto simp: carries_def)

lemma startBootstrap_carries:
  assumes "bootstrap_status_echo E" and "carries k b g"
  shows "wpg (record_guard k) (startBootstrap E R b c) (\<lambda>_ _. True) g"
  unfolding startBootstrap_def using assms
  by (intro record_rules talkToTalos_carries; auto simp: carries_def dest: set_condition_status_cases)

lemma reconcileBootstrap_carries:
  assumes "bootstrap_status_echo E" and "carries k b g"
  shows "wpg (record_guard k) (reconcileBootstrap E R b) (\<lambda>_ _. True) g"
  unfolding reconcileBootstrap_def waitForReadyNodes_def using assms
  by (intro record_rules setError_carries startBootstrap_carries waitForAPIServer_carries;
    auto simp: carries_def)

text \<open>
  A read that finds the object gives what is recorded; a successful update answers with the object
  that was submitted.
\<close>

definition reads_recorded :: "env \<Rightarrow> namespaced_name \<Rightarrow> hist \<Rightarrow> bool" where
  "reads_recorded E k h \<longleftrightarrow>
     (case kget_bootstrap (Kube E) h k of
        Inl _ \<Rightarrow> True | Inr b \<Rightarrow> nsname b = k \<and> (bootstrapped b \<longleftrightarrow> recorded k h))"

definition bootstrap_update_echo :: "env \<Rightarrow> bool" where
  "bootstrap_update_echo E \<longleftrightarrow> (\<forall>h b b'. kupdate_bootstrap (Kube E) h b = Inr b' \<longrightarrow> b' = b)"

lemma bootstrap_Reconcile_carries:
  assumes "bootstrap_status_echo E" and "bootstrap_update_echo E" and "reads_recorded E k h"
  shows "wpg (record_guard k) (bootstrap_Reconcile E R k) (\<lambda>_ _. True) h"
proof (cases "kget_bootstrap (Kube E) h k")
  case (Inl err)
  then show ?thesis
    unfolding bootstrap_Reconcile_def get_TalosClusterBootstrap_def by (intro wpg_intros) simp_all
next
  case (Inr b)
  with assms(3) have b: "nsname b = k" "bootstrapped b \<longleftrightarrow> recorded k h" by (simp_all add: reads_recorded_def)
  have echo: "kupdate_bootstrap (Kube E) g x = Inr y \<Longrightarrow> y = x" for g x y
    using assms(2) by (simp add: bootstrap_update_echo_def)
  have finalizer: "wpg (record_guard k) (ensureFinalizer (update_TalosClusterBootstrap E) b) Q g"
    if "\<And>e b' g'. recorded k g' = recorded k g \<Longrightarrow>
        e = None \<longrightarrow> nsname b' = k \<and> BootstrapStatus b' = BootstrapStatus b \<Longrightarrow> Q (e, b') g'" for Q g
    unfolding ensureFinalizer_def update_TalosClusterBootstrap_def using b(1)
    by (intro wpg_intros that) (auto dest!: sym [THEN echo])
  have deletion: "only keeps_records (bootstrap_handleDeletion E b)"
    unfolding bootstrap_handleDeletion_def deleteKubeconfig_def call_defs by (intro only_intros; simp)
  show ?thesis
    unfolding bootstrap_Reconcile_def get_TalosClusterBootstrap_def
    apply (intro wpg_bind wpg_ask; simp only: Inr sum.case)
     apply simp
    apply (intro wpg_intros only_keeps_records [THEN once.wpg_keep] deletion [THEN once.wpg_keep] finalizer
        reconcileBootstrap_carries assms(1); simp add: b carries_def)
    done
qed

section \<open>Runs\<close>

text \<open>
  The histories of the object \<open>k\<close>: reconciles of it, and in between any events but writes of its
  status and bootstrap calls. The calls that other objects make for their own clusters are left out.
\<close>

definition elsewhere :: "namespaced_name \<Rightarrow> event \<Rightarrow> bool" where
  "elsewhere k e \<longleftrightarrow>
     (\<forall>b r. e = KStatusUpdate (OBootstrap b) r \<longrightarrow> nsname b \<noteq> k) \<and>
     (\<forall>cl r. e = TCall cl r \<longrightarrow> CallReq cl \<noteq> ReqBootstrap)"

abbreviation bootstrap_run :: "env \<Rightarrow> bootstrap_reconciler \<Rightarrow> namespaced_name \<Rightarrow> hist \<Rightarrow> bool" where
  "bootstrap_run E R k \<equiv> runs (reads_recorded E k) (bootstrap_Reconcile E R k) (elsewhere k)"

definition record_any :: "namespaced_name \<Rightarrow> bool \<Rightarrow> event \<Rightarrow> bool" where
  "record_any k v e \<longleftrightarrow>
     v \<longrightarrow> (\<forall>b. e = KStatusUpdate (OBootstrap b) None \<and> nsname b = k \<longrightarrow> bootstrapped b) \<and>
           (\<forall>cl r. e = TCall cl r \<longrightarrow> CallReq cl \<noteq> ReqBootstrap)"

lemma bootstrap_run_ok:
  assumes "bootstrap_status_echo E" and "bootstrap_update_echo E" and "bootstrap_run E R k h"
  shows "trace_ok (\<lambda>g. record_any k (recorded k g)) [] h"
proof (rule once.runs_trace [where good = "\<lambda>_. True", OF _ _ _ _ _ assms(3)])
  show "wpg (record_guard k) (bootstrap_Reconcile E R k) (\<lambda>_ _. True) h" if "reads_recorded E k h" for h
    using assms(1,2) that by (rule bootstrap_Reconcile_carries)
qed (auto simp: record_own_def record_any_def elsewhere_def)

lemma record_stays:
  assumes "trace_ok (\<lambda>g. record_any k (recorded k g)) g es" and "recorded k g"
    and "\<And>b. nsname b = k \<Longrightarrow> KCreate (OBootstrap b) None \<notin> set es"
  shows "recorded k (g @ es) \<and> (\<forall>cl r. TCall cl r \<in> set es \<longrightarrow> CallReq cl \<noteq> ReqBootstrap)"
  using assms
proof (induction es arbitrary: g)
  case (Cons e es)
  have now: "record_any k True e" and rest: "trace_ok (\<lambda>g. record_any k (recorded k g)) (g @ [e]) es"
    using Cons.prems(1,2) by (simp_all add: trace_ok_Cons)
  moreover have "KCreate (OBootstrap b) None \<noteq> e" if "nsname b = k" for b
    using Cons.prems(3) [OF that] by auto
  ultimately have "record_step k True e"
    by (auto simp: record_step_def record_any_def split: event.split kobj.split option.split)
  with Cons.prems(2) have "recorded k (g @ [e])" by (simp add: replay_snoc)
  from Cons.IH [OF rest this] Cons.prems(3) now show ?case by (auto simp: record_any_def)
qed simp

text \<open>
  C5. Etcd is bootstrapped once: in every history of a bootstrap object, once a stored status says
  Bootstrapped, no later status forgets it and no later reconcile sends the bootstrap call, whatever
  fails, is requeued or is changed in the meantime, until an object of that name is created anew.
\<close>

theorem bootstrap_run_once:
  assumes "bootstrap_status_echo E" and "bootstrap_update_echo E" and "bootstrap_run E R k (g @ es)"
    and "recorded k g" and "\<And>b. nsname b = k \<Longrightarrow> KCreate (OBootstrap b) None \<notin> set es"
  shows "recorded k (g @ es) \<and> (\<forall>cl r. TCall cl r \<in> set es \<longrightarrow> CallReq cl \<noteq> ReqBootstrap)"
  using bootstrap_run_ok [OF assms(1-3)] by (intro record_stays assms(4,5)) (simp_all add: trace_ok_split)

end
