(* ===== verification/SampleRuns.thy ===== *)
theory SampleRuns
  imports Sample NodePhases BootstrapRuns
begin

text \<open>
  Concrete runs in the environment of Sample, computed by simplification: a node that is deleted and
  a cluster that is bootstrapped, each in one reconcile.
\<close>

section \<open>A node that leaves\<close>

text \<open>
  A worker whose draining is to be skipped is created and deleted; then it is reconciled once. The
  status update of that reconcile and the events around it.
\<close>

definition sample_worker :: talos_node where
  "sample_worker = sample_node
     \<lparr>NodeSpec := (NodeSpec sample_node)\<lparr>Role := TalosNodeRoleWorker, SkipDrain := True\<rparr>\<rparr>"

definition sample_leaving :: talos_node where
  "sample_leaving = sample_worker\<lparr>DeletionTimestamp := Some 1\<rparr>"

definition sample_deleting :: talos_node where
  "sample_deleting = sample_leaving\<lparr>NodeStatus :=
     (NodeStatus sample_leaving)\<lparr>NodePhase := TalosNodePhaseDeleting\<rparr>\<rparr>"

definition sample_departure :: hist where
  "sample_departure =
     [KCreate (ONode sample_worker) None, KDelete KindNode (''ns'', ''n'') None, KUpdate (ONode sample_leaving) None]"

definition sample_gauge :: "string \<Rightarrow> event" where
  "sample_gauge p = MetricSet (fst NodePhaseVec) [''n'', ''ns'', ''c'', ''Worker'', ''10.0.0.1'', p] 1"

lemma sample_leaving_simps:
  "DeletionTimestamp sample_leaving = Some 1" "Finalizers sample_leaving = [FinalizerCleanup]"
  "NodePhase (NodeStatus sample_leaving) = TalosNodePhaseUnset"
  "Role (NodeSpec sample_leaving) = TalosNodeRoleWorker" "SkipDrain (NodeSpec sample_leaving)"
  "\<not> ResetOnDelete (NodeSpec sample_leaving)" "Name sample_leaving = ''n''" "Namespace sample_leaving = ''ns''"
  "ClusterRef (NodeSpec sample_leaving) = ''c''" "NodeIP (NodeSpec sample_leaving) = ''10.0.0.1''"
  by (simp_all add: sample_leaving_def sample_worker_def sample_node_def)

lemma sample_deleting_name: "nsname sample_deleting = (''ns'', ''n'')"
  by (simp add: sample_deleting_def nsname_def sample_leaving_simps)

lemma sample_departure_read: "kget_node sample_kube sample_departure (''ns'', ''n'') = Inr sample_leaving"
  by (simp add: sample_departure_def sample_kube_def nodes_at_def put_object_def find_object_def nsname_def
      sample_leaving_simps)

lemma sample_departure_view:
  "stored (''ns'', ''n'') sample_departure = \<lparr>ViewPhase = TalosNodePhaseUnset, ViewTerminating = True\<rparr>"
  by (simp add: sample_departure_def replay_def fresh_node_def view_step_def nsname_def sample_worker_def sample_node_def)

lemma sample_departure_run: "node_run sample_env R (''ns'', ''n'') sample_departure"
  using runs_others [OF runs.start, of "other_than (''ns'', ''n'')" sample_departure]
  by (simp add: sample_departure_def other_than_def)

lemma sample_departure_reconciled:
  "snd (run_state (node_Reconcile sample_env (production_node sample_env) (''ns'', ''n'')) sample_departure) =
     (sample_departure @
       [KGet KindNode (''ns'', ''n''), sample_gauge [], KGet KindSecret (''ns'', nodeConfigName ''n''),
        sample_gauge ''Deleting'']) @
     KStatusUpdate (ONode sample_deleting) None #
     [MetricInc (fst NodeDrainTotal) [''skipped'', ''c''], KGet KindSecret (''ns'', nodeConfigName ''n''),
      KUpdate (ONode (sample_deleting\<lparr>Finalizers := []\<rparr>)) None]"
proof -
  have store: "secrets_at sample_departure = []" "secrets_at (h @ es) = foldl secret_step (secrets_at h) es" for h es
    by (simp_all add: sample_departure_def secrets_at_def secret_step_def)
  have answers: "kstatus_node sample_kube g n = Inr n" "kupdate_node sample_kube g n = Inr n"
    "kget_secret sample_kube g k = find_object (secrets_at g) k" for g n k
    by (simp_all add: sample_kube_def)
  show ?thesis
    unfolding node_Reconcile_def node_handleDeletion_def markDeleting_def refreshConfigSizeMetric_def
      guardLastControlPlane_def drainStage_def skipDrain_def etcdStage_def resetStage_def deleteNodeConfig_def
      retireEndpoint_def finishDeletion_def metric_inc_def record_node_phase_def RecordNodePhase_def metric_set_def
    by (simp add: sample_leaving_simps sample_departure_read call_defs getSecret_def answers store
        find_object_def [of "[]"] secret_step_def IsNotFound_def Let_def sample_gauge_def sample_deleting_def
        split del: if_split)
qed

lemma sample_departure_end:
  "node_run sample_env (production_node sample_env) (''ns'', ''n'')
     (snd (run_state (node_Reconcile sample_env (production_node sample_env) (''ns'', ''n'')) sample_departure))"
proof -
  have "reads_current sample_env (''ns'', ''n'') sample_departure"
    by (simp add: reads_current_def sample_departure_read shows_view_def sample_departure_view nsname_def
        sample_leaving_simps)
  then show ?thesis by (rule runs.reconcile [OF sample_departure_run])
qed


section \<open>A cluster that is bootstrapped\<close>

text \<open>
  A cluster with one endpoint, a ready control plane and the talosconfig Secret: the first reconcile
  of its bootstrap object goes all the way.
\<close>

definition sample_ready_node :: talos_node where
  "sample_ready_node = sample_node\<lparr>NodeStatus := (NodeStatus sample_node)\<lparr>NodePhase := TalosNodePhaseReady\<rparr>\<rparr>"

definition sample_talosconfig :: secret where
  "sample_talosconfig = newSecret (clusterTalosconfigName ''c'') ''ns'' ''talosconfig'' ''tc''"

definition sample_ready :: hist where
  "sample_ready =
     [KUpdate (OCluster sample_cluster) None, KUpdate (ONode sample_ready_node) None,
      KCreate (OSecret sample_talosconfig) None, KCreate (OBootstrap sample_bootstrap) None]"

text \<open>The events of a complete bootstrap: its record, its completion, and no other object of its kind.\<close>

definition records_bootstrap :: "event \<Rightarrow> bool" where
  "records_bootstrap e =
     (case e of KStatusUpdate (OBootstrap b) None \<Rightarrow> nsname b = (''ns'', ''b'') \<and> bootstrapped b | _ \<Rightarrow> False)"

definition completes_bootstrap :: "event \<Rightarrow> bool" where
  "completes_bootstrap e =
     (case e of KStatusUpdate (OBootstrap b) None \<Rightarrow>
        BootstrapPhase (BootstrapStatus b) = TalosClusterBootstrapPhaseCompleted | _ \<Rightarrow> False)"

definition creates_bootstrap :: "event \<Rightarrow> bool" where
  "creates_bootstrap e = (case e of KCreate (OBootstrap _) _ \<Rightarrow> True | _ \<Rightarrow> False)"

lemma sample_ready_read: "kget_bootstrap sample_kube sample_ready (''ns'', ''b'') = Inr sample_bootstrap"
  by (simp add: sample_ready_def sample_kube_def bootstraps_at_def put_object_def find_object_def
      nsname_def sample_bootstrap_def)

lemma sample_ready_unrecorded: "\<not> recorded (''ns'', ''b'') sample_ready" "\<not> bootstrapped sample_bootstrap"
  "nsname sample_bootstrap = (''ns'', ''b'')"
  by (simp_all add: sample_ready_def replay_def record_step_def sample_bootstrap_def nsname_def)

lemma records_bootstrap_recorded: "records_bootstrap e \<Longrightarrow> recorded (''ns'', ''b'') (g @ [e])"
  by (auto simp: replay_snoc record_step_def records_bootstrap_def split: event.splits kobj.splits option.splits)

lemma sample_ready_run:
  "bootstrap_run sample_env R (''ns'', ''b'') sample_ready"
  using runs_others [OF runs.start, of "elsewhere (''ns'', ''b'')" sample_ready]
  by (simp add: sample_ready_def elsewhere_def)

lemma sample_ready_stores:
  "nodes_at (sample_ready @ es) =
     foldl (\<lambda>os e. case written e of Some (ONode n) \<Rightarrow> put_object os n | _ \<Rightarrow> os) [sample_ready_node] es"
  "clusters_at (sample_ready @ es) =
     foldl (\<lambda>os e. case written e of Some (OCluster c) \<Rightarrow> put_object os c | _ \<Rightarrow> os) [sample_cluster] es"
  "secrets_at (sample_ready @ es) = foldl secret_step [sample_talosconfig] es"
  "ticks (sample_ready @ es) = ticks es"
  by (simp_all add: sample_ready_def nodes_at_def clusters_at_def secrets_at_def secret_step_def put_object_def
      ticks_def)

lemma sample_ready_reconciled:
  "\<exists>es. snd (run_state (bootstrap_Reconcile sample_env production_bootstrap (''ns'', ''b'')) sample_ready) =
       sample_ready @ es \<and>
     list_ex records_bootstrap es \<and> list_ex completes_bootstrap es \<and> list_all (\<lambda>e. \<not> creates_bootstrap e) es"
proof -
  have answers: "kstatus_bootstrap sample_kube g b = Inr b"
    "kget_secret sample_kube g k = find_object (secrets_at g) k"
    "kget_cluster sample_kube g k = find_object (clusters_at g) k"
    "klist_nodes sample_kube g ns = Inr (filter (\<lambda>n. Namespace n = ns) (nodes_at g))"
    "kcreate_secret sample_kube g s = (if nsname s \<in> nsname ` set (secrets_at g)
       then Some (ErrApi AlreadyExists (Name s)) else None)"
    for g b k ns s
    by (simp_all add: sample_kube_def)
  note objects = sample_bootstrap_def sample_cluster_def sample_ready_node_def sample_node_def
    sample_talosconfig_def newSecret_def nsname_def
  note services = sample_lib_def sample_talos_def sample_host_def sample_remote_def
  note steps = call_defs getSecret_def emitEvent_def Let_def SetConditionStatus_def set_condition_status_def
    deferring_close_def observe_call_def metric_observe_def metric_set_def timed_unit_def
    record_bootstrap_phase_def RecordBootstrapPhase_def secretKey_def data_lookup_def conn_Close_def rpc_def
    withTimeout_def ticks_def
  show ?thesis
    unfolding bootstrap_Reconcile_def reconcileBootstrap_def waitForReadyNodes_def readyControlPlaneCount_def
      startBootstrap_def talkToTalos_def bootstrapEtcd_def markBootstrapped_def fetchKubeconfig_def
      waitForAPIServer_def probeAPIServer_def completeBootstrap_def dialBootstrap_def conn_Dial_def
      NewClient_def conn_Bootstrap_def conn_GetKubeconfig_def conn_Close_def saveKubeconfig_def ensureFinalizer_def
    by (simp add: sample_ready_read answers sample_ready_stores objects services steps find_object_def
        secret_step_def put_object_def ContainsFinalizer_set isBootstrapUpToDate_def production_bootstrap_def
        condition_type_defs secret_name_defs remoteClientOrFallback_def newRemoteClient_def
        records_bootstrap_def completes_bootstrap_def creates_bootstrap_def split del: if_split)
qed

end
