(* ===== verification/SecretMaps.thy ===== *)
theory SecretMaps
  imports SecretStore Runs
begin

text \<open>
  The Secrets in the API server as a finite map, and the operations of \<^verbatim>\<open>helpers.go\<close> and
  \<^verbatim>\<open>internal/talos/secrets.go\<close> as operations on it: each of them either does its map operation and
  reports success, or reports an error and leaves the map as it was.
\<close>

section \<open>The stored Secrets\<close>

text \<open>What a history says about the Secrets, up to the fields that the server fills in.\<close>

definition store_step :: "(namespaced_name \<Rightarrow> secret option) \<Rightarrow> event \<Rightarrow> namespaced_name \<Rightarrow> secret option" where
  "store_step m e =
     (case e of
        KCreate (OSecret s) None \<Rightarrow> m(nsname s \<mapsto> s)
      | KUpdate (OSecret s) None \<Rightarrow> m(nsname s \<mapsto> s)
      | KPatch _ (OSecret s) None \<Rightarrow> m(nsname s \<mapsto> s)
      | KDelete KindSecret k None \<Rightarrow> m(k := None)
      | _ \<Rightarrow> m)"

abbreviation stored_secrets :: "hist \<Rightarrow> namespaced_name \<Rightarrow> secret option" where
  "stored_secrets \<equiv> replay store_step Map.empty"

lemma stored_secrets_snoc: "stored_secrets (h @ [e]) = store_step (stored_secrets h) e"
  by (simp add: replay_snoc)

lemma stored_secrets_named: "stored_secrets h k = Some s \<Longrightarrow> nsname s = k"
  by (induction h arbitrary: k s rule: rev_induct)
    (auto simp: replay_snoc store_step_def split: event.splits kobj.splits kind.splits option.splits if_splits)

text \<open>
  The documented behaviour of the API server for Secrets: a read gives the stored object or says rightly
  that there is none, a creation succeeds only if there is none, and is answered with AlreadyExists
  only if there is one. Any other error may come at any time.
\<close>

definition secret_api :: "env \<Rightarrow> bool" where
  "secret_api E \<longleftrightarrow>
     (\<forall>h k. case kget_secret (Kube E) h k of
        Inr s \<Rightarrow> stored_secrets h k = Some s
      | Inl err \<Rightarrow> IsNotFound err \<longrightarrow> stored_secrets h k = None) \<and>
     (\<forall>h s. case kcreate_secret (Kube E) h s of
        None \<Rightarrow> stored_secrets h (nsname s) = None
      | Some err \<Rightarrow> IsAlreadyExistsApi err \<longrightarrow> stored_secrets h (nsname s) \<noteq> None)"

lemma secret_apiD:
  assumes "secret_api E"
  shows "kget_secret (Kube E) h k = Inr s \<Longrightarrow> stored_secrets h k = Some s"
    and "kget_secret (Kube E) h k = Inl err \<Longrightarrow> IsNotFound err \<Longrightarrow> stored_secrets h k = None"
    and "kcreate_secret (Kube E) h s' = None \<Longrightarrow> stored_secrets h (nsname s') = None"
    and "kcreate_secret (Kube E) h s' = Some err' \<Longrightarrow> IsAlreadyExistsApi err' \<Longrightarrow>
      \<exists>t. stored_secrets h (nsname s') = Some t"
proof -
  have get: "case kget_secret (Kube E) h k of Inr s \<Rightarrow> stored_secrets h k = Some s
      | Inl err \<Rightarrow> IsNotFound err \<longrightarrow> stored_secrets h k = None"
    and create: "case kcreate_secret (Kube E) h s' of None \<Rightarrow> stored_secrets h (nsname s') = None
      | Some err \<Rightarrow> IsAlreadyExistsApi err \<longrightarrow> stored_secrets h (nsname s') \<noteq> None"
    using assms unfolding secret_api_def by blast+
  show "kget_secret (Kube E) h k = Inr s \<Longrightarrow> stored_secrets h k = Some s"
    "kget_secret (Kube E) h k = Inl err \<Longrightarrow> IsNotFound err \<Longrightarrow> stored_secrets h k = None"
    using get by simp_all
  show "kcreate_secret (Kube E) h s' = None \<Longrightarrow> stored_secrets h (nsname s') = None"
    "kcreate_secret (Kube E) h s' = Some err' \<Longrightarrow> IsAlreadyExistsApi err' \<Longrightarrow>
      \<exists>t. stored_secrets h (nsname s') = Some t"
    using create by auto
qed

section \<open>The abstract operations\<close>

type_synonym secrets = "namespaced_name \<Rightarrow> secret option"

definition map_insert :: "secret \<Rightarrow> secrets \<Rightarrow> secrets" where
  "map_insert s m = (case m (nsname s) of None \<Rightarrow> m(nsname s \<mapsto> s) | Some _ \<Rightarrow> m)"

definition map_upsert :: "namespaced_name \<Rightarrow> secret \<Rightarrow> (secret \<Rightarrow> secret) \<Rightarrow> secrets \<Rightarrow> secrets" where
  "map_upsert k new upd m = m(k \<mapsto> (case m k of None \<Rightarrow> new | Some s \<Rightarrow> upd s))"

definition map_remove :: "namespaced_name set \<Rightarrow> secrets \<Rightarrow> secrets" where
  "map_remove ks m = (\<lambda>k. if k \<in> ks then None else m k)"

lemma map_remove_remove: "map_remove ks (map_remove js m) = map_remove (js \<union> ks) m"
  by (auto simp: map_remove_def fun_eq_iff)

lemma map_remove_empty [simp]: "map_remove {} m = m"
  by (simp add: map_remove_def)

text \<open>
  \<open>implements ok m f\<close>: on a result that is \<open>ok\<close>, the program \<open>m\<close> has done \<open>f\<close> to the stored Secrets, and on any
  other result it has done nothing.
\<close>

definition implements :: "('r \<Rightarrow> bool) \<Rightarrow> 'r prog \<Rightarrow> (secrets \<Rightarrow> secrets) \<Rightarrow> bool" where
  "implements ok m f \<longleftrightarrow>
     (\<forall>h. wp m (\<lambda>r h'. stored_secrets h' = (if ok r then f (stored_secrets h) else stored_secrets h)) h)"

lemma implementsI:
  "(\<And>h. wp m (\<lambda>r h'. stored_secrets h' = (if ok r then f (stored_secrets h) else stored_secrets h)) h) \<Longrightarrow>
   implements ok m f"
  by (simp add: implements_def)

lemma implementsD:
  "implements ok m f \<Longrightarrow>
   wp m (\<lambda>r h'. stored_secrets h' = (if ok r then f (stored_secrets h) else stored_secrets h)) h"
  by (simp add: implements_def)

text \<open>Running an operation again after a failure is running it once.\<close>

lemma implements_retry:
  assumes "implements ok m f" and "\<And>r. again r \<Longrightarrow> \<not> ok r"
  shows "implements ok (retry_loop n again m) f"
proof (rule implementsI)
  fix h
  let ?Q = "\<lambda>r h'. stored_secrets h' = (if ok r then f (stored_secrets h) else stored_secrets h)"
  show "wp (retry_loop n again m) ?Q h"
  proof (rule wp_retry_loop_inv [where I = "\<lambda>g. stored_secrets g = stored_secrets h"])
    fix g assume "stored_secrets g = stored_secrets h"
    then show "wp m (\<lambda>r h'. ?Q r h' \<and> (again r \<longrightarrow> stored_secrets h' = stored_secrets h)) g"
      using implementsD [OF assms(1), of g] assms(2) by (auto elim: wp_mono)
  qed simp
qed

section \<open>The operations\<close>

lemma store_step_simps [simp]:
  "store_step m (KGet kd k) = m" "store_step m (MetricInc v ls) = m"
  "store_step m (KCreate (OSecret s) r) = (if r = None then m(nsname s \<mapsto> s) else m)"
  "store_step m (KUpdate (OSecret s) r) = (if r = None then m(nsname s \<mapsto> s) else m)"
  "store_step m (KDelete KindSecret k r) = (if r = None then m(k := None) else m)"
  by (cases r; simp add: store_step_def)+

lemma stored_secrets_append: "stored_secrets (h @ es) = foldl store_step (stored_secrets h) es"
  by (simp add: replay_def)

lemma upsert_once_implements:
  assumes "secret_api E" and "nsname new = (ns, n)"
    and "\<And>s. nsname s = (ns, n) \<Longrightarrow> nsname (upd s) = (ns, n)"
  shows "implements (\<lambda>r. r = None) (upsert_once E n ns new upd) (map_upsert (ns, n) new upd)"
proof (rule implementsI)
  fix h
  have named: "stored_secrets h (ns, n) = Some s \<Longrightarrow> nsname (upd s) = (ns, n)" for s
    using assms(3) stored_secrets_named by blast
  show "wp (upsert_once E n ns new upd)
      (\<lambda>r h'. stored_secrets h' =
         (if r = None then map_upsert (ns, n) new upd (stored_secrets h) else stored_secrets h)) h"
    using assms(2) named secret_apiD(1,2) [OF assms(1), of h "(ns, n)"]
    by (auto simp: upsert_once_def create_Secret_def update_Secret_def wp_simps stored_secrets_append
        map_upsert_def opt_err_def split: sum.split)
qed

lemma upsertSecret_implements:
  assumes "secret_api E" and "nsname new = (ns, n)"
    and "\<And>s. nsname s = (ns, n) \<Longrightarrow> nsname (upd s) = (ns, n)"
  shows "implements (\<lambda>r. r = None) (upsertSecret E n ns new upd) (map_upsert (ns, n) new upd)"
  unfolding upsertSecret_def RetryOnConflict_def
  by (intro implements_retry upsert_once_implements assms) (auto simp: is_conflict_def split: option.splits)

lemma sm_Create_implements:
  assumes "secret_api E"
  shows "implements (\<lambda>r. r = None) (sm_Create E sm n ns key v t) (map_insert (sm_secret sm n ns key v t))"
proof (rule implementsI)
  fix h
  let ?s = "sm_secret sm n ns key v t"
  show "wp (sm_Create E sm n ns key v t)
      (\<lambda>r h'. stored_secrets h' = (if r = None then map_insert ?s (stored_secrets h) else stored_secrets h)) h"
    using secret_apiD(3,4) [OF assms, of h ?s]
    by (cases "kcreate_secret (Kube E) h ?s")
      (auto simp: sm_Create_def create_Secret_def wp_simps stored_secrets_append map_insert_def)
qed

lemma map_remove_upd: "m(k := None) = map_remove {k} m"
  by (auto simp: map_remove_def)

lemma map_remove_absent: "m k = None \<Longrightarrow> map_remove {k} m = m"
  by (auto simp: map_remove_def)

lemma sm_Delete_implements:
  assumes "secret_api E"
  shows "implements (\<lambda>r. r = None) (sm_Delete E sm n ns) (map_remove {(ns, n)})"
proof (rule implementsI)
  fix h
  show "wp (sm_Delete E sm n ns)
      (\<lambda>r h'. stored_secrets h' = (if r = None then map_remove {(ns, n)} (stored_secrets h) else stored_secrets h)) h"
  proof (cases "kget_secret (Kube E) h (ns, n)")
    case (Inl err)
    then show ?thesis
      using secret_apiD(2) [OF assms Inl]
      by (auto simp: sm_Delete_def get_Secret_def wp_simps stored_secrets_append map_remove_absent)
  next
    case (Inr s)
    from stored_secrets_named [OF secret_apiD(1) [OF assms Inr]] have "nsname s = (ns, n)" .
    with Inr show ?thesis
      by (auto simp: sm_Delete_def get_Secret_def delete_Secret_def wp_simps stored_secrets_append
          map_remove_upd)
  qed
qed

text \<open>
  Deleting several Secrets removes them one by one: an error leaves the names behind it, and success
  means that all are gone.
\<close>

lemma sm_DeleteMultiple_removes:
  assumes "secret_api E"
  shows "wp (sm_DeleteMultiple E sm ns names)
     (\<lambda>r h'. \<exists>i \<le> length names. (r = None \<longleftrightarrow> i = length names) \<and>
        stored_secrets h' = map_remove (Pair ns ` set (take i names)) (stored_secrets h)) h"
proof (induction names arbitrary: h)
  case Nil
  then show ?case by (simp add: wp_simps)
next
  case (Cons n names)
  show ?case
    unfolding sm_DeleteMultiple.simps
  proof (intro wp_intros wp_mono [OF implementsD [OF sm_Delete_implements [OF assms], of sm n ns h]])
    fix r g assume g: "stored_secrets g =
        (if r = None then map_remove {(ns, n)} (stored_secrets h) else stored_secrets h)"
    show "\<exists>i \<le> length (n # names). (Some e = None \<longleftrightarrow> i = length (n # names)) \<and>
        stored_secrets g = map_remove (Pair ns ` set (take i (n # names))) (stored_secrets h)"
      if "r = Some e" for e
      using g that by (intro exI [of _ 0]) simp
    show "wp (sm_DeleteMultiple E sm ns names)
        (\<lambda>r h'. \<exists>i \<le> length (n # names). (r = None \<longleftrightarrow> i = length (n # names)) \<and>
           stored_secrets h' = map_remove (Pair ns ` set (take i (n # names))) (stored_secrets h)) g"
      if "r = None"
    proof (rule wp_mono [OF Cons.IH])
      fix r' h'
      assume "\<exists>i \<le> length names. (r' = None \<longleftrightarrow> i = length names) \<and>
          stored_secrets h' = map_remove (Pair ns ` set (take i names)) (stored_secrets g)"
      then obtain i where i: "i \<le> length names" "r' = None \<longleftrightarrow> i = length names"
        "stored_secrets h' = map_remove (Pair ns ` set (take i names)) (stored_secrets g)" by blast
      then show "\<exists>i \<le> length (n # names). (r' = None \<longleftrightarrow> i = length (n # names)) \<and>
           stored_secrets h' = map_remove (Pair ns ` set (take i (n # names))) (stored_secrets h)"
        using g that by (intro exI [of _ "Suc i"]) (simp add: map_remove_remove)
    qed
  qed
qed

text \<open>An update of one key by the secret manager; storing into a Secret without data panics.\<close>

definition put_data :: "string \<Rightarrow> bytes \<Rightarrow> secret \<Rightarrow> secret" where
  "put_data key v s = s\<lparr>Data := map_option (\<lambda>m. m(key \<mapsto> v)) (Data s)\<rparr>"

lemma sm_CreateOrUpdate_implements:
  assumes "secret_api E"
  shows "implements (\<lambda>r. r = Return None) (sm_CreateOrUpdate E sm n ns key v t)
    (map_upsert (ns, n) (sm_secret sm n ns key v t) (put_data key v))"
  unfolding sm_CreateOrUpdate_def
proof (intro implements_retry implementsI)
  fix h
  let ?new = "sm_secret sm n ns key v t"
  show "wp (do {
         r \<leftarrow> get_Secret E (ns, n);
         case r of
           Inl err \<Rightarrow> if IsNotFound err then do { e \<leftarrow> sm_Create E sm n ns key v t; ret (Return e) }
             else ret (Return (Some err))
         | Inr secret \<Rightarrow> (case Data secret of
              None \<Rightarrow> ret Panic
            | Some m \<Rightarrow> do {
                u \<leftarrow> update_Secret E (secret\<lparr>Data := Some (m(key \<mapsto> v))\<rparr>);
                ret (Return (opt_err u)) })
       })
      (\<lambda>r h'. stored_secrets h' = (if r = Return None then map_upsert (ns, n) ?new (put_data key v) (stored_secrets h)
         else stored_secrets h)) h"
  proof (cases "kget_secret (Kube E) h (ns, n)")
    case (Inl err)
    have "wp (sm_Create E sm n ns key v t)
        (\<lambda>r h'. stored_secrets h' = (if r = None then map_insert ?new (stored_secrets h) else stored_secrets h))
        (h @ [KGet KindSecret (ns, n)])"
      using implementsD [OF sm_Create_implements [OF assms], of sm n ns key v t "h @ [KGet KindSecret (ns, n)]"]
      by (simp add: stored_secrets_append cong: if_cong)
    then have "IsNotFound err \<Longrightarrow> wp (sm_Create E sm n ns key v t)
        (\<lambda>r h'. stored_secrets h' = (if Return r = Return None
           then map_upsert (ns, n) ?new (put_data key v) (stored_secrets h) else stored_secrets h))
        (h @ [KGet KindSecret (ns, n)])"
      using secret_apiD(2) [OF assms Inl]
      by (auto simp: map_upsert_def map_insert_def sm_secret_def nsname_def elim!: wp_mono)
    with Inl show ?thesis by (auto simp: get_Secret_def wp_simps stored_secrets_append elim!: wp_mono)
  next
    case (Inr s)
    have stored: "stored_secrets h (ns, n) = Some s" using secret_apiD(1) [OF assms Inr] .
    then have "nsname (s\<lparr>Data := d\<rparr>) = (ns, n)" for d
      using stored_secrets_named by (auto simp: nsname_def)
    with Inr stored show ?thesis
      by (auto simp: get_Secret_def update_Secret_def wp_simps stored_secrets_append map_upsert_def put_data_def
          opt_err_def split: option.split sum.split)
  qed
qed (auto simp: outcome_conflict_def is_conflict_def split: outcome.splits option.splits)

section \<open>The refinement\<close>


end
