(* ===== verification/ClusterRuns.thy ===== *)
theory ClusterRuns
  imports ClusterController SecretMaps
begin

text \<open>
  What the cluster controller hands over to the two others: the four Secrets of a cluster, over its
  whole life and through every failure between two of them. All configurations belong to the one
  secrets bundle that is stored, so they share its CA.
\<close>

section \<open>The Secrets of a cluster in the API server\<close>

text \<open>
  The documented behaviour of the API server for the four Secrets of the cluster \<open>k\<close>: a read that answers
  gives the stored Secret, a creation succeeds only if there is none, and is answered with
  AlreadyExists only if there is one. Any other error may come at any time.
\<close>

definition secret_store :: "env \<Rightarrow> namespaced_name \<Rightarrow> bool" where
  "secret_store E k \<longleftrightarrow>
     (\<forall>n \<in> set (cluster_secret_names (snd k)).
        (\<forall>h s. kget_secret (Kube E) h (fst k, n) = Inr s \<longrightarrow> stored_secrets h (fst k, n) = Some s) \<and>
        (\<forall>h s. nsname s = (fst k, n) \<longrightarrow> kcreate_secret (Kube E) h s = None \<longrightarrow>
           stored_secrets h (fst k, n) = None) \<and>
        (\<forall>h s err. nsname s = (fst k, n) \<longrightarrow> kcreate_secret (Kube E) h s = Some err \<longrightarrow>
           IsAlreadyExistsApi err \<longrightarrow> stored_secrets h (fst k, n) \<noteq> None))"

text \<open>Reads of one Secret do not fail while it is there.\<close>

definition readable :: "env \<Rightarrow> namespaced_name \<Rightarrow> bool" where
  "readable E k \<longleftrightarrow> (\<forall>h. stored_secrets h k \<noteq> None \<longrightarrow> (\<exists>s. kget_secret (Kube E) h k = Inr s))"

text \<open>A marshalled bundle is not empty and loads again.\<close>

definition bundle_roundtrip :: "env \<Rightarrow> bool" where
  "bundle_roundtrip E \<longleftrightarrow>
     (\<forall>b bs. bundle_marshal (Lib E) b = Inr bs \<longrightarrow> bs \<noteq> [] \<and> bundle_unmarshal (Lib E) bs = Inr b)"

section \<open>One CA\<close>

definition bundle_of :: "env \<Rightarrow> secret \<Rightarrow> secrets_bundle option" where
  "bundle_of E s =
     (case data_lookup s ''secrets.yaml'' of
        None \<Rightarrow> None
      | Some bs \<Rightarrow>
          if bs = [] then None
          else (case bundle_unmarshal (Lib E) bs of Inl _ \<Rightarrow> None | Inr b \<Rightarrow> Some b))"

text \<open>
  The Secrets with configurations: name, key and the part of the generated configurations. For the
  machines, name and key are those that the node controller reads.
\<close>

definition config_files :: "string \<Rightarrow> (string \<times> string \<times> (cluster_configs \<Rightarrow> bytes)) list" where
  "config_files c =
     [(fst (config_source TalosNodeRoleControlPlane c), snd (config_source TalosNodeRoleControlPlane c), ControlPlane),
      (fst (config_source TalosNodeRoleWorker c), snd (config_source TalosNodeRoleWorker c), Worker),
      (clusterTalosconfigName c, ''talosconfig'', Talosconfig)]"

lemma config_files_eq:
  "config_files c =
     [(clusterControlPlaneName c, ''controlplane.yaml'', ControlPlane),
      (clusterWorkerName c, ''worker.yaml'', Worker),
      (clusterTalosconfigName c, ''talosconfig'', Talosconfig)]"
  by (simp add: config_files_def config_source_def)

text \<open>\<open>made_from E b part bs\<close>: the bytes are that part of configurations generated from the bundle \<open>b\<close>.\<close>

definition made_from :: "env \<Rightarrow> secrets_bundle \<Rightarrow> (cluster_configs \<Rightarrow> bytes) \<Rightarrow> bytes \<Rightarrow> bool" where
  "made_from E b part bs \<longleftrightarrow>
     (\<exists>name endpoints version kubernetes configs.
        GenConfig E name endpoints version b kubernetes = Inr configs \<and> bs = part configs)"

text \<open>
  \<open>configs_from E k b m\<close>: every stored configuration of the cluster \<open>k\<close> was generated from the bundle \<open>b\<close>.
  \<open>same_ca E k m\<close>: no configuration is stored without a bundle that loads, and all of them are from that
  one. \<open>all_stored k m\<close>: the four Secrets are there.
\<close>

definition configs_from ::
    "env \<Rightarrow> namespaced_name \<Rightarrow> secrets_bundle \<Rightarrow> (namespaced_name \<Rightarrow> secret option) \<Rightarrow> bool" where
  "configs_from E k b m \<longleftrightarrow>
     (\<forall>(n, key, part) \<in> set (config_files (snd k)). \<forall>t. m (fst k, n) = Some t \<longrightarrow>
        (\<exists>bs. data_lookup t key = Some bs \<and> made_from E b part bs))"

definition same_ca :: "env \<Rightarrow> namespaced_name \<Rightarrow> (namespaced_name \<Rightarrow> secret option) \<Rightarrow> bool" where
  "same_ca E k m \<longleftrightarrow>
     (case m (fst k, clusterSecretsName (snd k)) of
        None \<Rightarrow> \<forall>(n, _) \<in> set (config_files (snd k)). m (fst k, n) = None
      | Some s \<Rightarrow> \<exists>b. bundle_of E s = Some b \<and> configs_from E k b m)"

definition all_stored :: "namespaced_name \<Rightarrow> (namespaced_name \<Rightarrow> secret option) \<Rightarrow> bool" where
  "all_stored k m \<longleftrightarrow> (\<forall>n \<in> set (cluster_secret_names (snd k)). m (fst k, n) \<noteq> None)"

lemma bundle_name: "clusterSecretsName c \<in> set (cluster_secret_names c)"
  by (simp add: cluster_secret_names_def)

lemma config_files_names:
  "(n, key, part) \<in> set (config_files c) \<Longrightarrow> n \<noteq> clusterSecretsName c"
  "(n, key, part) \<in> set (config_files c) \<Longrightarrow> (n, key', part') \<in> set (config_files c) \<Longrightarrow>
   key' = key \<and> part' = part"
  "(n, key, part) \<in> set (config_files c) \<Longrightarrow> n \<in> set (cluster_secret_names c)"
  by (auto simp: config_files_eq cluster_secret_names_def secret_name_defs)

section \<open>The view of a cluster\<close>

text \<open>The stored Secrets, and whether the cluster was ever reported Ready.\<close>

definition claims_ready :: "namespaced_name \<Rightarrow> event \<Rightarrow> bool" where
  "claims_ready k e \<longleftrightarrow>
     (\<exists>c. e = KStatusUpdate (OCluster c) None \<and> nsname c = k \<and> ClusterPhase (ClusterStatus c) = TalosPhaseReady)"

type_synonym cluster_view = "(namespaced_name \<Rightarrow> secret option) \<times> bool"

definition cluster_step :: "namespaced_name \<Rightarrow> cluster_view \<Rightarrow> event \<Rightarrow> cluster_view" where
  "cluster_step k v e = (store_step (fst v) e, snd v \<or> claims_ready k e)"

abbreviation cluster_stored :: "namespaced_name \<Rightarrow> hist \<Rightarrow> cluster_view" where
  "cluster_stored k \<equiv> replay (cluster_step k) (Map.empty, False)"

definition view_ok :: "env \<Rightarrow> namespaced_name \<Rightarrow> cluster_view \<Rightarrow> bool" where
  "view_ok E k v \<longleftrightarrow> same_ca E k (fst v) \<and> (snd v \<longrightarrow> all_stored k (fst v))"

definition keeps_ok :: "env \<Rightarrow> namespaced_name \<Rightarrow> cluster_view \<Rightarrow> event \<Rightarrow> bool" where
  "keeps_ok E k v e \<longleftrightarrow> (view_ok E k v \<longrightarrow> view_ok E k (cluster_step k v e))"

definition keeps_secrets :: "event \<Rightarrow> bool" where
  "keeps_secrets e \<longleftrightarrow>
     (case e of
        KCreate (OSecret _) _ \<Rightarrow> False | KUpdate (OSecret _) _ \<Rightarrow> False | KPatch _ (OSecret _) _ \<Rightarrow> False
      | KDelete KindSecret _ _ \<Rightarrow> False | KStatusUpdate (OCluster _) _ \<Rightarrow> False
      | _ \<Rightarrow> True)"

lemma keeps_secrets_step: "keeps_secrets e \<Longrightarrow> cluster_step k v e = v"
  by (cases v) (auto simp: keeps_secrets_def cluster_step_def store_step_def claims_ready_def
      split: event.splits kobj.splits kind.splits option.splits)

interpretation handover: status_machine "cluster_step k" "(Map.empty, False)" keeps_secrets "keeps_ok E k" for E k
  by unfold_locales (simp_all add: keeps_secrets_step keeps_ok_def)

lemma cluster_stored_fst: "fst (cluster_stored k h) = stored_secrets h"
  by (induction h rule: rev_induct) (simp_all add: replay_snoc cluster_step_def)

lemma cluster_stored_ready: "snd (cluster_stored k h) \<longleftrightarrow> (\<exists>e \<in> set h. claims_ready k e)"
  by (induction h rule: rev_induct) (auto simp: replay_snoc cluster_step_def)

section \<open>Provisioning\<close>

text \<open>
  \<open>kept_back k g g'\<close>: nothing about the cluster changed between the two histories. \<open>holds E k b v\<close>: the
  view is in order and the stored bundle loads as \<open>b\<close>.
\<close>

abbreviation ok_guard :: "env \<Rightarrow> namespaced_name \<Rightarrow> hist \<Rightarrow> event \<Rightarrow> bool" where
  "ok_guard E k \<equiv> (\<lambda>g. keeps_ok E k (cluster_stored k g))"

definition holds :: "env \<Rightarrow> namespaced_name \<Rightarrow> secrets_bundle \<Rightarrow> cluster_view \<Rightarrow> bool" where
  "holds E k b v \<longleftrightarrow> view_ok E k v \<and>
     (\<exists>s. fst v (fst k, clusterSecretsName (snd k)) = Some s \<and> bundle_of E s = Some b)"

lemma keeps_secrets_simps [simp]:
  "keeps_secrets (KGet kd nm)" "keeps_secrets (KList kd ns)" "keeps_secrets (KUpdate (OCluster c) r)"
  "keeps_secrets (Recorded kd nm et s m)" "keeps_secrets (MetricSet v ls x)" "keeps_secrets (MetricInc v ls)"
  "keeps_secrets ClockRead" "keeps_secrets RandRead" "keeps_secrets (NewBundle ct)" "keeps_secrets CtxCheck"
  by (simp_all add: keeps_secrets_def)

lemma only_keeps_secrets:
  "only keeps_secrets (record_cluster_phase c f t)" "only keeps_secrets (set_cluster_conditions E cs st re x y)"
  "only keeps_secrets (GetRetryDelay E n)" "only keeps_secrets (emitEvent rec kd ob et r msg)"
  "only keeps_secrets (time_Now E)" "only keeps_secrets (get_TalosCluster E k)"
  "only keeps_secrets (update_TalosCluster E c)" "only keeps_secrets (GenSecretsBundle E v)"
  "only keeps_secrets (LoadOrGenSecretsBundle E bs v)" "only keeps_secrets (existingBundle E c)"
  unfolding call_defs GenSecretsBundle_def by (intro only_intros; simp)+

lemmas handover_rules = wpg_intros only_keeps_secrets [THEN handover.wpg_keep]

text \<open>A status that does not claim Ready changes nothing; one that does needs the four Secrets.\<close>

lemma wpg_cluster_status:
  assumes "cluster_status_echo E" and "nsname c = k"
    and "ClusterPhase (ClusterStatus c) = TalosPhaseReady \<longrightarrow> all_stored k (fst (cluster_stored k g))"
    and "\<And>r g'. fst (cluster_stored k g') = fst (cluster_stored k g) \<Longrightarrow>
        (view_ok E k (cluster_stored k g) \<longrightarrow> view_ok E k (cluster_stored k g')) \<Longrightarrow>
        r = Inr c \<or> (\<exists>err. r = Inl err) \<Longrightarrow> Q r g'"
  shows "wpg (ok_guard E k) (status_update_TalosCluster E c) Q g"
  unfolding status_update_TalosCluster_def
proof (rule handover.wpg_own_ask)
  let ?r = "kstatus_cluster (Kube E) g c"
  let ?v = "cluster_stored k g"
  have fst: "fst (cluster_step k ?v (KStatusUpdate (OCluster c) r)) = fst ?v" for r
    by (simp add: cluster_step_def store_step_def)
  have snd: "snd (cluster_step k ?v (KStatusUpdate (OCluster c) r)) \<Longrightarrow> \<not> snd ?v \<Longrightarrow>
      ClusterPhase (ClusterStatus c) = TalosPhaseReady" for r
    by (auto simp: cluster_step_def claims_ready_def)
  show own: "keeps_ok E k ?v (KStatusUpdate (OCluster c) (opt_err ?r))"
    using assms(3) snd by (auto simp: keeps_ok_def view_ok_def fst)
  fix g' assume "cluster_stored k g' = cluster_step k ?v (KStatusUpdate (OCluster c) (opt_err ?r))"
  then show "Q ?r g'"
    using own cluster_status_echoD [OF assms(1), of g c] by (cases ?r) (auto intro!: assms(4) simp: fst keeps_ok_def)
qed

text \<open>Adding one Secret to the view.\<close>

lemma store_create: "cluster_step k v (KCreate (OSecret s) None) = ((fst v)(nsname s \<mapsto> s), snd v)"
  "r \<noteq> None \<Longrightarrow> cluster_step k v (KCreate (OSecret s) r) = v"
  by (auto simp: cluster_step_def store_step_def claims_ready_def split: option.split)

lemma configs_from_upd:
  assumes "configs_from E k b m"
    and "\<And>key part. (n, key, part) \<in> set (config_files (snd k)) \<Longrightarrow>
      \<exists>bs. data_lookup s key = Some bs \<and> made_from E b part bs"
  shows "configs_from E k b (m((fst k, n) \<mapsto> s))"
  using assms by (auto simp: configs_from_def split: if_splits)

lemma configs_from_none:
  "\<forall>(n, _) \<in> set (config_files (snd k)). m (fst k, n) = None \<Longrightarrow> configs_from E k b m"
  by (auto simp: configs_from_def)

lemma view_ok_bundle:
  assumes "view_ok E k v" and "fst v (fst k, clusterSecretsName (snd k)) = None"
    and "nsname s = (fst k, clusterSecretsName (snd k))" and "bundle_of E s = Some b"
  shows "holds E k b ((fst v)(nsname s \<mapsto> s), snd v)"
proof -
  have "configs_from E k b (fst v)"
    using assms(1,2) by (intro configs_from_none) (simp add: view_ok_def same_ca_def)
  then have "configs_from E k b ((fst v)(nsname s \<mapsto> s))"
    unfolding assms(3) by (rule configs_from_upd) (blast dest: config_files_names(1))
  with assms show ?thesis
    by (simp add: holds_def view_ok_def same_ca_def all_stored_def cluster_secret_names_def)
qed

lemma view_ok_config:
  assumes "holds E k b v" and "(n, key, part) \<in> set (config_files (snd k))" and "nsname s = (fst k, n)"
    and "data_lookup s key = Some bs" and "made_from E b part bs"
  shows "holds E k b ((fst v)(nsname s \<mapsto> s), snd v)"
proof -
  from config_files_names(1) [OF assms(2)] assms(1)
  obtain t where t: "fst v (fst k, clusterSecretsName (snd k)) = Some t" "bundle_of E t = Some b"
    and ok: "view_ok E k v" and n: "n \<noteq> clusterSecretsName (snd k)"
    by (auto simp: holds_def)
  then have "configs_from E k b (fst v)" by (simp add: view_ok_def same_ca_def)
  then have "configs_from E k b ((fst v)(nsname s \<mapsto> s))"
    unfolding assms(3) using config_files_names(2) [OF assms(2)] assms(4,5)
    by (intro configs_from_upd) blast+
  with ok t n assms(3) show ?thesis by (simp add: holds_def view_ok_def same_ca_def all_stored_def)
qed

lemma secret_storeD:
  assumes "secret_store E k" and "n \<in> set (cluster_secret_names (snd k))"
  shows "kget_secret (Kube E) h (fst k, n) = Inr s \<Longrightarrow> stored_secrets h (fst k, n) = Some s"
    and "nsname s' = (fst k, n) \<Longrightarrow> kcreate_secret (Kube E) h s' = None \<Longrightarrow> stored_secrets h (fst k, n) = None"
    and "nsname s'' = (fst k, n) \<Longrightarrow> kcreate_secret (Kube E) h s'' = Some err \<Longrightarrow> IsAlreadyExistsApi err \<Longrightarrow>
      stored_secrets h (fst k, n) \<noteq> None"
  using assms unfolding secret_store_def by blast+

lemma sm_secret_simps [simp]:
  "nsname (sm_secret sm n ns k v t) = (ns, n)"
  "data_lookup (sm_secret sm n ns k v t) k' = (if k' = k then Some v else None)"
  by (simp_all add: sm_secret_def nsname_def data_lookup_def)

text \<open>
  Creating a Secret, in terms of the view \<open>v\<close> before it: a Secret is added where there was none, the
  view is left with the Secret there, or there is an error.
\<close>

lemma wpg_sm_Create:
  assumes law: "secret_store E k" and name: "n \<in> set (cluster_secret_names (snd k))"
     and v: "cluster_stored k g = v"
    and new: "fst v (fst k, n) = None \<Longrightarrow> view_ok E k v \<Longrightarrow>
      view_ok E k ((fst v)((fst k, n) \<mapsto> sm_secret sm n (fst k) key bs t), snd v)"
    and created: "\<And>g'. fst v (fst k, n) = None \<Longrightarrow>
      cluster_stored k g' = ((fst v)((fst k, n) \<mapsto> sm_secret sm n (fst k) key bs t), snd v) \<Longrightarrow> Q None g'"
    and exists: "\<And>g'. fst v (fst k, n) \<noteq> None \<Longrightarrow> cluster_stored k g' = v \<Longrightarrow> Q None g'"
    and failed: "\<And>g' err. cluster_stored k g' = v \<Longrightarrow> Q (Some err) g'"
  shows "wpg (ok_guard E k) (sm_Create E sm n (fst k) key bs t) Q g"
proof -
  let ?s = "sm_secret sm n (fst k) key bs t"
  let ?r = "kcreate_secret (Kube E) g ?s"
  have m: "stored_secrets g = fst v" by (simp add: cluster_stored_fst flip: v)
  have none: "fst v (fst k, n) = None" if "?r = None"
    using secret_storeD(2) [OF law name _ that] by (simp add: m)
  have some: "fst v (fst k, n) \<noteq> None" if "?r = Some err" and "IsAlreadyExistsApi err" for err
    using secret_storeD(3) [OF law name _ that] by (simp add: m)
  have own: "keeps_ok E k v (KCreate (OSecret ?s) ?r)"
    using none new by (cases ?r) (auto simp: keeps_ok_def store_create)
  show ?thesis
    unfolding sm_Create_def create_Secret_def
  proof (rule wpg_bind, rule handover.wpg_own_ask)
    fix g' assume "cluster_stored k g' = cluster_step k (cluster_stored k g) (KCreate (OSecret ?s) ?r)"
    then show "wpg (ok_guard E k) (case ?r of None \<Rightarrow> ret None
        | Some err \<Rightarrow> if \<not> IsAlreadyExistsApi err then ret (Some err) else ret None) Q g'"
      using none some by (cases ?r) (auto simp: v store_create intro!: wpg_return intro: created exists failed)
  qed (simp add: v own)
qed

text \<open>A configuration beside its bundle.\<close>

lemma wpg_sm_Create_config:
  assumes law: "secret_store E k" and v: "holds E k b (cluster_stored k g)"
    and part: "(n, key, part) \<in> set (config_files (snd k))" and bs: "made_from E b part bs"
    and Q: "\<And>r g'. holds E k b (cluster_stored k g') \<Longrightarrow>
      (\<forall>x. fst (cluster_stored k g) x \<noteq> None \<longrightarrow> fst (cluster_stored k g') x \<noteq> None) \<Longrightarrow>
      (r = None \<longrightarrow> fst (cluster_stored k g') (fst k, n) \<noteq> None) \<Longrightarrow> Q r g'"
  shows "wpg (ok_guard E k) (sm_Create E sm n (fst k) key bs t) Q g"
proof (rule wpg_sm_Create [OF law _ refl])
  let ?v = "cluster_stored k g" and ?s = "sm_secret sm n (fst k) key bs t"
  have added: "holds E k b ((fst ?v)((fst k, n) \<mapsto> ?s), snd ?v)"
    using view_ok_config [OF v part, of ?s] bs by simp
  then show "view_ok E k ((fst ?v)((fst k, n) \<mapsto> ?s), snd ?v)" by (simp add: holds_def)
  show "Q None g'" if "cluster_stored k g' = ((fst ?v)((fst k, n) \<mapsto> ?s), snd ?v)" for g'
    using added by (intro Q) (simp_all add: that)
qed (use v config_files_names(3) [OF part] in \<open>auto intro!: Q\<close>)

text \<open>The bundle: what is read of it, and storing it.\<close>

text \<open>
  \<open>loads_as E k v b bs\<close>: the bytes load as \<open>b\<close>, and if the bundle of the cluster is stored, it is these bytes.
\<close>

definition loads_as :: "env \<Rightarrow> namespaced_name \<Rightarrow> cluster_view \<Rightarrow> secrets_bundle \<Rightarrow> bytes \<Rightarrow> bool" where
  "loads_as E k v b bs \<longleftrightarrow> bs \<noteq> [] \<and> bundle_unmarshal (Lib E) bs = Inr b \<and>
     (\<forall>s. fst v (fst k, clusterSecretsName (snd k)) = Some s \<longrightarrow> data_lookup s ''secrets.yaml'' = Some bs)"

lemma stored_bundle_view:
  assumes "secret_store E k" and "readable E (fst k, clusterSecretsName (snd k))"
    and "view_ok E k (cluster_stored k g)"
  shows "stored_bundle E (fst k) (snd k) g = [] \<and>
      fst (cluster_stored k g) (fst k, clusterSecretsName (snd k)) = None \<or>
    (\<exists>b. loads_as E k (cluster_stored k g) b (stored_bundle E (fst k) (snd k) g))"
proof (cases "stored_secrets g (fst k, clusterSecretsName (snd k))")
  case None
  then have "kget_secret (Kube E) g (fst k, clusterSecretsName (snd k)) \<noteq> Inr s" for s
    using secret_storeD(1) [OF assms(1) bundle_name] by fastforce
  with None show ?thesis by (auto simp: stored_bundle_def cluster_stored_fst split: sum.split)
next
  case (Some s)
  with assms(2) secret_storeD(1) [OF assms(1) bundle_name]
  have "kget_secret (Kube E) g (fst k, clusterSecretsName (snd k)) = Inr s"
    by (fastforce simp: readable_def)
  moreover obtain b where "bundle_of E s = Some b"
    using assms(3) Some by (auto simp: view_ok_def same_ca_def cluster_stored_fst)
  ultimately show ?thesis
    using Some by (auto simp: stored_bundle_def loads_as_def bundle_of_def cluster_stored_fst
        split: option.splits if_splits sum.splits)
qed

lemma wp_LoadOrGen:
  assumes "bundle_roundtrip E"
    and "bs = [] \<and> fst v (fst k, clusterSecretsName (snd k)) = None \<or> (\<exists>b. loads_as E k v b bs)"
  shows "wp (LoadOrGenSecretsBundle E bs ver) (\<lambda>r _. \<forall>b bs'. r = Inr (b, bs') \<longrightarrow> loads_as E k v b bs') g"
  using assms(2)
proof
  assume "\<exists>b. loads_as E k v b bs"
  then show ?thesis by (auto simp: LoadOrGenSecretsBundle_def loads_as_def wp_simps)
next
  assume "bs = [] \<and> fst v (fst k, clusterSecretsName (snd k)) = None"
  then show ?thesis using assms(1)
    by (auto simp: LoadOrGenSecretsBundle_def GenSecretsBundle_def secrets_NewBundle_def wp_simps loads_as_def
        bundle_roundtrip_def split: sum.split)
qed

lemma cluster_nsname [simp]:
  "nsname (c\<lparr>ClusterStatus := st\<rparr>) = nsname c" "nsname (c'\<lparr>Finalizers := fs\<rparr>) = nsname c'"
  by (simp_all add: nsname_def)

lemma nsname_parts: "Namespace ob = fst (nsname ob)" "Name ob = snd (nsname ob)"
  by (simp_all add: nsname_def)

lemma config_files_here:
  "(clusterControlPlaneName c, ''controlplane.yaml'', ControlPlane) \<in> set (config_files c)"
  "(clusterWorkerName c, ''worker.yaml'', Worker) \<in> set (config_files c)"
  "(clusterTalosconfigName c, ''talosconfig'', Talosconfig) \<in> set (config_files c)"
  by (simp_all add: config_files_eq)

lemma wpg_storeConfigs:
  assumes "secret_store E k" and "nsname c = k" and "holds E k b (cluster_stored k g)"
    and configs: "GenConfig E name eps ver b kv = Inr cfgs"
    and Q: "\<And>r g'. holds E k b (cluster_stored k g') \<Longrightarrow>
      (r = None \<longrightarrow> all_stored k (fst (cluster_stored k g'))) \<Longrightarrow> Q r g'"
  shows "wpg (ok_guard E k) (storeConfigs E sm c cfgs) Q g"
proof -
  have made: "made_from E b part (part cfgs)" for part
    unfolding made_from_def using configs by blast
  have there: "holds E k b v \<Longrightarrow> fst v (fst k, clusterSecretsName (snd k)) \<noteq> None" for v
    by (auto simp: holds_def)
  show ?thesis
    unfolding storeConfigs_def nsname_parts(1) [of c] nsname_parts(2) [of c] assms(2)
    by (intro wpg_intros wpg_sm_Create_config [OF assms(1) _ config_files_here(1) made]
        wpg_sm_Create_config [OF assms(1) _ config_files_here(2) made]
        wpg_sm_Create_config [OF assms(1) _ config_files_here(3) made] assms(3) Q)
      (auto simp: all_stored_def cluster_secret_names_def dest: there)
qed

lemma wpg_finishProvision:
  assumes "cluster_status_echo E" and "nsname c = k" and "view_ok E k (cluster_stored k g)"
    and "all_stored k (fst (cluster_stored k g))"
    and "\<And>e c' g'. view_ok E k (cluster_stored k g') \<Longrightarrow> nsname c' = k \<Longrightarrow> Q (e, c') g'"
  shows "wpg (ok_guard E k) (finishProvision E c) Q g"
proof -
  have ends: "Q (case s of Inl err \<Rightarrow> (Some err, c'') | Inr c' \<Rightarrow> (None, c')) g'"
    if "s = Inr c'' \<or> (\<exists>err. s = Inl err)" and "nsname c'' = k" and "view_ok E k (cluster_stored k g')" for s c'' g'
    using that by (auto intro: assms(5))
  show ?thesis
    unfolding finishProvision_def using assms(1-4)
    by (intro handover_rules wpg_cluster_status ends; simp)
qed

lemma wpg_existingBundle:
  assumes "secret_store E k" and "readable E (fst k, clusterSecretsName (snd k))" and "nsname c = k"
    and "view_ok E k (cluster_stored k g)"
    and Q: "\<And>bs g'. cluster_stored k g' = cluster_stored k g \<Longrightarrow>
      bs = [] \<and> fst (cluster_stored k g) (fst k, clusterSecretsName (snd k)) = None \<or>
        (\<exists>b. loads_as E k (cluster_stored k g) b bs) \<Longrightarrow> Q bs g'"
  shows "wpg (ok_guard E k) (existingBundle E c) Q g"
proof (rule wpg_only_wp_extend [OF _ existingBundle_wp])
  show "only keeps_secrets (existingBundle E c)" by (rule only_keeps_secrets)
qed (use stored_bundle_view [OF assms(1), of g] assms(2-4) in
    \<open>auto simp: handover.keep_own handover.replay_keep nsname_parts intro!: Q\<close>)

lemma wpg_LoadOrGen:
  assumes "bundle_roundtrip E"
    and "bs = [] \<and> fst (cluster_stored k g) (fst k, clusterSecretsName (snd k)) = None \<or>
      (\<exists>b. loads_as E k (cluster_stored k g) b bs)"
    and Q: "\<And>r g'. cluster_stored k g' = cluster_stored k g \<Longrightarrow>
      (\<And>b bs'. r = Inr (b, bs') \<Longrightarrow> loads_as E k (cluster_stored k g) b bs') \<Longrightarrow> Q r g'"
  shows "wpg (ok_guard E k) (LoadOrGenSecretsBundle E bs ver) Q g"
proof (rule wpg_only_wp_extend [OF _ wp_LoadOrGen [OF assms(1,2)]])
  show "only keeps_secrets (LoadOrGenSecretsBundle E bs ver)" by (rule only_keeps_secrets)
qed (auto simp: handover.keep_own handover.replay_keep intro!: Q)

lemma wpg_store_bundle:
  assumes law: "secret_store E k" and ok: "view_ok E k (cluster_stored k g)"
    and loads: "loads_as E k (cluster_stored k g) b bs"
    and Q: "\<And>g'. holds E k b (cluster_stored k g') \<Longrightarrow> Q None g'"
    and failed: "\<And>err g'. view_ok E k (cluster_stored k g') \<Longrightarrow> Q (Some err) g'"
  shows "wpg (ok_guard E k) (sm_Create E sm (clusterSecretsName (snd k)) (fst k) ''secrets.yaml'' bs t) Q g"
proof (rule wpg_sm_Create [OF law _ refl])
  let ?v = "cluster_stored k g" and ?n = "(fst k, clusterSecretsName (snd k))"
  let ?s = "sm_secret sm (clusterSecretsName (snd k)) (fst k) ''secrets.yaml'' bs t"
  have added: "holds E k b ((fst ?v)(?n \<mapsto> ?s), snd ?v)" if "fst ?v ?n = None"
    using view_ok_bundle [OF ok that, of ?s b] loads by (simp add: bundle_of_def loads_as_def)
  then show "view_ok E k ((fst ?v)(?n \<mapsto> ?s), snd ?v)" if "fst ?v ?n = None"
    using that by (simp add: holds_def)
  show "Q None g'" if "fst ?v ?n = None" and "cluster_stored k g' = ((fst ?v)(?n \<mapsto> ?s), snd ?v)" for g'
    using added that by (intro Q) simp
  show "Q None g'" if "fst ?v ?n \<noteq> None" and "cluster_stored k g' = ?v" for g'
    using ok loads that by (intro Q) (auto simp: holds_def loads_as_def bundle_of_def)
qed (simp_all add: ok failed bundle_name)

lemma wpg_provision:
  assumes "secret_store E k" and "readable E (fst k, clusterSecretsName (snd k))" and "bundle_roundtrip E"
    and "cluster_status_echo E" and "nsname c = k" and "view_ok E k (cluster_stored k g)"
    and Q: "\<And>e c' g'. view_ok E k (cluster_stored k g') \<Longrightarrow> nsname c' = k \<Longrightarrow> Q (e, c') g'"
  shows "wpg (ok_guard E k) (provision E c) Q g"
proof -
  have store: "wpg (ok_guard E k) (sm_Create E sm (clusterSecretsName (Name c')) (Namespace c') ''secrets.yaml'' bs t) R g'"
    if "wpg (ok_guard E k) (sm_Create E sm (clusterSecretsName (snd k)) (fst k) ''secrets.yaml'' bs t) R g'"
      and "nsname c' = k" for sm c' bs t R g'
    using that by (simp add: nsname_parts)
  show ?thesis
    unfolding provision_def using assms(2,4-6)
    by (intro wpg_intros only_keeps_secrets(1,2) [THEN handover.wpg_keep] wpg_cluster_status
        wpg_existingBundle [OF assms(1)] wpg_LoadOrGen [OF assms(3)] store wpg_store_bundle [OF assms(1)]
        wpg_storeConfigs [OF assms(1)] wpg_finishProvision Q; auto simp: holds_def)
qed

section \<open>Runs\<close>

definition cluster_update_echo :: "env \<Rightarrow> bool" where
  "cluster_update_echo E \<longleftrightarrow> (\<forall>h c c'. kupdate_cluster (Kube E) h c = Inr c' \<longrightarrow> c' = c)"

definition reads_live :: "env \<Rightarrow> namespaced_name \<Rightarrow> hist \<Rightarrow> bool" where
  "reads_live E k h \<longleftrightarrow>
     (case kget_cluster (Kube E) h k of
        Inl _ \<Rightarrow> True | Inr c \<Rightarrow> nsname c = k \<and> DeletionTimestamp c = None)"

text \<open>The laws, together.\<close>

definition cluster_laws :: "env \<Rightarrow> namespaced_name \<Rightarrow> bool" where
  "cluster_laws E k \<longleftrightarrow>
     secret_store E k \<and> readable E (fst k, clusterSecretsName (snd k)) \<and> bundle_roundtrip E \<and>
     cluster_status_echo E \<and> cluster_update_echo E"

lemma wpg_cluster_setError:
  assumes "cluster_status_echo E" and "nsname c = k" and "view_ok E k (cluster_stored k g)"
  shows "wpg (ok_guard E k) (cluster_setError E R c err) (\<lambda>_ _. True) g"
  unfolding cluster_setError_def using assms
  by (intro handover_rules wpg_cluster_status; simp)

lemma wpg_cluster_Reconcile:
  assumes laws: "cluster_laws E k" and "reads_live E k h" and ok: "view_ok E k (cluster_stored k h)"
  shows "wpg (ok_guard E k) (cluster_Reconcile E R k) (\<lambda>_ _. True) h"
proof (cases "kget_cluster (Kube E) h k")
  case (Inl err)
  then show ?thesis
    unfolding cluster_Reconcile_def get_TalosCluster_def
    by (intro wpg_intros) (simp_all add: handover.keep_own)
next
  case (Inr c)
  with assms(2) have c: "nsname c = k" "DeletionTimestamp c = None" by (simp_all add: reads_live_def)
  have echo: "kupdate_cluster (Kube E) g x = Inr y \<Longrightarrow> y = x" for g x y
    using laws by (simp add: cluster_laws_def cluster_update_echo_def)
  have finalizer: "wpg (ok_guard E k) (ensureFinalizer (update_TalosCluster E) c) Q g"
    if "\<And>e c' g'. cluster_stored k g' = cluster_stored k g \<Longrightarrow> e = None \<longrightarrow> nsname c' = k \<Longrightarrow> Q (e, c') g'"
    for Q g
    unfolding ensureFinalizer_def update_TalosCluster_def using c(1)
    by (intro wpg_intros that)
      (auto simp: handover.keep_own replay_snoc keeps_secrets_step dest!: sym [THEN echo])
  have provision: "wpg (ok_guard E k) (provision E c') Q g"
    if "view_ok E k (cluster_stored k g)" and "nsname c' = k"
      and "\<And>e c' g'. view_ok E k (cluster_stored k g') \<Longrightarrow> nsname c' = k \<Longrightarrow> Q (e, c') g'" for c' Q g
    using laws that by (intro wpg_provision) (simp_all add: cluster_laws_def)
  have setError: "cluster_status_echo E" using laws by (simp add: cluster_laws_def)
  show ?thesis
    unfolding cluster_Reconcile_def get_TalosCluster_def
    apply (intro wpg_bind wpg_ask; simp only: Inr sum.case)
     apply (simp add: handover.keep_own)
    apply (intro wpg_intros only_keeps_secrets [THEN handover.wpg_keep] finalizer provision
        wpg_cluster_setError setError; simp add: c ok replay_snoc keeps_secrets_step)
    done
qed

text \<open>
  The histories of the cluster \<open>k\<close> until it is deleted: reconciles of the live object, and in between any
  events but writes of its four Secrets and statuses that claim Ready in its place.
\<close>

definition written_secret :: "event \<Rightarrow> namespaced_name option" where
  "written_secret e =
     (case e of
        KCreate (OSecret s) _ \<Rightarrow> Some (nsname s) | KUpdate (OSecret s) _ \<Rightarrow> Some (nsname s)
      | KPatch _ (OSecret s) _ \<Rightarrow> Some (nsname s) | KDelete KindSecret k _ \<Rightarrow> Some k
      | _ \<Rightarrow> None)"

definition leaves_cluster :: "namespaced_name \<Rightarrow> event \<Rightarrow> bool" where
  "leaves_cluster k e \<longleftrightarrow>
     (\<forall>n \<in> set (cluster_secret_names (snd k)). written_secret e \<noteq> Some (fst k, n)) \<and> \<not> claims_ready k e"

abbreviation cluster_run :: "env \<Rightarrow> cluster_reconciler \<Rightarrow> namespaced_name \<Rightarrow> hist \<Rightarrow> bool" where
  "cluster_run E R k \<equiv> runs (reads_live E k) (cluster_Reconcile E R k) (leaves_cluster k)"

lemma view_ok_cong:
  assumes "\<And>n. n \<in> set (cluster_secret_names (snd k)) \<Longrightarrow> fst v' (fst k, n) = fst v (fst k, n)"
    and "snd v' \<longleftrightarrow> snd v"
  shows "view_ok E k v' \<longleftrightarrow> view_ok E k v"
  using assms
  by (simp add: view_ok_def same_ca_def configs_from_def all_stored_def cluster_secret_names_def config_files_eq
      cong: option.case_cong)

lemma leaves_cluster_ok: "leaves_cluster k e \<Longrightarrow> keeps_ok E k v e"
  unfolding keeps_ok_def
  by (subst view_ok_cong [of k "cluster_step k v e" v])
    (auto simp: leaves_cluster_def cluster_step_def store_step_def written_secret_def
      split: event.splits kobj.splits kind.splits option.splits)

lemma view_ok_start: "view_ok E k (Map.empty, False)"
  by (simp add: view_ok_def same_ca_def)

lemma cluster_run_ok:
  assumes "cluster_laws E k" and "cluster_run E R k h"
  shows "view_ok E k (cluster_stored k h)"
proof -
  have step: "view_ok E k v \<Longrightarrow> keeps_ok E k v e \<Longrightarrow> view_ok E k (cluster_step k v e)" for v e
    by (simp add: keeps_ok_def)
  have "trace_ok (\<lambda>g. keeps_ok E k (cluster_stored k g)) [] h"
    by (rule handover.runs_trace [where good = "view_ok E k",
          OF wpg_cluster_Reconcile [OF assms(1)] _ _ view_ok_start step assms(2)])
      (simp_all add: leaves_cluster_ok)
  then show ?thesis using handover.good_trace [where good = "view_ok E k", OF view_ok_start step] by blast
qed

text \<open>
  C7. The hand-over of a cluster: in every history of it, whatever creation, update or reconcile fails in
  between, each configuration that is stored was generated from the secrets bundle that is stored, so
  all machines and clients share one CA; and once the cluster was reported Ready, the four Secrets are
  there for good. The reads of the bundle's Secret must not fail while it is there.
\<close>

theorem cluster_handover:
  assumes "cluster_laws E k" and "cluster_run E R k h"
  shows "same_ca E k (stored_secrets h) \<and>
    ((\<exists>c. KStatusUpdate (OCluster c) None \<in> set h \<and> nsname c = k \<and>
        ClusterPhase (ClusterStatus c) = TalosPhaseReady) \<longrightarrow> all_stored k (stored_secrets h))"
  using cluster_run_ok [OF assms]
  by (fastforce simp: view_ok_def cluster_stored_fst cluster_stored_ready claims_ready_def)

end
