(* ===== verification/SampleCluster.thy ===== *)
theory SampleCluster
  imports Sample ClusterRuns
begin

text \<open>
  A cluster that is provisioned in the environment of Sample, and the same step when a read fails.
\<close>

section \<open>The laws of the store\<close>

lemma find_filter:
  "find (\<lambda>x. f x = k) (filter (\<lambda>y. f y \<noteq> k') os) = (if k = k' then None else find (\<lambda>x. f x = k) os)"
  by (induction os) auto

lemma written_if:
  "written (KCreate ob r) = (if r = None then Some ob else None)"
  "written (KUpdate ob r) = (if r = None then Some ob else None)"
  "written (KPatch ob' ob r) = (if r = None then Some ob else None)"
  by (cases r; simp)+

lemma secret_step_find:
  "find (\<lambda>s. nsname s = k) (secret_step os e) = store_step (\<lambda>k. find (\<lambda>s. nsname s = k) os) e k"
  by (cases e)
    (simp_all add: secret_step_def store_step_def put_object_def find_filter written_if
      split: kobj.split kind.split option.split)

lemma find_secret: "find (\<lambda>s. nsname s = k) (secrets_at h) = stored_secrets h k"
proof (induction h arbitrary: k rule: rev_induct)
  case (snoc e h)
  have "secrets_at (h @ [e]) = secret_step (secrets_at h) e" by (simp add: secrets_at_def)
  with snoc show ?case by (simp add: replay_snoc secret_step_find)
qed (simp add: secrets_at_def)

lemma stored_secrets_in: "stored_secrets h k = None \<longleftrightarrow> k \<notin> nsname ` set (secrets_at h)"
  by (auto simp: find_None_iff simp flip: find_secret)

lemma sample_secret:
  "kget_secret sample_kube h k =
     (case stored_secrets h k of None \<Rightarrow> Inl (ErrApi NotFound (snd k)) | Some s \<Rightarrow> Inr s)"
  "kcreate_secret sample_kube h s =
     (case stored_secrets h (nsname s) of None \<Rightarrow> None | Some _ \<Rightarrow> Some (ErrApi AlreadyExists (Name s)))"
  by (auto simp: sample_kube_def find_object_def find_secret stored_secrets_in [symmetric] split: option.split)

lemma sample_secret_api: "secret_api sample_env"
  by (simp add: secret_api_def sample_secret split: option.split)

lemma sample_cluster_laws: "cluster_laws sample_env k"
  by (auto simp: cluster_laws_def secret_store_def readable_def bundle_roundtrip_def cluster_update_echo_def
      sample_echoes sample_secret sample_lib_def split: option.splits secrets_bundle.splits if_splits)
    (simp add: sample_kube_def)

section \<open>A provisioned cluster\<close>

definition sample_new_cluster :: hist where
  "sample_new_cluster = [KCreate (OCluster sample_cluster) None]"

lemma sample_new_cluster_read:
  "kget_cluster sample_kube sample_new_cluster (''ns'', ''c'') = Inr sample_cluster"
  "reads_live sample_env (''ns'', ''c'') sample_new_cluster"
  by (simp_all add: reads_live_def sample_new_cluster_def sample_kube_def clusters_at_def put_object_def
      find_object_def nsname_def sample_cluster_def)

lemma sample_new_cluster_run: "cluster_run sample_env R (''ns'', ''c'') sample_new_cluster"
  using runs_others [OF runs.start, of "leaves_cluster (''ns'', ''c'')" sample_new_cluster]
  by (simp add: sample_new_cluster_def leaves_cluster_def written_secret_def claims_ready_def)

lemma sample_stored:
  "stored_secrets (h @ [e]) = store_step (stored_secrets h) e" "stored_secrets (h @ e # es) = foldl store_step (store_step (stored_secrets h) e) es"
  "stored_secrets sample_new_cluster = Map.empty"
  by (simp_all add: replay_def sample_new_cluster_def store_step_def fun_eq_iff)

lemma sample_new_cluster_reconciled:
  "\<exists>es. snd (run_state (cluster_Reconcile sample_env production_cluster (''ns'', ''c'')) sample_new_cluster) =
       sample_new_cluster @ es \<and> list_ex (claims_ready (''ns'', ''c'')) es"
proof -
  note answers = sample_secret [unfolded sample_stored]
  have status: "kstatus_cluster sample_kube g c = Inr c" for g c by (simp add: sample_kube_def)
  note steps = call_defs getSecret_def emitEvent_def Let_def SetConditionStatus_def set_condition_status_def
    metric_set_def record_cluster_phase_def RecordClusterPhase_def data_lookup_def sm_secret_def nsname_def
  show ?thesis
    unfolding cluster_Reconcile_def ensureFinalizer_def provision_def set_cluster_conditions_def existingBundle_def
      LoadOrGenSecretsBundle_def GenSecretsBundle_def sm_Create_def storeConfigs_def finishProvision_def
    by (simp add: sample_new_cluster_read answers status sample_stored store_step_def steps sample_cluster_def
        ContainsFinalizer_set isUpToDate_def sample_lib_def sample_host_def GenConfig_def NewSecretManager_def
        secret_name_defs condition_type_defs claims_ready_def production_cluster_def split del: if_split)
qed

section \<open>A failed read\<close>

text \<open>
  Why the Secret of the bundle has to be readable: in the same environment, but with reads of Secrets
  that time out, a provisioning that finds its bundle stored by an earlier attempt succeeds with
  configurations of another CA.
\<close>

definition flaky_env :: env where
  "flaky_env = sample_env\<lparr>Kube := sample_kube
     \<lparr>kget_secret := (\<lambda>_ k. Inl (ErrApi (OtherReason ''Timeout'') (snd k)))\<rparr>\<rparr>"

definition sample_bundle :: secret where
  "sample_bundle = newSecret (clusterSecretsName ''c'') ''ns'' ''secrets.yaml'' ''old''"

definition sample_resumed :: hist where
  "sample_resumed = [KCreate (OCluster sample_cluster) None, KCreate (OSecret sample_bundle) None]"

lemma sample_made_from: "made_from flaky_env (SecretsBundle bs) ControlPlane bs' \<Longrightarrow> bs' = bs"
  by (auto simp: made_from_def GenConfig_def flaky_env_def sample_lib_def Let_def neq_Nil_conv split: list.splits)

lemma flaky_read_stored:
  "stored_secrets sample_resumed = Map.empty((''ns'', clusterSecretsName ''c'') \<mapsto> sample_bundle)"
  by (simp add: sample_resumed_def replay_def store_step_def sample_bundle_def)

lemma flaky_read_provisions:
  "\<exists>es c s. run_state (provision flaky_env sample_cluster) sample_resumed = ((None, c), sample_resumed @ es) \<and>
     stored_secrets (sample_resumed @ es) (''ns'', clusterSecretsName ''c'') = Some sample_bundle \<and>
     stored_secrets (sample_resumed @ es) (''ns'', clusterControlPlaneName ''c'') = Some s \<and>
     data_lookup s ''controlplane.yaml'' = Some ''xxxxxxxx''"
proof -
  have stored: "stored_secrets (sample_resumed @ es) =
      foldl store_step (Map.empty((''ns'', clusterSecretsName ''c'') \<mapsto> sample_bundle)) es" for es
    using flaky_read_stored by (simp add: replay_def)
  note answers = sample_secret(2) [of sample_resumed, unfolded flaky_read_stored]
    sample_secret(2) [of "sample_resumed @ es" for es, unfolded stored]
  have status: "kstatus_cluster sample_kube g c = Inr c" for g c by (simp add: sample_kube_def)
  have len: "length sample_resumed = 2" by (simp add: sample_resumed_def)
  have bytes: "replicate 7 CHR ''x'' = ''xxxxxxx''" by (simp add: numeral_eq_Suc)
  have env: "Kube flaky_env = sample_kube\<lparr>kget_secret := (\<lambda>_ k. Inl (ErrApi (OtherReason ''Timeout'') (snd k)))\<rparr>"
    "Host flaky_env = sample_host" "Lib flaky_env = sample_lib"
    by (simp_all add: flaky_env_def)
  note steps = call_defs getSecret_def Let_def SetConditionStatus_def set_condition_status_def
    metric_set_def record_cluster_phase_def RecordClusterPhase_def data_lookup_def sm_secret_def nsname_def
  show ?thesis
    unfolding provision_def set_cluster_conditions_def existingBundle_def
      LoadOrGenSecretsBundle_def GenSecretsBundle_def sm_Create_def storeConfigs_def finishProvision_def
    by (simp add: env len bytes answers status stored store_step_def steps sample_cluster_def
        sample_lib_def sample_host_def GenConfig_def NewSecretManager_def
        secret_name_defs condition_type_defs split del: if_split)
qed


end
