(* ===== verification/World.thy ===== *)
theory World
  imports Wiring ClusterRuns
begin

text \<open>
  The objects that the API server stores after a history, and the environment in which every service
  answers. In it each step of a controller is a function on the stored objects; the rules below say
  which.
\<close>

section \<open>The stored objects\<close>

declare split_paired_All [simp del] split_paired_Ex [simp del]

record world =
  SecretsIn :: "namespaced_name \<Rightarrow> secret option"
  NodesIn :: "namespaced_name \<Rightarrow> talos_node option"
  ClustersIn :: "namespaced_name \<Rightarrow> talos_cluster option"
  BootstrapsIn :: "namespaced_name \<Rightarrow> talos_cluster_bootstrap option"

definition empty_world :: world where
  "empty_world = \<lparr>SecretsIn = Map.empty, NodesIn = Map.empty, ClustersIn = Map.empty, BootstrapsIn = Map.empty\<rparr>"

fun put_in :: "kobj \<Rightarrow> world \<Rightarrow> world" where
  "put_in (OSecret s) w = w\<lparr>SecretsIn := (SecretsIn w)(nsname s \<mapsto> s)\<rparr>"
| "put_in (ONode n) w = w\<lparr>NodesIn := (NodesIn w)(nsname n \<mapsto> n)\<rparr>"
| "put_in (OCluster c) w = w\<lparr>ClustersIn := (ClustersIn w)(nsname c \<mapsto> c)\<rparr>"
| "put_in (OBootstrap b) w = w\<lparr>BootstrapsIn := (BootstrapsIn w)(nsname b \<mapsto> b)\<rparr>"

fun drop_in :: "kind \<Rightarrow> namespaced_name \<Rightarrow> world \<Rightarrow> world" where
  "drop_in KindSecret k w = w\<lparr>SecretsIn := (SecretsIn w)(k := None)\<rparr>"
| "drop_in KindNode k w = w\<lparr>NodesIn := (NodesIn w)(k := None)\<rparr>"
| "drop_in KindCluster k w = w\<lparr>ClustersIn := (ClustersIn w)(k := None)\<rparr>"
| "drop_in KindBootstrap k w = w\<lparr>BootstrapsIn := (BootstrapsIn w)(k := None)\<rparr>"

text \<open>
  An update that takes the last finalizer off an object that is being deleted is the end of it. Secrets
  have no status, and the program gives them no finalizers.
\<close>

definition vanishing :: "('a) object_meta_scheme \<Rightarrow> bool" where
  "vanishing x \<longleftrightarrow> DeletionTimestamp x \<noteq> None \<and> Finalizers x = []"

fun settle :: "kobj \<Rightarrow> world \<Rightarrow> world" where
  "settle (OSecret s) w = put_in (OSecret s) w"
| "settle (ONode n) w = (if vanishing n then drop_in KindNode (nsname n) w else put_in (ONode n) w)"
| "settle (OCluster c) w = (if vanishing c then drop_in KindCluster (nsname c) w else put_in (OCluster c) w)"
| "settle (OBootstrap b) w = (if vanishing b then drop_in KindBootstrap (nsname b) w else put_in (OBootstrap b) w)"

definition world_step :: "world \<Rightarrow> event \<Rightarrow> world" where
  "world_step w e =
     (case e of
        KCreate ob None \<Rightarrow> put_in ob w
      | KUpdate ob None \<Rightarrow> settle ob w
      | KPatch _ ob None \<Rightarrow> put_in ob w
      | KStatusUpdate (OSecret _) None \<Rightarrow> w
      | KStatusUpdate ob None \<Rightarrow> put_in ob w
      | KDelete kd k None \<Rightarrow> drop_in kd k w
      | _ \<Rightarrow> w)"

abbreviation world :: "hist \<Rightarrow> world" where
  "world \<equiv> replay world_step empty_world"

lemma world_append: "world (h @ es) = foldl world_step (world h) es"
  by (simp add: replay_def)

lemma world_step_simps [simp]:
  "world_step w (KCreate ob r) = (if r = None then put_in ob w else w)"
  "world_step w (KUpdate ob r) = (if r = None then settle ob w else w)"
  "world_step w (KPatch ob' ob r) = (if r = None then put_in ob w else w)"
  "world_step w (KDelete kd k r) = (if r = None then drop_in kd k w else w)"
  "world_step w (KStatusUpdate (ONode n) r) = (if r = None then put_in (ONode n) w else w)"
  "world_step w (KStatusUpdate (OCluster c) r) = (if r = None then put_in (OCluster c) w else w)"
  "world_step w (KStatusUpdate (OBootstrap b) r) = (if r = None then put_in (OBootstrap b) w else w)"
  by (cases r; simp add: world_step_def)+

lemma world_secrets: "SecretsIn (world h) = stored_secrets h"
proof (induction h rule: rev_induct)
  case (snoc e h)
  have "SecretsIn (world_step w e) = store_step (SecretsIn w) e" for w
    by (cases e rule: event.exhaust)
      (auto simp: world_step_def store_step_def split: option.split kobj.split kind.split)
  with snoc show ?case by (simp add: replay_snoc)
qed (simp add: empty_world_def)

text \<open>Every object is stored under its name.\<close>

definition well_named :: "world \<Rightarrow> bool" where
  "well_named w \<longleftrightarrow>
     (\<forall>k n. NodesIn w k = Some n \<longrightarrow> nsname n = k) \<and> (\<forall>k c. ClustersIn w k = Some c \<longrightarrow> nsname c = k) \<and>
     (\<forall>k b. BootstrapsIn w k = Some b \<longrightarrow> nsname b = k)"

lemma world_well_named: "well_named (world h)"
proof (induction h rule: rev_induct)
  case (snoc e h)
  have put: "well_named (put_in ob w)" if "well_named w" for ob w
    using that by (cases ob) (auto simp: well_named_def)
  have drop: "well_named (drop_in kd k w)" if "well_named w" for kd k w
    using that by (cases kd) (auto simp: well_named_def)
  have "well_named (settle ob w)" if "well_named w" for ob w
    using that by (cases ob) (simp_all add: put drop del: put_in.simps drop_in.simps)
  with put drop have "well_named (world_step w e)" if "well_named w" for w
    using that by (auto simp: world_step_def simp del: put_in.simps settle.simps split: event.split option.split kobj.split)
  with snoc show ?case by (simp add: replay_snoc)
qed (simp add: well_named_def empty_world_def)

lemma world_named:
  "NodesIn (world h) k = Some n \<Longrightarrow> nsname n = k" "ClustersIn (world h) k = Some c \<Longrightarrow> nsname c = k"
  using world_well_named [of h] by (auto simp: well_named_def)

section \<open>Programs that store nothing\<close>

definition keeps_world :: "event \<Rightarrow> bool" where
  "keeps_world e \<longleftrightarrow> (\<forall>w. world_step w e = w)"

lemma keeps_world_simps [simp]:
  "keeps_world (KGet kd k)" "keeps_world (KList kd ns)" "keeps_world ClockRead" "keeps_world RandRead"
  "keeps_world (MetricSet v ls x)" "keeps_world (MetricInc v ls)" "keeps_world (MetricObserve v ls t)"
  "keeps_world (TNew c r)" "keeps_world (TCall cl r)" "keeps_world (TClose c)"
  "keeps_world (Recorded kd k et s msg)" "keeps_world (RServerVersion rc)" "keeps_world (NewBundle ct)"
  by (simp_all add: keeps_world_def world_step_def)

lemma harmless_keeps_world: "harmless e \<Longrightarrow> keeps_world e"
  by (cases e) (simp_all add: harmless_def keeps_world_def world_step_def)

lemma world_keeps: "list_all keeps_world es \<Longrightarrow> world (g @ es) = world g"
  by (induction es arbitrary: g rule: rev_induct) (simp_all add: replay_snoc keeps_world_def flip: append_assoc)

lemma world_snoc: "keeps_world e \<Longrightarrow> world (g @ [e]) = world g"
  by (simp add: world_keeps)

text \<open>What follows a program that stores nothing is verified for any later history of the same world.\<close>

lemma wp_keeps_world:
  assumes "only keeps_world m" and "\<And>r g'. world g' = world g \<Longrightarrow> Q r g'"
  shows "wp m Q g"
  using assms(1)
proof (rule onlyE [where h = g])
  fix es assume "snd (run_state m g) = g @ es" and "list_all keeps_world es"
  then show ?thesis using assms(2) by (simp add: wp_run_state world_keeps)
qed

lemma only_keeps_world:
  "only keeps_world (record_bootstrap_phase b f t)" "only keeps_world (record_cluster_phase cl f1 t1)"
  "only keeps_world (record_node_phase n f2 t2)" "only keeps_world (emitEvent rc kd ob et s m)"
  "only keeps_world (time_Now E)" "only keeps_world (metric_inc v ls)" "only keeps_world (metric_observe v ls x)"
  "only keeps_world (metric_set v ls y)" "only keeps_world (observe_call E op res st)"
  "only keeps_world (refreshConfigSizeMetric E nd)" "only keeps_world (record_apply_messages msgs cn)"
  unfolding time_Now_def record_cluster_phase_def record_node_phase_def observe_call_def refreshConfigSizeMetric_def
    config_size_labels_def
  by (intro only_intros only_record_apply_messages; simp)+

section \<open>A healthy environment\<close>

text \<open>
  The API server stores what it is given and finds what it stores, the machines accept every connection
  and call, and the API server of the new cluster answers.
\<close>

definition healthy_store :: "kube_api \<Rightarrow> bool" where
  "healthy_store K \<longleftrightarrow>
     (\<forall>h k. kget_secret K h k =
        (case SecretsIn (world h) k of None \<Rightarrow> Inl (ErrApi NotFound (snd k)) | Some s \<Rightarrow> Inr s)) \<and>
     (\<forall>h s. kcreate_secret K h s =
        (case SecretsIn (world h) (nsname s) of None \<Rightarrow> None | Some _ \<Rightarrow> Some (ErrApi AlreadyExists (Name s)))) \<and>
     (\<forall>h k n. NodesIn (world h) k = Some n \<longrightarrow> kget_node K h k = Inr n) \<and>
     (\<forall>h k c. ClustersIn (world h) k = Some c \<longrightarrow> kget_cluster K h k = Inr c) \<and>
     (\<forall>h k b. BootstrapsIn (world h) k = Some b \<longrightarrow> kget_bootstrap K h k = Inr b) \<and>
     (\<forall>h k n. NodesIn (world h) k = Some n \<longrightarrow> (\<exists>items. klist_nodes K h (fst k) = Inr items \<and> n \<in> set items))"

definition healthy_writes :: "kube_api \<Rightarrow> bool" where
  "healthy_writes K \<longleftrightarrow>
     (\<forall>h s. kupdate_secret K h s = Inr s) \<and>
     (\<forall>h n. kupdate_node K h n = Inr n \<and> kstatus_node K h n = Inr n) \<and>
     (\<forall>h c. kupdate_cluster K h c = Inr c \<and> kstatus_cluster K h c = Inr c) \<and>
     (\<forall>h b. kupdate_bootstrap K h b = Inr b \<and> kstatus_bootstrap K h b = Inr b)"

definition healthy :: "env \<Rightarrow> bool" where
  "healthy E \<longleftrightarrow> healthy_store (Kube E) \<and> healthy_writes (Kube E) \<and>
     (\<forall>h c. tnew (Talos E) h c = None) \<and> (\<forall>h c. tcall_unit (Talos E) h c = None) \<and>
     (\<forall>h c. \<exists>msgs. tcall_apply (Talos E) h c = Inr msgs) \<and>
     (\<forall>h c. rserver_version (Remote E) h c = None)"

lemma healthy_reads:
  assumes "healthy E"
  shows "kget_secret (Kube E) h k =
       (case SecretsIn (world h) k of None \<Rightarrow> Inl (ErrApi NotFound (snd k)) | Some s \<Rightarrow> Inr s)"
    "NodesIn (world h) k = Some n \<Longrightarrow> kget_node (Kube E) h k = Inr n"
    "ClustersIn (world h) k = Some c \<Longrightarrow> kget_cluster (Kube E) h k = Inr c"
    "BootstrapsIn (world h) k = Some b \<Longrightarrow> kget_bootstrap (Kube E) h k = Inr b"
  using assms by (auto simp: healthy_def healthy_store_def)

lemma healthy_listed:
  assumes "healthy E" and "NodesIn (world h) k = Some n" and "fst k = ns"
  obtains items where "klist_nodes (Kube E) h ns = Inr items" and "n \<in> set items"
proof -
  have "\<exists>items. klist_nodes (Kube E) h (fst k) = Inr items \<and> n \<in> set items"
    using assms(1,2) by (simp add: healthy_def healthy_store_def)
  then show ?thesis using that assms(3) by blast
qed

lemma healthy_simps:
  assumes "healthy E"
  shows "kstatus_node (Kube E) h n = Inr n" "kstatus_cluster (Kube E) h c = Inr c"
    "kstatus_bootstrap (Kube E) h b = Inr b" "kupdate_secret (Kube E) h s = Inr s" "kupdate_node (Kube E) h n = Inr n"
    "kupdate_cluster (Kube E) h c = Inr c" "kupdate_bootstrap (Kube E) h b = Inr b"
    "kcreate_secret (Kube E) h s =
       (case SecretsIn (world h) (nsname s) of None \<Rightarrow> None | Some _ \<Rightarrow> Some (ErrApi AlreadyExists (Name s)))"
    "tnew (Talos E) h cn = None" "tcall_unit (Talos E) h cl = None" "rserver_version (Remote E) h rc = None"
  using assms by (auto simp: healthy_def healthy_store_def healthy_writes_def)

section \<open>Each step as a function on the world\<close>

lemma wp_conditions:
  assumes "\<And>now g'. world g' = world g \<Longrightarrow> Q (set_condition_status now cs t s r m) g'"
  shows "wp (SetConditionStatus E cs t s r m) Q g"
  by (simp add: wp_SetConditionStatus assms world_snoc)

lemma wp_deferring_close:
  assumes "wp body (\<lambda>r g'. Q r (g' @ [TClose conn])) g"
  shows "wp (deferring_close conn body) Q g"
  using assms by (auto simp: deferring_close_def conn_Close_def wp_simps elim!: wp_mono)

lemmas world_rules = wp_intros wp_conditions wp_deferring_close only_keeps_world [THEN wp_keeps_world]

lemmas status_defs =
  status_update_TalosNode_def status_update_TalosCluster_def status_update_TalosClusterBootstrap_def
  time_Now_def opt_err_def

lemma wp_statuses:
  assumes "healthy E"
  shows "(\<And>g'. world g' = put_in (ONode n) (world g) \<Longrightarrow> QN (Inr n) g') \<Longrightarrow>
      wp (status_update_TalosNode E n) QN g"
    "(\<And>g'. world g' = put_in (OCluster c) (world g) \<Longrightarrow> QC (Inr c) g') \<Longrightarrow>
      wp (status_update_TalosCluster E c) QC g"
    "(\<And>g'. world g' = put_in (OBootstrap b) (world g) \<Longrightarrow> QB (Inr b) g') \<Longrightarrow>
      wp (status_update_TalosClusterBootstrap E b) QB g"
  by (simp_all add: wp_simps status_defs healthy_simps [OF assms] world_append)

lemma wp_updates:
  assumes "healthy E"
  shows "(\<And>g'. world g' = settle (ONode n) (world g) \<Longrightarrow> QN (Inr n) g') \<Longrightarrow> wp (update_TalosNode E n) QN g"
    "(\<And>g'. world g' = settle (OCluster c) (world g) \<Longrightarrow> QC (Inr c) g') \<Longrightarrow> wp (update_TalosCluster E c) QC g"
    "(\<And>g'. world g' = settle (OBootstrap b) (world g) \<Longrightarrow> QB (Inr b) g') \<Longrightarrow>
      wp (update_TalosClusterBootstrap E b) QB g"
  by (simp_all add: wp_simps update_TalosNode_def update_TalosCluster_def update_TalosClusterBootstrap_def opt_err_def
      healthy_simps [OF assms] world_append)

lemma wp_reads:
  assumes "healthy E"
  shows "NodesIn (world g) k = Some n \<Longrightarrow> (\<And>g'. world g' = world g \<Longrightarrow> QN (Inr n) g') \<Longrightarrow>
      wp (get_TalosNode E k) QN g"
    "ClustersIn (world g) k = Some c \<Longrightarrow> (\<And>g'. world g' = world g \<Longrightarrow> QC (Inr c) g') \<Longrightarrow>
      wp (get_TalosCluster E k) QC g"
    "BootstrapsIn (world g) k = Some b \<Longrightarrow> (\<And>g'. world g' = world g \<Longrightarrow> QB (Inr b) g') \<Longrightarrow>
      wp (get_TalosClusterBootstrap E k) QB g"
    "SecretsIn (world g) (ns, nm) = Some s \<Longrightarrow> (\<And>g'. world g' = world g \<Longrightarrow> QS (Inr s) g') \<Longrightarrow>
      wp (getSecret E nm ns) QS g"
  by (simp_all add: wp_simps get_TalosNode_def get_TalosCluster_def get_TalosClusterBootstrap_def healthy_reads [OF assms]
      world_snoc)

lemma wp_connects:
  assumes "healthy E"
  shows "talosconfig_parse (Lib E) tc = Inr cfg \<Longrightarrow> (\<And>c g'. world g' = world g \<Longrightarrow> Q (Inr c) g') \<Longrightarrow>
      wp (conn_Dial E tc ep) Q g"
    "(\<And>c g'. world g' = world g \<Longrightarrow> Q (Inr c) g') \<Longrightarrow> wp (conn_DialInsecure E ep) Q g"
    "(\<And>g'. world g' = world g \<Longrightarrow> QE None g') \<Longrightarrow> wp (conn_Bootstrap E cn ep) QE g"
  by (simp_all add: conn_Dial_def conn_DialInsecure_def NewClient_def NewClientInsecure_def talosclient_New_def
      conn_Bootstrap_def timed_unit_def talos_unit_def observe_call_def time_Now_def wp_simps
      healthy_simps [OF assms] world_append world_step_def Let_def)

text \<open>An object gets its finalizer, unless it has it.\<close>

definition with_finalizer :: "('a object_meta_scheme) \<Rightarrow> 'a object_meta_scheme" where
  "with_finalizer x =
     (if ContainsFinalizer (Finalizers x) FinalizerCleanup then x
      else x\<lparr>Finalizers := AddFinalizer (Finalizers x) FinalizerCleanup\<rparr>)"

lemma with_finalizer_stays [simp]: "\<not> vanishing (with_finalizer x)"
proof -
  have "FinalizerCleanup \<in> set (Finalizers (with_finalizer x))"
    by (simp add: with_finalizer_def ContainsFinalizer_set AddFinalizer_set)
  then show ?thesis by (auto simp: vanishing_def)
qed

lemma wp_ensureFinalizer:
  assumes "\<And>QU. (\<And>g'. world g' = settle (inj' (with_finalizer x)) (world g) \<Longrightarrow> QU (Inr (with_finalizer x)) g') \<Longrightarrow>
      wp (update (with_finalizer x)) QU g"
    and "\<And>g'. world g' = world g \<or> world g' = settle (inj' (with_finalizer x)) (world g) \<Longrightarrow>
      Q (None, with_finalizer x) g'"
  shows "wp (ensureFinalizer update x) Q g"
proof (cases "ContainsFinalizer (Finalizers x) FinalizerCleanup")
  case True
  then show ?thesis using assms(2) by (simp add: ensureFinalizer_def with_finalizer_def wp_simps)
next
  case False
  then have "with_finalizer x = x\<lparr>Finalizers := AddFinalizer (Finalizers x) FinalizerCleanup\<rparr>"
    by (simp add: with_finalizer_def)
  with False show ?thesis
    using assms by (simp add: ensureFinalizer_def Let_def wp_simps)
qed

lemma wp_creates:
  assumes "healthy E"
    and "\<And>g'. world g' = world g\<lparr>SecretsIn := map_insert (sm_secret sm n ns key v t) (SecretsIn (world g))\<rparr> \<Longrightarrow> Q None g'"
  shows "wp (sm_Create E sm n ns key v t) Q g"
proof -
  have "w\<lparr>SecretsIn := SecretsIn w\<rparr> = w" for w :: world by simp
  then show ?thesis
    using assms(2) unfolding sm_Create_def create_Secret_def map_insert_def
    by (cases "SecretsIn (world g) (ns, n)")
      (auto simp: wp_simps healthy_simps [OF assms(1)] world_append map_insert_def sm_secret_def nsname_def)
qed

lemma wp_upserts:
  assumes "healthy E" and "nsname new = (ns, n)" and "\<And>s. nsname s = (ns, n) \<Longrightarrow> nsname (upd s) = (ns, n)"
    and "\<And>g'. world g' = world g\<lparr>SecretsIn := map_upsert (ns, n) new upd (SecretsIn (world g))\<rparr> \<Longrightarrow> Q None g'"
  shows "wp (upsertSecret E n ns new upd) Q g"
  unfolding upsertSecret_def RetryOnConflict_def
proof (rule wp_retry_loop_inv [where I = "\<lambda>g'. g' = g"])
  fix g' assume g': "g' = g"
  show "wp (upsert_once E n ns new upd) (\<lambda>r h'. Q r h' \<and> (is_conflict r \<longrightarrow> h' = g)) g'"
  proof (cases "SecretsIn (world g) (ns, n)")
    case None
    then show ?thesis
      by (auto simp: upsert_once_def wp_simps g' healthy_reads [OF assms(1)] healthy_simps [OF assms(1)] IsNotFound_def
          create_Secret_def assms(2) metric_inc_def world_append world_step_def map_upsert_def is_conflict_def
          intro!: assms(4))
  next
    case (Some s)
    then have "nsname s = (ns, n)" by (simp add: world_secrets stored_secrets_named)
    with Some show ?thesis
      by (auto simp: upsert_once_def wp_simps g' healthy_reads [OF assms(1)] healthy_simps [OF assms(1)] update_Secret_def
          assms(3) opt_err_def metric_inc_def world_append world_step_def map_upsert_def is_conflict_def
          intro!: assms(4))
  qed
qed simp

end
