(* ===== verification/Progress.thy ===== *)
theory Progress
  imports World
begin

text \<open>
  Progress of the bootstrap: when every service answers, one reconcile reaches the goal. The guards of the
  other theories say what is never done; these theorems say that it is done.
\<close>

section \<open>What is left alone\<close>

text \<open>The nodes and clusters are those of \<open>w\<close>, and no Secret of \<open>w\<close> is changed or lost.\<close>

definition grows :: "world \<Rightarrow> world \<Rightarrow> bool" where
  "grows w w' \<longleftrightarrow> NodesIn w' = NodesIn w \<and> ClustersIn w' = ClustersIn w \<and>
     SecretsIn w \<subseteq>\<^sub>m SecretsIn w'"

lemma grows_simps [simp]:
  "grows w w" "grows w (w'\<lparr>BootstrapsIn := bs\<rparr>) = grows w w'"
  by (simp_all add: grows_def)

lemma grows_secret: "grows w w' \<Longrightarrow> SecretsIn w k = Some s \<Longrightarrow> SecretsIn w' k = Some s"
  by (auto simp: grows_def map_le_def dom_def)

lemma grows_new: "grows w w' \<Longrightarrow> SecretsIn w' (nsname s) = None \<Longrightarrow> grows w (put_in (OSecret s) w')"
  by (force simp: grows_def map_le_def)

section \<open>The bootstrap of a cluster\<close>

text \<open>
  A reconcile of the bootstrap object of key \<open>bk\<close> is done when it asks for no other, the kubeconfig is stored
  and the object is one that the next reconcile takes for up to date.
\<close>

definition bootstrap_done ::
    "world \<Rightarrow> namespaced_name \<Rightarrow> namespaced_name \<Rightarrow> reconcile_result \<Rightarrow> hist \<Rightarrow> bool" where
  "bootstrap_done w bk kk r g \<longleftrightarrow> r = (no_requeue, None) \<and> grows w (world g) \<and> SecretsIn (world g) kk \<noteq> None \<and>
     (\<exists>b. BootstrapsIn (world g) bk = Some b \<and> isBootstrapUpToDate b \<and> bootstrapped b)"

lemma bootstrap_done_closed: "bootstrap_done w bk kk r g \<Longrightarrow> bootstrap_done w bk kk r (g @ [TClose c])"
  by (simp add: bootstrap_done_def world_snoc)

lemma completeBootstrap_progress:
  assumes "healthy E" and "ObservedGeneration (BootstrapStatus b) = Generation b" and "bootstrapped b"
    and "grows w (world h)" and "SecretsIn (world h) kk = Some s"
  shows "wp (completeBootstrap E R b) (bootstrap_done w (nsname b) kk) h"
  unfolding completeBootstrap_def bootstrap_done_def
  by (intro world_rules wp_statuses [OF assms(1)];
    use assms(2-) in \<open>auto simp: isBootstrapUpToDate_def condition_type_defs nsname_def\<close>)

text \<open>A kubeconfig is usable when a client can be made of it.\<close>

definition usable_kubeconfig :: "env \<Rightarrow> bootstrap_reconciler \<Rightarrow> bytes \<Rightarrow> bool" where
  "usable_kubeconfig E R kc \<longleftrightarrow>
     kc \<noteq> [] \<and> (\<exists>c. remoteClientOrFallback E (BootstrapNewRemoteClient R) kc = Inr c)"

definition holds_kubeconfig :: "env \<Rightarrow> bootstrap_reconciler \<Rightarrow> secret \<Rightarrow> bool" where
  "holds_kubeconfig E R s \<longleftrightarrow> (\<exists>kc. secretKey s ''kubeconfig'' = Inr kc \<and> usable_kubeconfig E R kc)"

abbreviation kubeconfig_key :: "talos_cluster \<Rightarrow> namespaced_name" where
  "kubeconfig_key c \<equiv> (Namespace c, clusterKubeconfigName (Name c))"

lemma waitForAPIServer_progress:
  assumes "healthy E" and "ObservedGeneration (BootstrapStatus b) = Generation b" and "bootstrapped b"
    and "grows w (world h)" and "SecretsIn (world h) (kubeconfig_key c) = Some s" and "holds_kubeconfig E R s"
  shows "wp (waitForAPIServer E R b c) (bootstrap_done w (nsname b) (kubeconfig_key c)) h"
proof -
  obtain kc rc where kc: "secretKey s ''kubeconfig'' = Inr kc"
    and rc: "remoteClientOrFallback E (BootstrapNewRemoteClient R) kc = Inr rc"
    using assms(6) by (auto simp: holds_kubeconfig_def usable_kubeconfig_def)
  have probe: "wp (probeAPIServer E R s') Q g" if "s = s'" and "\<And>g'. world g' = world g \<Longrightarrow> Q None g'" for s' Q g
    unfolding probeAPIServer_def remote_server_version_def that(1) [symmetric]
    by (simp add: wp_simps kc rc healthy_simps [OF assms(1)] that(2) world_snoc)
  show ?thesis
    unfolding waitForAPIServer_def
    by (intro world_rules wp_reads(4) [OF assms(1), OF assms(5)] probe completeBootstrap_progress [OF assms(1-3)];
      use assms(4,5) in simp)
qed

lemma wp_saveKubeconfig:
  assumes "healthy E" and "usable_kubeconfig E R kc" and "grows w (world g)"
    and "\<And>s. SecretsIn (world g) (kubeconfig_key c) = Some s \<Longrightarrow> holds_kubeconfig E R s"
    and "\<And>g' s. grows w (world g') \<Longrightarrow> SecretsIn (world g') (kubeconfig_key c) = Some s \<Longrightarrow>
      holds_kubeconfig E R s \<Longrightarrow> Q None g'"
  shows "wp (saveKubeconfig E c kc) Q g"
proof -
  let ?s = "newSecret (clusterKubeconfigName (Name c)) (Namespace c) ''kubeconfig'' kc
    \<lparr>OwnerReferences := [\<lparr>OwnerAPIVersion = ''talos.yuriykovalchuk.dev/v1alpha1'', OwnerKind = ''TalosCluster'',
       OwnerName = Name c, OwnerUID = UID c, OwnerController = Some True, OwnerBlockDeletion = None\<rparr>]\<rparr>"
  have s: "nsname ?s = kubeconfig_key c" "holds_kubeconfig E R ?s"
    using assms(2) by (auto simp: holds_kubeconfig_def usable_kubeconfig_def newSecret_def nsname_def secretKey_def data_lookup_def)
  show ?thesis
  proof (cases "SecretsIn (world g) (kubeconfig_key c)")
    case None
    then have "grows w (world (g @ [KCreate (OSecret ?s) None]))"
      using grows_new [OF assms(3), of ?s] by (simp add: world_append s(1))
    moreover have "SecretsIn (world (g @ [KCreate (OSecret ?s) None])) (kubeconfig_key c) = Some ?s"
      by (simp add: world_append s(1))
    ultimately have "Q None (g @ [KCreate (OSecret ?s) None])" using s(2) by (rule assms(5))
    then show ?thesis
      by (simp add: saveKubeconfig_def create_Secret_def Let_def wp_simps healthy_simps [OF assms(1)] s(1) None)
  next
    case (Some t)
    have "Q None (g @ [KCreate (OSecret ?s) (Some (ErrApi AlreadyExists (Name ?s)))])"
      by (rule assms(5) [OF _ _ assms(4) [OF Some]]) (simp_all add: world_append assms(3) Some)
    then show ?thesis
      by (simp add: saveKubeconfig_def create_Secret_def Let_def wp_simps healthy_simps [OF assms(1)] s(1) Some)
  qed
qed

text \<open>
  What is taken for granted of the kubeconfig: the machines hand out a usable one, and so is the one that
  an earlier attempt has stored, if there is one.
\<close>

definition kubeconfig_usable :: "env \<Rightarrow> bootstrap_reconciler \<Rightarrow> talos_cluster \<Rightarrow> world \<Rightarrow> bool" where
  "kubeconfig_usable E R c w \<longleftrightarrow>
     (\<forall>g cl. \<exists>kc. tcall_kubeconfig (Talos E) g cl = Inr kc \<and> usable_kubeconfig E R kc) \<and>
     (\<forall>s. SecretsIn w (kubeconfig_key c) = Some s \<longrightarrow> holds_kubeconfig E R s)"

lemma wp_fetches:
  assumes "kubeconfig_usable E R c w"
    and "\<And>kc g'. usable_kubeconfig E R kc \<Longrightarrow> world g' = world g \<Longrightarrow> Q (Inr kc) g'"
  shows "wp (conn_GetKubeconfig E conn ep) Q g"
proof -
  obtain kc where kc: "tcall_kubeconfig (Talos E) (g @ [ClockRead]) (rpc E conn ep ReqKubeconfig) = Inr kc"
    "usable_kubeconfig E R kc"
    using assms(1) unfolding kubeconfig_usable_def by blast
  show ?thesis
    by (simp add: conn_GetKubeconfig_def talos_kubeconfig_def observe_call_def time_Now_def wp_simps kc(1)
        world_append world_step_def assms(2) [OF kc(2)])
qed

lemma fetchKubeconfig_progress:
  assumes "healthy E" and "ObservedGeneration (BootstrapStatus b) = Generation b" and "bootstrapped b"
    and "grows w (world h)" and "kubeconfig_usable E R c (world h)"
  shows "wp (fetchKubeconfig E R b c conn ep) (bootstrap_done w (nsname b) (kubeconfig_key c)) h"
proof -
  have stored: "SecretsIn (world h) (kubeconfig_key c) = Some s \<Longrightarrow> holds_kubeconfig E R s" for s
    using assms(5) by (simp add: kubeconfig_usable_def)
  have wait: "wp (waitForAPIServer E R b' c) (bootstrap_done w (nsname b) (kubeconfig_key c)) g"
    if "nsname b' = nsname b" and "ObservedGeneration (BootstrapStatus b') = Generation b'" and "bootstrapped b'"
      and "grows w (world g)" and "SecretsIn (world g) (kubeconfig_key c) = Some s" and "holds_kubeconfig E R s" for b' g s
    using waitForAPIServer_progress [OF assms(1) that(2-6)] that(1) by simp
  show ?thesis
    unfolding fetchKubeconfig_def
    by (intro world_rules wp_fetches [OF assms(5)] wp_saveKubeconfig [OF assms(1)] wp_statuses [OF assms(1)] wait;
      use assms(2-4) in \<open>(assumption | auto simp: nsname_def condition_type_defs dest: stored)\<close>)
qed

lemma bootstrapEtcd_progress:
  assumes "healthy E"
    and "\<And>b' g'. grows (world g) (world g') \<Longrightarrow> SecretsIn (world g') = SecretsIn (world g) \<Longrightarrow> nsname b' = nsname b \<Longrightarrow>
      bootstrapped b' \<Longrightarrow> ObservedGeneration (BootstrapStatus b') = ObservedGeneration (BootstrapStatus b) \<Longrightarrow>
      Generation b' = Generation b \<Longrightarrow> Q (Inr b') g'"
  shows "wp (bootstrapEtcd E R b conn ep) Q g"
  unfolding bootstrapEtcd_def markBootstrapped_def
  by (intro world_rules wp_connects(3) [OF assms(1)] wp_statuses [OF assms(1)] assms(2);
    auto simp: condition_type_defs nsname_def)

text \<open>
  What the bootstrap of a cluster waits for: the cluster with an endpoint, a control plane that is Ready and
  the credentials that the cluster controller has stored.
\<close>

definition stores_credentials :: "env \<Rightarrow> string \<Rightarrow> talos_cluster \<Rightarrow> world \<Rightarrow> bool" where
  "stores_credentials E ns c w \<longleftrightarrow>
     (\<exists>s tc cfg. SecretsIn w (ns, clusterTalosconfigName (Name c)) = Some s \<and>
        secretKey s ''talosconfig'' = Inr tc \<and> talosconfig_parse (Lib E) tc = Inr cfg)"

lemma wp_loadTalosconfig:
  assumes "healthy E" and "ClustersIn (world g) (Namespace n, ClusterRef (NodeSpec n)) = Some c"
    and "SecretsIn (world g) (Namespace n, clusterTalosconfigName (Name c)) = Some s" and "secretKey s ''talosconfig'' = Inr tc"
    and "\<And>g'. world g' = world g \<Longrightarrow> Q (Inr (Some (tc, Endpoints (ClusterSpec c)))) g'"
  shows "wp (loadTalosconfig E n) Q g"
proof -
  have secret: "wp (getSecret E (clusterTalosconfigName (Name c')) (Namespace n)) R f"
    if "c' = c" and "world f = world g" and "\<And>f'. world f' = world g \<Longrightarrow> R (Inr s) f'" for c' R f
    unfolding that(1) by (rule wp_reads(4) [OF assms(1)]; use assms(3) that in simp)
  show ?thesis
    unfolding loadTalosconfig_def
    by (intro world_rules wp_reads(2) [OF assms(1,2)] secret; use assms(4,5) in auto)
qed

definition bootstrappable :: "env \<Rightarrow> bootstrap_reconciler \<Rightarrow> talos_cluster_bootstrap \<Rightarrow> talos_cluster \<Rightarrow> world \<Rightarrow> bool" where
  "bootstrappable E R b c w \<longleftrightarrow>
     ClustersIn w (Namespace b, BootstrapClusterRef (BootstrapSpec b)) = Some c \<and>
     Endpoints (ClusterSpec c) \<noteq> [] \<and>
     (\<exists>nm n. NodesIn w (Namespace b, nm) = Some n \<and> ready_control_plane (BootstrapClusterRef (BootstrapSpec b)) n) \<and>
     stores_credentials E (Namespace b) c w \<and> kubeconfig_usable E R c w"

text \<open>
  What an earlier attempt may have left in the status: a kubeconfig is recorded only behind a recorded
  bootstrap, with the Secret there, and for the present generation.
\<close>

definition resumable :: "talos_cluster_bootstrap \<Rightarrow> talos_cluster \<Rightarrow> world \<Rightarrow> bool" where
  "resumable b c w \<longleftrightarrow> (has_kubeconfig b \<longrightarrow>
     bootstrapped b \<and> SecretsIn w (kubeconfig_key c) \<noteq> None \<and> ObservedGeneration (BootstrapStatus b) = Generation b)"

lemma dialBootstrap_progress:
  assumes "healthy E" and "talosconfig_parse (Lib E) tc = Inr cfg" and "eps \<noteq> []"
    and "\<And>conn ep g'. world g' = world g \<Longrightarrow> Q (Some conn, ep, None) g'"
  shows "wp (dialBootstrap E already tc eps) Q g"
  using assms(3) unfolding dialBootstrap_def dialAny_def
  by (cases eps) (auto intro!: wp_intros wp_connects [OF assms(1)] assms(2,4))

lemma talkToTalos_progress:
  assumes "healthy E" and "Endpoints (ClusterSpec c) \<noteq> []" and "stores_credentials E (Namespace b) c (world h)"
    and "kubeconfig_usable E R c (world h)" and "grows w (world h)"
    and "ObservedGeneration (BootstrapStatus b) = Generation b" and "already \<longrightarrow> bootstrapped b"
  shows "wp (talkToTalos E R b c already) (bootstrap_done w (nsname b) (kubeconfig_key c)) h"
proof -
  obtain s tc cfg where creds: "SecretsIn (world h) (Namespace b, clusterTalosconfigName (Name c)) = Some s"
    "secretKey s ''talosconfig'' = Inr tc" "talosconfig_parse (Lib E) tc = Inr cfg"
    using assms(3) unfolding stores_credentials_def by blast
  have dial: "wp (dialBootstrap E already tc' (Endpoints (ClusterSpec c))) Q g"
    if "tc' = tc" and "\<And>conn ep g'. world g' = world g \<Longrightarrow> Q (Some conn, ep, None) g'" for Q g tc'
    using dialBootstrap_progress [OF assms(1) creds(3) assms(2), of g Q] that by blast
  have fetch: "wp (fetchKubeconfig E R b' c conn ep)
      (\<lambda>r g'. bootstrap_done w (nsname b) (kubeconfig_key c) r (g' @ [TClose conn'])) g"
    if "nsname b' = nsname b" and "ObservedGeneration (BootstrapStatus b') = Generation b'" and "bootstrapped b'"
      and "grows w (world g)" and "SecretsIn (world g) = SecretsIn (world h)" for b' conn conn' ep g
  proof -
    have "kubeconfig_usable E R c (world g)"
      using assms(4) that(5) by (simp add: kubeconfig_usable_def)
    from wp_mono [OF fetchKubeconfig_progress [OF assms(1) that(2-4) this] bootstrap_done_closed] that(1)
    show ?thesis by simp
  qed
  have etcd: "wp (bootstrapEtcd E R b conn ep) Q g"
    if "world g = world h" and "\<And>b' g'. grows w (world g') \<Longrightarrow> SecretsIn (world g') = SecretsIn (world h) \<Longrightarrow>
      nsname b' = nsname b \<Longrightarrow> bootstrapped b' \<Longrightarrow> ObservedGeneration (BootstrapStatus b') = Generation b' \<Longrightarrow> Q (Inr b') g'"
    for conn ep Q g
    by (rule bootstrapEtcd_progress [OF assms(1)], rule that(2)) (use assms(5,6) that(1) in \<open>auto simp: grows_def\<close>)
  show ?thesis
    unfolding talkToTalos_def
    by (intro world_rules wp_reads(4) [OF assms(1), OF creds(1)] dial etcd fetch;
      use creds(2) assms(5-7) in \<open>(assumption | simp)\<close>)
qed

lemma startBootstrap_progress:
  assumes "healthy E" and "bootstrappable E R b c (world h)" and "grows w (world h)"
  shows "wp (startBootstrap E R b c) (bootstrap_done w (nsname b) (kubeconfig_key c)) h"
proof -
  have ready: "Endpoints (ClusterSpec c) \<noteq> []" "stores_credentials E (Namespace b) c (world h)"
    "kubeconfig_usable E R c (world h)"
    using assms(2) unfolding bootstrappable_def by blast+
  have talk: "wp (talkToTalos E R b' c already) (bootstrap_done w (nsname b) (kubeconfig_key c)) g"
    if "world g = put_in (OBootstrap b') (world h)" and "nsname b' = nsname b" and "Namespace b' = Namespace b"
      and "ObservedGeneration (BootstrapStatus b') = Generation b'" and "already \<longrightarrow> bootstrapped b'" for g b' already
    unfolding that(2) [symmetric]
    by (rule talkToTalos_progress [OF assms(1) ready(1)])
      (use ready(2,3) assms(3) that in \<open>simp_all add: stores_credentials_def kubeconfig_usable_def\<close>)
  show ?thesis
    unfolding startBootstrap_def
    by (intro world_rules wp_statuses [OF assms(1)] talk; auto simp: nsname_def condition_type_defs)
qed

lemma reconcileBootstrap_progress:
  assumes "healthy E" and "bootstrappable E R b c (world h)" and "resumable b c (world h)"
    and "\<not> isBootstrapUpToDate b" and "grows w (world h)"
  shows "wp (reconcileBootstrap E R b) (bootstrap_done w (nsname b) (kubeconfig_key c)) h"
proof -
  let ?k = "(Namespace b, BootstrapClusterRef (BootstrapSpec b))"
  have cluster: "ClustersIn (world h) ?k = Some c" and endpoints: "Endpoints (ClusterSpec c) \<noteq> []"
    and usable: "kubeconfig_usable E R c (world h)"
    using assms(2) unfolding bootstrappable_def by blast+
  have nodes: "wp (waitForReadyNodes E b) Q g"
    if same: "world g = world h" and Q: "\<And>g'. world g' = world h \<Longrightarrow> Q (no_requeue, True, None, b) g'" for Q g
  proof -
    obtain nm n where n: "NodesIn (world g) (Namespace b, nm) = Some n"
      "ready_control_plane (BootstrapClusterRef (BootstrapSpec b)) n"
      using assms(2) unfolding bootstrappable_def same by blast
    obtain items where items: "klist_nodes (Kube E) g (Namespace b) = Inr items" "n \<in> set items"
      using healthy_listed [OF assms(1) n(1)] by auto
    then have "0 < count_ready (BootstrapClusterRef (BootstrapSpec b)) items 0"
      using n(2) by (auto simp: count_ready_length filter_empty_conv)
    then show ?thesis
      by (simp add: waitForReadyNodes_def readyControlPlaneCount_def list_TalosNodes_def wp_simps items(1) Q world_snoc same)
  qed
  have wait: "wp (waitForAPIServer E R b' c') (bootstrap_done w (nsname b) (kubeconfig_key c)) g"
    if eqs: "b' = b" "c = c'" and same: "world g = world h" and recorded: "has_kubeconfig b" for b' c' g
  proof -
    obtain s where s: "SecretsIn (world g) (kubeconfig_key c) = Some s"
      using assms(3) same recorded by (auto simp: resumable_def)
    then have "holds_kubeconfig E R s" using usable same by (simp add: kubeconfig_usable_def)
    with s show ?thesis
      using assms(3,5) same recorded unfolding eqs(1) eqs(2) [symmetric]
      by (intro waitForAPIServer_progress [OF assms(1)]) (auto simp: resumable_def)
  qed
  have start: "wp (startBootstrap E R b' c') (bootstrap_done w (nsname b) (kubeconfig_key c)) g"
    if "b' = b" and "c = c'" and "world g = world h" for b' c' g
    using startBootstrap_progress [OF assms(1), of R b c g w] assms(2,5) that by simp
  show ?thesis
    unfolding reconcileBootstrap_def
    by (intro world_rules wp_reads(2) [OF assms(1), OF cluster] nodes wait start;
      use assms(4) endpoints in simp)
qed

lemma finalizer_fields [simp]:
  "Namespace (with_finalizer x) = Namespace x" "Name (with_finalizer x) = Name x"
  "Generation (with_finalizer x) = Generation x" "nsname (with_finalizer x) = nsname x"
  "DeletionTimestamp (with_finalizer x) = DeletionTimestamp x" "Annotations (with_finalizer x) = Annotations x"
  by (simp_all add: with_finalizer_def nsname_def)

lemma finalizer_payload [simp]:
  "NodeSpec (with_finalizer n) = NodeSpec n" "NodeStatus (with_finalizer n) = NodeStatus n"
  "ClusterSpec (with_finalizer c) = ClusterSpec c" "ClusterStatus (with_finalizer c) = ClusterStatus c"
  "BootstrapSpec (with_finalizer b) = BootstrapSpec b" "BootstrapStatus (with_finalizer b) = BootstrapStatus b"
  by (simp_all add: with_finalizer_def)

lemma bootstrap_Reconcile_done:
  assumes "healthy E" and "BootstrapsIn (world h) (nsname b) = Some b" and "DeletionTimestamp b = None"
    and "bootstrappable E R b c (world h)" and "resumable b c (world h)" and "\<not> isBootstrapUpToDate b"
  shows "wp (bootstrap_Reconcile E R (nsname b)) (bootstrap_done (world h) (nsname b) (kubeconfig_key c)) h"
proof -
  have run: "wp (reconcileBootstrap E R b') (bootstrap_done (world h) (nsname b) (kubeconfig_key c)) g"
    if "b' = with_finalizer b"
      and "world g = world h \<or> world g = put_in (OBootstrap (with_finalizer b)) (world h)" for b' g
  proof -
    have "bootstrappable E R (with_finalizer b) c (world g)" "resumable (with_finalizer b) c (world g)"
      using that(2) assms(4,5)
      by (elim disjE; simp add: bootstrappable_def resumable_def stores_credentials_def kubeconfig_usable_def)+
    moreover have "\<not> isBootstrapUpToDate (with_finalizer b)" using assms(6) by (simp add: isBootstrapUpToDate_def)
    moreover have "grows (world h) (world g)" using that(2) by auto
    ultimately show ?thesis
      using reconcileBootstrap_progress [OF assms(1), where b = "with_finalizer b" and w = "world h" and h = g]
        that(1) by simp
  qed
  show ?thesis
    unfolding bootstrap_Reconcile_def
    by (intro world_rules wp_reads(3) [OF assms(1), OF assms(2)]
        wp_ensureFinalizer [where inj' = OBootstrap] wp_updates [OF assms(1)] run; use assms(3) in auto)
qed


end
