(* ===== verification/Machines.thy ===== *)
theory Machines
  imports Progress
begin

text \<open>
  What the machines have been told, beside what the API server stores: the images they installed and the
  configurations they run are read off the history. The interface \<open>machine_view\<close> says that nothing but a call
  of the Talos API changes them, and gives each step of a controller as a function on both views.
\<close>

declare split_paired_All [simp del] split_paired_Ex [simp del]

section \<open>The interface\<close>

definition steady :: "('v \<Rightarrow> event \<Rightarrow> 'v) \<Rightarrow> event \<Rightarrow> bool" where
  "steady upd e \<longleftrightarrow> (\<forall>v. upd v e = v)"

definition patches_accepted :: "env \<Rightarrow> bool" where
  "patches_accepted E \<longleftrightarrow> (\<forall>h base n. kpatch_node (Kube E) h base n = Inr n)"

lemma rpc_simps [simp]: "CallReq (rpc E c ip q) = q" "CallNode (rpc E c ip q) = ip"
  by (simp_all add: rpc_def)

locale machine_view =
  fixes upd :: "'v \<Rightarrow> event \<Rightarrow> 'v"
  assumes harmless_upd: "harmless e \<Longrightarrow> upd v e = v"
    and stored_upd: "upd v (KStatusUpdate ob r) = v" "upd v (KPatch b ob r) = v" "upd v (KUpdate ob r) = v"
      "upd v (KCreate ob r) = v" "upd v (HttpDo q) = v"
begin

lemma frame_steady: "frame (steady upd)"
  by (simp add: frame_def steady_def harmless_upd)

lemma steady_simps [simp]:
  "steady upd (KStatusUpdate ob r)" "steady upd (KPatch b ob r)" "steady upd (KUpdate ob r)" "steady upd (KCreate ob r)"
  "steady upd (HttpDo q)" "steady upd (KGet kd k)" "steady upd ClockRead" "steady upd (MetricObserve v ls t)"
  "steady upd (TNew c rs)" "steady upd (TClose c)" "steady upd (TCall (rpc E c ip ReqVersion) rs)"
  "steady upd (TCall (rpc E c ip (ReqCosiGet x y z)) rs)"
  by (simp_all add: steady_def harmless_upd stored_upd)

lemma view_append: "list_all (steady upd) es \<Longrightarrow> replay upd vs (g @ es) = replay upd vs g"
  by (induction es rule: rev_induct) (simp_all add: replay_snoc steady_def flip: append_assoc)

lemma view_snoc: "steady upd e \<Longrightarrow> replay upd vs (g @ [e]) = replay upd vs g"
  by (simp add: view_append)

text \<open>A rule about the stored objects says nothing of the machines; a steady step leaves them as they are.\<close>

lemma wp_steady:
  assumes "only (steady upd) m" and "\<And>P. (\<And>g'. W (world g') \<Longrightarrow> P x g') \<Longrightarrow> wp m P g"
    and "\<And>g'. W (world g') \<Longrightarrow> replay upd vs g' = replay upd vs g \<Longrightarrow> Q x g'"
  shows "wp m Q g"
  using assms(1)
proof (rule onlyE [where h = g])
  fix es assume es: "snd (run_state m g) = g @ es" "list_all (steady upd) es"
  have "wp m (\<lambda>r g'. r = x \<and> W (world g')) g" by (rule assms(2)) simp
  then show ?thesis using assms(3) view_append [OF es(2)] by (simp add: wp_run_state es(1))
qed

lemma wp_unseen:
  assumes "only harmless m" and "\<And>r g'. world g' = world g \<Longrightarrow> replay upd vs g' = replay upd vs g \<Longrightarrow> Q r g'"
  shows "wp m Q g"
  using assms(1)
proof (rule onlyE [where h = g])
  fix es assume "snd (run_state m g) = g @ es" and "list_all harmless es"
  then have es: "snd (run_state m g) = g @ es" "list_all (steady upd) es" "list_all keeps_world es"
    by (auto simp: list_all_iff harmless_upd steady_def harmless_keeps_world)
  then show ?thesis using assms(2) by (simp add: wp_run_state view_append world_keeps)
qed

lemma closed_views [simp]: "replay upd vs (g @ [TClose c]) = replay upd vs g" "world (g @ [TClose c]) = world g"
  by (simp_all add: view_snoc world_snoc)

lemma wp_conditions_view:
  assumes "\<And>now g'. world g' = world g \<Longrightarrow> replay upd vs g' = replay upd vs g \<Longrightarrow> Q (set_condition_status now cs t s r m) g'"
  shows "wp (SetConditionStatus E cs t s r m) Q g"
  by (simp add: wp_SetConditionStatus assms world_snoc view_snoc)

lemmas record_rules = wp_conditions_view frame_reads_config(2,3) [OF frame_harmless(1), THEN wp_unseen]
  only_harmless_emit [THEN wp_unseen] only_harmless_record [THEN wp_unseen] only_harmless_inc [THEN wp_unseen]
  only_harmless_clock [THEN wp_unseen]

lemma wp_node_view:
  assumes "healthy E" and "NodesIn (world g) k = Some n"
    and "\<And>g'. world g' = world g \<Longrightarrow> replay upd vs g' = replay upd vs g \<Longrightarrow> Q (Inr n) g'"
  shows "wp (get_TalosNode E k) Q g"
  using assms(3)
  by (simp add: get_TalosNode_def wp_simps healthy_reads(2) [OF assms(1,2)] world_append view_append world_step_def)

lemma wp_cluster_view:
  assumes "healthy E" and "ClustersIn (world g) k = Some c"
    and "\<And>g'. world g' = world g \<Longrightarrow> replay upd vs g' = replay upd vs g \<Longrightarrow> Q (Inr c) g'"
  shows "wp (get_TalosCluster E k) Q g"
  using assms(3)
  by (simp add: get_TalosCluster_def wp_simps healthy_reads(3) [OF assms(1,2)] world_append view_append world_step_def)

lemma wp_secret_view:
  assumes "healthy E" and "SecretsIn (world g) (ns, nm) = Some s"
    and "\<And>g'. world g' = world g \<Longrightarrow> replay upd vs g' = replay upd vs g \<Longrightarrow> Q (Inr s) g'"
  shows "wp (getSecret E nm ns) Q g"
  using assms(3) by (simp add: wp_simps healthy_reads(1) [OF assms(1)] assms(2) world_append view_append world_step_def)

lemma wp_load_view:
  assumes "healthy E" and "ClustersIn (world g) (Namespace n, ClusterRef (NodeSpec n)) = Some c"
    and "SecretsIn (world g) (Namespace n, clusterTalosconfigName (Name c)) = Some s" and "secretKey s ''talosconfig'' = Inr tc"
    and "\<And>g'. world g' = world g \<Longrightarrow> replay upd vs g' = replay upd vs g \<Longrightarrow> Q (Inr (Some (tc, Endpoints (ClusterSpec c)))) g'"
  shows "wp (loadTalosconfig E n) Q g"
proof (rule wp_steady [where W = "\<lambda>w. w = world g" and vs = vs])
  show "only (steady upd) (loadTalosconfig E n)" by (rule frame_reads(7) [OF frame_steady])
qed (rule wp_loadTalosconfig [OF assms(1-4)], assumption, rule assms(5))

lemma wp_status_view:
  assumes "healthy E" and "\<And>g'. world g' = put_in (ONode n) (world g) \<Longrightarrow> replay upd vs g' = replay upd vs g \<Longrightarrow> Q (Inr n) g'"
  shows "wp (status_update_TalosNode E n) Q g"
  using assms(2) by (simp add: wp_simps status_defs healthy_simps [OF assms(1)] world_append view_append)

lemma wp_patch_view:
  assumes "patches_accepted E"
    and "\<And>m g'. m = n\<lparr>Annotations := delete_annotations (set_annotations (Annotations n) sets) dels\<rparr> \<Longrightarrow>
      world g' = put_in (ONode m) (world g) \<Longrightarrow> replay upd vs g' = replay upd vs g \<Longrightarrow> Q (None, m) g'"
  shows "wp (patchAnnotations E n sets dels) Q g"
  using assms
  by (simp add: patchAnnotations_def patch_TalosNode_def Let_def wp_simps patches_accepted_def opt_err_def
      world_append view_append)

lemma wp_dial_view:
  assumes "healthy E"
  shows "talosconfig_parse (Lib E) tc = Inr cfg \<Longrightarrow>
      (\<And>c g'. world g' = world g \<Longrightarrow> replay upd vs g' = replay upd vs g \<Longrightarrow> Q (Inr c) g') \<Longrightarrow> wp (conn_Dial E tc ep) Q g"
    "(\<And>c g'. world g' = world g \<Longrightarrow> replay upd vs g' = replay upd vs g \<Longrightarrow> Q (Inr c) g') \<Longrightarrow> wp (conn_DialInsecure E ep) Q g"
  by (simp_all add: conn_Dial_def conn_DialInsecure_def NewClient_def NewClientInsecure_def talosclient_New_def wp_simps
      healthy_simps [OF assms(1)] Let_def world_append view_append world_step_def)

lemma wp_ensure_view:
  assumes "healthy E"
    and "\<And>g'. world g' = world g \<or> world g' = put_in (ONode (with_finalizer n)) (world g) \<Longrightarrow>
      replay upd vs g' = replay upd vs g \<Longrightarrow> Q (None, with_finalizer n) g'"
  shows "wp (ensureFinalizer (update_TalosNode E) n) Q g"
proof (rule wp_steady [where W = "\<lambda>w. w = world g \<or> w = put_in (ONode (with_finalizer n)) (world g)" and vs = vs])
  show "only (steady upd) (ensureFinalizer (update_TalosNode E) n)"
    unfolding ensureFinalizer_def update_TalosNode_def by (intro only_intros) simp_all
  show "wp (ensureFinalizer (update_TalosNode E) n) P g"
    if "\<And>g'. world g' = world g \<or> world g' = put_in (ONode (with_finalizer n)) (world g) \<Longrightarrow> P (None, with_finalizer n) g'" for P
    by (rule wp_ensureFinalizer [where inj' = ONode], rule wp_updates(1) [OF assms(1)])
      (use that in \<open>simp_all del: put_in.simps\<close>)
qed (rule assms(2))

end

section \<open>Installed images\<close>

text \<open>\<open>pushed v ip x\<close>: the machine at \<open>ip\<close> got \<open>x\<close>, and no other machine anything.\<close>

definition pushed :: "(string \<Rightarrow> 'a list) \<Rightarrow> string \<Rightarrow> 'a \<Rightarrow> string \<Rightarrow> 'a list" where
  "pushed v ip x = v(ip := x # v ip)"

text \<open>
  The versions that a machine was told to install, the last one first: the tags of the images of all upgrades that it
  accepted. It runs the first of them.
\<close>

definition upgrade_step :: "(string \<Rightarrow> string list) \<Rightarrow> event \<Rightarrow> string \<Rightarrow> string list" where
  "upgrade_step v e =
     (case e of
        TCall c None \<Rightarrow>
          (case CallReq c of ReqUpgrade img _ _ \<Rightarrow> pushed v (CallNode c) (versionFromImage img) | _ \<Rightarrow> v)
      | _ \<Rightarrow> v)"

abbreviation installed :: "(string \<Rightarrow> string list) \<Rightarrow> hist \<Rightarrow> string \<Rightarrow> string list" where
  "installed vs \<equiv> replay upgrade_step vs"

interpretation installs: machine_view upgrade_step
  by unfold_locales
    (auto simp: harmless_def upgrade_step_def split: event.splits option.splits rpc_request.splits)

section \<open>Accepted configurations\<close>

text \<open>The configurations that a machine accepted, the last one first. It runs the first of them.\<close>

definition config_step :: "(string \<Rightarrow> bytes list) \<Rightarrow> event \<Rightarrow> string \<Rightarrow> bytes list" where
  "config_step v e =
     (case e of
        TCall c None \<Rightarrow>
          (case CallReq c of ReqApplyConfiguration bs _ \<Rightarrow> pushed v (CallNode c) bs | _ \<Rightarrow> v)
      | _ \<Rightarrow> v)"

abbreviation active :: "(string \<Rightarrow> bytes list) \<Rightarrow> hist \<Rightarrow> string \<Rightarrow> bytes list" where
  "active cs \<equiv> replay config_step cs"

interpretation configs: machine_view config_step
  by unfold_locales
    (auto simp: harmless_def config_step_def split: event.splits option.splits rpc_request.splits)

lemma wp_applies:
  assumes "healthy E"
    and "\<And>g'. world g' = world g \<Longrightarrow> active cs g' = pushed (active cs g) ip bs \<Longrightarrow> Q None g'"
  shows "wp (conn_ApplyConfig E cn ip bs cl) Q g"
proof -
  obtain msgs where msgs: "tcall_apply (Talos E) (g @ [ClockRead]) (rpc E cn ip (ReqApplyConfiguration bs ApplyAuto)) = Inr msgs"
    using assms(1) unfolding healthy_def by blast
  have recorded: "wp (record_apply_messages msgs cl) P g'"
    if "\<And>g''. world g'' = world g' \<Longrightarrow> active cs g'' = active cs g' \<Longrightarrow> P () g''" for P g'
    by (rule configs.wp_unseen [OF only_record_apply_messages, where vs = cs]) (use that in simp_all)
  show ?thesis
    unfolding conn_ApplyConfig_def talos_apply_def time_Now_def observe_call_def
    by (simp add: wp_simps msgs opt_err_def)
      (intro wp_intros recorded assms(2); simp add: world_append world_step_def replay_def config_step_def)
qed

text \<open>What is started by one reconcile of a node shows in the next one.\<close>

definition reconcile_twice ::
    "env \<Rightarrow> node_reconciler \<Rightarrow> namespaced_name \<Rightarrow> (reconcile_result \<times> reconcile_result) prog" where
  "reconcile_twice E R k = do { r1 \<leftarrow> node_Reconcile E R k; r2 \<leftarrow> node_Reconcile E R k; ret (r1, r2) }"

end
