(* ===== verification/Rollout.thy ===== *)
theory Rollout
  imports Machines
begin

text \<open>
  Progress of clusters and nodes, and of the three controllers together: from the objects that a user
  creates to a running cluster.
\<close>

section \<open>A cluster\<close>

text \<open>What provisioning needs of the library: a bundle and the configurations of the cluster can be generated.\<close>

abbreviation generated_configs :: "env \<Rightarrow> talos_cluster \<Rightarrow> secrets_bundle \<Rightarrow> gerror + cluster_configs" where
  "generated_configs E c b \<equiv> GenConfig E (ClusterName (ClusterSpec c)) (Endpoints (ClusterSpec c))
     (ClusterTalosVersion (ClusterSpec c)) b (KubernetesVersion (ClusterSpec c))"

definition generates :: "env \<Rightarrow> talos_cluster \<Rightarrow> bool" where
  "generates E c \<longleftrightarrow>
     (\<exists>ct. parse_contract (Lib E) (ClusterTalosVersion (ClusterSpec c)) = Inr ct) \<and>
     (\<forall>g ct. \<exists>b bs. new_bundle (Host E) g ct = Inr b \<and> bundle_marshal (Lib E) b = Inr bs) \<and>
     (\<forall>b. \<exists>cfgs. generated_configs E c b = Inr cfgs)"

text \<open>The bundle is a new one, unless one was stored before.\<close>

definition new_made :: "env \<Rightarrow> secrets_bundle \<Rightarrow> bool" where
  "new_made E b \<longleftrightarrow> (\<exists>g ct. new_bundle (Host E) g ct = Inr b)"

definition bundle_source :: "env \<Rightarrow> talos_cluster \<Rightarrow> world \<Rightarrow> secrets_bundle \<Rightarrow> bool" where
  "bundle_source E c w b \<longleftrightarrow>
     new_made E b \<or> SecretsIn w (Namespace c, clusterSecretsName (Name c)) \<noteq> None"

text \<open>The four Secrets of a cluster, in the order of their creation.\<close>

definition cluster_secret :: "talos_cluster \<Rightarrow> string \<Rightarrow> string \<Rightarrow> bytes \<Rightarrow> secret" where
  "cluster_secret c n key v =
     sm_secret (NewSecretManager (Name c) (UID c)) n (Namespace c) key v SecretTypeOpaque"

definition config_secrets :: "talos_cluster \<Rightarrow> cluster_configs \<Rightarrow> secret list" where
  "config_secrets c cfgs =
     [cluster_secret c (clusterControlPlaneName (Name c)) ''controlplane.yaml'' (ControlPlane cfgs),
      cluster_secret c (clusterWorkerName (Name c)) ''worker.yaml'' (Worker cfgs),
      cluster_secret c (clusterTalosconfigName (Name c)) ''talosconfig'' (Talosconfig cfgs)]"

definition cluster_secrets :: "talos_cluster \<Rightarrow> bytes \<Rightarrow> cluster_configs \<Rightarrow> secret list" where
  "cluster_secrets c bs cfgs =
     cluster_secret c (clusterSecretsName (Name c)) ''secrets.yaml'' bs # config_secrets c cfgs"

lemma cluster_secret_simps [simp]:
  "nsname (sm_secret sm n ns key v t) = (ns, n)" "nsname (cluster_secret c n key v) = (Namespace c, n)"
  "data_lookup (cluster_secret c n key v) key' = (if key' = key then Some v else None)"
  by (simp_all add: cluster_secret_def sm_secret_def nsname_def data_lookup_def)

text \<open>
  A reconcile of the cluster \<open>c\<close> is done when it has stored the missing ones of its four Secrets, all made from
  one bundle, and the object is up to date. Nothing else has changed.
\<close>

definition provisioned :: "env \<Rightarrow> world \<Rightarrow> talos_cluster \<Rightarrow> talos_cluster \<Rightarrow> world \<Rightarrow> bool" where
  "provisioned E w c c' w' \<longleftrightarrow>
     isUpToDate c' \<and> nsname c' = nsname c \<and> ClusterSpec c' = ClusterSpec c \<and>
     (\<exists>b bs cfgs. generated_configs E c b = Inr cfgs \<and> bundle_source E c w b \<and>
        w' = w\<lparr>ClustersIn := (ClustersIn w)(nsname c \<mapsto> c'),
               SecretsIn := fold map_insert (cluster_secrets c bs cfgs) (SecretsIn w)\<rparr>)"

definition cluster_done :: "env \<Rightarrow> world \<Rightarrow> talos_cluster \<Rightarrow> reconcile_result \<Rightarrow> hist \<Rightarrow> bool" where
  "cluster_done E w c r g \<longleftrightarrow> r = (no_requeue, None) \<and> (\<exists>c'. provisioned E w c c' (world g))"

lemma wp_loads:
  assumes "generates E c" and "ver = ClusterTalosVersion (ClusterSpec c)"
    and "\<And>b bs g'. world g' = world g \<Longrightarrow> ex = [] \<longrightarrow> new_made E b \<Longrightarrow> Q (Inr (b, bs)) g'"
  shows "wp (LoadOrGenSecretsBundle E ex ver) Q g"
proof -
  obtain ct where ct: "parse_contract (Lib E) (ClusterTalosVersion (ClusterSpec c)) = Inr ct"
    using assms(1) unfolding generates_def by blast
  obtain b bs where b: "new_bundle (Host E) g ct = Inr b" and bs: "bundle_marshal (Lib E) b = Inr bs"
    using assms(1) unfolding generates_def by blast
  have "new_made E b" unfolding new_made_def using b by blast
  then have new: "wp (GenSecretsBundle E ver) Q g"
    using ct b bs by (auto simp: GenSecretsBundle_def secrets_NewBundle_def wp_simps assms(2) world_snoc intro!: assms(3))
  show ?thesis
    unfolding LoadOrGenSecretsBundle_def by (intro wp_intros new assms(3)) simp_all
qed

lemma wp_existing:
  assumes "healthy E" and "\<And>v g'. world g' = world g \<Longrightarrow>
      v \<noteq> [] \<longrightarrow> SecretsIn (world g) (Namespace c, clusterSecretsName (Name c)) \<noteq> None \<Longrightarrow> Q v g'"
  shows "wp (existingBundle E c) Q g"
  by (cases "SecretsIn (world g) (Namespace c, clusterSecretsName (Name c))")
    (auto simp: existingBundle_def wp_simps healthy_reads(1) [OF assms(1)] world_snoc intro!: assms(2))

text \<open>The parts of a provisioning, for an object that has the name, the UID and the spec of \<open>c\<close>.\<close>

definition same_cluster :: "talos_cluster \<Rightarrow> talos_cluster \<Rightarrow> bool" where
  "same_cluster c c' \<longleftrightarrow> Name c' = Name c \<and> Namespace c' = Namespace c \<and> UID c' = UID c \<and> ClusterSpec c' = ClusterSpec c"

lemma same_cluster_simps [simp]:
  "same_cluster c c" "same_cluster c (c'\<lparr>ClusterStatus := st\<rparr>) = same_cluster c c'"
  by (simp_all add: same_cluster_def)

lemma same_clusterD:
  assumes "same_cluster c c'"
  shows "Name c' = Name c" "Namespace c' = Namespace c" "UID c' = UID c" "ClusterSpec c' = ClusterSpec c"
    "nsname c' = nsname c"
  using assms by (simp_all add: same_cluster_def nsname_def)

lemma wp_secret:
  assumes "healthy E" and "sm = NewSecretManager (Name c) (UID c)" and "ns = Namespace c"
    and "\<And>g'. world g' = world g\<lparr>SecretsIn := map_insert (cluster_secret c n key v) (SecretsIn (world g))\<rparr> \<Longrightarrow> Q None g'"
  shows "wp (sm_Create E sm n ns key v SecretTypeOpaque) Q g"
  using assms(2-4) by (intro wp_creates [OF assms(1)]) (simp add: cluster_secret_def)

lemma wp_stores:
  assumes "healthy E" and "sm = NewSecretManager (Name c) (UID c)" and "same_cluster c c'"
    and "\<And>g'. world g' = world g\<lparr>SecretsIn := fold map_insert (config_secrets c cfgs) (SecretsIn (world g))\<rparr> \<Longrightarrow> Q None g'"
  shows "wp (storeConfigs E sm c' cfgs) Q g"
  unfolding storeConfigs_def same_clusterD [OF assms(3)]
  by (intro world_rules wp_secret [OF assms(1,2)]) (simp_all add: config_secrets_def assms(4))

lemma wp_finishes:
  assumes "healthy E" and "same_cluster c c'" and "ObservedGeneration (ClusterStatus c') = Generation c'"
    and "\<And>c'' g'. isUpToDate c'' \<Longrightarrow> same_cluster c c'' \<Longrightarrow> world g' = put_in (OCluster c'') (world g) \<Longrightarrow> Q (None, c'') g'"
  shows "wp (finishProvision E c') Q g"
  unfolding finishProvision_def set_cluster_conditions_def Let_def
  by (intro world_rules wp_statuses [OF assms(1)]) (use assms(2,3) in \<open>auto simp: isUpToDate_def intro!: assms(4)\<close>)

lemma provisionedI:
  assumes "generated_configs E c b = Inr cfgs" and "isUpToDate c'" and "same_cluster c c'" and "bundle_source E c w b"
    and "ClustersIn w' = (ClustersIn w)(nsname c \<mapsto> c')" and "NodesIn w' = NodesIn w" and "BootstrapsIn w' = BootstrapsIn w"
    and "SecretsIn w' = fold map_insert (config_secrets c cfgs)
             (map_insert (cluster_secret c (clusterSecretsName (Name c)) ''secrets.yaml'' bs) (SecretsIn w))"
  shows "provisioned E w c c' w'"
proof -
  have "w' = w\<lparr>ClustersIn := (ClustersIn w)(nsname c \<mapsto> c'),
      SecretsIn := fold map_insert (cluster_secrets c bs cfgs) (SecretsIn w)\<rparr>"
    using assms(5-8) by (simp add: cluster_secrets_def world.equality)
  with assms(1-4) show ?thesis
    unfolding provisioned_def by (auto simp: same_clusterD)
qed

lemma provision_done:
  assumes "healthy E" and "generates E c" and "Endpoints (ClusterSpec c) \<noteq> []"
    and "\<And>c' g'. provisioned E (world h) c c' (world g') \<Longrightarrow> Q (None, c') g'"
  shows "wp (provision E c) Q h"
proof -
  have gen: "\<exists>cfgs. generated_configs E c b = Inr cfgs" for b
    using assms(2) unfolding generates_def by blast
  then have no_err: "generated_configs E c b \<noteq> Inl err" for b err
    by (metis sum.distinct(1))
  have secret: "wp (sm_Create E (NewSecretManager (Name c') (UID c')) (clusterSecretsName (Name c')) (Namespace c')
          ''secrets.yaml'' bs SecretTypeOpaque) P g"
    if "same_cluster c c'" and "\<And>g'. world g' = (world g)
        \<lparr>SecretsIn := map_insert (cluster_secret c (clusterSecretsName (Name c)) ''secrets.yaml'' bs) (SecretsIn (world g))\<rparr> \<Longrightarrow>
      P None g'" for c' bs P g
    unfolding same_clusterD [OF that(1)] by (intro wp_secret [OF assms(1)] that(2)) simp_all
  have stores: "wp (storeConfigs E (NewSecretManager (Name c') (UID c')) c' cfgs) P g"
    if "same_cluster c c'" and "\<And>g'. world g' =
      (world g)\<lparr>SecretsIn := fold map_insert (config_secrets c cfgs) (SecretsIn (world g))\<rparr> \<Longrightarrow> P None g'" for c' cfgs P g
    by (rule wp_stores [OF assms(1)]) (use that in \<open>simp_all add: same_clusterD\<close>)
  have finishes: "wp (finishProvision E c') P g"
    if "same_cluster c c'" and "ObservedGeneration (ClusterStatus c') = Generation c'"
      and "\<And>c'' g'. isUpToDate c'' \<Longrightarrow> same_cluster c c'' \<Longrightarrow> world g' = put_in (OCluster c'') (world g) \<Longrightarrow> P (None, c'') g'"
    for c' P g
    by (rule wp_finishes [OF assms(1)]) (use that in simp_all)
  have begins: "wp (status_update_TalosCluster E c') P g"
    if "same_cluster c c'" and "ObservedGeneration (ClusterStatus c') = Generation c'"
      and "\<And>c'' g'. same_cluster c c'' \<Longrightarrow> ObservedGeneration (ClusterStatus c'') = Generation c'' \<Longrightarrow>
        world g' = put_in (OCluster c'') (world g) \<Longrightarrow> P (Inr c'') g'" for c' P g
    using that by (intro wp_statuses [OF assms(1)])
  show ?thesis
    unfolding provision_def set_cluster_conditions_def Let_def
    by (intro world_rules wp_loads [OF assms(2)] secret begins wp_existing [OF assms(1)] stores finishes assms(4))
      (use assms(3) no_err in \<open>auto simp: bundle_source_def same_clusterD intro!: provisionedI\<close>)
qed

lemma cluster_Reconcile_done:
  assumes "healthy E" and "generates E c" and "ClustersIn (world h) (nsname c) = Some c" and "DeletionTimestamp c = None"
    and "Endpoints (ClusterSpec c) \<noteq> []" and "\<not> isUpToDate c"
  shows "wp (cluster_Reconcile E R (nsname c)) (cluster_done E (world h) c) h"
proof -
  have secrets: "cluster_secrets (with_finalizer c) bs cfgs = cluster_secrets c bs cfgs" for bs cfgs
    by (simp add: cluster_secrets_def config_secrets_def cluster_secret_def with_finalizer_def)
  have stored: "provisioned E (world h) c c' w'"
    if made: "provisioned E (world g) (with_finalizer c) c' w'"
      and begun: "world g = world h \<or> world g = put_in (OCluster (with_finalizer c)) (world h)" for g c' w'
  proof -
    obtain b bs cfgs where "generated_configs E (with_finalizer c) b = Inr cfgs"
        "bundle_source E (with_finalizer c) (world g) b"
        "w' = world g\<lparr>ClustersIn := (ClustersIn (world g))(nsname (with_finalizer c) \<mapsto> c'),
          SecretsIn := fold map_insert (cluster_secrets (with_finalizer c) bs cfgs) (SecretsIn (world g))\<rparr>"
      and "isUpToDate c'" "nsname c' = nsname c" "ClusterSpec c' = ClusterSpec c"
      using made by (auto simp: provisioned_def)
    then show ?thesis
      unfolding provisioned_def using begun secrets [of bs cfgs]
      by (intro conjI exI [of _ b] exI [of _ bs] exI [of _ cfgs]) (auto simp: bundle_source_def)
  qed
  have run: "wp (provision E c') Q g"
    if "c' = with_finalizer c" and "world g = world h \<or> world g = put_in (OCluster (with_finalizer c)) (world h)"
      and "\<And>c'' g' g''. provisioned E (world h) c c'' (world g') \<Longrightarrow> Q (None, c'') g'" for c' Q g
  proof -
    have "generates E (with_finalizer c)" using assms(2) by (simp add: generates_def)
    then show ?thesis
      unfolding that(1) using assms(5) stored [OF _ that(2)] by (intro provision_done [OF assms(1)] that(3)) simp_all
  qed
  show ?thesis
    unfolding cluster_Reconcile_def
    by (intro world_rules wp_reads(2) [OF assms(1), OF assms(3)] wp_ensureFinalizer [where inj' = OCluster]
        wp_updates [OF assms(1)] run; use assms(4,6) in \<open>auto simp: isUpToDate_def cluster_done_def\<close>)
qed


section \<open>A node\<close>

text \<open>
  The configuration of a node as a function of the stored Secrets: the base of its role, patched inline and
  from Secrets, and marshalled; nothing if one of them is missing or cannot be parsed.
\<close>

fun secret_patches ::
    "env \<Rightarrow> secrets \<Rightarrow> string \<Rightarrow> secret_key_selector list \<Rightarrow> ymap option \<times> string list \<Rightarrow>
     (ymap option \<times> string list) option" where
  "secret_patches E m ns [] acc = Some acc"
| "secret_patches E m ns (ref # refs) (base, docs) =
     (case Option.bind (m (ns, SelName ref)) (\<lambda>s. data_lookup s (SelKey ref)) of
        None \<Rightarrow> None
      | Some raw \<Rightarrow>
          (case applyRawPatch E raw base docs of
             Inl _ \<Rightarrow> None
           | Inr acc \<Rightarrow> secret_patches E m ns refs acc))"

definition rendered :: "env \<Rightarrow> secrets \<Rightarrow> string \<Rightarrow> talos_node_spec \<Rightarrow> bytes option" where
  "rendered E m ns spec =
     (let (n, key) = config_source (Role spec) (ClusterRef spec) in
      case m (ns, n) of
        None \<Rightarrow> None
      | Some s \<Rightarrow>
     (case secretKey s key of
        Inl _ \<Rightarrow> None
      | Inr bytes \<Rightarrow>
     (case yaml_unmarshal (Lib E) bytes of
        Inl _ \<Rightarrow> None
      | Inr base \<Rightarrow>
     (case applyInlinePatches E (Patches spec) base [] of
        Inl _ \<Rightarrow> None
      | Inr acc \<Rightarrow>
     (case secret_patches E m ns (PatchesFrom spec) acc of
        None \<Rightarrow> None
      | Some (base, docs) \<Rightarrow>
     (case yaml_marshal (Lib E) base of
        Inl _ \<Rightarrow> None
      | Inr bs \<Rightarrow> Some (appendDocuments bs docs)))))))"

lemma wp_secret_patches:
  assumes "healthy E" and "secret_patches E (SecretsIn (world g)) ns refs (base, docs) = Some acc"
    and "\<And>g'. world g' = world g \<Longrightarrow> Q (Inr acc) g'"
  shows "wp (applySecretPatches E ns refs base docs) Q g"
  using assms(2,3)
proof (induction refs arbitrary: base docs g)
  case Nil
  then show ?case by (simp add: wp_simps)
next
  case (Cons ref refs)
  from Cons.prems(1) obtain s raw base' docs' where s: "SecretsIn (world g) (ns, SelName ref) = Some s"
    "data_lookup s (SelKey ref) = Some raw" "applyRawPatch E raw base docs = Inr (base', docs')"
    and rest: "secret_patches E (SecretsIn (world g)) ns refs (base', docs') = Some acc"
    by (auto simp: bind_eq_Some_conv split: option.splits sum.splits)
  have "wp (applySecretPatches E ns refs base' docs') Q g'" if "world g' = world g" for g'
    using Cons.IH [of g' base' docs'] Cons.prems(2) rest that by simp
  then show ?case
    by (simp add: wp_simps healthy_reads(1) [OF assms(1)] s world_snoc)
qed

lemma wp_renders:
  assumes "healthy E" and "rendered E (SecretsIn (world g)) (Namespace n) (NodeSpec n) = Some bs"
    and "Name c = ClusterRef (NodeSpec n)" and "\<And>g'. world g' = world g \<Longrightarrow> Q (Inr bs) g'"
  shows "wp (renderConfig E n c) Q g"
proof -
  obtain nm key s bytes base acc base' docs' bs' where
    src: "config_source (Role (NodeSpec n)) (ClusterRef (NodeSpec n)) = (nm, key)"
    and s: "SecretsIn (world g) (Namespace n, nm) = Some s" "secretKey s key = Inr bytes"
      "yaml_unmarshal (Lib E) bytes = Inr base" "applyInlinePatches E (Patches (NodeSpec n)) base [] = Inr acc"
    and patched: "secret_patches E (SecretsIn (world g)) (Namespace n) (PatchesFrom (NodeSpec n)) acc = Some (base', docs')"
    and bs: "yaml_marshal (Lib E) base' = Inr bs'" "bs = appendDocuments bs' docs'"
    using assms(2) unfolding rendered_def
    by (auto split: prod.splits option.splits sum.splits)
  obtain base0 docs0 where acc: "acc = (base0, docs0)" by (cases acc)
  show ?thesis
    by (simp add: renderConfig_def Let_def src wp_simps assms(3,4) healthy_reads(1) [OF assms(1)] s acc)
      (rule wp_secret_patches [where acc = "(base', docs')", OF assms(1)], use patched in \<open>simp_all add: acc bs wp_simps assms(4) [unfolded bs(2)] world_snoc\<close>)
qed

text \<open>
  A node \<open>n\<close> is configured when its configuration is stored in its Secret and the object is up to date.
  Nothing else has changed.
\<close>

definition same_node :: "talos_node \<Rightarrow> talos_node \<Rightarrow> bool" where
  "same_node n n' \<longleftrightarrow> nsname n' = nsname n \<and> NodeSpec n' = NodeSpec n"

text \<open>What decides, beside the specification, on what the next reconcile does.\<close>

definition same_claims :: "talos_node \<Rightarrow> talos_node \<Rightarrow> bool" where
  "same_claims n n' \<longleftrightarrow> DeletionTimestamp n' = DeletionTimestamp n \<and> Annotations n' = Annotations n \<and>
     CurrentTalosVersion (NodeStatus n') = CurrentTalosVersion (NodeStatus n)"

definition node_secrets :: "talos_node \<Rightarrow> bytes \<Rightarrow> secrets \<Rightarrow> secrets" where
  "node_secrets n bs = map_upsert (Namespace n, nodeConfigName (Name n))
     (newSecret (nodeConfigName (Name n)) (Namespace n) ''config.yaml'' bs) (\<lambda>s. s\<lparr>Data := Some [''config.yaml'' \<mapsto> bs]\<rparr>)"

definition configured :: "world \<Rightarrow> talos_node \<Rightarrow> bytes \<Rightarrow> talos_node \<Rightarrow> world \<Rightarrow> bool" where
  "configured w n bs n' w' \<longleftrightarrow>
     isNodeUpToDate n' \<and> same_node n n' \<and> same_claims n n' \<and> ClustersIn w' = ClustersIn w \<and> BootstrapsIn w' = BootstrapsIn w \<and>
     NodesIn w' = (NodesIn w)(nsname n \<mapsto> n') \<and> SecretsIn w' = node_secrets n bs (SecretsIn w)"

lemma same_node_simps [simp]:
  "same_node n n" "same_node n (n'\<lparr>NodeStatus := st\<rparr>) = same_node n n'"
  by (simp_all add: same_node_def nsname_def)

lemma same_nodeD:
  assumes "same_node n n'"
  shows "Name n' = Name n" "Namespace n' = Namespace n" "NodeSpec n' = NodeSpec n" "nsname n' = nsname n"
  using assms by (simp_all add: same_node_def nsname_def)

lemma wp_saves:
  assumes "healthy E" and "same_node n n'"
    and "\<And>g'. world g' = world g\<lparr>SecretsIn := node_secrets n bs (SecretsIn (world g))\<rparr> \<Longrightarrow> active cs g' = active cs g \<Longrightarrow>
      Q None g'"
  shows "wp (saveNodeConfig E n' bs) Q g"
proof (rule configs.wp_steady [where vs = cs])
  show "only (steady config_step) (saveNodeConfig E n' bs)"
    by (rule frame_saveNodeConfig [OF configs.frame_steady]) simp_all
  show "wp (saveNodeConfig E n' bs) P g"
    if "\<And>g'. world g' = world g\<lparr>SecretsIn := node_secrets n bs (SecretsIn (world g))\<rparr> \<Longrightarrow> P None g'" for P
    unfolding saveNodeConfig_def same_nodeD [OF assms(2)]
    by (intro world_rules wp_upserts [OF assms(1)] that) (auto simp: newSecret_def nsname_def node_secrets_def)
qed (rule assms(3))

lemma applyConfig_done:
  assumes "healthy E" and "ClustersIn (world h) (Namespace n, ClusterRef (NodeSpec n)) = Some c"
    and "rendered E (SecretsIn (world h)) (Namespace n) (NodeSpec n) = Some bs"
    and "stores_credentials E (Namespace n) c (world h)"
    and "\<And>n' g'. configured (world h) n bs n' (world g') \<Longrightarrow> active cs g' = pushed (active cs h) (NodeIP (NodeSpec n)) bs \<Longrightarrow>
      Q (None, n') g'"
  shows "wp (applyConfig E n) Q h"
proof -
  have name: "Name c = ClusterRef (NodeSpec n)"
    using world_named(2) [OF assms(2)] by (simp add: nsname_def)
  obtain s tc cfg where creds: "SecretsIn (world h) (Namespace n, clusterTalosconfigName (Name c)) = Some s"
    "secretKey s ''talosconfig'' = Inr tc" "talosconfig_parse (Lib E) tc = Inr cfg"
    using assms(4) unfolding stores_credentials_def by blast
  have begins: "wp (status_update_TalosNode E n') P g"
    if "same_node n n'" and "same_claims n n'" and "ObservedGeneration (NodeStatus n') = Generation n'"
      and "\<And>n'' g'. same_node n n'' \<Longrightarrow> same_claims n n'' \<Longrightarrow> ObservedGeneration (NodeStatus n'') = Generation n'' \<Longrightarrow>
        isNodeUpToDate n'' = isNodeUpToDate n' \<Longrightarrow> world g' = world g\<lparr>NodesIn := (NodesIn (world g))(nsname n \<mapsto> n'')\<rparr> \<Longrightarrow>
        active cs g' = active cs g \<Longrightarrow> P (Inr n'') g'" for n' P g
    by (rule configs.wp_status_view [OF assms(1), where vs = cs])
      (use that in \<open>simp add: same_nodeD\<close>)
  have cluster: "wp (get_TalosCluster E (Namespace n', ClusterRef (NodeSpec n'))) P g"
    if "same_node n n'" and "ClustersIn (world g) = ClustersIn (world h)"
      and "\<And>g'. world g' = world g \<Longrightarrow> active cs g' = active cs g \<Longrightarrow> P (Inr c) g'" for n' P g
    unfolding same_nodeD [OF that(1)]
    by (rule configs.wp_cluster_view [OF assms(1), where vs = cs]) (use assms(2) that(2,3) in simp_all)
  have renders: "wp (renderConfig E n' c') P g"
    if "same_node n n'" and "c' = c" and "SecretsIn (world g) = SecretsIn (world h)"
      and "\<And>g'. world g' = world g \<Longrightarrow> active cs g' = active cs g \<Longrightarrow> P (Inr bs) g'" for n' c' P g
  proof (rule configs.wp_steady [where W = "\<lambda>w. w = world g" and vs = cs])
    show "only (steady config_step) (renderConfig E n' c')" by (rule frame_renderConfig) simp
    show "wp (renderConfig E n' c') R g" if "\<And>g'. world g' = world g \<Longrightarrow> R (Inr bs) g'" for R
      by (rule wp_renders [OF assms(1), where bs = bs])
        (use that \<open>same_node n n'\<close> \<open>c' = c\<close> \<open>SecretsIn (world g) = _\<close> name assms(3) in \<open>simp_all add: same_nodeD\<close>)
  qed (rule that(4))
  have credentials: "wp (getSecret E (clusterTalosconfigName (Name c')) (Namespace n')) P g"
    if "same_node n n'" and "c' = c" and "SecretsIn (world g) = SecretsIn (world h)"
      and "\<And>g'. world g' = world g \<Longrightarrow> active cs g' = active cs g \<Longrightarrow> P (Inr s) g'" for n' c' P g
    unfolding same_nodeD [OF that(1)] that(2)
    by (rule configs.wp_secret_view [OF assms(1), where vs = cs]) (use creds(1) that(3,4) in simp_all)
  have dials: "wp (dialForApply E first tc' ip) P g"
    if "tc' = Inr tc" and "\<And>conn g'. world g' = world g \<Longrightarrow> active cs g' = active cs g \<Longrightarrow> P (Inr conn) g'"
    for first tc' ip P g
    unfolding dialForApply_def that(1)
    by (intro wp_intros configs.wp_dial_view [OF assms(1), where vs = cs]; use creds(3) that(2) in \<open>(assumption | simp)\<close>)
  show ?thesis
    unfolding applyConfig_def pushConfig_def finishApply_def Let_def
    by (intro wp_intros wp_deferring_close configs.record_rules [where vs = cs] begins cluster renders credentials dials
        wp_applies [OF assms(1), where cs = cs] wp_saves [OF assms(1), where cs = cs] assms(5))
      (use creds(2) in \<open>auto simp: same_nodeD configured_def isNodeUpToDate_def same_claims_def\<close>)
qed

lemma reconcileVersion_skipped:
  assumes "TalosVersion (NodeSpec n) = [] \<or>
      \<not> HasCondition (Conditions (NodeStatus n)) TalosNodeConditionConfigApplied ConditionTrue"
  shows "reconcileVersion E R n = ret (no_requeue, False, None, n)"
  using assms by (auto simp: reconcileVersion_def)

text \<open>
  A node that waits for its configuration: no upgrade is under way or asked for, no reset is asked for,
  and its version is left to the configuration.
\<close>

definition awaits_config :: "talos_node \<Rightarrow> bool" where
  "awaits_config n \<longleftrightarrow>
     DeletionTimestamp n = None \<and> NodePhase (NodeStatus n) \<noteq> TalosNodePhaseUpgrading \<and>
     \<not> fresh_request n AnnotationUpgrade AnnotationLastUpgrade \<and> \<not> fresh_request n AnnotationReset AnnotationLastReset \<and>
     (TalosVersion (NodeSpec n) = [] \<or>
      \<not> HasCondition (Conditions (NodeStatus n)) TalosNodeConditionConfigApplied ConditionTrue) \<and>
     \<not> isNodeUpToDate n"

definition node_done :: "world \<Rightarrow> talos_node \<Rightarrow> bytes \<Rightarrow> reconcile_result \<Rightarrow> hist \<Rightarrow> bool" where
  "node_done w n bs r g \<longleftrightarrow>
     r = (if driftEnabled n then requeue_after driftCheckInterval else no_requeue, None) \<and>
     (\<exists>n'. configured w n bs n' (world g))"

lemma node_Reconcile_done:
  assumes "healthy E" and "NodesIn (world h) (nsname n) = Some n" and "awaits_config n"
    and "ClustersIn (world h) (Namespace n, ClusterRef (NodeSpec n)) = Some c"
    and "rendered E (SecretsIn (world h)) (Namespace n) (NodeSpec n) = Some bs"
    and "stores_credentials E (Namespace n) c (world h)"
  shows "wp (node_Reconcile E R (nsname n))
     (\<lambda>r g. node_done (world h) n bs r g \<and> active cs g = pushed (active cs h) (NodeIP (NodeSpec n)) bs) h"
proof -
  let ?done = "\<lambda>r g. node_done (world h) n bs r g \<and> active cs g = pushed (active cs h) (NodeIP (NodeSpec n)) bs"
  have run: "wp (reconcileLive E R n') ?done g"
    if n': "n' = with_finalizer n" and begun: "world g = world h \<or> world g = put_in (ONode (with_finalizer n)) (world h)"
      and still: "active cs g = active cs h" for n' g
  proof -
    have apply_it: "wp (applyConfig E n') P g'"
      if "g' = g" and "\<And>n'' g'. configured (world h) n bs n'' (world g') \<Longrightarrow>
        active cs g' = pushed (active cs h) (NodeIP (NodeSpec n)) bs \<Longrightarrow> P (None, n'') g'" for P g'
      unfolding that(1)
    proof (rule applyConfig_done [OF assms(1), where cs = cs])
      show "ClustersIn (world g) (Namespace n', ClusterRef (NodeSpec n')) = Some c"
        "rendered E (SecretsIn (world g)) (Namespace n') (NodeSpec n') = Some bs"
        "stores_credentials E (Namespace n') c (world g)"
        using assms(4-6) begun n' by (auto simp: stores_credentials_def)
      fix n'' g'' assume "configured (world g) n' bs n'' (world g'')"
        and "active cs g'' = pushed (active cs g) (NodeIP (NodeSpec n')) bs"
      then have "configured (world h) n bs n'' (world g'')" "active cs g'' = pushed (active cs h) (NodeIP (NodeSpec n)) bs"
        using begun still n' by (auto simp: configured_def same_node_def same_claims_def node_secrets_def)
      then show "P (None, n'') g''" by (rule that(2))
    qed
    have "reconcileVersion E R n' = ret (no_requeue, False, None, n')"
      using assms(3) n' by (intro reconcileVersion_skipped) (simp add: awaits_config_def)
    moreover have "wp (reconcileConfig E R n') ?done g"
      unfolding reconcileConfig_def
      by (intro wp_intros configs.record_rules [where vs = cs] apply_it;
        use assms(3) n' in \<open>auto simp: awaits_config_def isNodeUpToDate_def node_done_def driftEnabled_def configured_def same_node_def\<close>)
    ultimately show ?thesis
      using assms(3) n' by (auto simp: reconcileLive_def Let_def wp_simps awaits_config_def fresh_request_def)
  qed
  have ensured: "wp (ensureFinalizer (update_TalosNode E) m) P g"
    if "m = n" and "world g = world h" and "active cs g = active cs h"
      and "\<And>g'. world g' = world h \<or> world g' = put_in (ONode (with_finalizer n)) (world h) \<Longrightarrow> active cs g' = active cs h \<Longrightarrow>
        P (None, with_finalizer n) g'" for m P g
    unfolding that(1) by (rule configs.wp_ensure_view [OF assms(1), where vs = cs]) (use that in simp)
  show ?thesis
    unfolding node_Reconcile_def
    by (intro wp_intros configs.wp_node_view [OF assms(1,2), where vs = cs] ensured run configs.record_rules [where vs = cs])
      (use assms(3) in \<open>auto simp: awaits_config_def simp del: put_in.simps\<close>)
qed

text \<open>
  C16. Configuring makes progress: when every service answers, one reconcile of a node that waits for its
  configuration, and whose configuration the stored Secrets give, ends without an error, with exactly that
  configuration running on the machine and stored in the Secret of the node, and with an object that counts as
  up to date; the next reconcile comes after the interval of the drift check, if that is enabled. No other
  machine gets a configuration, and no other object is changed.
\<close>

theorem node_progress:
  assumes "healthy E" and "NodesIn (world h) (nsname n) = Some n" and "awaits_config n"
    and "ClustersIn (world h) (Namespace n, ClusterRef (NodeSpec n)) = Some c"
    and "rendered E (SecretsIn (world h)) (Namespace n) (NodeSpec n) = Some bs"
    and "stores_credentials E (Namespace n) c (world h)"
  shows "wp (node_Reconcile E R (nsname n))
     (\<lambda>r g. node_done (world h) n bs r g \<and> active cs g = pushed (active cs h) (NodeIP (NodeSpec n)) bs) h"
  using assms by (rule node_Reconcile_done)

section \<open>From the objects of a user to a running cluster\<close>

text \<open>A cluster, its first control plane and its bootstrap, as a user creates them.\<close>

definition new_objects :: "world \<Rightarrow> talos_cluster \<Rightarrow> talos_node \<Rightarrow> talos_cluster_bootstrap \<Rightarrow> bool" where
  "new_objects w c n b \<longleftrightarrow>
     ClustersIn w (nsname c) = Some c \<and> DeletionTimestamp c = None \<and> Endpoints (ClusterSpec c) \<noteq> [] \<and> \<not> isUpToDate c \<and>
     NodesIn w (nsname n) = Some n \<and> awaits_config n \<and> Namespace n = Namespace c \<and> ClusterRef (NodeSpec n) = Name c \<and>
     Role (NodeSpec n) = TalosNodeRoleControlPlane \<and> Patches (NodeSpec n) = [] \<and> PatchesFrom (NodeSpec n) = [] \<and>
     BootstrapsIn w (nsname b) = Some b \<and> DeletionTimestamp b = None \<and> Namespace b = Namespace c \<and>
     BootstrapClusterRef (BootstrapSpec b) = Name c \<and> \<not> isBootstrapUpToDate b \<and> \<not> has_kubeconfig b \<and>
     (\<forall>nm \<in> set (cluster_secret_names (Name c)). SecretsIn w (Namespace c, nm) = None)"

text \<open>What the library generates can be read back: the configuration as YAML, the credentials by the client.\<close>

definition readable_configs :: "env \<Rightarrow> talos_cluster \<Rightarrow> bool" where
  "readable_configs E c \<longleftrightarrow>
     (\<forall>b cfgs. new_made E b \<longrightarrow> generated_configs E c b = Inr cfgs \<longrightarrow>
        ControlPlane cfgs \<noteq> [] \<and> Talosconfig cfgs \<noteq> [] \<and>
        (\<exists>y bs. yaml_unmarshal (Lib E) (ControlPlane cfgs) = Inr y \<and> yaml_marshal (Lib E) y = Inr bs) \<and>
        (\<exists>tc. talosconfig_parse (Lib E) (Talosconfig cfgs) = Inr tc))"

text \<open>One reconcile of each of the three objects.\<close>

definition bring_up ::
    "env \<Rightarrow> cluster_reconciler \<Rightarrow> node_reconciler \<Rightarrow> bootstrap_reconciler \<Rightarrow>
     namespaced_name \<Rightarrow> namespaced_name \<Rightarrow> namespaced_name \<Rightarrow>
     (reconcile_result \<times> reconcile_result \<times> reconcile_result) prog" where
  "bring_up E RC RN RB ck nk bk = do {
     r1 \<leftarrow> cluster_Reconcile E RC ck;
     r2 \<leftarrow> node_Reconcile E RN nk;
     r3 \<leftarrow> bootstrap_Reconcile E RB bk;
     ret (r1, r2, r3)
   }"

lemma node_secret_other:
  "nodeConfigName x \<noteq> clusterControlPlaneName y" "nodeConfigName x \<noteq> clusterTalosconfigName y"
  "nodeConfigName x \<noteq> clusterKubeconfigName y" "nm \<in> set (cluster_secret_names y) \<Longrightarrow> nm \<noteq> nodeConfigName x"
  by (auto simp: cluster_secret_names_def secret_name_defs append_eq_by_rev)

lemma cluster_names_distinct:
  "clusterSecretsName c \<noteq> clusterControlPlaneName c" "clusterSecretsName c \<noteq> clusterWorkerName c"
  "clusterSecretsName c \<noteq> clusterTalosconfigName c" "clusterControlPlaneName c \<noteq> clusterWorkerName c"
  "clusterControlPlaneName c \<noteq> clusterTalosconfigName c" "clusterWorkerName c \<noteq> clusterTalosconfigName c"
  "clusterKubeconfigName c \<noteq> clusterSecretsName c" "clusterKubeconfigName c \<noteq> clusterControlPlaneName c"
  "clusterKubeconfigName c \<noteq> clusterWorkerName c" "clusterKubeconfigName c \<noteq> clusterTalosconfigName c"
  "clusterControlPlaneName c \<noteq> clusterSecretsName c" "clusterWorkerName c \<noteq> clusterSecretsName c"
  "clusterTalosconfigName c \<noteq> clusterSecretsName c" "clusterWorkerName c \<noteq> clusterControlPlaneName c"
  "clusterTalosconfigName c \<noteq> clusterControlPlaneName c" "clusterTalosconfigName c \<noteq> clusterWorkerName c"
  by (simp_all add: secret_name_defs)

lemma cluster_secrets_stored:
  assumes "\<forall>nm \<in> set (cluster_secret_names (Name c)). m (Namespace c, nm) = None"
    and "m' = fold map_insert (cluster_secrets c bs cfgs) m"
  shows "m' (Namespace c, clusterControlPlaneName (Name c)) =
      Some (cluster_secret c (clusterControlPlaneName (Name c)) ''controlplane.yaml'' (ControlPlane cfgs))"
    "m' (Namespace c, clusterTalosconfigName (Name c)) =
      Some (cluster_secret c (clusterTalosconfigName (Name c)) ''talosconfig'' (Talosconfig cfgs))"
    "m' (kubeconfig_key c) = m (kubeconfig_key c)" "all_stored (nsname c) m'"
proof -
  have "m' = m((Namespace c, clusterSecretsName (Name c)) \<mapsto> cluster_secret c (clusterSecretsName (Name c)) ''secrets.yaml'' bs,
      (Namespace c, clusterControlPlaneName (Name c)) \<mapsto>
        cluster_secret c (clusterControlPlaneName (Name c)) ''controlplane.yaml'' (ControlPlane cfgs),
      (Namespace c, clusterWorkerName (Name c)) \<mapsto>
        cluster_secret c (clusterWorkerName (Name c)) ''worker.yaml'' (Worker cfgs),
      (Namespace c, clusterTalosconfigName (Name c)) \<mapsto>
        cluster_secret c (clusterTalosconfigName (Name c)) ''talosconfig'' (Talosconfig cfgs))"
    using assms(1) unfolding assms(2) cluster_secrets_def config_secrets_def
    by (simp add: cluster_secret_names_def map_insert_def cluster_names_distinct)
  then show "m' (Namespace c, clusterControlPlaneName (Name c)) =
      Some (cluster_secret c (clusterControlPlaneName (Name c)) ''controlplane.yaml'' (ControlPlane cfgs))"
    "m' (Namespace c, clusterTalosconfigName (Name c)) =
      Some (cluster_secret c (clusterTalosconfigName (Name c)) ''talosconfig'' (Talosconfig cfgs))"
    "m' (kubeconfig_key c) = m (kubeconfig_key c)" "all_stored (nsname c) m'"
    by (simp_all add: cluster_names_distinct all_stored_def cluster_secret_names_def nsname_def)
qed

lemma rendered_source:
  assumes "PatchesFrom spec = []" and "m' (ns, fst (config_source (Role spec) (ClusterRef spec))) =
      m (ns, fst (config_source (Role spec) (ClusterRef spec)))"
  shows "rendered E m' ns spec = rendered E m ns spec"
proof -
  have patches: "secret_patches E m' ns (PatchesFrom spec) = secret_patches E m ns (PatchesFrom spec)"
    by (rule ext) (simp add: assms(1))
  show ?thesis unfolding rendered_def split_def Let_def assms(2) patches by (rule refl)
qed

text \<open>What a provisioned cluster has ready for its control plane.\<close>

lemma provisioned_ready:
  assumes "new_objects w c n b" and "readable_configs E c" and "provisioned E w c c' w1"
  shows "\<exists>bs. rendered E (SecretsIn w1) (Namespace n) (NodeSpec n) = Some bs"
    and "stores_credentials E (Namespace c) c' w1"
    and "all_stored (nsname c) (SecretsIn w1)" and "SecretsIn w1 (kubeconfig_key c) = SecretsIn w (kubeconfig_key c)"
proof -
  obtain bu bs cfgs where gen: "generated_configs E c bu = Inr cfgs" "bundle_source E c w bu"
    and w1: "SecretsIn w1 = fold map_insert (cluster_secrets c bs cfgs) (SecretsIn w)"
    and name: "Name c' = Name c"
    using assms(3) by (auto simp: provisioned_def nsname_def)
  have none: "\<forall>nm \<in> set (cluster_secret_names (Name c)). SecretsIn w (Namespace c, nm) = None"
    and node: "Namespace n = Namespace c" "ClusterRef (NodeSpec n) = Name c" "Role (NodeSpec n) = TalosNodeRoleControlPlane"
      "Patches (NodeSpec n) = []" "PatchesFrom (NodeSpec n) = []"
    using assms(1) unfolding new_objects_def by blast+
  note stored = cluster_secrets_stored [OF none w1]
  have "new_made E bu"
    using gen(2) none bundle_name [of "Name c"] by (auto simp: bundle_source_def)
  then obtain y bs' tc where conf: "ControlPlane cfgs \<noteq> []" "Talosconfig cfgs \<noteq> []"
    "yaml_unmarshal (Lib E) (ControlPlane cfgs) = Inr y" "yaml_marshal (Lib E) y = Inr bs'"
    "talosconfig_parse (Lib E) (Talosconfig cfgs) = Inr tc"
    using assms(2) gen(1) unfolding readable_configs_def by blast
  have "rendered E (SecretsIn w1) (Namespace n) (NodeSpec n) = Some bs'"
    using conf by (simp add: rendered_def config_source_def node stored(1) secretKey_def)
  then show "\<exists>bs. rendered E (SecretsIn w1) (Namespace n) (NodeSpec n) = Some bs" by blast
  show "stores_credentials E (Namespace c) c' w1"
    using conf by (auto simp: stores_credentials_def name stored(2) secretKey_def)
  show "all_stored (nsname c) (SecretsIn w1)" by (rule stored(4))
  show "SecretsIn w1 (kubeconfig_key c) = SecretsIn w (kubeconfig_key c)" by (rule stored(3))
qed

lemma node_secrets_other [simp]:
  "nm \<noteq> nodeConfigName (Name n) \<Longrightarrow> node_secrets n bs m (ns, nm) = m (ns, nm)"
  by (simp add: node_secrets_def map_upsert_def)

text \<open>What a configured control plane has ready for the bootstrap.\<close>

lemma configured_ready:
  assumes "new_objects w c n b" and "kubeconfig_usable E RB c w" and "provisioned E w c c' w1"
    and "stores_credentials E (Namespace c) c' w1" and "SecretsIn w1 (kubeconfig_key c) = SecretsIn w (kubeconfig_key c)"
    and "configured w1 n bs n' w2"
  shows "bootstrappable E RB b c' w2" and "resumable b c' w2" and "BootstrapsIn w2 (nsname b) = Some b"
proof -
  note other = node_secret_other [symmetric]
  have objects: "Namespace n = Namespace c" "ClusterRef (NodeSpec n) = Name c" "Role (NodeSpec n) = TalosNodeRoleControlPlane"
    "Namespace b = Namespace c" "BootstrapClusterRef (BootstrapSpec b) = Name c" "Endpoints (ClusterSpec c) \<noteq> []"
    "\<not> has_kubeconfig b" "BootstrapsIn w (nsname b) = Some b"
    using assms(1) unfolding new_objects_def by blast+
  have c': "Name c' = Name c" "Namespace c' = Namespace c" "ClusterSpec c' = ClusterSpec c"
    "ClustersIn w1 (Namespace c, Name c) = Some c'" "BootstrapsIn w1 = BootstrapsIn w"
    using assms(3) by (auto simp: provisioned_def nsname_def)
  have w2: "ClustersIn w2 = ClustersIn w1" "BootstrapsIn w2 = BootstrapsIn w1" "isNodeUpToDate n'" "NodeSpec n' = NodeSpec n"
    "NodesIn w2 (Namespace c, Name n) = Some n'" "SecretsIn w2 = node_secrets n bs (SecretsIn w1)"
    using assms(6) objects(1) by (auto simp: configured_def same_node_def nsname_def)
  have "ready_control_plane (Name c) n'"
    using w2(3,4) objects(2,3) by (simp add: ready_control_plane_def isNodeUpToDate_def)
  moreover have "stores_credentials E (Namespace c) c' w2"
    using assms(4) by (simp add: stores_credentials_def w2(6) other)
  moreover have "kubeconfig_usable E RB c' w2"
    using assms(2,5) by (simp add: kubeconfig_usable_def w2(6) other c')
  ultimately show "bootstrappable E RB b c' w2"
    unfolding bootstrappable_def using objects c' w2 by auto
  show "resumable b c' w2" using objects(7) by (simp add: resumable_def)
  show "BootstrapsIn w2 (nsname b) = Some b" by (simp add: w2 c' objects(8))
qed

text \<open>
  The cluster runs: every object is up to date, the Secrets of the cluster and the kubeconfig are stored, and
  the stored configuration of the node is the one that the stored Secrets of the cluster give for it.
\<close>

definition running :: "env \<Rightarrow> talos_cluster \<Rightarrow> talos_node \<Rightarrow> talos_cluster_bootstrap \<Rightarrow> world \<Rightarrow> bool" where
  "running E c n b w \<longleftrightarrow>
     (\<exists>c'. ClustersIn w (nsname c) = Some c' \<and> isUpToDate c') \<and> all_stored (nsname c) (SecretsIn w) \<and>
     (\<exists>n' s. NodesIn w (nsname n) = Some n' \<and> isNodeUpToDate n' \<and>
        SecretsIn w (Namespace n, nodeConfigName (Name n)) = Some s \<and> data_lookup s ''config.yaml'' \<noteq> None \<and>
        data_lookup s ''config.yaml'' = rendered E (SecretsIn w) (Namespace n) (NodeSpec n)) \<and>
     (\<exists>b'. BootstrapsIn w (nsname b) = Some b' \<and> isBootstrapUpToDate b' \<and> bootstrapped b') \<and>
     SecretsIn w (kubeconfig_key c) \<noteq> None"

lemma all_stored_grows: "grows w w' \<Longrightarrow> all_stored k (SecretsIn w) \<Longrightarrow> all_stored k (SecretsIn w')"
  by (fastforce simp: all_stored_def dest: grows_secret)

lemma runs_at_last:
  assumes "new_objects w c n b" and "provisioned E w c c' w1" and "configured w1 n bs n' w2"
    and "rendered E (SecretsIn w1) (Namespace n) (NodeSpec n) = Some bs" and "all_stored (nsname c) (SecretsIn w1)"
    and "bootstrap_done w2 (nsname b) (kubeconfig_key c') r g"
  shows "running E c n b (world g)"
proof -
  have objects: "Namespace n = Namespace c" "ClusterRef (NodeSpec n) = Name c" "Role (NodeSpec n) = TalosNodeRoleControlPlane"
    "PatchesFrom (NodeSpec n) = []"
    using assms(1) unfolding new_objects_def by blast+
  have c': "Name c' = Name c" "Namespace c' = Namespace c" "ClustersIn w1 (nsname c) = Some c'" "isUpToDate c'"
    using assms(2) by (auto simp: provisioned_def nsname_def)
  have w2: "ClustersIn w2 = ClustersIn w1" "isNodeUpToDate n'" "NodesIn w2 (nsname n) = Some n'"
    "SecretsIn w2 = node_secrets n bs (SecretsIn w1)"
    using assms(3) by (auto simp: configured_def)
  have grows: "grows w2 (world g)" and kube: "SecretsIn (world g) (kubeconfig_key c) \<noteq> None"
    and done': "\<exists>b'. BootstrapsIn (world g) (nsname b) = Some b' \<and> isBootstrapUpToDate b' \<and> bootstrapped b'"
    using assms(6) c' by (auto simp: bootstrap_done_def)
  have nodes: "NodesIn (world g) = NodesIn w2" and clusters: "ClustersIn (world g) = ClustersIn w2"
    using grows by (simp_all add: grows_def)
  have stored2: "all_stored (nsname c) (SecretsIn w2)"
    using assms(5) by (auto simp: all_stored_def w2(4) node_secret_other)
  obtain s where s: "SecretsIn w2 (Namespace n, nodeConfigName (Name n)) = Some s" "data_lookup s ''config.yaml'' = Some bs"
    by (auto simp: w2(4) node_secrets_def map_upsert_def newSecret_def data_lookup_def split: option.split)
  obtain t where t: "SecretsIn w1 (Namespace c, clusterControlPlaneName (Name c)) = Some t"
    using assms(5) by (auto simp: all_stored_def cluster_secret_names_def nsname_def)
  then have "SecretsIn w2 (Namespace c, clusterControlPlaneName (Name c)) = Some t"
    by (simp add: w2(4) node_secret_other [symmetric])
  from grows_secret [OF grows this] t
  have "rendered E (SecretsIn (world g)) (Namespace n) (NodeSpec n) = Some bs"
    using rendered_source [OF objects(4), of "SecretsIn (world g)" "Namespace c" "SecretsIn w1"] assms(4)
    by (simp add: objects config_source_def)
  then show ?thesis
    unfolding running_def
    using all_stored_grows [OF grows stored2] grows_secret [OF grows s(1)] s(2) kube done' w2(1-3) c'(3,4) nodes clusters
    by auto
qed


end
