(* ===== verification/SampleRollout.thy ===== *)
theory SampleRollout
  imports SampleRuns SampleCluster Rollout
begin

text \<open>
  The environment of Sample is a healthy one; in it new objects of all three kinds become a running cluster.
\<close>

section \<open>The environment is healthy\<close>

lemma find_put: "find (\<lambda>x. nsname x = k) (put_object os x) = (if nsname x = k then Some x else find (\<lambda>x. nsname x = k) os)"
  by (simp add: put_object_def find_filter)

declare split_paired_All [simp del] split_paired_Ex [simp del]

lemma written_status: "written (KStatusUpdate ob r) = (if r = None then Some ob else None)"
  by (cases r) simp_all

lemma written_step:
  "(case written e of Some ob \<Rightarrow> (if (\<exists>s r. e = KStatusUpdate (OSecret s) r) then world_step w e = w
        else world_step w e = put_in ob w \<or> world_step w e = settle ob w)
    | None \<Rightarrow> world_step w e = w \<or> (\<exists>kd k. world_step w e = drop_in kd k w))"
  by (cases e) (auto simp: world_step_def written_if split: option.splits kobj.splits)

lemma dropped:
  "NodesIn (drop_in kd k w) \<subseteq>\<^sub>m NodesIn w" "ClustersIn (drop_in kd k w) \<subseteq>\<^sub>m ClustersIn w"
  "BootstrapsIn (drop_in kd k w) \<subseteq>\<^sub>m BootstrapsIn w"
  by (cases kd; simp add: map_le_def)+

abbreviation found_in :: "('a object_meta_scheme) list \<Rightarrow> namespaced_name \<Rightarrow> 'a object_meta_scheme option" where
  "found_in os \<equiv> (\<lambda>k. find (\<lambda>x. nsname x = k) os)"

lemma found_put: "found_in (put_object os x) = (found_in os)(nsname x \<mapsto> x)"
  by (auto simp: find_put)

lemma sample_objects_found:
  "NodesIn (world h) \<subseteq>\<^sub>m found_in (nodes_at h) \<and> ClustersIn (world h) \<subseteq>\<^sub>m found_in (clusters_at h) \<and>
   BootstrapsIn (world h) \<subseteq>\<^sub>m found_in (bootstraps_at h)"
proof (induction h rule: rev_induct)
  case (snoc e h)
  have objects: "nodes_at (h @ [e]) = (case written e of Some (ONode n) \<Rightarrow> put_object (nodes_at h) n | _ \<Rightarrow> nodes_at h)"
    "clusters_at (h @ [e]) = (case written e of Some (OCluster c) \<Rightarrow> put_object (clusters_at h) c | _ \<Rightarrow> clusters_at h)"
    "bootstraps_at (h @ [e]) =
       (case written e of Some (OBootstrap b) \<Rightarrow> put_object (bootstraps_at h) b | _ \<Rightarrow> bootstraps_at h)"
    by (simp_all add: nodes_at_def clusters_at_def bootstraps_at_def split: option.split kobj.split)
  show ?case
  proof (cases "written e")
    case None
    then have "world (h @ [e]) = world h \<or> (\<exists>kd k. world (h @ [e]) = drop_in kd k (world h))"
      using written_step [where e = e and w = "world h"] by (simp add: replay_snoc)
    then show ?thesis
      using snoc None by (auto simp: objects intro: map_le_trans [OF dropped(1)] map_le_trans [OF dropped(2)]
          map_le_trans [OF dropped(3)])
  next
    case (Some ob)
    then have "world (h @ [e]) = put_in ob (world h) \<or> world (h @ [e]) = settle ob (world h) \<or>
        (\<exists>s. ob = OSecret s) \<and> world (h @ [e]) = world h"
      using written_step [where e = e and w = "world h"] by (auto simp: replay_snoc written_status split: if_splits)
    then show ?thesis
      using snoc Some by (cases ob) (auto simp: objects found_put map_le_def dom_def split: if_splits)
  qed
qed (simp add: empty_world_def)

lemma sample_healthy: "healthy sample_env"
proof -
  have found: "NodesIn (world h) k = Some n \<Longrightarrow> find_object (nodes_at h) k = Inr n"
    "ClustersIn (world h) k = Some c \<Longrightarrow> find_object (clusters_at h) k = Inr c"
    "BootstrapsIn (world h) k = Some b \<Longrightarrow> find_object (bootstraps_at h) k = Inr b" for h k n c b
    using sample_objects_found [of h] by (auto simp: find_object_def map_le_def dom_def)
  have listed: "n \<in> set (nodes_at h) \<and> Namespace n = fst k" if "NodesIn (world h) k = Some n" for h k n
  proof -
    have "found_in (nodes_at h) k = Some n"
      using sample_objects_found [of h] that by (auto simp: map_le_def dom_def)
    then show ?thesis using world_named(1) [OF that] by (auto simp: find_Some_iff nsname_def)
  qed
  have "healthy_store sample_kube"
    unfolding healthy_store_def world_secrets sample_secret using found listed by (auto simp: sample_kube_def)
  moreover have "healthy_writes sample_kube" by (simp add: healthy_writes_def sample_kube_def)
  ultimately show ?thesis by (simp add: healthy_def sample_talos_def sample_remote_def)
qed

section \<open>A cluster, a node and a bootstrap\<close>

definition sample_objects :: hist where
  "sample_objects = [KCreate (OCluster sample_cluster) None, KCreate (ONode sample_node) None,
     KCreate (OBootstrap sample_bootstrap) None]"

lemma sample_objects_world:
  "world sample_objects = \<lparr>SecretsIn = Map.empty, NodesIn = [(''ns'', ''n'') \<mapsto> sample_node],
     ClustersIn = [(''ns'', ''c'') \<mapsto> sample_cluster], BootstrapsIn = [(''ns'', ''b'') \<mapsto> sample_bootstrap]\<rparr>"
  by (simp add: sample_objects_def replay_def empty_world_def nsname_def sample_cluster_def sample_node_def
      sample_bootstrap_def)

lemma sample_new: "new_objects (world sample_objects) sample_cluster sample_node sample_bootstrap"
  unfolding new_objects_def sample_objects_world
  by (simp add: sample_cluster_def sample_node_def sample_bootstrap_def nsname_def isUpToDate_def awaits_config_def
      fresh_request_def annotation_def isNodeUpToDate_def isBootstrapUpToDate_def)

lemma sample_generates: "generates sample_env sample_cluster"
  by (auto simp: generates_def sample_lib_def sample_host_def GenConfig_def sample_cluster_def Let_def
      split: secrets_bundle.split)

lemma sample_readable: "readable_configs sample_env sample_cluster"
  by (auto simp: readable_configs_def new_made_def sample_lib_def sample_host_def GenConfig_def sample_cluster_def Let_def)

lemma sample_kubeconfig_usable:
  assumes "SecretsIn w (kubeconfig_key sample_cluster) = None"
  shows "kubeconfig_usable sample_env production_bootstrap sample_cluster w"
  using assms
  by (simp add: kubeconfig_usable_def usable_kubeconfig_def sample_talos_def remoteClientOrFallback_def newRemoteClient_def
      production_bootstrap_def sample_lib_def)



text \<open>A cluster whose Secrets are stored, for its node.\<close>

definition sample_provisioned :: hist where
  "sample_provisioned = sample_objects @
     [KCreate (OSecret (newSecret (clusterControlPlaneName ''c'') ''ns'' ''controlplane.yaml'' ''cp'')) None,
      KCreate (OSecret sample_talosconfig) None]"

lemma sample_provisioned_world:
  "world sample_provisioned = (world sample_objects)\<lparr>SecretsIn :=
     [(''ns'', clusterControlPlaneName ''c'') \<mapsto> newSecret (clusterControlPlaneName ''c'') ''ns'' ''controlplane.yaml'' ''cp'',
      (''ns'', clusterTalosconfigName ''c'') \<mapsto> sample_talosconfig]\<rparr>"
  by (simp add: sample_provisioned_def world_append sample_objects_world sample_talosconfig_def newSecret_def nsname_def)

theorem node_progress_witness:
  "wp (node_Reconcile sample_env (production_node sample_env) (nsname sample_node))
     (\<lambda>r g. node_done (world sample_provisioned) sample_node ''machine: {}'' r g \<and>
        active (\<lambda>_. []) g = pushed (active (\<lambda>_. []) sample_provisioned) (NodeIP (NodeSpec sample_node)) ''machine: {}'')
     sample_provisioned"
proof (rule node_progress [OF sample_healthy])
  show "NodesIn (world sample_provisioned) (nsname sample_node) = Some sample_node" "awaits_config sample_node"
    using sample_new by (auto simp: sample_provisioned_world new_objects_def)
  show "ClustersIn (world sample_provisioned) (Namespace sample_node, ClusterRef (NodeSpec sample_node)) = Some sample_cluster"
    by (simp add: sample_provisioned_world sample_objects_world sample_node_def)
  show "rendered sample_env (SecretsIn (world sample_provisioned)) (Namespace sample_node) (NodeSpec sample_node) =
      Some ''machine: {}''"
    by (simp add: sample_provisioned_world rendered_def config_source_def sample_node_def secretKey_def newSecret_def
        data_lookup_def sample_lib_def cluster_names_distinct)
  show "stores_credentials sample_env (Namespace sample_node) sample_cluster (world sample_provisioned)"
    by (simp add: sample_provisioned_world stores_credentials_def sample_node_def sample_cluster_def sample_talosconfig_def
        secretKey_def newSecret_def data_lookup_def sample_lib_def)
qed

lemma sample_ready_world:
  "world sample_ready = \<lparr>SecretsIn = [(''ns'', clusterTalosconfigName ''c'') \<mapsto> sample_talosconfig],
     NodesIn = [(''ns'', ''n'') \<mapsto> sample_ready_node], ClustersIn = [(''ns'', ''c'') \<mapsto> sample_cluster],
     BootstrapsIn = [(''ns'', ''b'') \<mapsto> sample_bootstrap]\<rparr>"
  by (simp add: sample_ready_def replay_def empty_world_def nsname_def sample_cluster_def sample_ready_node_def sample_node_def
      sample_bootstrap_def sample_talosconfig_def newSecret_def vanishing_def)


end
