(* ===== verification/Teardown.thy ===== *)
theory Teardown
  imports Progress
begin

text \<open>
  The way down: what one reconcile of a terminating object does when every service answers, and the four
  reconciles that take a whole cluster away. They are the dual of Rollout.
\<close>

declare split_paired_All [simp del] split_paired_Ex [simp del]

section \<open>An exact store\<close>

text \<open>Beside the laws of a healthy environment: what is not stored is not found, and deleting works.\<close>

definition exact_store :: "kube_api \<Rightarrow> bool" where
  "exact_store K \<longleftrightarrow>
     (\<forall>h k. NodesIn (world h) k = None \<longrightarrow> kget_node K h k = Inl (ErrApi NotFound (snd k))) \<and>
     (\<forall>h k. ClustersIn (world h) k = None \<longrightarrow> kget_cluster K h k = Inl (ErrApi NotFound (snd k))) \<and>
     (\<forall>h ns. \<exists>items. klist_nodes K h ns = Inr items \<and>
        (\<forall>n. n \<in> set items \<longleftrightarrow> NodesIn (world h) (nsname n) = Some n \<and> Namespace n = ns)) \<and>
     (\<forall>h s. kdelete_secret K h s = None)"

lemma wp_missing:
  assumes "healthy E" and "exact_store (Kube E)"
  shows "ClustersIn (world g) k = None \<Longrightarrow>
      (\<And>g' err. world g' = world g \<Longrightarrow> IsNotFound err \<Longrightarrow> QC (Inl err) g') \<Longrightarrow> wp (get_TalosCluster E k) QC g"
    "SecretsIn (world g) (ns, nm) = None \<Longrightarrow>
      (\<And>g' err. world g' = world g \<Longrightarrow> IsNotFound err \<Longrightarrow> QS (Inl err) g') \<Longrightarrow> wp (getSecret E nm ns) QS g"
  using assms(2)
  by (simp_all add: wp_simps get_TalosCluster_def exact_store_def healthy_reads [OF assms(1)] IsNotFound_def world_snoc)

lemma wp_lists:
  assumes "exact_store (Kube E)"
    and "\<And>items g'. world g' = world g \<Longrightarrow>
      (\<And>n. n \<in> set items \<longleftrightarrow> NodesIn (world g) (nsname n) = Some n \<and> Namespace n = ns) \<Longrightarrow> Q (Inr items) g'"
  shows "wp (list_TalosNodes E ns) Q g"
proof -
  obtain items where "klist_nodes (Kube E) g ns = Inr items"
    and "\<And>n. n \<in> set items \<longleftrightarrow> NodesIn (world g) (nsname n) = Some n \<and> Namespace n = ns"
    using assms(1) unfolding exact_store_def by meson
  then show ?thesis by (simp add: list_TalosNodes_def wp_simps assms(2) world_snoc)
qed

section \<open>Secrets that go\<close>

definition drop_secrets :: "string \<Rightarrow> string list \<Rightarrow> world \<Rightarrow> world" where
  "drop_secrets ns names w =
     w\<lparr>SecretsIn := (\<lambda>k. if fst k = ns \<and> snd k \<in> set names then None else SecretsIn w k)\<rparr>"

lemma drop_secrets_simps [simp]:
  "NodesIn (drop_secrets ns names w) = NodesIn w" "ClustersIn (drop_secrets ns names w) = ClustersIn w"
  "BootstrapsIn (drop_secrets ns names w) = BootstrapsIn w"
  "SecretsIn (drop_secrets ns names w) k = (if fst k = ns \<and> snd k \<in> set names then None else SecretsIn w k)"
  by (simp_all add: drop_secrets_def)

lemma drop_secrets_Nil [simp]: "drop_secrets ns [] w = w"
  by (simp add: drop_secrets_def)

lemma drop_secrets_twice: "drop_secrets ns xs (drop_secrets ns ys w) = drop_secrets ns (xs @ ys) w"
  by (intro world.equality ext) auto

lemma drop_secret: "drop_in KindSecret (ns, nm) w = drop_secrets ns [nm] w"
  by (intro world.equality ext) auto

lemma drop_absent: "SecretsIn w (ns, nm) = None \<Longrightarrow> drop_secrets ns [nm] w = w"
  by (intro world.equality ext) (auto simp: prod_eq_iff)

lemma wp_delete_Secret:
  assumes "exact_store (Kube E)" and "nsname s = (ns, nm)"
    and "\<And>g'. world g' = drop_secrets ns [nm] (world g) \<Longrightarrow> Q None g'"
  shows "wp (delete_Secret E s) Q g"
  using assms(1,3) by (simp add: delete_Secret_def wp_simps exact_store_def world_append assms(2) drop_secret del: drop_in.simps)

lemma world_secret_named: "SecretsIn (world h) k = Some s \<Longrightarrow> nsname s = k"
  by (simp add: world_secrets stored_secrets_named)

lemma wp_sm_Delete:
  assumes "healthy E" and "exact_store (Kube E)"
    and "\<And>g'. world g' = drop_secrets ns [nm] (world g) \<Longrightarrow> Q None g'"
  shows "wp (sm_Delete E sm nm ns) Q g"
proof (cases "SecretsIn (world g) (ns, nm)")
  case None
  then show ?thesis
    by (simp add: sm_Delete_def get_Secret_def wp_simps healthy_reads [OF assms(1)] IsNotFound_def assms(3) world_snoc
        drop_absent)
next
  case (Some s)
  then show ?thesis
    by (simp add: sm_Delete_def get_Secret_def wp_simps healthy_reads [OF assms(1)])
      (rule wp_delete_Secret [OF assms(2) world_secret_named [OF Some]], simp add: assms(3) world_snoc)
qed

lemma wp_sm_DeleteMultiple:
  assumes "healthy E" and "exact_store (Kube E)"
  shows "(\<And>g'. world g' = drop_secrets ns names (world g) \<Longrightarrow> Q None g') \<Longrightarrow>
    wp (sm_DeleteMultiple E sm ns names) Q g"
proof (induction names arbitrary: g)
  case Nil
  then show ?case by (simp add: wp_simps)
next
  case (Cons nm names)
  have "wp (sm_DeleteMultiple E sm ns names) Q g'" if "world g' = drop_secrets ns [nm] (world g)" for g'
  proof (rule Cons.IH)
    fix g'' assume "world g'' = drop_secrets ns names (world g')"
    then show "Q None g''"
      using that by (intro Cons.prems world.equality ext) auto
  qed
  then show ?case
    by (simp add: wp_bind) (rule wp_sm_Delete [OF assms], simp)
qed

section \<open>A cluster\<close>

definition terminating :: "('a) object_meta_scheme \<Rightarrow> bool" where
  "terminating x \<longleftrightarrow> DeletionTimestamp x \<noteq> None \<and> Finalizers x = [FinalizerCleanup]"

lemma finalizer_removed:
  "terminating x \<Longrightarrow> ContainsFinalizer (Finalizers x) FinalizerCleanup"
  "terminating x \<Longrightarrow> RemoveFinalizer (Finalizers x) FinalizerCleanup = []"
  by (simp_all add: terminating_def)

lemma count_active_none:
  "(\<And>n. n \<in> set ns \<Longrightarrow> ClusterRef (NodeSpec n) = c \<Longrightarrow> DeletionTimestamp n \<noteq> None) \<Longrightarrow> count_active c ns acc = acc"
proof (induction ns)
  case (Cons n ns)
  have "\<not> (ClusterRef (NodeSpec n) = c \<and> DeletionTimestamp n = None)" using Cons.prems [of n] by auto
  moreover have "count_active c ns acc = acc" using Cons.prems by (intro Cons.IH) simp
  ultimately show ?case by (simp only: count_active.simps if_False)
qed simp

text \<open>No node of the cluster is left that is not terminating itself.\<close>

definition deserted :: "talos_cluster \<Rightarrow> world \<Rightarrow> bool" where
  "deserted c w \<longleftrightarrow>
     (\<forall>k n. NodesIn w k = Some n \<longrightarrow> Namespace n = Namespace c \<longrightarrow> ClusterRef (NodeSpec n) = Name c \<longrightarrow>
        DeletionTimestamp n \<noteq> None)"

lemma cluster_goes:
  assumes "healthy E" and "exact_store (Kube E)" and "ClustersIn (world h) k = Some c" and "terminating c"
    and "deserted c (world h)"
    and "\<And>g. world g = drop_in KindCluster k (drop_secrets (Namespace c) (cluster_secret_names (Name c)) (world h)) \<Longrightarrow>
      Q (no_requeue, None) g"
  shows "wp (cluster_Reconcile E R k) Q h"
proof -
  have k: "k = (Namespace c, Name c)" using world_named(2) [OF assms(3)] by (simp add: nsname_def)
  have none: "count_active (Name c) items 0 = 0"
    if "\<And>n. n \<in> set items \<longleftrightarrow> NodesIn (world h) (nsname n) = Some n \<and> Namespace n = Namespace c" for items
    using assms(5) that by (intro count_active_none) (auto simp: deserted_def)
  have "wp (cluster_handleDeletion E c) Q g" if "world g = world h" for g
    unfolding cluster_handleDeletion_def activeNodeCount_def Let_def
    by (intro world_rules wp_lists [OF assms(2)] wp_sm_DeleteMultiple [OF assms(1,2)] wp_updates [OF assms(1)];
      use assms(4) finalizer_removed [OF assms(4)] none that in
        \<open>auto simp: wp_simps vanishing_def terminating_def cluster_secret_names_def opt_err_def k nsname_def intro!: assms(6)\<close>)
  then show ?thesis
    unfolding cluster_Reconcile_def
    by (intro world_rules wp_reads(2) [OF assms(1,3)]; use assms(4) in \<open>auto simp: terminating_def\<close>)
qed

section \<open>A bootstrap\<close>

lemma bootstrap_named: "BootstrapsIn (world h) k = Some b \<Longrightarrow> nsname b = k"
  using world_well_named [of h] unfolding well_named_def by blast

text \<open>The kubeconfig is deleted while the cluster is there to name it.\<close>

lemma bootstrap_goes:
  assumes "healthy E" and "exact_store (Kube E)" and "BootstrapsIn (world h) k = Some b" and "terminating b"
    and "ClustersIn (world h) (Namespace b, BootstrapClusterRef (BootstrapSpec b)) = Some c"
    and "\<And>g. world g = drop_in KindBootstrap k
        (drop_secrets (Namespace b) [clusterKubeconfigName (BootstrapClusterRef (BootstrapSpec b))] (world h)) \<Longrightarrow>
      Q (no_requeue, None) g"
  shows "wp (bootstrap_Reconcile E R k) Q h"
proof -
  have k: "k = (Namespace b, Name b)" using bootstrap_named [OF assms(3)] by (simp add: nsname_def)
  have c: "Namespace c = Namespace b" "Name c = BootstrapClusterRef (BootstrapSpec b)"
    using world_named(2) [OF assms(5)] by (auto simp: nsname_def)
  let ?kc = "clusterKubeconfigName (BootstrapClusterRef (BootstrapSpec b))"
  have kubeconfig: "wp (deleteKubeconfig E b) P g"
    if "world g = world h" and "\<And>g'. world g' = drop_secrets (Namespace b) [?kc] (world h) \<Longrightarrow> P None g'" for P g
  proof (cases "SecretsIn (world h) (Namespace b, ?kc)")
    case None
    have missing: "wp (getSecret E (clusterKubeconfigName (Name c')) (Namespace c')) R g'"
      if "c' = c" and "world g' = world h" and "\<And>err g''. world g'' = world h \<Longrightarrow> R (Inl err) g''" for c' R g'
      unfolding that(1) c by (rule wp_missing(2) [OF assms(1,2)]; use None that in simp)
    show ?thesis
      unfolding deleteKubeconfig_def
      by (intro world_rules wp_reads(2) [OF assms(1)] missing;
        use None that assms(5) in \<open>auto simp: drop_absent\<close>)
  next
    case (Some s)
    have found: "wp (getSecret E (clusterKubeconfigName (Name c')) (Namespace c')) R g'"
      if "c' = c" and "world g' = world h" and "\<And>g''. world g'' = world h \<Longrightarrow> R (Inr s) g''" for c' R g'
      unfolding that(1) c by (rule wp_reads(4) [OF assms(1)]; use Some that in simp)
    show ?thesis
      unfolding deleteKubeconfig_def
      by (intro world_rules wp_reads(2) [OF assms(1)] found wp_delete_Secret [OF assms(2)];
        use that assms(5) world_secret_named [OF Some] in auto)
  qed
  have "wp (bootstrap_handleDeletion E b) Q g" if "world g = world h" for g
    unfolding bootstrap_handleDeletion_def
    by (intro world_rules kubeconfig wp_updates [OF assms(1)];
      use assms(4) finalizer_removed [OF assms(4)] that in
        \<open>auto simp: vanishing_def terminating_def opt_err_def k nsname_def intro!: assms(6)\<close>)
  then show ?thesis
    unfolding bootstrap_Reconcile_def
    by (intro world_rules wp_reads(3) [OF assms(1,3)]; use assms(4) in \<open>auto simp: terminating_def\<close>)
qed

section \<open>A node\<close>

definition deleting :: "talos_node \<Rightarrow> talos_node" where
  "deleting n = n\<lparr>NodeStatus := (NodeStatus n)\<lparr>NodePhase := TalosNodePhaseDeleting\<rparr>\<rparr>"

lemma deleting_simps [simp]:
  "NodeSpec (deleting n) = NodeSpec n" "Name (deleting n) = Name n" "Namespace (deleting n) = Namespace n"
  "Finalizers (deleting n) = Finalizers n" "DeletionTimestamp (deleting n) = DeletionTimestamp n"
  "Annotations (deleting n) = Annotations n" "nsname (deleting n) = nsname n"
  by (simp_all add: deleting_def nsname_def)

lemma deleting_same: "NodePhase (NodeStatus n) = TalosNodePhaseDeleting \<Longrightarrow> deleting n = n"
  by (cases n) (simp add: deleting_def)

lemma put_same: "NodesIn w (nsname n) = Some n \<Longrightarrow> put_in (ONode n) w = w"
  by (simp add: fun_upd_idem)

lemma wp_markDeleting:
  assumes "healthy E" and "NodesIn (world g) (nsname n) = Some n"
    and "\<And>g'. world g' = put_in (ONode (deleting n)) (world g) \<Longrightarrow> Q (None, deleting n) g'"
  shows "wp (markDeleting E n) Q g"
  unfolding markDeleting_def
  by (intro world_rules wp_statuses [OF assms(1)];
    use assms(2,3) in \<open>auto simp: deleting_same put_same simp flip: deleting_def simp del: put_in.simps\<close>)

text \<open>No other control plane of the cluster of \<open>n\<close> is left that is not terminating.\<close>

definition last_control_plane :: "talos_node \<Rightarrow> world \<Rightarrow> bool" where
  "last_control_plane n w \<longleftrightarrow>
     (\<forall>k m. NodesIn w k = Some m \<longrightarrow> Namespace m = Namespace n \<longrightarrow> \<not> active_peer n m)"

lemma last_control_plane_deleting:
  "last_control_plane n w \<Longrightarrow> last_control_plane (deleting n) (put_in (ONode (deleting n)) w)"
  by (auto simp: last_control_plane_def active_peer_def)

lemma node_waits:
  assumes "healthy E" and "exact_store (Kube E)" and "NodesIn (world h) k = Some n" and "terminating n"
    and "Role (NodeSpec n) = TalosNodeRoleControlPlane"
    and "ClustersIn (world h) (Namespace n, ClusterRef (NodeSpec n)) = Some c" and "last_control_plane n (world h)"
    and "\<And>g. world g = put_in (ONode (deleting n)) (world h) \<Longrightarrow> Q (requeue_after deletionGuardRequeueDelay, None) g"
  shows "wp (node_Reconcile E R k) Q h"
proof -
  have k: "nsname n = k" using assms(3) by (rule world_named)
  have guard: "wp (guardLastControlPlane E m) P g"
    if "m = deleting n" and "world g = put_in (ONode (deleting n)) (world h)"
      and "\<And>g'. world g' = world g \<Longrightarrow> P (Some (requeue_after deletionGuardRequeueDelay, None)) g'" for m P g
  proof -
    have "no_other_control_plane m items"
      if "\<And>n'. n' \<in> set items \<longleftrightarrow> NodesIn (world g) (nsname n') = Some n' \<and> Namespace n' = Namespace m" for items
      using last_control_plane_deleting [OF assms(7)] that \<open>world g = _\<close> \<open>m = _\<close>
      unfolding no_other_control_plane_iff last_control_plane_def by metis
    then show ?thesis
      unfolding guardLastControlPlane_def isLastControlPlane_def
      by (intro world_rules wp_reads(2) [OF assms(1)] wp_lists [OF assms(2)];
        use assms(5,6) that in auto)
  qed
  have "wp (node_handleDeletion E R n) Q g" if "world g = world h" for g
    unfolding node_handleDeletion_def
    by (intro world_rules wp_markDeleting [OF assms(1)] guard;
      use assms(3) finalizer_removed [OF assms(4)] that k assms(8) in \<open>auto simp del: put_in.simps\<close>)
  then show ?thesis
    unfolding node_Reconcile_def
    by (intro world_rules wp_reads(1) [OF assms(1,3)]; use assms(4) in \<open>auto simp: terminating_def\<close>)
qed

lemma wp_deleteNodeConfig:
  assumes "healthy E" and "exact_store (Kube E)"
    and "\<And>g'. world g' = drop_secrets (Namespace n) [nodeConfigName (Name n)] (world g) \<Longrightarrow> Q None g'"
  shows "wp (deleteNodeConfig E n) Q g"
proof (cases "SecretsIn (world g) (Namespace n, nodeConfigName (Name n))")
  case None
  then show ?thesis
    unfolding deleteNodeConfig_def
    by (intro world_rules wp_missing(2) [OF assms(1,2)]; use assms(3) in \<open>auto simp: drop_absent\<close>)
next
  case (Some s)
  then show ?thesis
    unfolding deleteNodeConfig_def
    by (intro world_rules wp_reads(4) [OF assms(1)] wp_delete_Secret [OF assms(2)];
      use assms(3) world_secret_named [OF Some] in auto)
qed

text \<open>
  Without its cluster a node is let go, and nobody is asked: no credentials are left to reach a machine.
\<close>

lemma node_goes:
  assumes "healthy E" and "exact_store (Kube E)" and "NodesIn (world h) k = Some n" and "terminating n"
    and "ClustersIn (world h) (Namespace n, ClusterRef (NodeSpec n)) = None"
    and "skipDrain n \<or> SecretsIn (world h) (Namespace n, clusterKubeconfigName (ClusterRef (NodeSpec n))) = None"
    and "\<And>g. world g = drop_in KindNode k (drop_secrets (Namespace n) [nodeConfigName (Name n)] (world h)) \<Longrightarrow>
      Q (no_requeue, None) g"
  shows "wp (node_Reconcile E R k) Q h"
proof -
  have k: "nsname n = k" using assms(3) by (rule world_named)
  define w where "w = put_in (ONode (deleting n)) (world h)"
  have w: "ClustersIn w = ClustersIn (world h)" "SecretsIn w = SecretsIn (world h)" by (simp_all add: w_def)
  have cluster: "wp (get_TalosCluster E (Namespace m, ClusterRef (NodeSpec m))) P g"
    if "m = deleting n" and "ClustersIn (world g) = ClustersIn w"
      and "\<And>g' err. world g' = world g \<Longrightarrow> IsNotFound err \<Longrightarrow> P (Inl err) g'" for m P g
    using that by (intro wp_missing(1) [OF assms(1,2)]) (simp_all add: w assms(5))
  have guard: "wp (guardLastControlPlane E m) P g"
    if "m = deleting n" and "world g = w" and "\<And>g'. world g' = w \<Longrightarrow> P None g'" for m P g
    unfolding guardLastControlPlane_def isLastControlPlane_def
    by (intro world_rules cluster; use that in auto)
  have drain: "wp (drainStage E R m) P g"
    if "m = deleting n" and "world g = w" and "\<And>g'. world g' = w \<Longrightarrow> P None g'" for m P g
  proof (cases "skipDrain n")
    case True
    then have "skipDrain m" by (simp add: that(1) skipDrain_def)
    then show ?thesis unfolding drainStage_def by (intro world_rules; use that in auto)
  next
    case False
    then have "SecretsIn w (Namespace m, clusterKubeconfigName (ClusterRef (NodeSpec m))) = None"
      using assms(6) by (simp add: w that(1))
    then show ?thesis
      unfolding drainStage_def drainAndDeleteNode_def buildRemoteClient_def
      by (intro world_rules wp_missing(2) [OF assms(1,2)]; use that in auto)
  qed
  have etcd: "wp (etcdStage E m) P g"
    if "m = deleting n" and "world g = w" and "\<And>g'. world g' = w \<Longrightarrow> P None g'" for m P g
    unfolding etcdStage_def handleEtcdLeave_def loadTalosconfig_def
    by (intro world_rules cluster; use that in auto)
  have reset: "wp (resetStage E R m) P g"
    if "m = deleting n" and "world g = w" and "\<And>g'. world g' = w \<Longrightarrow> P () g'" for m P g
    unfolding resetStage_def tryReset_def loadTalosconfig_def
    by (intro world_rules cluster; use that in auto)
  have config: "wp (deleteNodeConfig E m) P g"
    if "m = deleting n" and "world g = w"
      and "\<And>g'. world g' = drop_secrets (Namespace n) [nodeConfigName (Name n)] w \<Longrightarrow> P None g'" for m P g
    by (rule wp_deleteNodeConfig [OF assms(1,2)]) (use that in simp)
  have retire: "wp (retireEndpoint E m) P g"
    if "m = deleting n" and "ClustersIn (world g) = ClustersIn w" and "\<And>g'. world g' = world g \<Longrightarrow> P () g'" for m P g
  proof -
    note outer = that
    have once: "wp (removeEndpointFromCluster E m) S g'"
      if "world g' = world g" and "\<And>g''. world g'' = world g \<Longrightarrow> S None g''" for S g'
      unfolding removeEndpointFromCluster_def RetryOnConflict_def
    proof (rule wp_retry_loop_inv [where I = "\<lambda>f. world f = world g"])
      fix f assume "world f = world g"
      then show "wp (remove_endpoint_once E m) (\<lambda>r h'. S r h' \<and> (is_conflict r \<longrightarrow> world h' = world g)) f"
        unfolding remove_endpoint_once_def
        by (intro world_rules cluster; use outer(1,2) that(2) \<open>world f = _\<close> in \<open>auto simp: is_conflict_def\<close>)
    qed (rule that(1))
    show ?thesis
      unfolding retireEndpoint_def refreshKubeconfig_def
      by (intro world_rules once cluster; use outer in auto)
  qed
  have gone: "drop_in KindNode k (drop_secrets ns names w) = drop_in KindNode k (drop_secrets ns names (world h))"
    for ns names
    by (intro world.equality) (auto simp: w_def k)
  have "wp (node_handleDeletion E R n) Q g" if "world g = world h" for g
    unfolding node_handleDeletion_def finishDeletion_def
    by (intro world_rules wp_markDeleting [OF assms(1)] guard drain etcd reset config retire wp_updates [OF assms(1)];
      use assms(3) assms(4) [unfolded terminating_def] finalizer_removed [OF assms(4)] that k gone in
        \<open>auto simp: w_def [symmetric] vanishing_def intro!: assms(7)
          simp del: put_in.simps drop_in.simps\<close>)
  then show ?thesis
    unfolding node_Reconcile_def
    by (intro world_rules wp_reads(1) [OF assms(1,3)]; use assms(4) in \<open>auto simp: terminating_def\<close>)
qed

section \<open>A whole cluster\<close>

text \<open>
  All objects of a cluster with one control plane are being deleted, with no other finalizers than the
  operator's, and no node of the cluster is to stay.
\<close>

definition all_terminating :: "world \<Rightarrow> talos_cluster \<Rightarrow> talos_node \<Rightarrow> talos_cluster_bootstrap \<Rightarrow> bool" where
  "all_terminating w c n b \<longleftrightarrow>
     ClustersIn w (nsname c) = Some c \<and> NodesIn w (nsname n) = Some n \<and> BootstrapsIn w (nsname b) = Some b \<and>
     terminating c \<and> terminating n \<and> terminating b \<and>
     Namespace n = Namespace c \<and> ClusterRef (NodeSpec n) = Name c \<and> Role (NodeSpec n) = TalosNodeRoleControlPlane \<and>
     Namespace b = Namespace c \<and> BootstrapClusterRef (BootstrapSpec b) = Name c \<and> deserted c w"

definition secrets_of :: "talos_cluster \<Rightarrow> talos_node \<Rightarrow> string list" where
  "secrets_of c n = nodeConfigName (Name n) # cluster_secret_names (Name c) @ [clusterKubeconfigName (Name c)]"

definition without :: "talos_cluster \<Rightarrow> talos_node \<Rightarrow> talos_cluster_bootstrap \<Rightarrow> world \<Rightarrow> world" where
  "without c n b w =
     drop_in KindNode (nsname n) (drop_in KindCluster (nsname c) (drop_in KindBootstrap (nsname b)
       (drop_secrets (Namespace c) (secrets_of c n) w)))"

text \<open>
  In the order of the documentation (nodes, bootstrap, cluster), and the node once more when its delay is
  over.
\<close>

definition take_down ::
    "env \<Rightarrow> cluster_reconciler \<Rightarrow> node_reconciler \<Rightarrow> bootstrap_reconciler \<Rightarrow> namespaced_name \<Rightarrow> namespaced_name \<Rightarrow>
     namespaced_name \<Rightarrow> (reconcile_result \<times> reconcile_result \<times> reconcile_result \<times> reconcile_result) prog" where
  "take_down E RC RN RB ck nk bk = do {
     r1 \<leftarrow> node_Reconcile E RN nk;
     r2 \<leftarrow> bootstrap_Reconcile E RB bk;
     r3 \<leftarrow> cluster_Reconcile E RC ck;
     r4 \<leftarrow> node_Reconcile E RN nk;
     ret (r1, r2, r3, r4)
   }"

lemma deserted_last:
  "deserted c w \<Longrightarrow> Namespace n = Namespace c \<Longrightarrow> ClusterRef (NodeSpec n) = Name c \<Longrightarrow> last_control_plane n w"
  by (auto simp: deserted_def last_control_plane_def active_peer_def)

lemma deserted_deleting:
  "deserted c w \<Longrightarrow> terminating n \<Longrightarrow> deserted c (put_in (ONode (deleting n)) w)"
  by (auto simp: deserted_def terminating_def)

text \<open>
  C9. A whole cluster goes: when every service answers, the reconciles of its terminating objects (the
  control plane, the bootstrap, the cluster, and the control plane again) end without an error and
  leave nothing of it: the three objects, the four Secrets of the cluster, its kubeconfig and the
  configuration of the node are gone, and nothing else is changed. The first reconcile of the control
  plane only marks it and asks to be run again after 30 seconds, since it is the last one.
\<close>

theorem cluster_goes_down:
  assumes "healthy E" and "exact_store (Kube E)" and "all_terminating (world h) c n b"
  shows "wp (take_down E RC RN RB (nsname c) (nsname n) (nsname b))
     (\<lambda>(r1, r2, r3, r4) g. r1 = (requeue_after deletionGuardRequeueDelay, None) \<and>
        r2 = (no_requeue, None) \<and> r3 = (no_requeue, None) \<and> r4 = (no_requeue, None) \<and>
        world g = without c n b (world h)) h"
proof -
  let ?w1 = "put_in (ONode (deleting n)) (world h)"
  let ?kc = "clusterKubeconfigName (Name c)"
  let ?w2 = "drop_in KindBootstrap (nsname b) (drop_secrets (Namespace c) [?kc] ?w1)"
  let ?w3 = "drop_in KindCluster (nsname c) (drop_secrets (Namespace c) (cluster_secret_names (Name c)) ?w2)"
  have stored: "ClustersIn (world h) (nsname c) = Some c" "NodesIn (world h) (nsname n) = Some n"
      "BootstrapsIn (world h) (nsname b) = Some b" "terminating c" "terminating n" "terminating b"
    and refs: "Namespace n = Namespace c" "ClusterRef (NodeSpec n) = Name c" "Role (NodeSpec n) = TalosNodeRoleControlPlane"
      "Namespace b = Namespace c" "BootstrapClusterRef (BootstrapSpec b) = Name c" and none: "deserted c (world h)"
    using assms(3) unfolding all_terminating_def by blast+
  have c: "ClustersIn (world h) (Namespace c, Name c) = Some c" using stored(1) by (simp add: nsname_def)
  let ?wait = "(requeue_after deletionGuardRequeueDelay, None) :: reconcile_result"
  let ?ok = "(no_requeue, None) :: reconcile_result"
  let ?Q = "\<lambda>(r1, r2, r3, r4) g. r1 = ?wait \<and> r2 = ?ok \<and> r3 = ?ok \<and> r4 = ?ok \<and> world g = without c n b (world h)"
  have marked: "NodesIn ?w1 (nsname n) = Some (deleting n)" "terminating (deleting n)" "deserted c ?w2"
    using stored(5) deserted_deleting [OF none stored(5)] by (simp_all add: terminating_def deserted_def)
  have last: "drop_in KindNode (nsname n) (drop_secrets (Namespace c) [nodeConfigName (Name n)] ?w3) =
      without c n b (world h)"
    by (intro world.equality ext) (auto simp: without_def secrets_of_def)
  have 4: "wp (node_Reconcile E RN (nsname n)) (\<lambda>r4. wp (ret (?wait, ?ok, ?ok, r4)) ?Q) g" if "world g = ?w3" for g
  proof (rule node_goes [OF assms(1,2) _ marked(2)])
    show "NodesIn (world g) (nsname n) = Some (deleting n)" by (simp add: that)
    show "ClustersIn (world g) (Namespace (deleting n), ClusterRef (NodeSpec (deleting n))) = None"
      by (simp add: that refs nsname_def)
    show "skipDrain (deleting n) \<or> SecretsIn (world g)
        (Namespace (deleting n), clusterKubeconfigName (ClusterRef (NodeSpec (deleting n)))) = None"
      by (simp add: that refs)
  qed (simp only: that deleting_simps refs last wp_return, simp)
  have 3: "wp (cluster_Reconcile E RC (nsname c)) (\<lambda>r3. wp (node_Reconcile E RN (nsname n))
      (\<lambda>r4. wp (ret (?wait, ?ok, r3, r4)) ?Q)) g" if "world g = ?w2" for g
    by (rule cluster_goes [OF assms(1,2) _ stored(4)]) (simp_all only: that marked(3) 4, simp add: stored)
  have 2: "wp (bootstrap_Reconcile E RB (nsname b)) (\<lambda>r2. wp (cluster_Reconcile E RC (nsname c))
      (\<lambda>r3. wp (node_Reconcile E RN (nsname n)) (\<lambda>r4. wp (ret (?wait, r2, r3, r4)) ?Q))) g" if "world g = ?w1" for g
    by (rule bootstrap_goes [OF assms(1,2) _ stored(6)]) (simp_all only: that refs 3, simp_all add: stored c)
  show ?thesis
    unfolding take_down_def wp_bind
    by (rule node_waits [OF assms(1,2) stored(2,5) refs(3)])
      (simp_all only: refs c deserted_last [OF none refs(1,2)] 2)
qed

section \<open>Who is asked\<close>

text \<open>The calls that take a machine out: a reset, leaving etcd, and the removal of an etcd member.\<close>

definition departure_call :: "event \<Rightarrow> bool" where
  "departure_call e \<longleftrightarrow>
     (\<exists>c r. e = TCall c r \<and>
        (case CallReq c of ReqReset _ _ _ \<Rightarrow> True | ReqEtcdLeaveCluster \<Rightarrow> True
         | ReqEtcdRemoveMemberByID _ \<Rightarrow> True | _ \<Rightarrow> False))"

lemma harmless_no_departure: "harmless e \<Longrightarrow> \<not> departure_call e"
  by (auto simp: harmless_def departure_call_def split: rpc_request.splits)

lemma frame_no_departure: "frame (\<lambda>e. \<not> departure_call e)"
  by (simp add: frame_def harmless_no_departure)

lemma no_departure_simps [simp]:
  "\<not> departure_call (KUpdate ob r)" "\<not> departure_call (KStatusUpdate ob r)" "\<not> departure_call (KDelete kd k r)"
  "\<not> departure_call (RUpdateNode rc kn r)" "\<not> departure_call (REvict rc pk r)" "\<not> departure_call (RDeleteNode rc s r)"
  "\<not> departure_call (KGet kd k)" "\<not> departure_call (Recorded kd k et s m)"
  by (simp_all add: departure_call_def)

text \<open>
  Without the cluster object no credentials are found, and the stages that would use them ask nobody.
\<close>

definition no_cluster :: "env \<Rightarrow> talos_node \<Rightarrow> bool" where
  "no_cluster E n \<longleftrightarrow>
     (\<forall>h. \<exists>err. kget_cluster (Kube E) h (Namespace n, ClusterRef (NodeSpec n)) = Inl err \<and> IsNotFound err)"

lemma loadTalosconfig_none:
  "no_cluster E n \<Longrightarrow> run_state (loadTalosconfig E n) h =
     (Inr None, h @ [KGet KindCluster (Namespace n, ClusterRef (NodeSpec n))])"
  unfolding no_cluster_def by (erule allE [where x = h]) (auto simp: loadTalosconfig_def get_TalosCluster_def)

lemma stages_without_cluster:
  assumes "no_cluster E n"
  shows "only (\<lambda>e. \<not> departure_call e) (etcdStage E n)" "only (\<lambda>e. \<not> departure_call e) (resetStage E R n)"
  by (rule onlyI, simp add: etcdStage_def handleEtcdLeave_def loadTalosconfig_none [OF assms] split_beta)
    (rule onlyI, simp add: resetStage_def tryReset_def loadTalosconfig_none [OF assms] emitEvent_def)

lemma only_wpg: "(\<And>h. wpg (\<lambda>_. P) m (\<lambda>_ _. True) h) \<Longrightarrow> only P m"
  by (rule onlyI) (fastforce simp: wpg_def trace_ok_def list_all_iff dest: split_list)

text \<open>
  C37. The machine of the last control plane is never reset, does not leave etcd and is removed from it by
  nobody, whatever \<^verbatim>\<open>resetOnDelete\<close> says: while the cluster object is there, the deletion waits; when it is
  gone, no credentials are left. That holds of every run during which the cluster object stays there or
  stays away and no listing shows another control plane of the cluster that is not terminating.
\<close>

theorem last_control_plane_untouched:
  assumes "node_status_echo E" and "Role (NodeSpec n) = TalosNodeRoleControlPlane"
    and "\<And>h. kget_cluster (Kube E) h (Namespace n, ClusterRef (NodeSpec n)) = answer"
    and "\<And>h items m. klist_nodes (Kube E) h (Namespace n) = Inr items \<Longrightarrow> m \<in> set items \<Longrightarrow> \<not> active_peer n m"
  shows "only (\<lambda>e. \<not> departure_call e) (node_handleDeletion E R n)"
proof (rule only_wpg)
  fix h
  let ?P = "\<lambda>e. \<not> departure_call e"
  define same where "same m \<longleftrightarrow> NodeSpec m = NodeSpec n \<and> nsname m = nsname n" for m :: talos_node
  have mark: "wpg (\<lambda>_. ?P) (markDeleting E n) (\<lambda>(e, m) _. same m) g" for g
    unfolding markDeleting_def same_def
    by (intro wpg_intros wpg_harmless status_update_echo [OF assms(1)]) (auto simp: harmless_no_departure nsname_def)
  have guard: "wpg (\<lambda>_. ?P) (guardLastControlPlane E m) Q g"
    if "same m" and "\<And>r g'. r = None \<Longrightarrow> no_cluster E m \<Longrightarrow> Q r g'" and "\<And>r g'. r \<noteq> None \<Longrightarrow> Q r g'" for m Q g
  proof (rule wpg_only_wp [OF frame_guardLastControlPlane [OF frame_no_departure]])
    have "Namespace m = Namespace n" "NodeSpec m = NodeSpec n" "Name m = Name n"
      using that(1) by (simp_all add: same_def nsname_def)
    then have m: "Role (NodeSpec m) = TalosNodeRoleControlPlane" "active_peer m = active_peer n"
      "kget_cluster (Kube E) f (Namespace m, ClusterRef (NodeSpec m)) = answer"
      "klist_nodes (Kube E) f (Namespace m) = klist_nodes (Kube E) f (Namespace n)" for f
      by (auto simp: assms(2,3) active_peer_def fun_eq_iff)
    show "wp (guardLastControlPlane E m) (\<lambda>r _. r = None \<longrightarrow> no_cluster E m) g"
      using assms(4)
      by (auto simp: guardLastControlPlane_def isLastControlPlane_def get_TalosCluster_def list_TalosNodes_def wp_simps
          m no_other_control_plane_iff no_cluster_def split: sum.split bool.splits)
    show "Q r (g @ es)" if "r = None \<longrightarrow> no_cluster E m" for r es
      using that \<open>\<And>r g'. r = None \<Longrightarrow> no_cluster E m \<Longrightarrow> Q r g'\<close> \<open>\<And>r g'. r \<noteq> None \<Longrightarrow> Q r g'\<close> by blast
  qed
  show "wpg (\<lambda>_. ?P) (node_handleDeletion E R n) (\<lambda>_ _. True) h"
    unfolding node_handleDeletion_def
    by (intro wpg_intros wpg_mono [OF mark] guard stages_without_cluster [THEN wpg_only]
        frame_drainStage [OF frame_no_departure, THEN wpg_only] frame_deleteNodeConfig [OF frame_no_departure, THEN wpg_only]
        frame_retireEndpoint [OF frame_no_departure, THEN wpg_only] frame_finishDeletion [THEN wpg_only]) auto
qed

end
