(* ===== verification/Departure.thy ===== *)
theory Departure
  imports Teardown
begin

text \<open>
  A node that leaves a cluster which goes on: when every service answers, one reconcile takes it out of etcd
  and of the endpoints and lets it go.
\<close>

declare split_paired_All [simp del] split_paired_Ex [simp del]

section \<open>What is left behind\<close>

definition retired :: "talos_node \<Rightarrow> talos_cluster \<Rightarrow> talos_cluster" where
  "retired n c =
     (let rest = filter (\<lambda>ep. ep \<noteq> NodeIP (NodeSpec n)) (Endpoints (ClusterSpec c))
      in if rest = [] then c else c\<lparr>ClusterSpec := (ClusterSpec c)\<lparr>Endpoints := rest\<rparr>\<rparr>)"

definition is_control_plane :: "talos_node \<Rightarrow> bool" where
  "is_control_plane n \<longleftrightarrow> Role (NodeSpec n) = TalosNodeRoleControlPlane"

definition cluster_key :: "talos_node \<Rightarrow> namespaced_name" where
  "cluster_key n = (Namespace n, ClusterRef (NodeSpec n))"

definition kubeconfig_of :: "talos_node \<Rightarrow> namespaced_name" where
  "kubeconfig_of n = (Namespace n, clusterKubeconfigName (ClusterRef (NodeSpec n)))"

text \<open>The kubeconfig may name another server afterwards.\<close>

definition left :: "talos_node \<Rightarrow> talos_cluster \<Rightarrow> world \<Rightarrow> world \<Rightarrow> bool" where
  "left n c w w' \<longleftrightarrow>
     NodesIn w' = (NodesIn w)(nsname n := None) \<and> BootstrapsIn w' = BootstrapsIn w \<and>
     ClustersIn w' = (if is_control_plane n then (ClustersIn w)(cluster_key n \<mapsto> retired n c) else ClustersIn w) \<and>
     (\<forall>k. (k = kubeconfig_of n \<longrightarrow> \<not> is_control_plane n) \<longrightarrow>
        SecretsIn w' k = (if k = (Namespace n, nodeConfigName (Name n)) then None else SecretsIn w k))"

text \<open>
  A node that may leave: its drain is skipped, and if it is a control plane, another one stays, attempts to
  leave etcd are left, and the credentials of the cluster are stored.
\<close>

definition may_leave :: "env \<Rightarrow> talos_node \<Rightarrow> talos_cluster \<Rightarrow> world \<Rightarrow> bool" where
  "may_leave E n c w \<longleftrightarrow> terminating n \<and> skipDrain n \<and> ClustersIn w (cluster_key n) = Some c \<and>
     DeletionTimestamp c = None \<and>
     (is_control_plane n \<longrightarrow>
        (\<exists>k m. NodesIn w k = Some m \<and> Namespace m = Namespace n \<and> active_peer n m) \<and>
        sint (DeletionAttempts (NodeStatus n)) < sint etcdLeaveMaxAttempts \<and>
        stores_credentials E (Namespace n) c w)"

section \<open>The stages\<close>

lemma wp_talos_unit:
  assumes "healthy E" and "\<And>g'. world g' = world g \<Longrightarrow> Q None g'"
  shows "wp (timed_unit E op call) Q g"
  using assms(2) by (simp add: timed_unit_def talos_unit_def observe_call_def time_Now_def wp_simps
      healthy_simps [OF assms(1)] world_append world_step_def)

lemma wp_withConn:
  assumes "healthy E" and "talosconfig_parse (Lib E) tc = Inr cfg"
    and "\<And>conn g'. wp (act conn) (\<lambda>r g''. r = None \<and> world g'' = world g') g'"
    and "\<And>g'. world g' = world g \<Longrightarrow> Q None g'"
  shows "wp (withConn E tc ep act) Q g"
  unfolding withConn_def
proof (rule wp_introduce(1), rule wp_connects(1) [OF assms(1,2)], simp)
  fix conn g' assume g': "world g' = world g"
  show "wp (deferring_close conn (act conn)) Q g'"
    unfolding deferring_close_def conn_Close_def wp_bind
  proof (rule wp_mono [OF assms(3) [of conn g']])
    fix r :: "gerror option" and f assume f: "r = None \<and> world f = world g'"
    then have "Q None (f @ [TClose conn])" by (intro assms(4)) (simp add: g' world_snoc)
    with f show "wp (tell (TClose conn)) (\<lambda>_. wp (ret r) Q) f" by (simp only: wp_tell wp_return)
  qed
qed

lemma peer_stays:
  assumes "\<exists>k m. NodesIn w k = Some m \<and> Namespace m = Namespace n \<and> active_peer n m" and "well_named w"
  shows "\<exists>m. NodesIn (put_in (ONode (deleting n)) w) (nsname m) = Some m \<and> Namespace m = Namespace n \<and> active_peer n m"
proof -
  obtain k m where m: "NodesIn w k = Some m" "Namespace m = Namespace n" "active_peer n m" using assms(1) by blast
  have k: "nsname m = k" using assms(2) m(1) unfolding well_named_def by blast
  have "nsname m \<noteq> nsname n" using m(3) by (auto simp: active_peer_def nsname_def)
  with m k show ?thesis by (intro exI [of _ m]) simp
qed

lemma leave_guard:
  assumes "healthy E" and "exact_store (Kube E)" and "may_leave E n c (world h)" and "NodesIn (world h) (nsname n) = Some n"
    and "m = deleting n" and "world g = put_in (ONode (deleting n)) (world h)" and "\<And>g'. world g' = world g \<Longrightarrow> Q None g'"
  shows "wp (guardLastControlPlane E m) Q g"
proof (cases "is_control_plane n")
  case True
  then have "\<exists>k p. NodesIn (world h) k = Some p \<and> Namespace p = Namespace n \<and> active_peer n p"
    and c: "ClustersIn (world g) (cluster_key n) = Some c"
    using assms(3) by (auto simp: may_leave_def assms(6))
  from peer_stays [OF this(1) world_well_named]
  obtain p where "NodesIn (world g) (nsname p) = Some p" "Namespace p = Namespace n" "active_peer n p"
    by (auto simp: assms(6))
  moreover have "active_peer m = active_peer n" by (simp add: assms(5) active_peer_def fun_eq_iff)
  ultimately have "\<not> no_other_control_plane m items"
    if "\<And>n'. n' \<in> set items \<longleftrightarrow> NodesIn (world g) (nsname n') = Some n' \<and> Namespace n' = Namespace m" for items
    using that by (auto simp: no_other_control_plane_iff assms(5))
  then show ?thesis
    unfolding guardLastControlPlane_def isLastControlPlane_def
    by (intro world_rules wp_reads(2) [OF assms(1)] wp_lists [OF assms(2)];
      use c assms(5,7) in \<open>auto simp: cluster_key_def\<close>)
next
  case False
  then show ?thesis
    unfolding guardLastControlPlane_def is_control_plane_def
    by (intro world_rules; use assms(5,7) in auto)
qed

lemma leave_etcd:
  assumes "healthy E" and "may_leave E n c (world h)" and "m = deleting n"
    and "world g = put_in (ONode (deleting n)) (world h)" and "\<And>g'. world g' = world g \<Longrightarrow> Q None g'"
  shows "wp (etcdStage E m) Q g"
proof (cases "is_control_plane n")
  case True
  then obtain s tc cfg where c: "ClustersIn (world g) (cluster_key n) = Some c"
    and s: "SecretsIn (world g) (Namespace n, clusterTalosconfigName (Name c)) = Some s"
    and tc: "secretKey s ''talosconfig'' = Inr tc" "talosconfig_parse (Lib E) tc = Inr cfg"
    and attempts: "sint (DeletionAttempts (NodeStatus m)) < sint etcdLeaveMaxAttempts"
    using assms(2) by (auto simp: may_leave_def stores_credentials_def assms(3,4) deleting_def)
  have load: "wp (loadTalosconfig E m) P g'"
    if "world g' = world g" and "\<And>g''. world g'' = world g \<Longrightarrow> P (Inr (Some (tc, Endpoints (ClusterSpec c)))) g''" for P g'
    by (rule wp_loadTalosconfig [OF assms(1) _ _ tc(1)]) (use c s that assms(3) in \<open>simp_all add: cluster_key_def\<close>)
  have leave: "wp (tryEtcdLeave E ip tc') P g'"
    if "tc' = tc" and "\<And>g''. world g'' = world g' \<Longrightarrow> P None g''" for ip tc' P g'
    unfolding tryEtcdLeave_def that(1) conn_EtcdLeave_def
    by (intro wp_withConn [OF assms(1) tc(2)] wp_talos_unit [OF assms(1)]) (simp_all add: that(2))
  show ?thesis
    unfolding etcdStage_def handleEtcdLeave_def gracefulEtcdLeave_def
    by (intro world_rules load leave; use attempts assms(5) in auto)
next
  case False
  then show ?thesis
    unfolding etcdStage_def is_control_plane_def by (intro world_rules; use assms(3,5) in auto)
qed

lemma leave_reset:
  assumes "\<And>g'. world g' = world g \<Longrightarrow> Q () g'"
  shows "wp (resetStage E R m) Q g"
proof (rule wp_keeps_world)
  have "frame keeps_world" by (simp add: frame_def harmless_keeps_world)
  then show "only keeps_world (resetStage E R m)" by (rule frame_resetStage) simp
qed (simp add: assms)

lemma retired_same:
  "length (filter (\<lambda>ep. ep \<noteq> NodeIP (NodeSpec n)) (Endpoints (ClusterSpec c))) = length (Endpoints (ClusterSpec c)) \<Longrightarrow>
   retired n c = c"
  "filter (\<lambda>ep. ep \<noteq> NodeIP (NodeSpec n)) (Endpoints (ClusterSpec c)) = [] \<Longrightarrow> retired n c = c"
proof -
  let ?eps = "Endpoints (ClusterSpec c)" and ?rest = "filter (\<lambda>ep. ep \<noteq> NodeIP (NodeSpec n)) (Endpoints (ClusterSpec c))"
  show "retired n c = c" if "length ?rest = length ?eps"
  proof -
    have "NodeIP (NodeSpec n) \<notin> set ?eps"
      using that filterExclude_length [of ?eps "NodeIP (NodeSpec n)"] unfolding filterExclude_filter by blast
    then have rest: "?rest = ?eps" by (intro filter_True) auto
    show ?thesis unfolding retired_def rest Let_def by (cases c) simp
  qed
qed (simp add: retired_def)

lemma leave_endpoints:
  assumes "healthy E" and "ClustersIn (world g) (cluster_key n) = Some c" and "DeletionTimestamp c = None"
    and "m = deleting n" and "\<And>g'. world g' = (world g)\<lparr>ClustersIn := (ClustersIn (world g))(cluster_key n \<mapsto> retired n c)\<rparr> \<Longrightarrow>
      Q None g'"
  shows "wp (removeEndpointFromCluster E m) Q g"
proof -
  let ?w = "(world g)\<lparr>ClustersIn := (ClustersIn (world g))(cluster_key n \<mapsto> retired n c)\<rparr>"
  have same: "?w = world g" if "retired n c = c"
    unfolding that by (intro world.equality) (simp_all add: fun_upd_idem assms(2))
  have key: "nsname c = cluster_key n" using world_named(2) [OF assms(2)] .
  let ?rest = "filter (\<lambda>ep. ep \<noteq> NodeIP (NodeSpec n)) (Endpoints (ClusterSpec c))"
  have settled: "settle (OCluster (c\<lparr>ClusterSpec := (ClusterSpec c)\<lparr>Endpoints := ?rest\<rparr>\<rparr>)) (world g) = ?w" if "?rest \<noteq> []"
    using that key assms(3) by (simp add: vanishing_def retired_def nsname_def)
  have once: "wp (remove_endpoint_once E m) (\<lambda>r g'. r = None \<and> world g' = ?w) g'" if "world g' = world g" for g'
    unfolding remove_endpoint_once_def Let_def assms(4) deleting_simps
  proof (rule wp_introduce(1), rule wp_reads(2) [OF assms(1)])
    show "ClustersIn (world g') (Namespace n, ClusterRef (NodeSpec n)) = Some c"
      using assms(2) by (simp add: that cluster_key_def)
    fix g2 assume g2: "world g2 = world g'"
    show "wp (case Inr c of Inl err \<Rightarrow> if IsNotFound err then ret None else ret (Some err)
       | Inr cluster \<Rightarrow>
           if length (filterExclude (Endpoints (ClusterSpec cluster)) (NodeIP (NodeSpec n))) =
              length (Endpoints (ClusterSpec cluster)) then ret None
           else if length (filterExclude (Endpoints (ClusterSpec cluster)) (NodeIP (NodeSpec n))) = 0 then ret None
           else do {
             u \<leftarrow> update_TalosCluster E (cluster\<lparr>ClusterSpec := (ClusterSpec cluster)
                    \<lparr>Endpoints := filterExclude (Endpoints (ClusterSpec cluster)) (NodeIP (NodeSpec n))\<rparr>\<rparr>);
             ret (opt_err u)
           }) (\<lambda>r g'. r = None \<and> world g' = ?w) g2"
      unfolding sum.case filterExclude_filter
    proof (intro world_rules wp_updates(2) [OF assms(1)])
      show "None = None \<and> world g2 = ?w" if "length ?rest = length (Endpoints (ClusterSpec c))"
        using same [OF retired_same(1) [OF that]] g2 \<open>world g' = world g\<close> by simp
      show "None = None \<and> world g2 = ?w" if "length ?rest = 0"
        using same [OF retired_same(2)] that g2 \<open>world g' = world g\<close> by simp
    qed (use settled g2 that in \<open>simp add: opt_err_def\<close>)
  qed
  show ?thesis
    unfolding removeEndpointFromCluster_def RetryOnConflict_def
  proof (rule wp_retry_loop_inv [where I = "\<lambda>f. world f = world g"])
    fix f assume "world f = world g"
    then show "wp (remove_endpoint_once E m) (\<lambda>r h'. Q r h' \<and> (is_conflict r \<longrightarrow> world h' = world g)) f"
      by (rule wp_mono [OF once]) (simp add: assms(5) is_conflict_def)
  qed (rule refl)
qed

definition same_but :: "namespaced_name \<Rightarrow> world \<Rightarrow> world \<Rightarrow> bool" where
  "same_but key w w' \<longleftrightarrow> NodesIn w' = NodesIn w \<and> ClustersIn w' = ClustersIn w \<and> BootstrapsIn w' = BootstrapsIn w \<and>
     (\<forall>k. k \<noteq> key \<longrightarrow> SecretsIn w' k = SecretsIn w k)"

lemma same_but_refl [simp]: "same_but key w w"
  by (simp add: same_but_def)

lemma wp_update_Secret:
  assumes "healthy E" and "nsname s = key" and "\<And>r g'. same_but key (world g) (world g') \<Longrightarrow> Q r g'"
  shows "wp (update_Secret E s) Q g"
  using assms(2) by (auto simp: update_Secret_def wp_simps healthy_simps [OF assms(1)] opt_err_def world_append same_but_def
      intro!: assms(3))

lemma wp_introduce_list:
  "(xs = [] \<Longrightarrow> wp m Q h) \<Longrightarrow> (\<And>y ys. xs = y # ys \<Longrightarrow> wp (k y ys) Q h) \<Longrightarrow>
   wp (case xs of [] \<Rightarrow> m | y # ys \<Rightarrow> k y ys) Q h"
  by (cases xs) simp_all

lemma leave_kubeconfig:
  assumes "healthy E" and "exact_store (Kube E)" and "ClustersIn (world g) (cluster_key n) = Some c" and "m = deleting n"
    and "\<And>r g'. same_but (kubeconfig_of n) (world g) (world g') \<Longrightarrow> Q r g'"
  shows "wp (refreshKubeconfig E m) Q g"
proof -
  have cluster: "ClustersIn (world g) (Namespace m, ClusterRef (NodeSpec m)) = Some c"
    using assms(3,4) by (simp add: cluster_key_def)
  show ?thesis
  proof (cases "SecretsIn (world g) (kubeconfig_of n)")
    case None
    then show ?thesis
      unfolding refreshKubeconfig_def
      by (intro world_rules wp_reads(2) [OF assms(1) cluster] wp_missing(2) [OF assms(1,2)] wp_introduce_list assms(5);
        use assms(4) in \<open>auto simp: kubeconfig_of_def\<close>)
  next
    case (Some s)
    have found: "wp (getSecret E (clusterKubeconfigName (ClusterRef (NodeSpec m))) (Namespace m)) R g'"
      if "world g' = world g" and "\<And>g''. world g'' = world g \<Longrightarrow> R (Inr s) g''" for R g'
      by (rule wp_reads(4) [OF assms(1)]; use Some assms(4) that in \<open>simp add: kubeconfig_of_def\<close>)
    have store: "wp (update_Secret E (s'\<lparr>Data := d\<rparr>)) R g'"
      if "s = s'" and "world g' = world g" and "\<And>r g''. same_but (kubeconfig_of n) (world g) (world g'') \<Longrightarrow> R r g''"
      for s' d R g'
      using world_secret_named [OF Some] that by (intro wp_update_Secret [OF assms(1)]) (simp_all add: nsname_def)
    show ?thesis
      unfolding refreshKubeconfig_def
      by (intro world_rules wp_reads(2) [OF assms(1) cluster] found store wp_introduce_list assms(5); auto)
  qed
qed

text \<open>The world after the endpoint is retired: only the node object is left to go.\<close>

definition retired_world :: "talos_node \<Rightarrow> talos_cluster \<Rightarrow> world \<Rightarrow> world \<Rightarrow> bool" where
  "retired_world n c w w' \<longleftrightarrow>
     NodesIn w' = (NodesIn w)(nsname n \<mapsto> deleting n) \<and> BootstrapsIn w' = BootstrapsIn w \<and>
     ClustersIn w' = (if is_control_plane n then (ClustersIn w)(cluster_key n \<mapsto> retired n c) else ClustersIn w) \<and>
     (\<forall>k. (k = kubeconfig_of n \<longrightarrow> \<not> is_control_plane n) \<longrightarrow>
        SecretsIn w' k = (if k = (Namespace n, nodeConfigName (Name n)) then None else SecretsIn w k))"

lemma leave_retire:
  assumes "healthy E" and "exact_store (Kube E)" and "may_leave E n c (world h)" and "m = deleting n"
    and "world g = drop_secrets (Namespace n) [nodeConfigName (Name n)] (put_in (ONode (deleting n)) (world h))"
    and "\<And>g'. retired_world n c (world h) (world g') \<Longrightarrow> Q () g'"
  shows "wp (retireEndpoint E m) Q g"
proof (cases "is_control_plane n")
  case True
  have c: "ClustersIn (world g) (cluster_key n) = Some c" "DeletionTimestamp c = None"
    using assms(3) by (auto simp: may_leave_def assms(5))
  have key: "(Namespace n, nodeConfigName (Name n)) \<noteq> kubeconfig_of n" by (simp add: kubeconfig_of_def secret_name_defs)
  have kubeconfig: "wp (refreshKubeconfig E m) P g1"
    if g1: "world g1 = world g\<lparr>ClustersIn := (ClustersIn (world g))(cluster_key n \<mapsto> retired n c)\<rparr>"
      and P: "\<And>r g'. retired_world n c (world h) (world g') \<Longrightarrow> P r g'" for P g1
  proof (rule leave_kubeconfig [OF assms(1,2) _ assms(4)])
    show "ClustersIn (world g1) (cluster_key n) = Some (retired n c)" by (simp add: g1)
    fix r g' assume "same_but (kubeconfig_of n) (world g1) (world g')"
    then show "P r g'"
      using True by (intro P) (auto simp: retired_world_def same_but_def g1 assms(5) prod_eq_iff)
  qed
  show ?thesis
    unfolding retireEndpoint_def
    by (intro world_rules leave_endpoints [OF assms(1) c assms(4)] kubeconfig assms(6);
      use True assms(4) in \<open>auto simp: is_control_plane_def\<close>)
next
  case False
  then have "retired_world n c (world h) (world g)" by (auto simp: retired_world_def assms(5) prod_eq_iff)
  with False show ?thesis
    unfolding retireEndpoint_def is_control_plane_def by (intro world_rules; use assms(4,6) in auto)
qed

section \<open>A node leaves\<close>


end
