(* ===== verification/SampleTeardown.thy ===== *)
theory SampleTeardown
  imports SampleRollout Departure
begin

text \<open>
  The environment of Sample with a store that answers from the objects the history leaves, so that what is gone
  is not found; in it a cluster is taken down, and a control plane leaves another one.
\<close>

declare split_paired_All [simp del] split_paired_Ex [simp del]

section \<open>An exact environment\<close>

definition node_name_of :: "event \<Rightarrow> namespaced_name option" where
  "node_name_of e = (case written e of Some (ONode n) \<Rightarrow> Some (nsname n) | _ \<Rightarrow> None)"

definition node_names :: "hist \<Rightarrow> namespaced_name list" where
  "node_names h = List.map_filter node_name_of h"

definition answer_of :: "string \<Rightarrow> 'a option \<Rightarrow> gerror + 'a" where
  "answer_of name x = (case x of None \<Rightarrow> Inl (ErrApi NotFound name) | Some y \<Rightarrow> Inr y)"

definition exact_kube :: kube_api where
  "exact_kube = sample_kube
     \<lparr>kget_node := (\<lambda>h k. answer_of (snd k) (NodesIn (world h) k)),
      kget_cluster := (\<lambda>h k. answer_of (snd k) (ClustersIn (world h) k)),
      kget_bootstrap := (\<lambda>h k. answer_of (snd k) (BootstrapsIn (world h) k)),
      klist_nodes := (\<lambda>h ns. Inr (filter (\<lambda>n. Namespace n = ns) (List.map_filter (NodesIn (world h)) (node_names h))))\<rparr>"

definition exact_env :: env where
  "exact_env = sample_env\<lparr>Kube := exact_kube\<rparr>"

lemma node_names_stored: "NodesIn (world h) k = Some n \<Longrightarrow> k \<in> set (node_names h)"
proof (induction h arbitrary: n rule: rev_induct)
  case (snoc e h)
  have put: "NodesIn (put_in ob w) k = Some m \<Longrightarrow> NodesIn w k = Some m \<or> (\<exists>n'. ob = ONode n' \<and> nsname n' = k)" for ob w m
    by (cases ob) (auto split: if_splits)
  have drop: "NodesIn (drop_in kd k' w) k = Some m \<Longrightarrow> NodesIn w k = Some m" for kd k' w m
    by (cases kd) (auto split: if_splits)
  have settle: "NodesIn (settle ob w) k = Some m \<Longrightarrow> NodesIn w k = Some m \<or> (\<exists>n'. ob = ONode n' \<and> nsname n' = k)" for ob w m
  proof -
    have "settle ob w = put_in ob w \<or> (\<exists>kd k'. settle ob w = drop_in kd k' w)"
      by (cases ob) (simp_all only: settle.simps split: if_split, blast+)
    then show "NodesIn (settle ob w) k = Some m \<Longrightarrow> NodesIn w k = Some m \<or> (\<exists>n'. ob = ONode n' \<and> nsname n' = k)"
      by (metis put drop)
  qed
  have step: "NodesIn w k = Some m \<or> node_name_of e = Some k" if m: "NodesIn (world_step w e) k = Some m" for w m
  proof (cases "written e")
    case None
    then consider "world_step w e = w" | kd k' where "world_step w e = drop_in kd k' w"
      using written_step [where e = e and w = w] unfolding None option.case by blast
    then have "NodesIn w k = Some m" using m by cases (simp, metis drop)
    then show ?thesis by (rule disjI1)
  next
    case (Some ob)
    then consider "world_step w e = w" | "world_step w e = put_in ob w" | "world_step w e = settle ob w"
      using written_step [where e = e and w = w] unfolding Some option.case by (meson if_split)
    then have "NodesIn w k = Some m \<or> (\<exists>n'. ob = ONode n' \<and> nsname n' = k)"
      using m by cases (simp, metis put, metis settle)
    then show ?thesis unfolding node_name_of_def Some by auto
  qed
  show ?case
    using snoc step [of "world h" n] by (auto simp: replay_snoc node_names_def List.map_filter_def)
qed (simp add: empty_world_def)

lemma exact_env_simps [simp]:
  "Kube exact_env = exact_kube" "Talos exact_env = sample_talos" "Remote exact_env = sample_remote"
  "Host exact_env = sample_host" "Lib exact_env = sample_lib"
  by (simp_all add: exact_env_def)

lemma exact_listing:
  "\<exists>items. klist_nodes exact_kube h ns = Inr items \<and>
     (\<forall>n. n \<in> set items \<longleftrightarrow> NodesIn (world h) (nsname n) = Some n \<and> Namespace n = ns)"
proof -
  let ?all = "List.map_filter (NodesIn (world h)) (node_names h)"
  have "n \<in> set ?all \<longleftrightarrow> NodesIn (world h) (nsname n) = Some n" for n
  proof
    assume "n \<in> set ?all"
    then obtain k where "NodesIn (world h) k = Some n" by (auto simp: List.map_filter_def)
    with world_named(1) [OF this] show "NodesIn (world h) (nsname n) = Some n" by simp
  next
    assume n: "NodesIn (world h) (nsname n) = Some n"
    with node_names_stored [OF n] show "n \<in> set ?all" by (force simp: List.map_filter_def)
  qed
  then show ?thesis by (simp add: exact_kube_def)
qed

lemma exact_exact: "exact_store exact_kube"
  unfolding exact_store_def
proof (intro conjI allI impI)
  show "\<exists>items. klist_nodes exact_kube h ns = Inr items \<and>
      (\<forall>n. n \<in> set items \<longleftrightarrow> NodesIn (world h) (nsname n) = Some n \<and> Namespace n = ns)" for h ns
    by (rule exact_listing)
qed (simp_all add: exact_kube_def answer_of_def sample_kube_def)

lemma exact_healthy: "healthy exact_env"
proof -
  have listed: "\<exists>items. klist_nodes exact_kube h (fst k) = Inr items \<and> n \<in> set items"
    if "NodesIn (world h) k = Some n" for h k n
    using exact_listing [of h "fst k"] world_named(1) [OF that] that by (auto simp: nsname_def)
  have "healthy_store exact_kube"
    unfolding healthy_store_def world_secrets
    using sample_secret listed by (simp add: exact_kube_def answer_of_def)
  moreover have "healthy_writes exact_kube" by (simp add: healthy_writes_def exact_kube_def sample_kube_def)
  ultimately show ?thesis by (simp add: healthy_def sample_talos_def sample_remote_def)
qed

section \<open>A cluster is taken down\<close>

text \<open>Everything of a cluster is being deleted; one Secret belongs to somebody else.\<close>

definition ending_node :: talos_node where
  "ending_node = sample_node\<lparr>DeletionTimestamp := Some 1, NodeSpec := (NodeSpec sample_node)\<lparr>ResetOnDelete := True\<rparr>\<rparr>"

definition sample_other :: secret where
  "sample_other = newSecret ''other'' ''ns'' ''key'' ''value''"

definition sample_ending :: hist where
  "sample_ending =
     [KCreate (OCluster (sample_cluster\<lparr>DeletionTimestamp := Some 1\<rparr>)) None, KCreate (ONode ending_node) None,
      KCreate (OBootstrap (sample_bootstrap\<lparr>DeletionTimestamp := Some 1\<rparr>)) None,
      KCreate (OSecret sample_talosconfig) None,
      KCreate (OSecret (newSecret (nodeConfigName ''n'') ''ns'' ''config.yaml'' ''machine: {}'')) None,
      KCreate (OSecret (newSecret (clusterKubeconfigName ''c'') ''ns'' ''kubeconfig'' ''kubeconfig'')) None,
      KCreate (OSecret sample_other) None]"

lemma sample_ending_world:
  "world sample_ending =
     \<lparr>SecretsIn = [(''ns'', clusterTalosconfigName ''c'') \<mapsto> sample_talosconfig,
        (''ns'', nodeConfigName ''n'') \<mapsto> newSecret (nodeConfigName ''n'') ''ns'' ''config.yaml'' ''machine: {}'',
        (''ns'', clusterKubeconfigName ''c'') \<mapsto> newSecret (clusterKubeconfigName ''c'') ''ns'' ''kubeconfig'' ''kubeconfig'',
        (''ns'', ''other'') \<mapsto> sample_other],
      NodesIn = [(''ns'', ''n'') \<mapsto> ending_node],
      ClustersIn = [(''ns'', ''c'') \<mapsto> sample_cluster\<lparr>DeletionTimestamp := Some 1\<rparr>],
      BootstrapsIn = [(''ns'', ''b'') \<mapsto> sample_bootstrap\<lparr>DeletionTimestamp := Some 1\<rparr>]\<rparr>"
  by (simp add: sample_ending_def replay_def empty_world_def nsname_def sample_cluster_def ending_node_def sample_node_def
      sample_bootstrap_def sample_talosconfig_def sample_other_def newSecret_def)

lemma sample_all_terminating:
  "all_terminating (world sample_ending) (sample_cluster\<lparr>DeletionTimestamp := Some 1\<rparr>) ending_node
     (sample_bootstrap\<lparr>DeletionTimestamp := Some 1\<rparr>)"
  unfolding all_terminating_def sample_ending_world
  by (simp add: sample_cluster_def ending_node_def sample_node_def sample_bootstrap_def nsname_def terminating_def
      deserted_def)

theorem cluster_goes_down_witness:
  "wp (take_down exact_env production_cluster (production_node exact_env) production_bootstrap
        (''ns'', ''c'') (''ns'', ''n'') (''ns'', ''b''))
     (\<lambda>(r1, r2, r3, r4) g. snd r1 = None \<and> snd r2 = None \<and> snd r3 = None \<and> snd r4 = None \<and>
        world g = empty_world\<lparr>SecretsIn := [(''ns'', ''other'') \<mapsto> sample_other]\<rparr>) sample_ending"
proof -
  let ?c = "sample_cluster\<lparr>DeletionTimestamp := Some 1\<rparr>" and ?b = "sample_bootstrap\<lparr>DeletionTimestamp := Some 1\<rparr>"
  have names: "nsname ?c = (''ns'', ''c'')" "nsname ending_node = (''ns'', ''n'')" "nsname ?b = (''ns'', ''b'')"
    by (simp_all add: nsname_def sample_cluster_def ending_node_def sample_node_def sample_bootstrap_def)
  have "secrets_of ?c ending_node = [nodeConfigName ''n'', clusterSecretsName ''c'', clusterControlPlaneName ''c'',
      clusterWorkerName ''c'', clusterTalosconfigName ''c'', clusterKubeconfigName ''c'']" "Namespace ?c = ''ns''"
    by (simp_all add: secrets_of_def cluster_secret_names_def sample_cluster_def ending_node_def sample_node_def)
  then have w: "without ?c ending_node ?b (world sample_ending) = empty_world\<lparr>SecretsIn := [(''ns'', ''other'') \<mapsto> sample_other]\<rparr>"
    unfolding without_def names sample_ending_world
    by (intro world.equality ext) (auto simp: empty_world_def secret_name_defs)
  show ?thesis
    by (rule wp_mono [OF cluster_goes_down [OF exact_healthy _ sample_all_terminating, unfolded names w]])
      (auto simp: exact_exact)
qed

section \<open>A control plane leaves another one\<close>

definition leaving_node :: talos_node where
  "leaving_node = sample_node\<lparr>DeletionTimestamp := Some 1, NodeSpec := (NodeSpec sample_node)\<lparr>SkipDrain := True\<rparr>\<rparr>"

definition staying_node :: talos_node where
  "staying_node = sample_node\<lparr>Name := ''m'', NodeSpec := (NodeSpec sample_node)\<lparr>NodeIP := ''10.0.0.2''\<rparr>\<rparr>"

definition pair_cluster :: talos_cluster where
  "pair_cluster = sample_cluster\<lparr>ClusterSpec := (ClusterSpec sample_cluster)\<lparr>Endpoints := [''10.0.0.1'', ''10.0.0.2'']\<rparr>\<rparr>"

definition sample_pair :: hist where
  "sample_pair = [KCreate (OCluster pair_cluster) None, KCreate (ONode leaving_node) None, KCreate (ONode staying_node) None,
     KCreate (OSecret sample_talosconfig) None]"

lemma sample_pair_world:
  "world sample_pair = \<lparr>SecretsIn = [(''ns'', clusterTalosconfigName ''c'') \<mapsto> sample_talosconfig],
     NodesIn = [(''ns'', ''n'') \<mapsto> leaving_node, (''ns'', ''m'') \<mapsto> staying_node],
     ClustersIn = [(''ns'', ''c'') \<mapsto> pair_cluster], BootstrapsIn = Map.empty\<rparr>"
  by (simp add: sample_pair_def replay_def empty_world_def nsname_def pair_cluster_def sample_cluster_def leaving_node_def
      staying_node_def sample_node_def sample_talosconfig_def newSecret_def)

lemma sample_may_leave: "may_leave exact_env leaving_node pair_cluster (world sample_pair)"
proof -
  have "active_peer leaving_node staying_node"
    by (simp add: active_peer_def leaving_node_def staying_node_def sample_node_def)
  then have "\<exists>k m. NodesIn (world sample_pair) k = Some m \<and> Namespace m = Namespace leaving_node \<and> active_peer leaving_node m"
    by (intro exI [of _ "(''ns'', ''m'')"] exI [of _ staying_node])
      (simp add: sample_pair_world leaving_node_def staying_node_def sample_node_def)
  then show ?thesis
    unfolding may_leave_def
    by (auto simp: sample_pair_world leaving_node_def sample_node_def pair_cluster_def sample_cluster_def terminating_def
        skipDrain_def cluster_key_def etcdLeaveMaxAttempts_def stores_credentials_def sample_talosconfig_def secretKey_def
        newSecret_def data_lookup_def sample_lib_def)
qed


section \<open>The last control plane\<close>

definition deserted_env :: env where
  "deserted_env = exact_env\<lparr>Kube := exact_kube\<lparr>kget_cluster := (\<lambda>_ k. Inl (ErrApi NotFound (snd k))),
     klist_nodes := (\<lambda>_ _. Inr [])\<rparr>\<rparr>"

theorem last_control_plane_untouched_witness:
  "ResetOnDelete (NodeSpec ending_node) \<and>
   only (\<lambda>e. \<not> departure_call e) (node_handleDeletion deserted_env (production_node deserted_env) ending_node)"
proof
  show "ResetOnDelete (NodeSpec ending_node)" by (simp add: ending_node_def)
  show "only (\<lambda>e. \<not> departure_call e) (node_handleDeletion deserted_env (production_node deserted_env) ending_node)"
    by (rule last_control_plane_untouched [where answer = "Inl (ErrApi NotFound ''c'')"])
      (simp_all add: node_status_echo_def deserted_env_def exact_kube_def sample_kube_def ending_node_def sample_node_def)
qed

end
