(* ===== verification/Upgrading.thy ===== *)
theory Upgrading
  imports Rollout
begin

text \<open>
  An upgrade from its request to its end: one reconcile starts it, the next one sees the machine run the new
  version.
\<close>

declare split_paired_All [simp del] split_paired_Ex [simp del]

section \<open>Steps of an upgrade\<close>

text \<open>The machines answer a question for their version with the image they installed last, and are no containers.\<close>

definition machines_answer :: "env \<Rightarrow> (string \<Rightarrow> string list) \<Rightarrow> bool" where
  "machines_answer E vs \<longleftrightarrow>
     (\<forall>h c. CallReq c = ReqVersion \<longrightarrow>
        (\<exists>m ms. tcall_version (Talos E) h c = Inr (m # ms) \<and> PlatformMode m \<noteq> Some ''container'' \<and>
           (\<forall>v rest. installed vs h (CallNode c) = v # rest \<longrightarrow> VersionTag m = Some v)))"

lemma wp_version_view:
  assumes "machines_answer E vs"
    and "\<And>v mode g'. mode \<noteq> ''container'' \<Longrightarrow> (\<forall>t rest. installed vs g ip = t # rest \<longrightarrow> v = t) \<Longrightarrow> world g' = world g \<Longrightarrow>
      installed vs g' = installed vs g \<Longrightarrow> Q (Inr (v, mode)) g'"
  shows "wp (conn_GetVersion E c ip) Q g"
proof -
  have "installed vs (g @ [ClockRead]) = installed vs g" by (simp add: installs.view_append)
  then obtain m ms where m: "tcall_version (Talos E) (g @ [ClockRead]) (rpc E c ip ReqVersion) = Inr (m # ms)"
    "PlatformMode m \<noteq> Some ''container''" "\<forall>v rest. installed vs g ip = v # rest \<longrightarrow> VersionTag m = Some v"
    using assms(1) unfolding machines_answer_def by (metis rpc_simps)
  then show ?thesis
    using assms(2)
    by (auto simp: conn_GetVersion_def time_Now_def talos_version_def observe_call_def metric_observe_def wp_simps
        world_append installs.view_append world_step_def split: option.split)
qed

lemma wp_upgrade_view:
  assumes "healthy E"
    and "\<And>g'. world g' = world g \<Longrightarrow> installed vs g' = pushed (installed vs g) ip (versionFromImage img) \<Longrightarrow> Q None g'"
  shows "wp (conn_Upgrade E c ip img) Q g"
  using assms(2)
  by (simp add: conn_Upgrade_def timed_unit_def talos_unit_def time_Now_def observe_call_def metric_observe_def wp_simps
      healthy_simps [OF assms(1)] world_append world_step_def replay_def upgrade_step_def)

text \<open>What is stored of a node whose upgrade to an image was begun.\<close>

definition upgrading_to :: "talos_node \<Rightarrow> string \<Rightarrow> talos_node \<Rightarrow> bool" where
  "upgrading_to n img m \<longleftrightarrow> same_node n m \<and> DeletionTimestamp m = DeletionTimestamp n \<and> Finalizers m = Finalizers n \<and>
     NodePhase (NodeStatus m) = TalosNodePhaseUpgrading \<and> Annotations m = (Annotations n)(AnnotationLastUpgrade \<mapsto> img)"

lemma handleUpgrade_starts:
  assumes "healthy E" and "patches_accepted E" and "machines_answer E vs"
    and "ClustersIn (world g) (Namespace n, ClusterRef (NodeSpec n)) = Some c" and "stores_credentials E (Namespace n) c (world g)"
    and "versionFromImage img \<noteq> []" and "\<not> isDowngrade E (CurrentTalosVersion (NodeStatus n)) (versionFromImage img)"
    and "\<And>m g'. upgrading_to n img m \<Longrightarrow> world g' = put_in (ONode m) (world g) \<Longrightarrow>
      installed vs g' = pushed (installed vs g) (NodeIP (NodeSpec n)) (versionFromImage img) \<Longrightarrow>
      Q (requeue_after upgradeCheckInterval, None) g'"
  shows "wp (handleUpgrade E R n img) Q g"
proof -
  obtain s tc cfg where creds: "SecretsIn (world g) (Namespace n, clusterTalosconfigName (Name c)) = Some s"
    "secretKey s ''talosconfig'' = Inr tc" "talosconfig_parse (Lib E) tc = Inr cfg"
    using assms(5) unfolding stores_credentials_def by blast
  have load: "wp (loadTalosconfig E n) P g'"
    if "g' = g" and "\<And>g'. world g' = world g \<Longrightarrow> installed vs g' = installed vs g \<Longrightarrow> P (Inr (Some (tc, Endpoints (ClusterSpec c)))) g'" for P g'
    using that by (intro installs.wp_load_view [OF assms(1), where vs = vs and s = s and c = c]) (simp_all add: assms(4) creds(1,2))
  have dial: "wp (conn_Dial E tc' ep) P g'"
    if "tc' = tc" and "\<And>c g''. world g'' = world g' \<Longrightarrow> installed vs g'' = installed vs g' \<Longrightarrow> P (Inr c) g''" for tc' ep P g'
    using that by (intro installs.wp_dial_view(1) [OF assms(1) creds(3) [folded that(1)], where vs = vs]) simp_all
  have ends: "Q (requeue_after upgradeCheckInterval, None) (f @ [TClose conn])"
    if "world f = put_in (ONode (n\<lparr>NodeStatus := st, Annotations := (Annotations n)(AnnotationLastUpgrade \<mapsto> img)\<rparr>)) (world g)"
      and "NodePhase st = TalosNodePhaseUpgrading"
      and "installed vs f = pushed (installed vs g) (NodeIP (NodeSpec n)) (versionFromImage img)" for f conn st
    by (rule assms(8) [where m = "n\<lparr>NodeStatus := st, Annotations := (Annotations n)(AnnotationLastUpgrade \<mapsto> img)\<rparr>"])
      (use that in \<open>simp_all add: upgrading_to_def same_node_def nsname_def del: put_in.simps\<close>)
  have same: "put_in (ONode (n\<lparr>NodeStatus := st, Annotations := a\<rparr>)) (put_in (ONode (n\<lparr>NodeStatus := st'\<rparr>)) w) =
      put_in (ONode (n\<lparr>NodeStatus := st, Annotations := a\<rparr>)) w" for st st' a w
    by (simp add: nsname_def)
  show ?thesis
    unfolding handleUpgrade_def startUpgrade_def Let_def
    using assms(6,7)
    by (intro wp_intros wp_deferring_close installs.record_rules [where vs = vs] load dial wp_version_view [OF assms(3)]
        installs.wp_status_view [OF assms(1), where vs = vs] wp_upgrade_view [OF assms(1), where vs = vs]
        installs.wp_patch_view [OF assms(2), where vs = vs]; (simp; fail)?)
      (clarsimp simp: same simp del: put_in.simps; erule ends; simp)
qed

section \<open>The first reconcile\<close>

text \<open>
  A live node asks for an upgrade to an image: by a fresh annotation, or by the version and the extensions in its
  spec, for which \<^verbatim>\<open>computeDesiredImage\<close> finds the image. The version is no downgrade.
\<close>

definition wants_image :: "env \<Rightarrow> node_reconciler \<Rightarrow> talos_node \<Rightarrow> string \<Rightarrow> bool" where
  "wants_image E R n img \<longleftrightarrow>
     TalosVersion (NodeSpec n) \<noteq> [] \<and> CHR '':'' \<notin> set (TalosVersion (NodeSpec n)) \<and>
     HasCondition (Conditions (NodeStatus n)) TalosNodeConditionConfigApplied ConditionTrue \<and>
     (\<exists>d. (\<forall>g. wp (computeDesiredImage E R n) (\<lambda>r _. r = Inr d) g) \<and> img = DesiredImage d \<and>
        (normalizeVersion (TalosVersion (NodeSpec n)) \<noteq> normalizeVersion (CurrentTalosVersion (NodeStatus n)) \<or>
         NewSchematicID d \<noteq> []))"

definition asks_upgrade :: "env \<Rightarrow> node_reconciler \<Rightarrow> talos_node \<Rightarrow> string \<Rightarrow> bool" where
  "asks_upgrade E R n img \<longleftrightarrow>
     DeletionTimestamp n = None \<and> NodePhase (NodeStatus n) \<noteq> TalosNodePhaseUpgrading \<and> versionFromImage img \<noteq> [] \<and>
     \<not> isDowngrade E (CurrentTalosVersion (NodeStatus n)) (versionFromImage img) \<and>
     (if fresh_request n AnnotationUpgrade AnnotationLastUpgrade then img = annotation (Annotations n) AnnotationUpgrade
      else wants_image E R n img)"

definition begun :: "talos_node \<Rightarrow> string \<Rightarrow> talos_node \<Rightarrow> bool" where
  "begun n img m \<longleftrightarrow> same_node n m \<and> DeletionTimestamp m = DeletionTimestamp n \<and>
     ContainsFinalizer (Finalizers m) FinalizerCleanup \<and> NodePhase (NodeStatus m) = TalosNodePhaseUpgrading \<and>
     annotation (Annotations m) AnnotationLastUpgrade = img"

lemma image_finalizer: "computeDesiredImage E R (with_finalizer n) = computeDesiredImage E R n"
  by (simp add: computeDesiredImage_def Let_def)

lemma wp_image_view:
  assumes "quiet_factory R" and "\<forall>g. wp (computeDesiredImage E R n) (\<lambda>r _. r = Inr d) g"
    and "\<And>g'. world g' = world g \<Longrightarrow> installed vs g' = installed vs g \<Longrightarrow> Q (Inr d) g'"
  shows "wp (computeDesiredImage E R n) Q g"
proof (rule installs.wp_steady [where W = "\<lambda>w. w = world g" and vs = vs])
  show "only (steady upgrade_step) (computeDesiredImage E R n)"
    by (rule frame_image [OF installs.frame_steady assms(1)]) simp
  have quiet: "only keeps_world (computeDesiredImage E R n)"
    by (rule frame_image [OF _ assms(1)])
      (simp_all add: frame_def harmless_keeps_world, simp add: keeps_world_def world_step_def)
  show "wp (computeDesiredImage E R n) P g" if "\<And>g'. world g' = world g \<Longrightarrow> P (Inr d) g'" for P
  proof -
    have "wp (computeDesiredImage E R n) (\<lambda>r g'. r = Inr d \<and> world g' = world g) g"
      using assms(2) by (intro wp_conj) (blast, intro wp_keeps_world [OF quiet] refl)
    then show ?thesis by (rule wp_mono) (simp add: that)
  qed
qed (rule assms(3))

lemma wanted_tag:
  assumes "wants_image E R n img"
  shows "versionFromImage img = normalizeVersion (TalosVersion (NodeSpec n))"
proof -
  obtain d where d: "\<forall>g. wp (computeDesiredImage E R n) (\<lambda>r _. r = Inr d) g" "img = DesiredImage d"
    and v: "TalosVersion (NodeSpec n) \<noteq> []" "CHR '':'' \<notin> set (TalosVersion (NodeSpec n))"
    using assms unfolding wants_image_def by blast
  then show ?thesis
    using computeDesiredImage_tag [OF v, of E R "[]"] by (simp add: wp_run_state)
qed

lemma upgrade_begins:
  assumes "healthy E" and "patches_accepted E" and "machines_answer E vs" and "quiet_factory R"
    and "NodesIn (world h) (nsname n) = Some n" and "asks_upgrade E R n img"
    and "ClustersIn (world h) (Namespace n, ClusterRef (NodeSpec n)) = Some c" and "stores_credentials E (Namespace n) c (world h)"
    and "\<And>m g. begun n img m \<Longrightarrow> world g = put_in (ONode m) (world h) \<Longrightarrow>
      installed vs g = pushed (installed vs h) (NodeIP (NodeSpec n)) (versionFromImage img) \<Longrightarrow>
      Q (requeue_after upgradeCheckInterval, None) g"
  shows "wp (node_Reconcile E R (nsname n)) Q h"
proof -
  let ?n = "with_finalizer n"
  have starts: "wp (handleUpgrade E R m img') P g"
    if img: "img' = img" and "same_node n m" "DeletionTimestamp m = DeletionTimestamp n" "ContainsFinalizer (Finalizers m) FinalizerCleanup"
      "NodeStatus m = NodeStatus n" and "world g = world h \<or> world g = put_in (ONode m) (world h)"
      and "installed vs g = installed vs h"
      and "\<And>g'. Q (requeue_after upgradeCheckInterval, None) g' \<Longrightarrow> P (requeue_after upgradeCheckInterval, None) g'" for img' m P g
    unfolding img
  proof (rule handleUpgrade_starts [OF assms(1-3)])
    show "ClustersIn (world g) (Namespace m, ClusterRef (NodeSpec m)) = Some c" "stores_credentials E (Namespace m) c (world g)"
      using that(2,6) assms(7,8) by (auto simp: same_nodeD stores_credentials_def)
    fix m' g' assume "upgrading_to m img m'" "world g' = put_in (ONode m') (world g)"
      "installed vs g' = pushed (installed vs g) (NodeIP (NodeSpec m)) (versionFromImage img)"
    then show "P (requeue_after upgradeCheckInterval, None) g'"
      using that
      by (intro that(8) assms(9) [where m = m']) (auto simp: upgrading_to_def begun_def same_node_def)
  qed (use assms(6) that(5) in \<open>simp_all add: asks_upgrade_def\<close>)
  have finalizer: "ContainsFinalizer (Finalizers ?n) FinalizerCleanup"
    by (simp add: with_finalizer_def ContainsFinalizer_set AddFinalizer_set)
  have version: "wp (reconcileVersion E R m) P g"
    if "m = ?n" and wants: "wants_image E R n img" and "world g = world h \<or> world g = put_in (ONode ?n) (world h)"
      and "installed vs g = installed vs h"
      and P: "\<And>m' g'. Q (requeue_after upgradeCheckInterval, None) g' \<Longrightarrow>
        P (requeue_after upgradeCheckInterval, True, None, m') g'" for m P g
  proof -
    obtain d where d: "\<forall>g. wp (computeDesiredImage E R ?n) (\<lambda>r _. r = Inr d) g" "img = DesiredImage d"
      and v: "TalosVersion (NodeSpec n) \<noteq> []"
        "HasCondition (Conditions (NodeStatus n)) TalosNodeConditionConfigApplied ConditionTrue"
        "normalizeVersion (TalosVersion (NodeSpec n)) \<noteq> normalizeVersion (CurrentTalosVersion (NodeStatus n)) \<or>
         NewSchematicID d \<noteq> []"
      using wants unfolding wants_image_def image_finalizer by blast
    have up: "\<not> isDowngrade E (CurrentTalosVersion (NodeStatus n)) (normalizeVersion (TalosVersion (NodeSpec n)))"
      using assms(6) wanted_tag [OF wants] by (simp add: asks_upgrade_def)
    show ?thesis
      unfolding reconcileVersion_def that(1)
      using v up that(3,4) finalizer
      by (intro wp_intros wp_image_view [OF assms(4) d(1), where vs = vs] installs.wp_patch_view [OF assms(2), where vs = vs] starts
          installs.record_rules [where vs = vs]; (simp; fail)?)
        (use P in \<open>auto simp: d(2) same_node_def nsname_def\<close>)
  qed
  have live: "wp (reconcileLive E R m) Q g"
    if m: "m = ?n" and W: "world g = world h \<or> world g = put_in (ONode ?n) (world h)" and inst: "installed vs g = installed vs h"
    for m g
  proof -
    have phase: "NodePhase (NodeStatus n) \<noteq> TalosNodePhaseUpgrading" using assms(6) by (simp add: asks_upgrade_def)
    show ?thesis
    proof (cases "fresh_request n AnnotationUpgrade AnnotationLastUpgrade")
      case True
      then have "reconcileLive E R ?n = handleUpgrade E R ?n img"
        using assms(6) phase by (simp add: reconcileLive_def asks_upgrade_def fresh_request_def Let_def)
      then show ?thesis
        unfolding m using W inst finalizer by (simp add: starts same_node_def)
    next
      case False
      then have "wants_image E R n img" using assms(6) by (simp add: asks_upgrade_def)
      then show ?thesis
        unfolding m reconcileLive_def Let_def
        using False phase W inst
        by (intro wp_intros version [where P = "\<lambda>a. wp (case a of (result, finished, err, node) \<Rightarrow> _ result finished err node) _"];
          simp add: fresh_request_def)
    qed
  qed
  have ensured: "wp (ensureFinalizer (update_TalosNode E) m) P g"
    if m: "m = n" and "world g = world h" and "installed vs g = installed vs h"
      and "\<And>g'. world g' = world h \<or> world g' = put_in (ONode ?n) (world h) \<Longrightarrow> installed vs g' = installed vs h \<Longrightarrow>
        P (None, ?n) g'" for m P g
    unfolding m by (rule installs.wp_ensure_view [OF assms(1), where vs = vs]) (use that in \<open>simp del: put_in.simps\<close>)
  show ?thesis
    unfolding node_Reconcile_def
    by (intro wp_intros installs.wp_node_view [OF assms(1,5), where vs = vs] ensured live installs.record_rules [where vs = vs])
      (use assms(6) in \<open>auto simp: asks_upgrade_def simp del: put_in.simps\<close>)
qed

section \<open>The second reconcile\<close>

text \<open>The upgrade is complete: the object says so, for the version and for the extensions.\<close>

definition upgraded :: "talos_node \<Rightarrow> string \<Rightarrow> talos_node \<Rightarrow> bool" where
  "upgraded n img m \<longleftrightarrow> same_node n m \<and> DeletionTimestamp m = DeletionTimestamp n \<and>
     NodePhase (NodeStatus m) = TalosNodePhaseReady \<and> CurrentTalosVersion (NodeStatus m) = versionFromImage img \<and>
     annotation (Annotations m) AnnotationLastUpgrade = img \<and>
     HasCondition (Conditions (NodeStatus m)) TalosNodeConditionTalosVersionUpToDate ConditionTrue \<and>
     (SystemExtensions (NodeSpec n) \<noteq> [] \<longrightarrow>
        InstalledExtensions (NodeStatus m) = SystemExtensions (NodeSpec n) \<and>
        HasCondition (Conditions (NodeStatus m)) TalosNodeConditionExtensionsUpToDate ConditionTrue)"

lemma upgrade_ends:
  assumes "healthy E" and "machines_answer E vs" and "begun n img m" and "DeletionTimestamp n = None"
    and "NodesIn (world g) (nsname n) = Some m" and "installed vs g (NodeIP (NodeSpec n)) = versionFromImage img # earlier"
    and "ClustersIn (world g) (Namespace n, ClusterRef (NodeSpec n)) = Some c" and "stores_credentials E (Namespace n) c (world g)"
    and "\<And>m' g'. upgraded n img m' \<Longrightarrow> world g' = put_in (ONode m') (world g) \<Longrightarrow> installed vs g' = installed vs g \<Longrightarrow>
      Q (if driftEnabled n then requeue_after driftCheckInterval else no_requeue, None) g'"
  shows "wp (node_Reconcile E R (nsname n)) Q g"
proof -
  have m: "nsname m = nsname n" "Name m = Name n" "Namespace m = Namespace n" "NodeSpec m = NodeSpec n" "DeletionTimestamp m = None"
    "ContainsFinalizer (Finalizers m) FinalizerCleanup" "NodePhase (NodeStatus m) = TalosNodePhaseUpgrading"
    "annotation (Annotations m) AnnotationLastUpgrade = img"
    using assms(3,4) by (auto simp: begun_def dest: same_nodeD)
  obtain s tc cfg where creds: "SecretsIn (world g) (Namespace n, clusterTalosconfigName (Name c)) = Some s"
    "secretKey s ''talosconfig'' = Inr tc" "talosconfig_parse (Lib E) tc = Inr cfg"
    using assms(8) unfolding stores_credentials_def by blast
  have load: "wp (loadTalosconfig E m') P g'"
    if "m' = m" and "world g' = world g"
      and "\<And>g''. world g'' = world g \<Longrightarrow> installed vs g'' = installed vs g' \<Longrightarrow> P (Inr (Some (tc, Endpoints (ClusterSpec c)))) g''"
    for m' P g'
    using that by (intro installs.wp_load_view [OF assms(1), where vs = vs and s = s and c = c]) (simp_all add: assms(7) creds(1,2) m)
  have dial: "wp (conn_Dial E tc' ep) P g'"
    if "tc' = tc" and "\<And>c g''. world g'' = world g' \<Longrightarrow> installed vs g'' = installed vs g' \<Longrightarrow> P (Inr c) g''" for tc' ep P g'
    using that by (intro installs.wp_dial_view(1) [OF assms(1) creds(3) [folded that(1)], where vs = vs]) simp_all
  have types: "TalosNodeConditionTalosVersionUpToDate \<noteq> TalosNodeConditionExtensionsUpToDate"
    by (simp add: TalosNodeConditionTalosVersionUpToDate_def TalosNodeConditionExtensionsUpToDate_def)
  have ends: "Q (r, None) (f @ [TClose conn])"
    if "world f = put_in (ONode (m\<lparr>NodeStatus := st\<rparr>)) (world g)"
      and "r = (if driftEnabled n then requeue_after driftCheckInterval else no_requeue)" and "installed vs f = installed vs g"
      and "NodePhase st = TalosNodePhaseReady" and "CurrentTalosVersion st = versionFromImage img"
      and "HasCondition (Conditions st) TalosNodeConditionTalosVersionUpToDate ConditionTrue"
      and "SystemExtensions (NodeSpec n) \<noteq> [] \<longrightarrow> InstalledExtensions st = SystemExtensions (NodeSpec n) \<and>
        HasCondition (Conditions st) TalosNodeConditionExtensionsUpToDate ConditionTrue" for f conn st r
    unfolding that(2)
    by (rule assms(9) [where m' = "m\<lparr>NodeStatus := st\<rparr>"])
      (use that m assms(4) in \<open>simp_all add: upgraded_def same_node_def nsname_def del: put_in.simps\<close>)
  have live: "wp (reconcileLive E R m') Q g'" if "m' = m" and "world g' = world g" and "installed vs g' = installed vs g" for m' g'
    unfolding reconcileLive_def Let_def checkUpgradeComplete_def completeUpgrade_def setExtensionsUpToDate_def that(1)
    using m that(2,3) assms(6)
    by (intro wp_intros wp_deferring_close installs.record_rules [where vs = vs] load dial wp_version_view [OF assms(2)]
        installs.wp_status_view [OF assms(1), where vs = vs]; (simp; fail)?)
      (clarsimp simp del: put_in.simps; erule ends; simp add: driftEnabled_def types)+
  have ensured: "wp (ensureFinalizer (update_TalosNode E) m') P g'" if "m' = m" and "P (None, m) g'" for m' P g'
    using that m(6) by (simp add: ensureFinalizer_def wp_return)
  show ?thesis
    unfolding node_Reconcile_def
    by (intro wp_intros installs.wp_node_view [OF assms(1,5), where vs = vs] live ensured installs.record_rules [where vs = vs])
      (use m in auto)
qed

section \<open>Both\<close>

text \<open>
  C17. An upgrade completes: when every service answers and the machines run what they are told to install, a
  node that asks for an upgrade gets it in two reconciles. The first one has the machine accept the image, once, and
  asks to be run again after the interval of the check; the second one finds the new version running and
  stores the node as Ready, with this version and, if the spec names extensions, with them, and asks for the
  drift check if that is enabled. No other machine and no other object is changed.
\<close>

theorem upgrade_completes:
  assumes "healthy E" and "patches_accepted E" and "machines_answer E vs" and "quiet_factory R"
    and "NodesIn (world h) (nsname n) = Some n" and "asks_upgrade E R n img"
    and "ClustersIn (world h) (Namespace n, ClusterRef (NodeSpec n)) = Some c"
    and "stores_credentials E (Namespace n) c (world h)"
  shows "wp (reconcile_twice E R (nsname n))
     (\<lambda>(r1, r2) g. r1 = (requeue_after upgradeCheckInterval, None) \<and>
        r2 = (if driftEnabled n then requeue_after driftCheckInterval else no_requeue, None) \<and>
        installed vs g = pushed (installed vs h) (NodeIP (NodeSpec n)) (versionFromImage img) \<and>
        (\<exists>m. upgraded n img m \<and> world g = put_in (ONode m) (world h))) h"
  unfolding reconcile_twice_def
proof (rule wp_introduce(1), rule upgrade_begins [OF assms])
  fix m g
  assume m: "begun n img m" and g: "world g = put_in (ONode m) (world h)"
    and inst: "installed vs g = pushed (installed vs h) (NodeIP (NodeSpec n)) (versionFromImage img)"
  have name: "nsname m = nsname n" using m by (auto simp: begun_def same_node_def)
  have merged: "put_in (ONode m') (put_in (ONode m) w) = put_in (ONode m') w" if "nsname m' = nsname n" for m' w
    by (simp add: that name)
  show "wp (do { r2 \<leftarrow> node_Reconcile E R (nsname n); ret ((requeue_after upgradeCheckInterval, None), r2) })
      (\<lambda>(r1, r2) g. r1 = (requeue_after upgradeCheckInterval, None) \<and>
        r2 = (if driftEnabled n then requeue_after driftCheckInterval else no_requeue, None) \<and>
        installed vs g = pushed (installed vs h) (NodeIP (NodeSpec n)) (versionFromImage img) \<and>
        (\<exists>m. upgraded n img m \<and> world g = put_in (ONode m) (world h))) g"
  proof (rule wp_introduce(1), rule upgrade_ends [OF assms(1,3) m])
    show "DeletionTimestamp n = None" using assms(6) by (simp add: asks_upgrade_def)
    show "stores_credentials E (Namespace n) c (world g)" using assms(8) by (simp add: stores_credentials_def g)
    fix m' g' assume m': "upgraded n img m'" "world g' = put_in (ONode m') (world g)" "installed vs g' = installed vs g"
    then have "nsname m' = nsname n" by (auto simp: upgraded_def same_node_def)
    with m' show "wp (ret ((requeue_after upgradeCheckInterval, None),
        (if driftEnabled n then requeue_after driftCheckInterval else no_requeue, None)))
      (\<lambda>(r1, r2) g. r1 = (requeue_after upgradeCheckInterval, None) \<and>
        r2 = (if driftEnabled n then requeue_after driftCheckInterval else no_requeue, None) \<and>
        installed vs g = pushed (installed vs h) (NodeIP (NodeSpec n)) (versionFromImage img) \<and>
        (\<exists>m. upgraded n img m \<and> world g = put_in (ONode m) (world h))) g'"
      unfolding g by (auto simp: wp_return inst merged simp del: put_in.simps)
  qed (simp_all add: g name inst assms(7) pushed_def)
qed

end
