(* ===== verification/Drift.thy ===== *)
theory Drift
  imports Rollout
begin

text \<open>
  A machine whose configuration was changed behind the operator's back gets it back: one reconcile finds the
  difference and applies the configuration anew, and the next one finds nothing to do.
\<close>

declare split_paired_All [simp del] split_paired_Ex [simp del]

section \<open>The comparison\<close>

text \<open>A machine reports the configuration that it runs, as the same YAML.\<close>

definition machines_report :: "env \<Rightarrow> (string \<Rightarrow> bytes list) \<Rightarrow> bool" where
  "machines_report E cs \<longleftrightarrow>
     (\<forall>h c bs earlier. CallReq c = ReqCosiGet ''config.NamespaceName'' ''config.MachineConfigType'' ''config.ActiveID'' \<longrightarrow>
        active cs h (CallNode c) = bs # earlier \<longrightarrow>
        (\<exists>b. tcall_cosi (Talos E) h c = Inr (CosiMachineConfig (Inr b)) \<and>
           yaml_unmarshal (Lib E) b = yaml_unmarshal (Lib E) bs))"

lemma wp_report:
  assumes "machines_report E cs" and "active cs g ip = bs # earlier"
    and "\<And>b g'. yaml_unmarshal (Lib E) b = yaml_unmarshal (Lib E) bs \<Longrightarrow> world g' = world g \<Longrightarrow> active cs g' = active cs g \<Longrightarrow>
      Q (Inr b) g'"
  shows "wp (conn_GetMachineConfig E c ip) Q g"
proof -
  let ?q = "rpc E c ip (ReqCosiGet ''config.NamespaceName'' ''config.MachineConfigType'' ''config.ActiveID'')"
  have "active cs (g @ [ClockRead]) (CallNode ?q) = bs # earlier" using assms(2) by (simp add: configs.view_snoc)
  then obtain b where "tcall_cosi (Talos E) (g @ [ClockRead]) ?q = Inr (CosiMachineConfig (Inr b))"
    "yaml_unmarshal (Lib E) b = yaml_unmarshal (Lib E) bs"
    using assms(1) unfolding machines_report_def by (metis rpc_simps(1))
  then show ?thesis
    using assms(3)
    by (simp add: conn_GetMachineConfig_def time_Now_def talos_cosi_def observe_call_def metric_observe_def wp_simps
        world_append configs.view_append world_step_def)
qed

lemma wp_found:
  assumes "healthy E" and "SecretsIn (world g) (ns, nm) = Some s"
    and "\<And>g'. world g' = world g \<Longrightarrow> active cs g' = active cs g \<Longrightarrow> Q (Inr (Some s)) g'"
  shows "wp (getSecretOrSkip E nm ns) Q g"
  unfolding getSecretOrSkip_def
  by (intro wp_intros configs.wp_secret_view [OF assms(1,2), where vs = cs]) (use assms(3) in auto)

text \<open>The saved configuration and the one that the machine runs.\<close>

definition compares :: "env \<Rightarrow> talos_node \<Rightarrow> (string \<Rightarrow> bytes list) \<Rightarrow> world \<Rightarrow> ymap option \<Rightarrow> ymap option \<Rightarrow> bool" where
  "compares E n cs w y y' \<longleftrightarrow>
     (\<exists>s bs. SecretsIn w (Namespace n, nodeConfigName (Name n)) = Some s \<and> secretKey s ''config.yaml'' = Inr bs \<and>
        yaml_unmarshal (Lib E) bs = Inr y) \<and>
     (\<exists>bs earlier. cs (NodeIP (NodeSpec n)) = bs # earlier \<and> yaml_unmarshal (Lib E) bs = Inr y')"

lemma wp_checkDrift:
  assumes "healthy E" and "machines_report E cs" and "compares E n (active cs g) (world g) y y'"
    and "ClustersIn (world g) (Namespace n, ClusterRef (NodeSpec n)) = Some c" and "stores_credentials E (Namespace n) c (world g)"
    and "\<And>conn g'. world g' = world g \<Longrightarrow> active cs g' = active cs g \<Longrightarrow>
      wp (if y = y' then driftResult n ''in_sync'' else reapplyDrifted E R n) (\<lambda>r f. Q r (f @ [TClose conn])) g'"
  shows "wp (checkDrift E R n) Q g"
proof -
  have name: "Name c = ClusterRef (NodeSpec n)" using world_named(2) [OF assms(4)] by (simp add: nsname_def)
  obtain t tc cfg where creds: "SecretsIn (world g) (Namespace n, clusterTalosconfigName (ClusterRef (NodeSpec n))) = Some t"
    "secretKey t ''talosconfig'' = Inr tc" "talosconfig_parse (Lib E) tc = Inr cfg"
    using assms(5) unfolding stores_credentials_def name by blast
  obtain s saved cur earlier where saved: "SecretsIn (world g) (Namespace n, nodeConfigName (Name n)) = Some s"
    "secretKey s ''config.yaml'' = Inr saved" "yaml_unmarshal (Lib E) saved = Inr y"
    and cur: "active cs g (NodeIP (NodeSpec n)) = cur # earlier" "yaml_unmarshal (Lib E) cur = Inr y'"
    using assms(3) unfolding compares_def by blast
  have dial: "wp (conn_Dial E tc' ep) P g'"
    if "tc' = tc" and "\<And>c g''. world g'' = world g' \<Longrightarrow> active cs g'' = active cs g' \<Longrightarrow> P (Inr c) g''" for tc' ep P g'
    using that by (intro configs.wp_dial_view(1) [OF assms(1) creds(3) [folded that(1)], where vs = cs]) simp_all
  have found: "wp (getSecretOrSkip E nm ns) P g'"
    if "SecretsIn (world g) (ns, nm) = Some s'" and "world g' = world g"
      and "\<And>g''. world g'' = world g' \<Longrightarrow> active cs g'' = active cs g' \<Longrightarrow> P (Inr (Some s')) g''" for nm ns s' P g'
    using that by (intro wp_found [OF assms(1), where cs = cs]) simp_all
  have report: "wp (conn_GetMachineConfig E conn ip) P g'"
    if "ip = NodeIP (NodeSpec n)" and "active cs g' = active cs g"
      and "\<And>b g''. yaml_unmarshal (Lib E) b = Inr y' \<Longrightarrow> world g'' = world g' \<Longrightarrow> active cs g'' = active cs g' \<Longrightarrow> P (Inr b) g''"
    for conn ip P g'
    using that cur by (intro wp_report [OF assms(2), where bs = cur and earlier = earlier]) simp_all
  have same: "wp (driftResult n ''in_sync'') (\<lambda>r f. Q r (f @ [TClose conn])) g'"
    if "y = y'" "world g' = world g" "active cs g' = active cs g" for conn g'
    using assms(6) [OF that(2,3)] that(1) by simp
  have differ: "wp (reapplyDrifted E R n) (\<lambda>r f. Q r (f @ [TClose conn])) g'"
    if "y \<noteq> y'" "world g' = world g" "active cs g' = active cs g" for conn g'
    using assms(6) [OF that(2,3)] that(1) by simp
  show ?thesis
    unfolding checkDrift_def
    by (intro wp_intros wp_deferring_close found [OF creds(1)] found [OF saved(1)] dial report; (use creds saved in \<open>simp; fail\<close>)?)
      (use creds saved in \<open>auto simp: configsDiffer_def intro: same differ\<close>)
qed

section \<open>The two reconciles\<close>

text \<open>
  A node whose machine is only watched: the object is up to date, nothing is asked for, and the version is the
  one of its spec, if that names one.
\<close>

definition watched :: "talos_node \<Rightarrow> bool" where
  "watched n \<longleftrightarrow> isNodeUpToDate n \<and> driftEnabled n \<and> DeletionTimestamp n = None \<and>
     \<not> fresh_request n AnnotationUpgrade AnnotationLastUpgrade \<and> \<not> fresh_request n AnnotationReset AnnotationLastReset \<and>
     (TalosVersion (NodeSpec n) = [] \<or> SystemExtensions (NodeSpec n) = [] \<and>
        normalizeVersion (TalosVersion (NodeSpec n)) = normalizeVersion (CurrentTalosVersion (NodeStatus n)))"

lemma watched_finalizer [simp]: "watched (with_finalizer n) = watched n"
  by (simp add: watched_def isNodeUpToDate_def driftEnabled_def fresh_request_def)

lemma watched_live:
  assumes "watched n"
  shows "reconcileLive E R n = checkDrift E R n"
proof -
  have "reconcileVersion E R n = ret (no_requeue, False, None, n)"
    using assms by (auto simp: watched_def reconcileVersion_def computeDesiredImage_def)
  then show ?thesis
    using assms
    by (auto simp: watched_def reconcileLive_def reconcileConfig_def isNodeUpToDate_def fresh_request_def Let_def)
qed

lemma watched_Reconcile:
  assumes "healthy E" and "NodesIn (world h) (nsname n) = Some n" and "watched n"
    and "\<And>m g. m = with_finalizer n \<Longrightarrow> world g = world h \<or> world g = put_in (ONode m) (world h) \<Longrightarrow>
      active cs g = active cs h \<Longrightarrow> wp (checkDrift E R m) Q g"
  shows "wp (node_Reconcile E R (nsname n)) Q h"
proof -
  have ensured: "wp (ensureFinalizer (update_TalosNode E) m) P g"
    if "m = n" and "world g = world h" and "active cs g = active cs h"
      and "\<And>g'. world g' = world h \<or> world g' = put_in (ONode (with_finalizer n)) (world h) \<Longrightarrow> active cs g' = active cs h \<Longrightarrow>
        P (None, with_finalizer n) g'" for m P g
    unfolding that(1) by (rule configs.wp_ensure_view [OF assms(1), where vs = cs]) (use that in simp)
  have live: "wp (reconcileLive E R m) Q g"
    if "m = with_finalizer n" and "world g = world h \<or> world g = put_in (ONode m) (world h)" and "active cs g = active cs h" for m g
    using assms(3) assms(4) [OF that] that(1) by (simp add: watched_live)
  show ?thesis
    unfolding node_Reconcile_def
    by (intro wp_intros configs.wp_node_view [OF assms(1,2), where vs = cs] ensured live configs.record_rules [where vs = cs])
      (use assms(3) in \<open>auto simp: watched_def simp del: put_in.simps\<close>)
qed

lemma drift_found:
  assumes "healthy E" and "machines_report E cs" and "NodesIn (world h) (nsname n) = Some n" and "watched n"
    and "ClustersIn (world h) (Namespace n, ClusterRef (NodeSpec n)) = Some c" and "stores_credentials E (Namespace n) c (world h)"
    and "compares E n (active cs h) (world h) y y'" and "y \<noteq> y'"
    and "rendered E (SecretsIn (world h)) (Namespace n) (NodeSpec n) = Some bs"
    and "\<And>n' g. configured (world h) n bs n' (world g) \<Longrightarrow> active cs g = pushed (active cs h) (NodeIP (NodeSpec n)) bs \<Longrightarrow>
      Q (requeue_after driftCheckInterval, None) g"
  shows "wp (node_Reconcile E R (nsname n)) Q h"
proof (rule watched_Reconcile [OF assms(1,3,4), where cs = cs])
  fix m g assume m: "m = with_finalizer n" and g: "world g = world h \<or> world g = put_in (ONode m) (world h)"
    and cs: "active cs g = active cs h"
  have reapply: "wp (reapplyDrifted E R m) (\<lambda>r f. Q r (f @ [TClose conn])) g'"
    if g': "world g' = world g" "active cs g' = active cs g" for conn g'
  proof -
    have applied: "wp (applyConfig E m) P g''"
      if "world g'' = world g" "active cs g'' = active cs g"
        and "\<And>n' f. configured (world h) n bs n' (world f) \<Longrightarrow> active cs f = pushed (active cs h) (NodeIP (NodeSpec n)) bs \<Longrightarrow>
          P (None, n') f" for P g''
    proof (rule applyConfig_done [OF assms(1), where cs = cs])
      show "ClustersIn (world g'') (Namespace m, ClusterRef (NodeSpec m)) = Some c"
        "rendered E (SecretsIn (world g'')) (Namespace m) (NodeSpec m) = Some bs"
        "stores_credentials E (Namespace m) c (world g'')"
        using assms(5,6,9) g that(1) m by (auto simp: stores_credentials_def)
      fix n' f assume "configured (world g'') m bs n' (world f)"
        and "active cs f = pushed (active cs g'') (NodeIP (NodeSpec m)) bs"
      then have "configured (world h) n bs n' (world f)" "active cs f = pushed (active cs h) (NodeIP (NodeSpec n)) bs"
        using g cs that(1,2) m by (auto simp: configured_def same_node_def same_claims_def node_secrets_def)
      then show "P (None, n') f" by (rule that(3))
    qed
    show ?thesis
      unfolding reapplyDrifted_def
      by (intro wp_intros configs.record_rules [where vs = cs] applied) (use g' assms(10) in auto)
  qed
  show "wp (checkDrift E R m) Q g"
  proof (rule wp_checkDrift [OF assms(1,2)])
    show "compares E m (active cs g) (world g) y y'" "ClustersIn (world g) (Namespace m, ClusterRef (NodeSpec m)) = Some c"
      "stores_credentials E (Namespace m) c (world g)"
      using assms(5-7) g cs m by (auto simp: compares_def stores_credentials_def)
  qed (use assms(8) reapply in simp)
qed

lemma drift_absent:
  assumes "healthy E" and "machines_report E cs" and "NodesIn (world h) (nsname n) = Some n" and "watched n"
    and "ClustersIn (world h) (Namespace n, ClusterRef (NodeSpec n)) = Some c" and "stores_credentials E (Namespace n) c (world h)"
    and "compares E n (active cs h) (world h) y y"
    and "\<And>g. world g = world h \<or> world g = put_in (ONode (with_finalizer n)) (world h) \<Longrightarrow> active cs g = active cs h \<Longrightarrow>
      Q (requeue_after driftCheckInterval, None) g"
  shows "wp (node_Reconcile E R (nsname n)) Q h"
proof (rule watched_Reconcile [OF assms(1,3,4), where cs = cs])
  fix m g assume m: "m = with_finalizer n" and g: "world g = world h \<or> world g = put_in (ONode m) (world h)"
    and cs: "active cs g = active cs h"
  have quiet: "wp (driftResult m ''in_sync'') (\<lambda>r f. Q r (f @ [TClose conn])) g'"
    if "world g' = world g" "active cs g' = active cs g" for conn g'
    unfolding driftResult_def
    by (intro wp_intros configs.record_rules [where vs = cs]) (use that g cs m assms(8) in simp)
  show "wp (checkDrift E R m) Q g"
  proof (rule wp_checkDrift [OF assms(1,2)])
    show "compares E m (active cs g) (world g) y y" "ClustersIn (world g) (Namespace m, ClusterRef (NodeSpec m)) = Some c"
      "stores_credentials E (Namespace m) c (world g)"
      using assms(5-7) g cs m by (auto simp: compares_def stores_credentials_def)
  qed (use quiet in simp)
qed

text \<open>
  C18. Drift is repaired, once: when every service answers and a machine reports what it runs, and the machine of
  a node that is up to date runs another configuration than the saved one, the next reconcile applies the
  configuration that the stored Secrets give, saves it, and leaves the object up to date; the reconcile after
  that finds the machine in sync and applies nothing. Both ask for the next drift check. No other machine gets a
  configuration, and no other object is changed.
\<close>

theorem drift_repaired:
  assumes "healthy E" and "machines_report E cs" and "NodesIn (world h) (nsname n) = Some n" and "watched n"
    and "ClustersIn (world h) (Namespace n, ClusterRef (NodeSpec n)) = Some c"
    and "stores_credentials E (Namespace n) c (world h)"
    and "compares E n (active cs h) (world h) y y'" and "y \<noteq> y'"
    and "rendered E (SecretsIn (world h)) (Namespace n) (NodeSpec n) = Some bs" and "bs \<noteq> []"
    and "yaml_unmarshal (Lib E) bs = Inr z"
  shows "wp (reconcile_twice E R (nsname n))
     (\<lambda>(r1, r2) g. r1 = (requeue_after driftCheckInterval, None) \<and> r2 = (requeue_after driftCheckInterval, None) \<and>
        active cs g = pushed (active cs h) (NodeIP (NodeSpec n)) bs \<and>
        (\<exists>n'. configured (world h) n bs n' (world g))) h"
  unfolding reconcile_twice_def
proof (rule wp_introduce(1), rule drift_found [OF assms(1-9)])
  let ?wait = "(requeue_after driftCheckInterval, None) :: reconcile_result"
  fix n' g assume conf: "configured (world h) n bs n' (world g)"
    and cs: "active cs g = pushed (active cs h) (NodeIP (NodeSpec n)) bs"
  have same: "nsname n' = nsname n" "Namespace n' = Namespace n" "Name n' = Name n" "NodeSpec n' = NodeSpec n"
    using conf by (auto simp: configured_def dest: same_nodeD)
  have n': "NodesIn (world g) (nsname n') = Some n'" "watched n'"
    "ClustersIn (world g) (Namespace n', ClusterRef (NodeSpec n')) = Some c"
    using conf assms(4,5) by (auto simp: configured_def watched_def same_claims_def same driftEnabled_def fresh_request_def)
  have creds: "stores_credentials E (Namespace n') c (world g)"
    using conf assms(6) by (simp add: stores_credentials_def configured_def same node_secret_other [symmetric])
  obtain s where s: "SecretsIn (world g) (Namespace n, nodeConfigName (Name n)) = Some s" "data_lookup s ''config.yaml'' = Some bs"
    using conf by (auto simp: configured_def node_secrets_def map_upsert_def newSecret_def data_lookup_def split: option.splits)
  have sync: "compares E n' (active cs g) (world g) z z"
    using s assms(10,11) by (auto simp: compares_def same secretKey_def cs pushed_def)
  show "wp (do { r2 \<leftarrow> node_Reconcile E R (nsname n); ret (?wait, r2) })
     (\<lambda>(r1, r2) g. r1 = ?wait \<and> r2 = ?wait \<and> active cs g = pushed (active cs h) (NodeIP (NodeSpec n)) bs \<and>
        (\<exists>n'. configured (world h) n bs n' (world g))) g"
    unfolding same(1) [symmetric]
  proof (rule wp_introduce(1), rule drift_absent [OF assms(1,2) n' creds sync])
    fix f assume f: "world f = world g \<or> world f = put_in (ONode (with_finalizer n')) (world g)" and "active cs f = active cs g"
    moreover have "configured (world h) n bs n' (world f) \<or> configured (world h) n bs (with_finalizer n') (world f)"
      using conf f same(1) by (auto simp: configured_def same_node_def same_claims_def isNodeUpToDate_def)
    then have "\<exists>n''. configured (world h) n bs n'' (world f)" by blast
    ultimately show "wp (ret (?wait, ?wait)) (\<lambda>(r1, r2) g. r1 = ?wait \<and> r2 = ?wait \<and>
        active cs g = pushed (active cs h) (NodeIP (NodeSpec n)) bs \<and> (\<exists>n'. configured (world h) n bs n' (world g))) f"
      by (simp add: wp_return cs)
  qed
qed

end
