(* ===== verification/SampleMachines.thy ===== *)
theory SampleMachines
  imports SampleTeardown Upgrading Drift
begin

text \<open>
  Environments in which the machines answer by what they accepted: a node that gets a new version and an extension,
  and one whose machine is found with another configuration.
\<close>

declare split_paired_All [simp del] split_paired_Ex [simp del]

section \<open>An upgrade\<close>

definition upgrade_env :: env where
  "upgrade_env = exact_env
     \<lparr>Talos := sample_talos\<lparr>tcall_version := (\<lambda>h c.
        Inr [\<lparr>VersionTag = Some (hd (installed (\<lambda>_. [''v1.8.0'']) h (CallNode c))), PlatformMode = Some ''metal''\<rparr>])\<rparr>,
      Lib := sample_lib\<lparr>semver_parse := (\<lambda>v.
          Some \<lparr>Major = 1, Minor = (if v = ''v1.8.0'' then 8 else 9), PatchNo = 0, Pre = [], Build = []\<rparr>),
        semver_gt := (\<lambda>a b. Minor b < Minor a)\<rparr>\<rparr>"

lemma upgrade_laws:
  "healthy upgrade_env" "patches_accepted upgrade_env" "machines_answer upgrade_env (\<lambda>_. [''v1.8.0''])"
proof -
  show "healthy upgrade_env"
    using exact_healthy by (simp add: healthy_def upgrade_env_def sample_talos_def)
  show "patches_accepted upgrade_env"
    by (simp add: patches_accepted_def upgrade_env_def exact_kube_def sample_kube_def)
  show "machines_answer upgrade_env (\<lambda>_. [''v1.8.0''])"
    by (auto simp: machines_answer_def upgrade_env_def)
qed

definition outdated_node :: talos_node where
  "outdated_node = sample_upgrade_node\<lparr>NodeStatus := (NodeStatus sample_node)
     \<lparr>NodePhase := TalosNodePhaseReady, CurrentTalosVersion := ''v1.8.0'',
      Conditions := [\<lparr>CondType = TalosNodeConditionConfigApplied, CondStatus = ConditionTrue, LastTransitionTime = 0,
        CondReason = ''Applied'', CondMessage = Lit []\<rparr>]\<rparr>\<rparr>"

definition sample_outdated :: hist where
  "sample_outdated = [KCreate (OCluster sample_cluster) None, KCreate (ONode outdated_node) None,
     KCreate (OSecret sample_talosconfig) None]"

lemma sample_outdated_world:
  "world sample_outdated = \<lparr>SecretsIn = [(''ns'', clusterTalosconfigName ''c'') \<mapsto> sample_talosconfig],
     NodesIn = [(''ns'', ''n'') \<mapsto> outdated_node], ClustersIn = [(''ns'', ''c'') \<mapsto> sample_cluster], BootstrapsIn = Map.empty\<rparr>"
  by (simp add: sample_outdated_def replay_def empty_world_def nsname_def sample_cluster_def outdated_node_def
      sample_upgrade_node_def sample_node_def sample_talosconfig_def newSecret_def)

lemma outdated_image:
  "wp (computeDesiredImage upgrade_env (production_node upgrade_env) outdated_node)
     (\<lambda>r _. r = Inr \<lparr>DesiredImage = ''factory.talos.dev/installer/schematic:v1.9.0'', NewSchematicID = ''schematic'',
        NewCanonical = ''siderolabs/zfs''\<rparr>) g"
  by (simp add: computeDesiredImage_def production_node_def CreateSchematic_def factory_New_def outdated_node_def
      sample_upgrade_node_def sample_node_def upgrade_env_def sample_lib_def sample_host_def http_Do_def wp_simps Let_def
      normalizeVersion_def HasPrefix_def factory_installer_def canonicalExtensions_def sort_Strings_def annotation_def)

lemma outdated_asks:
  "asks_upgrade upgrade_env (production_node upgrade_env) outdated_node ''factory.talos.dev/installer/schematic:v1.9.0''"
proof -
  have "versionFromImage ''factory.talos.dev/installer/schematic:v1.9.0'' = ''v1.9.0''"
    using versionFromImage_tagged [of "''v1.9.0''" "''factory.talos.dev/installer/schematic''"] by simp
  moreover have "wants_image upgrade_env (production_node upgrade_env) outdated_node
      ''factory.talos.dev/installer/schematic:v1.9.0''"
    unfolding wants_image_def
  proof (intro conjI exI [of _ "\<lparr>DesiredImage = ''factory.talos.dev/installer/schematic:v1.9.0'',
      NewSchematicID = ''schematic'', NewCanonical = ''siderolabs/zfs''\<rparr>"] allI outdated_image)
  qed (simp_all add: outdated_node_def sample_upgrade_node_def sample_node_def)
  ultimately show ?thesis
    by (simp add: asks_upgrade_def outdated_node_def sample_upgrade_node_def sample_node_def fresh_request_def
        annotation_def isDowngrade_def upgrade_env_def)
qed

theorem upgrade_completes_witness:
  "wp (reconcile_twice upgrade_env (production_node upgrade_env) (''ns'', ''n''))
     (\<lambda>(r1, r2) g. snd r1 = None \<and> snd r2 = None \<and> installed (\<lambda>_. [''v1.8.0'']) g ''10.0.0.1'' = [''v1.9.0'', ''v1.8.0''] \<and>
        (\<exists>m. NodesIn (world g) (''ns'', ''n'') = Some m \<and> CurrentTalosVersion (NodeStatus m) = ''v1.9.0'' \<and>
           InstalledExtensions (NodeStatus m) = [''siderolabs/zfs''])) sample_outdated"
proof -
  have tag: "versionFromImage ''factory.talos.dev/installer/schematic:v1.9.0'' = ''v1.9.0''"
    using versionFromImage_tagged [of "''v1.9.0''" "''factory.talos.dev/installer/schematic''"] by simp
  have n: "nsname outdated_node = (''ns'', ''n'')" "NodesIn (world sample_outdated) (nsname outdated_node) = Some outdated_node"
    "ClustersIn (world sample_outdated) (Namespace outdated_node, ClusterRef (NodeSpec outdated_node)) = Some sample_cluster"
    "NodeIP (NodeSpec outdated_node) = ''10.0.0.1''" "SystemExtensions (NodeSpec outdated_node) = [''siderolabs/zfs'']"
    by (simp_all add: sample_outdated_world nsname_def outdated_node_def sample_upgrade_node_def sample_node_def)
  have fresh: "installed (\<lambda>_. [''v1.8.0'']) sample_outdated ip = [''v1.8.0'']" for ip
    by (simp add: sample_outdated_def replay_def upgrade_step_def)
  have "stores_credentials upgrade_env (Namespace outdated_node) sample_cluster (world sample_outdated)"
    by (simp add: stores_credentials_def sample_outdated_world outdated_node_def sample_upgrade_node_def sample_node_def
        sample_cluster_def sample_talosconfig_def newSecret_def secretKey_def data_lookup_def upgrade_env_def sample_lib_def)
  from upgrade_completes [OF upgrade_laws production_node_quiet n(2) outdated_asks n(3) this]
  show ?thesis
    unfolding n(1,4) tag
    by (rule wp_mono) (auto simp: upgraded_def same_node_def n tag pushed_def fresh)
qed

section \<open>A drift\<close>

definition drift_env :: env where
  "drift_env = exact_env
     \<lparr>Talos := sample_talos\<lparr>tcall_cosi := (\<lambda>h c.
        Inr (CosiMachineConfig (Inr (hd (active (\<lambda>_. [''drifted'']) h (CallNode c))))))\<rparr>,
      Lib := sample_lib\<lparr>yaml_unmarshal := (\<lambda>bs. Inr (if bs = ''drifted'' then None else Some Map.empty))\<rparr>\<rparr>"

lemma drift_laws: "healthy drift_env" "machines_report drift_env (\<lambda>_. [''drifted''])"
proof -
  show "healthy drift_env"
    using exact_healthy by (simp add: healthy_def drift_env_def sample_talos_def)
  show "machines_report drift_env (\<lambda>_. [''drifted''])"
    by (simp add: machines_report_def drift_env_def)
qed

definition watched_node :: talos_node where
  "watched_node = sample_node\<lparr>NodeStatus := (NodeStatus outdated_node)\<lparr>ObservedGeneration := 1\<rparr>\<rparr>"

definition sample_drifted :: hist where
  "sample_drifted = [KCreate (OCluster sample_cluster) None, KCreate (ONode watched_node) None,
     KCreate (OSecret sample_talosconfig) None,
     KCreate (OSecret (newSecret (clusterControlPlaneName ''c'') ''ns'' ''controlplane.yaml'' ''cp'')) None,
     KCreate (OSecret (newSecret (nodeConfigName ''n'') ''ns'' ''config.yaml'' ''machine: {}'')) None]"

lemma sample_drifted_world:
  "world sample_drifted = \<lparr>SecretsIn =
       [(''ns'', clusterTalosconfigName ''c'') \<mapsto> sample_talosconfig,
        (''ns'', clusterControlPlaneName ''c'') \<mapsto> newSecret (clusterControlPlaneName ''c'') ''ns'' ''controlplane.yaml'' ''cp'',
        (''ns'', nodeConfigName ''n'') \<mapsto> newSecret (nodeConfigName ''n'') ''ns'' ''config.yaml'' ''machine: {}''],
     NodesIn = [(''ns'', ''n'') \<mapsto> watched_node], ClustersIn = [(''ns'', ''c'') \<mapsto> sample_cluster], BootstrapsIn = Map.empty\<rparr>"
  by (simp add: sample_drifted_def replay_def empty_world_def nsname_def sample_cluster_def watched_node_def outdated_node_def sample_node_def
      sample_talosconfig_def newSecret_def)

theorem drift_repaired_witness:
  "wp (reconcile_twice drift_env (production_node drift_env) (''ns'', ''n''))
     (\<lambda>(r1, r2) g. snd r1 = None \<and> snd r2 = None \<and>
        active (\<lambda>_. [''drifted'']) g ''10.0.0.1'' = [''machine: {}'', ''drifted'']) sample_drifted"
proof -
  have n: "nsname watched_node = (''ns'', ''n'')" "NodeIP (NodeSpec watched_node) = ''10.0.0.1''"
    "NodesIn (world sample_drifted) (nsname watched_node) = Some watched_node"
    "ClustersIn (world sample_drifted) (Namespace watched_node, ClusterRef (NodeSpec watched_node)) = Some sample_cluster"
    by (simp_all add: sample_drifted_world nsname_def watched_node_def outdated_node_def sample_node_def)
  have active: "active (\<lambda>_. [''drifted'']) sample_drifted = (\<lambda>_. [''drifted''])"
    by (simp add: sample_drifted_def replay_def config_step_def)
  have watched: "watched watched_node"
    by (simp add: watched_def watched_node_def outdated_node_def sample_node_def isNodeUpToDate_def driftEnabled_def fresh_request_def
        annotation_def)
  have creds: "stores_credentials drift_env (Namespace watched_node) sample_cluster (world sample_drifted)"
    by (simp add: stores_credentials_def sample_drifted_world watched_node_def outdated_node_def sample_node_def sample_cluster_def
        cluster_names_distinct sample_talosconfig_def newSecret_def secretKey_def data_lookup_def drift_env_def sample_lib_def
        node_secret_other [symmetric])
  have differs: "compares drift_env watched_node (active (\<lambda>_. [''drifted'']) sample_drifted) (world sample_drifted)
      (Some Map.empty) None"
    by (simp add: compares_def active sample_drifted_world watched_node_def outdated_node_def sample_node_def newSecret_def secretKey_def
        data_lookup_def drift_env_def)
  have renders: "rendered drift_env (SecretsIn (world sample_drifted)) (Namespace watched_node) (NodeSpec watched_node) =
      Some ''machine: {}''"
    by (simp add: rendered_def config_source_def sample_drifted_world watched_node_def outdated_node_def sample_node_def secretKey_def
        newSecret_def data_lookup_def drift_env_def sample_lib_def cluster_names_distinct node_secret_other [symmetric])
  have parsed: "yaml_unmarshal (Lib drift_env) ''machine: {}'' = Inr (Some Map.empty)" by (simp add: drift_env_def)
  from drift_repaired [OF drift_laws n(3) watched n(4) creds differs _ renders _ parsed]
  show ?thesis
    unfolding n(1,2) active
    by (rule wp_mono) (auto simp: pushed_def)
qed

end
