(* ===== verification/StatusTypes.thy ===== *)
theory StatusTypes
  imports Wiring NodePhases BootstrapRuns ClusterRuns
begin

text \<open>
  The type of the conditions in a status: one condition of each type, and only the types that the API
  declares for the resource. The custom resource definitions do not ask the API server to check it, so
  it is up to the controllers to keep it.
\<close>

section \<open>Well-typed statuses\<close>

definition well_typed :: "string set \<Rightarrow> condition list \<Rightarrow> bool" where
  "well_typed T cs \<longleftrightarrow> wf_conditions cs \<and> CondType ` set cs \<subseteq> T"

definition node_condition_types :: "string set" where
  "node_condition_types =
     {TalosNodeConditionConfigApplied, TalosNodeConditionTalosVersionUpToDate, TalosNodeConditionExtensionsUpToDate}"

definition cluster_condition_types :: "string set" where
  "cluster_condition_types = {TalosClusterConditionSecretsGenerated, TalosClusterConditionConfigsGenerated}"

definition bootstrap_condition_types :: "string set" where
  "bootstrap_condition_types =
     {TalosClusterBootstrapConditionBootstrapped, TalosClusterBootstrapConditionKubeconfig,
      TalosClusterBootstrapConditionAPIServer}"

definition typed_node :: "talos_node \<Rightarrow> bool" where
  "typed_node n = well_typed node_condition_types (Conditions (NodeStatus n))"

definition typed_cluster :: "talos_cluster \<Rightarrow> bool" where
  "typed_cluster c = well_typed cluster_condition_types (Conditions (ClusterStatus c))"

definition typed_bootstrap :: "talos_cluster_bootstrap \<Rightarrow> bool" where
  "typed_bootstrap b = well_typed bootstrap_condition_types (Conditions (BootstrapStatus b))"

text \<open>An event is typed if it writes no status but a well-typed one.\<close>

fun typed_object :: "kobj \<Rightarrow> bool" where
  "typed_object (ONode n) = typed_node n"
| "typed_object (OCluster c) = typed_cluster c"
| "typed_object (OBootstrap b) = typed_bootstrap b"
| "typed_object (OSecret s) = True"

definition typed_event :: "event \<Rightarrow> bool" where
  "typed_event e = (case e of KStatusUpdate ob _ \<Rightarrow> typed_object ob | _ \<Rightarrow> True)"

lemma typed_event_simps [simp]:
  "typed_event (KStatusUpdate ob r) = typed_object ob" "harmless e \<Longrightarrow> typed_event e"
  "typed_event (TCall cl r)" "typed_event (KUpdate ob r)" "typed_event (KPatch ob ob' r)"
  "typed_event (KCreate ob r)" "typed_event (KDelete kd k r)" "typed_event (RUpdateNode rc kn r)"
  "typed_event (REvict rc k r)" "typed_event (RDeleteNode rc nm r)" "typed_event (HttpDo q)"
  "typed_event (NewBundle ct)"
  by (auto simp: typed_event_def harmless_def split: event.splits)

lemma frame_typed [simp]: "frame typed_event"
  by (simp add: frame_def)

lemma set_condition_typed [simp]:
  assumes "well_typed T cs" and "t \<in> T"
  shows "well_typed T (set_condition_status now cs t s reason msg)"
proof -
  have "CondType ` set (set_condition_status now cs t s reason msg) = insert t (CondType ` set cs)"
    unfolding set_condition_status_def using SetCondition_types [of now cs] by simp
  with assms show ?thesis by (simp add: well_typed_def conds.wf_put)
qed

lemma types_here [simp]:
  "TalosNodeConditionConfigApplied \<in> node_condition_types" "TalosNodeConditionTalosVersionUpToDate \<in> node_condition_types"
  "TalosNodeConditionExtensionsUpToDate \<in> node_condition_types"
  "TalosClusterConditionSecretsGenerated \<in> cluster_condition_types"
  "TalosClusterConditionConfigsGenerated \<in> cluster_condition_types"
  "TalosClusterBootstrapConditionBootstrapped \<in> bootstrap_condition_types"
  "TalosClusterBootstrapConditionKubeconfig \<in> bootstrap_condition_types"
  "TalosClusterBootstrapConditionAPIServer \<in> bootstrap_condition_types"
  by (simp_all add: node_condition_types_def cluster_condition_types_def bootstrap_condition_types_def)

section \<open>Rules\<close>

abbreviation typed :: "event list \<Rightarrow> event \<Rightarrow> bool" where
  "typed \<equiv> (\<lambda>_. typed_event)"

lemma wpg_untouched:
  assumes "only typed_event m" and "\<And>r g'. Q r g'"
  shows "wpg typed m Q g"
  using assms(1) by (rule wpg_only) (simp_all add: assms(2))

lemma wpg_node_status:
  assumes "echoes E" and "typed_node n" and "\<And>err g'. Q (Inl err) g'" and "\<And>g'. Q (Inr n) g'"
  shows "wpg typed (status_update_TalosNode E n) Q g"
proof (rule status_update_echo)
  show "node_status_echo E" using assms(1) by (simp add: echoes_def)
  fix r :: "gerror + talos_node" assume "\<forall>n'. r = Inr n' \<longrightarrow> n' = n"
  then show "Q r (g @ [KStatusUpdate (ONode n) (opt_err r)])" using assms(3,4) by (cases r) simp_all
qed (simp add: assms(2))

lemma wpg_node_patch:
  assumes "echoes E" and "typed_node n" and "\<And>e n' g'. typed_node n' \<Longrightarrow> Q (e, n') g'"
  shows "wpg typed (patchAnnotations E n sets dels) Q g"
  unfolding patchAnnotations_def patch_TalosNode_def using assms(1,2)
  by (intro wpg_intros assms(3))
    (auto simp: echoes_def typed_node_def dest!: sym [THEN node_patch_echoD [rotated]])

lemmas typed_rules = wpg_intros wpg_node_status wpg_node_patch

lemma only_typed_simple:
  "only typed_event (get_TalosNode E k)" "only typed_event (get_TalosCluster E k)"
  "only typed_event (update_TalosNode E n)" "only typed_event (time_Now E)"
  "only typed_event (emitEvent rc kd ob et s m)" "only typed_event (record_node_phase n f t)"
  "only typed_event (metric_inc v ls)" "only typed_event (GetRetryDelay E attempts)"
  "only typed_event (getSecret E s ns)" "only typed_event (getSecretOrSkip E s ns)"
  unfolding call_defs by (intro only_intros; simp)+

lemma only_typed_frames:
  "only typed_event (conn_Dial E tb ip)" "only typed_event (loadTalosconfig E n)"
  "only typed_event (conn_ApplyConfig E c ip bs cl)" "only typed_event (conn_Upgrade E c ip img)"
  "only typed_event (conn_GetVersion E c ip)" "only typed_event (conn_GetMachineConfig E c ip)"
  "only typed_event (dialForApply E f tc ip)" "only typed_event (renderConfig E n tcl)"
  "only typed_event (saveNodeConfig E n bs)" "only typed_event (refreshConfigSizeMetric E n)"
  "only typed_event (tryReset E n b)" "only typed_event (drainStage E R n)"
  "only typed_event (resetStage E R n)" "only typed_event (deleteNodeConfig E n)"
  "only typed_event (retireEndpoint E n)" "only typed_event (finishDeletion E n)"
  "only typed_event (guardLastControlPlane E n)"
  by (intro frame_intros; simp)+

lemmas typed_steps = only_typed_simple [THEN wpg_untouched] only_typed_frames [THEN wpg_untouched]

section \<open>The node controller\<close>

lemma finishApply_typed:
  assumes "echoes E" and "typed_node n" and "\<And>e n' g'. typed_node n' \<Longrightarrow> Q (e, n') g'"
  shows "wpg typed (finishApply E n) Q g"
  unfolding finishApply_def using assms(1,2)
  by (intro typed_rules typed_steps assms(3); auto intro: assms(3) simp: typed_node_def)

lemma pushConfig_typed:
  assumes "echoes E" and "typed_node n" and "\<And>e n' g'. typed_node n' \<Longrightarrow> Q (e, n') g'"
  shows "wpg typed (pushConfig E n c first bs) Q g"
  unfolding pushConfig_def
  by (intro typed_rules typed_steps finishApply_typed assms(1,3); auto intro: assms(2,3))

lemma applyConfig_typed:
  assumes "echoes E" and "typed_node n" and "\<And>e n' g'. typed_node n' \<Longrightarrow> Q (e, n') g'"
  shows "wpg typed (applyConfig E n) Q g"
  unfolding applyConfig_def using assms(2)
  by (intro typed_rules typed_steps pushConfig_typed assms(1,3); auto simp: typed_node_def)

lemma applyFailure_typed:
  assumes "echoes E" and "typed_node n"
  shows "wpg typed (applyFailure E R n err) (\<lambda>_ _. True) g"
  unfolding applyFailure_def node_setError_def using assms
  by (intro typed_rules typed_steps; simp add: typed_node_def)

lemma checkDrift_typed:
  assumes "echoes E" and "typed_node n"
  shows "wpg typed (checkDrift E R n) (\<lambda>_ _. True) g"
proof -
  have reapply: "wpg typed (reapplyDrifted E R n) (\<lambda>_ _. True) g" for g
    unfolding reapplyDrifted_def
    by (intro typed_rules typed_steps applyConfig_typed applyFailure_typed assms; simp)
  show ?thesis
    unfolding checkDrift_def driftResult_def
    by (intro typed_rules typed_steps wpg_mono [OF reapply]; simp)
qed

lemma reconcileConfig_typed:
  assumes "echoes E" and "typed_node n"
  shows "wpg typed (reconcileConfig E R n) (\<lambda>_ _. True) g"
  unfolding reconcileConfig_def
  by (intro typed_rules typed_steps checkDrift_typed applyConfig_typed applyFailure_typed assms; simp)

lemma startUpgrade_typed:
  assumes "echoes E" and "typed_node n"
  shows "wpg typed (startUpgrade E R n c img) (\<lambda>_ _. True) g"
  unfolding startUpgrade_def upgradeFailed_def using assms
  by (intro typed_rules typed_steps; auto simp: typed_node_def)

lemma handleUpgrade_typed:
  assumes "echoes E" and "typed_node n"
  shows "wpg typed (handleUpgrade E R n img) (\<lambda>_ _. True) g"
  unfolding handleUpgrade_def
  by (intro typed_rules typed_steps wpg_mono [OF startUpgrade_typed]; simp add: assms)

lemma checkUpgradeComplete_typed:
  assumes "echoes E" and "typed_node n"
  shows "wpg typed (checkUpgradeComplete E R n) (\<lambda>_ _. True) g"
proof -
  have complete: "wpg typed (completeUpgrade E R n img tag) (\<lambda>_ _. True) g" for img tag g
    unfolding completeUpgrade_def setExtensionsUpToDate_def using assms
    by (intro typed_rules typed_steps; simp add: typed_node_def)
  show ?thesis
    unfolding checkUpgradeComplete_def
    by (intro typed_rules typed_steps wpg_mono [OF complete]; simp)
qed

lemma handleStandaloneReset_typed:
  assumes "echoes E" and "typed_node n"
  shows "wpg typed (handleStandaloneReset E R n) (\<lambda>_ _. True) g"
  unfolding handleStandaloneReset_def using assms
  by (intro typed_rules typed_steps; simp add: typed_node_def)

lemma reconcileVersion_typed:
  assumes "echoes E" and "quiet_factory R" and "typed_node n"
    and "\<And>res b err n' g'. b \<or> typed_node n' \<Longrightarrow> Q (res, b, err, n') g'"
  shows "wpg typed (reconcileVersion E R n) Q g"
proof -
  have img: "only typed_event (computeDesiredImage E R n)"
    by (intro frame_intros assms(2); simp)
  show ?thesis
    unfolding reconcileVersion_def
    by (intro typed_rules typed_steps img [THEN wpg_untouched] wpg_mono [OF handleUpgrade_typed] assms(1,4);
      (use assms(3) in simp)?)
qed

lemma reconcileLive_typed:
  assumes "echoes E" and "quiet_factory R" and "typed_node n"
  shows "wpg typed (reconcileLive E R n) (\<lambda>_ _. True) g"
  unfolding reconcileLive_def
  by (intro wpg_intros checkUpgradeComplete_typed handleUpgrade_typed reconcileVersion_typed
      handleStandaloneReset_typed reconcileConfig_typed assms; auto simp: assms)

lemma etcdStage_typed:
  assumes "echoes E" and "typed_node n" and "\<And>r g'. Q r g'"
  shows "wpg typed (etcdStage E n) Q g"
proof -
  have steps: "only typed_event (forceEtcdRemove E n tb eps)" "only typed_event (tryEtcdLeave E ip tb)" for tb eps ip
    unfolding forceEtcdRemove_def tryEtcdLeave_def by (intro only_intros frame_intros; simp)+
  show ?thesis
    unfolding etcdStage_def handleEtcdLeave_def gracefulEtcdLeave_def using assms(1,2)
    by (intro typed_rules typed_steps steps [THEN wpg_untouched] assms(3); simp add: typed_node_def)
qed

lemma node_handleDeletion_typed:
  assumes "echoes E" and "typed_node n"
  shows "wpg typed (node_handleDeletion E R n) (\<lambda>_ _. True) g"
  unfolding node_handleDeletion_def markDeleting_def using assms
  by (intro typed_rules typed_steps etcdStage_typed; auto simp: typed_node_def)

text \<open>
  \<open>typed_reads E h\<close>: the objects that a reconcile reads after the history \<open>h\<close> have well-typed statuses.
\<close>

definition typed_reads :: "env \<Rightarrow> hist \<Rightarrow> bool" where
  "typed_reads E h \<longleftrightarrow>
     (\<forall>k n. kget_node (Kube E) h k = Inr n \<longrightarrow> typed_node n) \<and>
     (\<forall>k c. kget_cluster (Kube E) h k = Inr c \<longrightarrow> typed_cluster c) \<and>
     (\<forall>k b. kget_bootstrap (Kube E) h k = Inr b \<longrightarrow> typed_bootstrap b)"

definition all_echoes :: "env \<Rightarrow> bool" where
  "all_echoes E \<longleftrightarrow> echoes E \<and> cluster_status_echo E \<and> cluster_update_echo E \<and>
     bootstrap_status_echo E \<and> bootstrap_update_echo E"

lemma node_Reconcile_typed:
  assumes "all_echoes E" and "typed_reads E h" and "quiet_factory R"
  shows "wpg typed (node_Reconcile E R k) (\<lambda>_ _. True) h"
proof (cases "kget_node (Kube E) h k")
  case (Inl err)
  then show ?thesis
    unfolding node_Reconcile_def get_TalosNode_def by (intro wpg_intros) simp_all
next
  case (Inr n)
  have laws: "echoes E" "typed_node n" using assms(1,2) Inr unfolding all_echoes_def typed_reads_def by blast+
  have echo: "node_update_echo E" using laws by (simp add: echoes_def)
  have finalizer: "wpg typed (ensureFinalizer (update_TalosNode E) n) Q g"
    if "\<And>err n' g'. err = None \<longrightarrow> typed_node n' \<Longrightarrow> Q (err, n') g'" for Q g
    unfolding ensureFinalizer_def update_TalosNode_def using laws(2)
    by (intro wpg_intros that)
      (auto simp: typed_node_def dest!: sym [THEN node_update_echoD [OF echo]])
  show ?thesis
    unfolding node_Reconcile_def get_TalosNode_def
    apply (intro wpg_bind wpg_ask; simp only: Inr sum.case)
     apply simp
    apply (intro wpg_intros typed_steps finalizer node_handleDeletion_typed reconcileLive_typed laws assms(3); simp)
    done
qed

section \<open>The cluster controller\<close>

lemma wpg_cluster_status_typed:
  assumes "cluster_status_echo E" and "typed_cluster c" and "\<And>err g'. Q (Inl err) g'" and "\<And>g'. Q (Inr c) g'"
  shows "wpg typed (status_update_TalosCluster E c) Q g"
  unfolding status_update_TalosCluster_def
proof (rule wpg_ask)
  fix r assume "r = kstatus_cluster (Kube E) g c"
  then have "r = Inr c \<or> (\<exists>err. r = Inl err)"
    using cluster_status_echoD [OF assms(1), of g c] by (cases "kstatus_cluster (Kube E) g c") auto
  then show "Q r (g @ [KStatusUpdate (OCluster c) (opt_err r)])" using assms(3,4) by auto
qed (simp add: assms(2))

lemma only_typed_cluster:
  "only typed_event (record_cluster_phase c f t)" "only typed_event (update_TalosCluster E c)"
  "only typed_event (LoadOrGenSecretsBundle E bs v)" "only typed_event (existingBundle E c)"
  "only typed_event (sm_Create E sm n ns key bs ty)" "only typed_event (storeConfigs E sm c cfgs)"
  "only typed_event (activeNodeCount E c)" "only typed_event (sm_DeleteMultiple E sm ns names)"
  unfolding activeNodeCount_def call_defs by (intro only_intros; simp)+

lemmas typed_cluster_steps =
  wpg_cluster_status_typed only_typed_cluster [THEN wpg_untouched] only_typed_simple [THEN wpg_untouched]

lemma provision_typed:
  assumes "cluster_status_echo E" and "typed_cluster c" and "\<And>e c' g'. typed_cluster c' \<Longrightarrow> Q (e, c') g'"
  shows "wpg typed (provision E c) Q g"
proof -
  have finish: "wpg typed (finishProvision E c') Q g'" if "typed_cluster c'" for c' g'
    unfolding finishProvision_def set_cluster_conditions_def using assms(1) that
    by (intro wpg_intros typed_cluster_steps; auto intro: assms(3) simp: typed_cluster_def)
  show ?thesis
    unfolding provision_def set_cluster_conditions_def using assms(1,2)
    by (intro wpg_intros typed_cluster_steps finish assms(3); auto simp: typed_cluster_def)
qed

lemma cluster_setError_typed:
  assumes "cluster_status_echo E" and "typed_cluster c"
  shows "wpg typed (cluster_setError E R c err) (\<lambda>_ _. True) g"
  unfolding cluster_setError_def using assms
  by (intro wpg_intros typed_cluster_steps; simp add: typed_cluster_def)

lemma cluster_handleDeletion_typed:
  assumes "cluster_status_echo E" and "typed_cluster c"
  shows "wpg typed (cluster_handleDeletion E c) (\<lambda>_ _. True) g"
  unfolding cluster_handleDeletion_def using assms
  by (intro wpg_intros typed_cluster_steps; simp add: typed_cluster_def)

lemma cluster_Reconcile_typed:
  assumes "all_echoes E" and "typed_reads E h"
  shows "wpg typed (cluster_Reconcile E R k) (\<lambda>_ _. True) h"
proof (cases "kget_cluster (Kube E) h k")
  case (Inl err)
  then show ?thesis
    unfolding cluster_Reconcile_def get_TalosCluster_def by (intro wpg_intros) simp_all
next
  case (Inr c)
  have laws: "cluster_status_echo E" "typed_cluster c" "cluster_update_echo E"
    using assms Inr unfolding all_echoes_def typed_reads_def by blast+
  have echo: "kupdate_cluster (Kube E) g x = Inr y \<Longrightarrow> y = x" for g x y
    using laws(3) by (simp add: cluster_update_echo_def)
  have finalizer: "wpg typed (ensureFinalizer (update_TalosCluster E) c) Q g"
    if "\<And>err c' g'. err = None \<longrightarrow> typed_cluster c' \<Longrightarrow> Q (err, c') g'" for Q g
    unfolding ensureFinalizer_def update_TalosCluster_def using laws(2)
    by (intro wpg_intros that) (auto simp: typed_cluster_def dest!: sym [THEN echo])
  show ?thesis
    unfolding cluster_Reconcile_def get_TalosCluster_def
    apply (intro wpg_bind wpg_ask; simp only: Inr sum.case)
     apply simp
    apply (intro wpg_intros typed_cluster_steps finalizer cluster_handleDeletion_typed provision_typed
        cluster_setError_typed laws; simp)
    done
qed

section \<open>The bootstrap controller\<close>

lemma wpg_bootstrap_status_typed:
  assumes "bootstrap_status_echo E" and "typed_bootstrap b" and "\<And>err g'. Q (Inl err) g'" and "\<And>g'. Q (Inr b) g'"
  shows "wpg typed (status_update_TalosClusterBootstrap E b) Q g"
  unfolding status_update_TalosClusterBootstrap_def
proof (rule wpg_ask)
  fix r assume "r = kstatus_bootstrap (Kube E) g b"
  then have "r = Inr b \<or> (\<exists>err. r = Inl err)"
    using bootstrap_status_echoD [OF assms(1), of g b] by (cases "kstatus_bootstrap (Kube E) g b") auto
  then show "Q r (g @ [KStatusUpdate (OBootstrap b) (opt_err r)])" using assms(3,4) by auto
qed (simp add: assms(2))

lemma only_typed_bootstrap:
  "only typed_event (record_bootstrap_phase b f t)" "only typed_event (update_TalosClusterBootstrap E b)"
  "only typed_event (metric_observe v ls x)" "only typed_event (probeAPIServer E R sec)"
  "only typed_event (saveKubeconfig E cl kc)" "only typed_event (readyControlPlaneCount E ns cr)"
  "only typed_event (deleteKubeconfig E b)"
  unfolding probeAPIServer_def saveKubeconfig_def readyControlPlaneCount_def deleteKubeconfig_def call_defs
  by (intro only_intros; simp)+

lemma only_typed_bootstrap_frames:
  "only typed_event (conn_GetKubeconfig E c ip)" "only typed_event (conn_Bootstrap E c ip)"
  "only typed_event (dialBootstrap E a tb eps)"
  unfolding dialBootstrap_def by (intro only_intros frame_intros; simp)+

lemmas typed_bootstrap_steps =
  wpg_bootstrap_status_typed only_typed_bootstrap [THEN wpg_untouched]
  only_typed_bootstrap_frames [THEN wpg_untouched] only_typed_simple [THEN wpg_untouched]

lemma bootstrap_setError_typed:
  assumes "bootstrap_status_echo E" and "typed_bootstrap b" and "\<And>r g'. Q r g'"
  shows "wpg typed (bootstrap_setError E R b err) Q g"
  unfolding bootstrap_setError_def using assms(1,2)
  by (intro wpg_intros typed_bootstrap_steps assms(3); simp add: typed_bootstrap_def)

lemma waitForAPIServer_typed:
  assumes "bootstrap_status_echo E" and "typed_bootstrap b"
  shows "wpg typed (waitForAPIServer E R b c) (\<lambda>_ _. True) g"
  unfolding waitForAPIServer_def keepWaiting_def completeBootstrap_def using assms
  by (intro wpg_intros typed_bootstrap_steps bootstrap_setError_typed; simp add: typed_bootstrap_def)

lemma fetchKubeconfig_typed:
  assumes "bootstrap_status_echo E" and "typed_bootstrap b"
  shows "wpg typed (fetchKubeconfig E R b c conn ep) (\<lambda>_ _. True) g"
  unfolding fetchKubeconfig_def kubeconfigFailed_def using assms
  by (intro wpg_intros typed_bootstrap_steps bootstrap_setError_typed waitForAPIServer_typed;
    auto simp: typed_bootstrap_def)

lemma bootstrapEtcd_typed:
  assumes "bootstrap_status_echo E" and "typed_bootstrap b"
    and "\<And>res g'. Q (Inl res) g'" and "\<And>b' g'. typed_bootstrap b' \<Longrightarrow> Q (Inr b') g'"
  shows "wpg typed (bootstrapEtcd E R b conn ep) Q g"
  unfolding bootstrapEtcd_def markBootstrapped_def using assms(1,2)
  by (intro wpg_intros typed_bootstrap_steps bootstrap_setError_typed assms(3,4); auto simp: typed_bootstrap_def)

lemma talkToTalos_typed:
  assumes "bootstrap_status_echo E" and "typed_bootstrap b"
  shows "wpg typed (talkToTalos E R b c already) (\<lambda>_ _. True) g"
  unfolding talkToTalos_def
  by (intro wpg_intros typed_bootstrap_steps bootstrap_setError_typed bootstrapEtcd_typed
      wpg_mono [OF fetchKubeconfig_typed]; auto intro: assms)

lemma startBootstrap_typed:
  assumes "bootstrap_status_echo E" and "typed_bootstrap b"
  shows "wpg typed (startBootstrap E R b c) (\<lambda>_ _. True) g"
  unfolding startBootstrap_def using assms
  by (intro wpg_intros typed_bootstrap_steps talkToTalos_typed; auto simp: typed_bootstrap_def)

lemma reconcileBootstrap_typed:
  assumes "bootstrap_status_echo E" and "typed_bootstrap b"
  shows "wpg typed (reconcileBootstrap E R b) (\<lambda>_ _. True) g"
  unfolding reconcileBootstrap_def waitForReadyNodes_def using assms
  by (intro wpg_intros typed_bootstrap_steps bootstrap_setError_typed startBootstrap_typed waitForAPIServer_typed;
    auto simp: typed_bootstrap_def)

lemma bootstrap_Reconcile_typed:
  assumes "all_echoes E" and "typed_reads E h"
  shows "wpg typed (bootstrap_Reconcile E R k) (\<lambda>_ _. True) h"
proof (cases "kget_bootstrap (Kube E) h k")
  case (Inl err)
  then show ?thesis
    unfolding bootstrap_Reconcile_def get_TalosClusterBootstrap_def by (intro wpg_intros) simp_all
next
  case (Inr b)
  have laws: "bootstrap_status_echo E" "typed_bootstrap b" "bootstrap_update_echo E"
    using assms Inr unfolding all_echoes_def typed_reads_def by blast+
  have echo: "kupdate_bootstrap (Kube E) g x = Inr y \<Longrightarrow> y = x" for g x y
    using laws(3) by (simp add: bootstrap_update_echo_def)
  have finalizer: "wpg typed (ensureFinalizer (update_TalosClusterBootstrap E) b) Q g"
    if "\<And>err b' g'. err = None \<longrightarrow> typed_bootstrap b' \<Longrightarrow> Q (err, b') g'" for Q g
    unfolding ensureFinalizer_def update_TalosClusterBootstrap_def using laws(2)
    by (intro wpg_intros that) (auto simp: typed_bootstrap_def dest!: sym [THEN echo])
  have deletion: "wpg typed (bootstrap_handleDeletion E b) (\<lambda>_ _. True) g" for g
    unfolding bootstrap_handleDeletion_def by (intro wpg_intros typed_bootstrap_steps; simp)
  show ?thesis
    unfolding bootstrap_Reconcile_def get_TalosClusterBootstrap_def
    apply (intro wpg_bind wpg_ask; simp only: Inr sum.case)
     apply simp
    apply (intro wpg_intros typed_bootstrap_steps finalizer deletion reconcileBootstrap_typed laws; simp)
    done
qed

section \<open>The theorem\<close>

text \<open>
  C21. The statuses keep their type: from objects with one condition of each type, and only of the types
  that the API declares, no reconcile of any of the three controllers writes a status that is
  otherwise, on any path, also of errors and deletions. Nothing but the controllers enforces this.
\<close>

theorem statuses_typed:
  assumes "all_echoes E" and "typed_reads E h"
  shows "wpg typed (node_Reconcile E (production_node E) req) (\<lambda>_ _. True) h \<and>
    wpg typed (cluster_Reconcile E R req) (\<lambda>_ _. True) h \<and>
    wpg typed (bootstrap_Reconcile E R' req) (\<lambda>_ _. True) h"
  by (intro conjI node_Reconcile_typed cluster_Reconcile_typed bootstrap_Reconcile_typed assms
      production_node_quiet)

end
