(* ===== verification/GoHeap.thy ===== *)
theory GoHeap
  imports ApiTypes
begin

text \<open>
  The memory of a Go program, as far as \<^verbatim>\<open>zz_generated_deepcopy.go\<close> uses it. The heap is the list of the
  arrays allocated so far; a pointer is the index of an array of one value, a slice a window on an
  array. A nil pointer and a nil slice are \<open>None\<close>. Structs hold pointers where the Go types do, so
  that sharing is visible; a \<^emph>\<open>view\<close> reads the value below such a struct together with the addresses it
  went through, and fails on a dangling pointer, which the language rules out.

  The locale \<open>deep_copier\<close> is what a \<^verbatim>\<open>DeepCopyInto\<close> promises: the copy has the same value and lies in new memory.
\<close>

section \<open>Structs with their pointers\<close>

type_synonym addr = nat

record slice =
  SArr :: addr
  SOff :: nat
  SLen :: nat

record type_meta =
  Kind :: string
  APIVersion :: string

record owner_mem =
  POwnerAPIVersion :: string
  POwnerKind :: string
  POwnerName :: string
  POwnerUID :: string
  POwnerController :: "addr option"
  POwnerBlockDeletion :: "addr option"

record object_meta_mem =
  PName :: string
  PNamespace :: string
  PUID :: string
  PGeneration :: int64
  PCreationTimestamp :: time
  PDeletionTimestamp :: "addr option"
  PFinalizers :: "slice option"
  PAnnotations :: "addr option"
  POwnerReferences :: "slice option"

record list_meta_mem =
  PResourceVersion :: string
  PContinue :: string
  PRemainingItemCount :: "addr option"

record secret_key_selector_mem =
  PSelName :: string
  PSelKey :: string
  PSelOptional :: "addr option"

record common_status_mem =
  PObservedGeneration :: int64
  PRetryCount :: int32
  PLastUpdateTime :: "addr option"
  PConditions :: "slice option"

record cluster_spec_mem =
  PClusterName :: string
  PEndpoints :: "slice option"
  PClusterTalosVersion :: string
  PKubernetesVersion :: string

record cluster_status_mem =
  PClusterPhase :: TalosPhase
  PClusterCommon :: common_status_mem

record cluster_mem =
  PClusterType :: type_meta
  PClusterMeta :: object_meta_mem
  PClusterSpec :: cluster_spec_mem
  PClusterStatus :: cluster_status_mem

record node_spec_mem =
  PClusterRef :: string
  PRole :: TalosNodeRole
  PNodeIP :: string
  PPatches :: "slice option"
  PPatchesFrom :: "slice option"
  PDriftDetection :: "addr option"
  PSkipDrain :: bool
  PDrainTimeout :: "addr option"
  PResetOnDelete :: bool
  PTalosVersion :: string
  PSystemExtensions :: "slice option"

record node_status_mem =
  PNodePhase :: TalosNodePhase
  PNodeMessage :: message
  PDeletionAttempts :: int32
  PCurrentTalosVersion :: string
  PInstalledExtensions :: "slice option"
  PNodeCommon :: common_status_mem

record node_mem =
  PNodeType :: type_meta
  PNodeMeta :: object_meta_mem
  PNodeSpec :: node_spec_mem
  PNodeStatus :: node_status_mem

record bootstrap_status_mem =
  PBootstrapPhase :: TalosClusterBootstrapPhase
  PBootstrapMessage :: message
  PBootstrapCommon :: common_status_mem

record bootstrap_mem =
  PBootstrapType :: type_meta
  PBootstrapMeta :: object_meta_mem
  PBootstrapSpec :: talos_cluster_bootstrap_spec
  PBootstrapStatus :: bootstrap_status_mem

record list_mem =
  PListType :: type_meta
  PListMeta :: list_meta_mem
  PItems :: "slice option"

text \<open>
  What an element of an array can be. \<open>VZero\<close> is the zero value of its type in memory that was just
  allocated; the program overwrites it as a whole before it is read. The three list types have the
  same layout and differ in their items.
\<close>

datatype memval =
    VZero
  | VBool bool
  | VInt64 int64
  | VTime time
  | VDuration duration
  | VString string
  | VMap "string \<Rightarrow> string option"
  | VOwner owner_mem
  | VCondition condition
  | VSelector secret_key_selector_mem
  | VCluster cluster_mem
  | VNode node_mem
  | VBootstrap bootstrap_mem
  | VList list_mem

type_synonym heap = "memval list list"
type_synonym 'a mem = "(heap, 'a) state"

section \<open>Memory operations\<close>

definition go_new :: "memval list \<Rightarrow> addr mem" where
  "go_new vs = State (\<lambda>h. (length h, h @ [vs]))"

definition go_load :: "addr \<Rightarrow> nat \<Rightarrow> memval mem" where
  "go_load a i = State (\<lambda>h. (h ! a ! i, h))"

definition go_store :: "addr \<Rightarrow> nat \<Rightarrow> memval \<Rightarrow> unit mem" where
  "go_store a i v = State (\<lambda>h. ((), h[a := (h ! a)[i := v]]))"

text \<open>\<^verbatim>\<open>make([]T, n)\<close> and the built-in \<^verbatim>\<open>copy(dst, src)\<close>.\<close>

definition go_make :: "nat \<Rightarrow> slice mem" where
  "go_make n = do { a \<leftarrow> go_new (replicate n VZero); ret \<lparr>SArr = a, SOff = 0, SLen = n\<rparr> }"

definition go_copy :: "slice \<Rightarrow> slice \<Rightarrow> unit mem" where
  "go_copy dst src = State (\<lambda>h.
     let vs = take (min (SLen dst) (SLen src)) (drop (SOff src) (h ! SArr src));
         arr = h ! SArr dst
     in ((), h[SArr dst := take (SOff dst) arr @ vs @ drop (SOff dst + length vs) arr]))"

text \<open>
  The three shapes of copying that the file has for a field: a pointer to a plain value, a slice of
  plain values, and a slice whose elements are copied one by one.
\<close>

definition copy_pointer :: "addr option \<Rightarrow> addr option mem" where
  "copy_pointer p =
     (case p of
        None \<Rightarrow> ret None
      | Some a \<Rightarrow> do { v \<leftarrow> go_load a 0; b \<leftarrow> go_new [v]; ret (Some b) })"

definition copy_values :: "slice option \<Rightarrow> slice option mem" where
  "copy_values s =
     (case s of
        None \<Rightarrow> ret None
      | Some src \<Rightarrow> do { dst \<leftarrow> go_make (SLen src); go_copy dst src; ret (Some dst) })"

fun copy_loop :: "(memval \<Rightarrow> memval mem) \<Rightarrow> slice \<Rightarrow> slice \<Rightarrow> nat list \<Rightarrow> unit mem" where
  "copy_loop f dst src [] = ret ()"
| "copy_loop f dst src (i # is) = do {
     v \<leftarrow> go_load (SArr src) (SOff src + i);
     w \<leftarrow> f v;
     go_store (SArr dst) (SOff dst + i) w;
     copy_loop f dst src is
   }"

definition copy_items :: "(memval \<Rightarrow> memval mem) \<Rightarrow> slice option \<Rightarrow> slice option mem" where
  "copy_items f s =
     (case s of
        None \<Rightarrow> ret None
      | Some src \<Rightarrow> do {
          dst \<leftarrow> go_make (SLen src);
          copy_loop f dst src [0..<SLen src];
          ret (Some dst)
        })"

lemma wp_go [wp_simps]:
  "wp (go_new vs) Q h = Q (length h) (h @ [vs])"
  "wp (go_load a i) R h = R (h ! a ! i) h"
  "wp (go_store a i v) S h = S () (h[a := (h ! a)[i := v]])"
  by (simp_all add: wp_def go_new_def go_load_def go_store_def)

lemma wp_go_make [wp_simps]:
  "wp (go_make n) Q h = Q \<lparr>SArr = length h, SOff = 0, SLen = n\<rparr> (h @ [replicate n VZero])"
  by (simp add: go_make_def wp_simps)

lemma wp_go_copy [wp_simps]:
  "wp (go_copy dst src) Q h = Q () (snd (run_state (go_copy dst src) h))"
  by (simp add: wp_def go_copy_def Let_def)

section \<open>Views\<close>

type_synonym ('x, 'v) view = "heap \<Rightarrow> 'x \<Rightarrow> ('v \<times> addr list) option"

definition view_plain :: "('v, 'v) view" where
  "view_plain h v = Some (v, [])"

definition view_typed :: "(memval \<Rightarrow> 'x option) \<Rightarrow> ('x, 'v) view \<Rightarrow> (memval, 'v) view" where
  "view_typed un V h m = (case un m of None \<Rightarrow> None | Some x \<Rightarrow> V h x)"

definition view_ptr :: "(memval, 'v) view \<Rightarrow> (addr option, 'v option) view" where
  "view_ptr V h p =
     (case p of
        None \<Rightarrow> Some (None, [])
      | Some a \<Rightarrow>
          if a < length h \<and> length (h ! a) = 1
          then (case V h (h ! a ! 0) of None \<Rightarrow> None | Some (v, A) \<Rightarrow> Some (Some v, a # A))
          else None)"

fun view_list :: "(memval, 'v) view \<Rightarrow> (memval list, 'v list) view" where
  "view_list V h [] = Some ([], [])"
| "view_list V h (m # ms) =
     (case V h m of
        None \<Rightarrow> None
      | Some (v, A) \<Rightarrow>
          (case view_list V h ms of None \<Rightarrow> None | Some (vs, B) \<Rightarrow> Some (v # vs, A @ B)))"

definition slice_vals :: "heap \<Rightarrow> slice \<Rightarrow> memval list option" where
  "slice_vals h s =
     (if SArr s < length h \<and> SOff s + SLen s \<le> length (h ! SArr s)
      then Some (take (SLen s) (drop (SOff s) (h ! SArr s))) else None)"

text \<open>A slice keeps the difference between nil and empty, which its JSON form shows.\<close>

definition view_slice :: "(memval, 'v) view \<Rightarrow> (slice option, 'v list option) view" where
  "view_slice V h p =
     (case p of
        None \<Rightarrow> Some (None, [])
      | Some s \<Rightarrow>
          (case slice_vals h s of
             None \<Rightarrow> None
           | Some ms \<Rightarrow>
               (case view_list V h ms of
                  None \<Rightarrow> None
                | Some (vs, A) \<Rightarrow> Some (Some vs, SArr s # A))))"

definition view_prod :: "('x, 'v) view \<Rightarrow> ('y, 'w) view \<Rightarrow> ('x \<times> 'y, 'v \<times> 'w) view" where
  "view_prod V W h p =
     (case V h (fst p) of
        None \<Rightarrow> None
      | Some (v, A) \<Rightarrow>
          (case W h (snd p) of None \<Rightarrow> None | Some (w, B) \<Rightarrow> Some ((v, w), A @ B)))"

text \<open>A struct: its parts with pointers are picked by \<open>get\<close> and viewed, \<open>F\<close> adds the plain fields.\<close>

definition view_struct :: "('x \<Rightarrow> 'p) \<Rightarrow> ('p, 'v) view \<Rightarrow> ('x \<Rightarrow> 'v \<Rightarrow> 'w) \<Rightarrow> ('x, 'w) view" where
  "view_struct get V F h x = (case V h (get x) of None \<Rightarrow> None | Some (v, A) \<Rightarrow> Some (F x v, A))"

lemma view_list_Cons:
  "view_list V h (m # ms) = Some (vs, A) \<longleftrightarrow>
     (\<exists>v B ws C. V h m = Some (v, B) \<and> view_list V h ms = Some (ws, C) \<and> vs = v # ws \<and> A = B @ C)"
  by (auto split: option.split)

lemma view_typed_Some: "view_typed un V h m = Some r \<longleftrightarrow> (\<exists>x. un m = Some x \<and> V h x = Some r)"
  by (simp add: view_typed_def split: option.split)

lemma view_prod_Some:
  "view_prod V W h p = Some r \<longleftrightarrow>
     (\<exists>v A w B. V h (fst p) = Some (v, A) \<and> W h (snd p) = Some (w, B) \<and> r = ((v, w), A @ B))"
  by (auto simp: view_prod_def split: option.split)

lemma view_struct_Some:
  "view_struct get V F h x = Some r \<longleftrightarrow> (\<exists>v A. V h (get x) = Some (v, A) \<and> r = (F x v, A))"
  by (auto simp: view_struct_def split: option.split)

section \<open>Heaps that grow\<close>

definition agree :: "addr list \<Rightarrow> heap \<Rightarrow> heap \<Rightarrow> bool" where
  "agree A h g \<longleftrightarrow> (\<forall>a \<in> set A. a < length g \<and> g ! a = h ! a)"

definition extends :: "heap \<Rightarrow> heap \<Rightarrow> bool" where
  "extends h g \<longleftrightarrow> length h \<le> length g \<and> (\<forall>a < length h. g ! a = h ! a)"

definition beyond :: "heap \<Rightarrow> addr list \<Rightarrow> bool" where
  "beyond h B \<longleftrightarrow> (\<forall>b \<in> set B. length h \<le> b)"

lemma agree_simps [simp]:
  "agree [] h g"
  "agree (a # A) h g \<longleftrightarrow> a < length g \<and> g ! a = h ! a \<and> agree A h g"
  "agree (A @ B) h g \<longleftrightarrow> agree A h g \<and> agree B h g"
  by (auto simp: agree_def)

lemma beyond_simps [simp]:
  "beyond h []"
  "beyond h (a # B) \<longleftrightarrow> length h \<le> a \<and> beyond h B"
  "beyond h (A @ B) \<longleftrightarrow> beyond h A \<and> beyond h B"
  by (auto simp: beyond_def)

lemma extends_refl [simp]: "extends h h"
  by (simp add: extends_def)

lemma extends_trans: "extends h g \<Longrightarrow> extends g k \<Longrightarrow> extends h k"
  by (auto simp: extends_def)

lemma extends_append [simp]: "extends h (h @ vs)"
  by (auto simp: extends_def nth_append)

lemma extends_update: "extends h g \<Longrightarrow> length h \<le> a \<Longrightarrow> extends h (g[a := v])"
  by (auto simp: extends_def)

lemma beyond_extends: "extends h g \<Longrightarrow> beyond g B \<Longrightarrow> beyond h B"
  by (auto simp: extends_def beyond_def)

section \<open>The contract of a deep copy\<close>

text \<open>A view depends only on the allocated addresses it names.\<close>

locale footprint =
  fixes view :: "('x, 'v) view"
  assumes in_range: "view h x = Some (v, A) \<Longrightarrow> a \<in> set A \<Longrightarrow> a < length h"
    and stable: "view h x = Some (v, A) \<Longrightarrow> agree A h g \<Longrightarrow> view g x = Some (v, A)"
begin

lemma view_extends:
  assumes "view h x = Some r" and "extends h g"
  shows "view g x = Some r"
proof -
  obtain v A where r: "r = (v, A)" by (cases r)
  have "agree A h g"
    using assms(2) in_range [OF assms(1) [unfolded r]] by (auto simp: agree_def extends_def intro: less_le_trans)
  with assms(1) show ?thesis unfolding r by (rule stable)
qed

text \<open>Writes at other addresses are not seen.\<close>

lemma view_update:
  assumes "view h x = Some (v, A)" and "a \<notin> set A"
  shows "view (h[a := vs]) x = Some (v, A)"
proof (rule stable [OF assms(1)])
  have "b < length h \<and> b \<noteq> a" if "b \<in> set A" for b
    using in_range [OF assms(1) that] assms(2) that by auto
  then show "agree A h (h[a := vs])" by (fastforce simp: agree_def)
qed

end

locale deep_copier = footprint view for view :: "('x, 'v) view" +
  fixes deep_copy :: "'x \<Rightarrow> 'x mem"
  assumes copies: "view h x = Some (v, A) \<Longrightarrow>
    wp (deep_copy x) (\<lambda>y g. extends h g \<and> (\<exists>B. view g y = Some (v, B) \<and> beyond h B)) h"
begin

lemma copy_step:
  assumes "view h x = Some (v, A)"
    and "\<And>y g B. extends h g \<Longrightarrow> view g y = Some (v, B) \<Longrightarrow> beyond h B \<Longrightarrow> Q y g"
  shows "wp (deep_copy x) Q h"
  using copies [OF assms(1)] by (rule wp_mono) (auto intro: assms(2))

text \<open>
  Independence: the copy has the value of the original and shares no address with it, so that writes
  through the one, and whatever else leaves its addresses alone, are not seen through the other.
\<close>

lemma independent:
  assumes "view h x = Some (v, A)" and "run_state (deep_copy x) h = (y, g)"
  obtains B where "view g x = Some (v, A)" and "view g y = Some (v, B)" and "set A \<inter> set B = {}"
    and "\<And>g'. agree A g g' \<Longrightarrow> view g' x = Some (v, A)"
    and "\<And>g'. agree B g g' \<Longrightarrow> view g' y = Some (v, B)"
proof -
  from wpD [OF copies [OF assms(1)] assms(2)]
  obtain B where g: "extends h g" "view g y = Some (v, B)" "beyond h B" by blast
  then have x: "view g x = Some (v, A)" using assms(1) view_extends by blast
  have "set A \<inter> set B = {}"
    using in_range [OF assms(1)] g(3) by (fastforce simp: beyond_def)
  with that [OF x g(2)] show thesis using stable [OF x] stable [OF g(2)] by blast
qed

end

lemma deep_copierI:
  assumes "footprint V"
    and "\<And>h x v A. V h x = Some (v, A) \<Longrightarrow>
      wp (f x) (\<lambda>y g. extends h g \<and> (\<exists>B. V g y = Some (v, B) \<and> beyond h B)) h"
  shows "deep_copier V f"
  using assms by (simp add: deep_copier_def deep_copier_axioms_def)

named_theorems footprints "views that depend only on the addresses they name"
named_theorems copiers "deep copies, by the type of the field"

section \<open>Footprints of the view combinators\<close>

lemma footprint_plain [footprints]: "footprint view_plain"
  by unfold_locales (auto simp: view_plain_def)

lemma footprint_typed [footprints]:
  assumes V: "footprint V"
  shows "footprint (view_typed un V)"
proof
  fix h g x v A a
  assume "view_typed un V h x = Some (v, A)"
  then obtain y where y: "un x = Some y" "V h y = Some (v, A)" by (auto simp: view_typed_Some)
  show "a \<in> set A \<Longrightarrow> a < length h" by (rule footprint.in_range [OF V y(2)])
  show "agree A h g \<Longrightarrow> view_typed un V g x = Some (v, A)"
    using y footprint.stable [OF V y(2)] by (auto simp: view_typed_Some)
qed

lemma footprint_ptr [footprints]:
  assumes V: "footprint V"
  shows "footprint (view_ptr V)"
proof
  fix h g p v A a
  assume p: "view_ptr V h p = Some (v, A)"
  show "a \<in> set A \<Longrightarrow> a < length h" and "agree A h g \<Longrightarrow> view_ptr V g p = Some (v, A)"
  proof (atomize (full), cases p)
    case (Some b)
    with p obtain w B where b: "b < length h" "length (h ! b) = 1" "V h (h ! b ! 0) = Some (w, B)"
      "v = Some w" "A = b # B"
      by (auto simp: view_ptr_def split: option.splits if_splits)
    show "(a \<in> set A \<longrightarrow> a < length h) \<and> (agree A h g \<longrightarrow> view_ptr V g p = Some (v, A))"
      using b footprint.in_range [OF V b(3)] footprint.stable [OF V b(3)]
      by (auto simp: view_ptr_def Some)
  qed (use p in \<open>auto simp: view_ptr_def\<close>)
qed

lemma footprint_list [footprints]:
  assumes V: "footprint V"
  shows "footprint (view_list V)"
proof
  fix h g ms vs A a
  assume ms: "view_list V h ms = Some (vs, A)"
  have "view_list V h ms = Some (vs, A) \<Longrightarrow>
      (a \<in> set A \<longrightarrow> a < length h) \<and> (agree A h g \<longrightarrow> view_list V g ms = Some (vs, A))" for vs A
  proof (induction ms arbitrary: vs A)
    case (Cons m ms)
    from Cons.prems obtain v B ws C where
      r: "V h m = Some (v, B)" "view_list V h ms = Some (ws, C)" "vs = v # ws" "A = B @ C"
      by (auto split: option.splits)
    then show ?case
      using Cons.IH [OF r(2)] footprint.in_range [OF V r(1)] footprint.stable [OF V r(1)] by auto
  qed auto
  from this [OF ms] show "a \<in> set A \<Longrightarrow> a < length h"
    and "agree A h g \<Longrightarrow> view_list V g ms = Some (vs, A)" by blast+
qed

lemma footprint_slice [footprints]:
  assumes "footprint V"
  shows "footprint (view_slice V)"
proof
  note L = footprint_list [OF assms]
  fix h g p v A a
  assume p: "view_slice V h p = Some (v, A)"
  show "a \<in> set A \<Longrightarrow> a < length h" and "agree A h g \<Longrightarrow> view_slice V g p = Some (v, A)"
  proof (atomize (full), cases p)
    case (Some s)
    with p obtain ms ws B where s: "slice_vals h s = Some ms" "view_list V h ms = Some (ws, B)"
      "v = Some ws" "A = SArr s # B"
      by (auto simp: view_slice_def split: option.splits)
    show "(a \<in> set A \<longrightarrow> a < length h) \<and> (agree A h g \<longrightarrow> view_slice V g p = Some (v, A))"
      using s footprint.in_range [OF L s(2)] footprint.stable [OF L s(2)]
      by (auto simp: view_slice_def slice_vals_def Some split: if_splits)
  qed (use p in \<open>auto simp: view_slice_def\<close>)
qed

lemma footprint_prod [footprints]:
  assumes V: "footprint V" and W: "footprint W"
  shows "footprint (view_prod V W)"
proof
  fix h g p v A a
  assume "view_prod V W h p = Some (v, A)"
  then obtain x B y C where p: "V h (fst p) = Some (x, B)" "W h (snd p) = Some (y, C)" "v = (x, y)" "A = B @ C"
    by (auto simp: view_prod_Some)
  show "a \<in> set A \<Longrightarrow> a < length h"
    using p(4) footprint.in_range [OF V p(1)] footprint.in_range [OF W p(2)] by auto
  show "agree A h g \<Longrightarrow> view_prod V W g p = Some (v, A)"
    using p(3,4) footprint.stable [OF V p(1)] footprint.stable [OF W p(2)] by (simp add: view_prod_Some)
qed

lemma footprint_struct [footprints]:
  assumes V: "footprint V"
  shows "footprint (view_struct get V F)"
proof
  fix h g x v A a
  assume "view_struct get V F h x = Some (v, A)"
  then obtain w where x: "V h (get x) = Some (w, A)" "v = F x w" by (auto simp: view_struct_Some)
  show "a \<in> set A \<Longrightarrow> a < length h" by (rule footprint.in_range [OF V x(1)])
  show "agree A h g \<Longrightarrow> view_struct get V F g x = Some (v, A)"
    using x(2) footprint.stable [OF V x(1)] by (simp add: view_struct_Some)
qed

section \<open>Copying a field\<close>

lemma copy_pointer_copier [copiers]:
  "deep_copier (view_ptr (view_typed un view_plain)) copy_pointer"
proof (rule deep_copierI)
  show "footprint (view_ptr (view_typed un view_plain))" by (intro footprints)
  fix h p v A
  assume "view_ptr (view_typed un view_plain) h p = Some (v, A)"
  then show "wp (copy_pointer p) (\<lambda>y g. extends h g \<and>
      (\<exists>B. view_ptr (view_typed un view_plain) g y = Some (v, B) \<and> beyond h B)) h"
    by (auto simp: copy_pointer_def wp_simps view_ptr_def view_typed_def view_plain_def nth_append
        split: option.splits if_splits)
qed

lemma view_list_plain:
  "view_list (view_typed un view_plain) h ms = Some (vs, A) \<longleftrightarrow> map un ms = map Some vs \<and> A = []"
  by (induction ms arbitrary: vs A)
     (auto simp: view_list_Cons view_typed_Some view_plain_def Cons_eq_map_conv simp del: view_list.simps(2))

lemma go_copy_make:
  assumes "slice_vals h s = Some ms"
  shows "snd (run_state (go_copy \<lparr>SArr = length h, SOff = 0, SLen = SLen s\<rparr> s) (h @ [replicate (SLen s) VZero]))
    = h @ [ms]" and "length ms = SLen s"
  using assms by (auto simp: go_copy_def slice_vals_def Let_def nth_append split: if_splits)

lemma copy_values_copier [copiers]:
  "deep_copier (view_slice (view_typed un view_plain)) (copy_values)"
proof (rule deep_copierI)
  show "footprint (view_slice (view_typed un view_plain))" by (intro footprints)
  fix h p v A
  assume "view_slice (view_typed un view_plain) h p = Some (v, A)"
  then show "wp (copy_values p) (\<lambda>y g. extends h g \<and>
      (\<exists>B. view_slice (view_typed un view_plain) g y = Some (v, B) \<and> beyond h B)) h"
  proof (cases p)
    case (Some s)
    with \<open>view_slice _ h p = Some (v, A)\<close> obtain ms vs where
      s: "slice_vals h s = Some ms" and ms: "map un ms = map Some vs" "v = Some vs"
      by (auto simp: view_slice_def view_list_plain split: option.splits)
    have "view_list (view_typed un view_plain) g ms = Some (vs, [])" for g
      using ms(1) by (simp add: view_list_plain)
    then show ?thesis
      by (auto simp: Some copy_values_def wp_simps go_copy_make [OF s] view_slice_def slice_vals_def ms(2))
  qed (simp add: copy_values_def wp_simps view_slice_def)
qed

text \<open>
  The loop over the items of a list object: it fills the new array from the front, and neither the
  copies made so far nor the originals lie in that array.
\<close>

lemma view_list_append:
  "view_list V h ms = Some (vs, A) \<Longrightarrow> V h m = Some (v, B) \<Longrightarrow>
   view_list V h (ms @ [m]) = Some (vs @ [v], A @ B)"
  by (induction ms arbitrary: vs A) (auto split: option.splits)

lemma wp_copy_loop:
  assumes f: "deep_copier V f"
  shows "view_list V h ms = Some (vs, A) \<Longrightarrow> extends h g \<Longrightarrow> SArr src < length h \<Longrightarrow>
    SOff src + k + length ms \<le> length (h ! SArr src) \<Longrightarrow>
    ms = take (length ms) (drop (SOff src + k) (h ! SArr src)) \<Longrightarrow>
    length h \<le> SArr dst \<Longrightarrow> SArr dst < length g \<Longrightarrow> SOff dst = 0 \<Longrightarrow>
    g ! SArr dst = ws @ rest \<Longrightarrow> length ws = k \<Longrightarrow> length rest = length ms \<Longrightarrow>
    view_list V g ws = Some (us, B) \<Longrightarrow> beyond h B \<Longrightarrow> SArr dst \<notin> set B \<Longrightarrow>
    wp (copy_loop f dst src [k..<k + length ms])
      (\<lambda>_ g'. extends h g' \<and> SArr dst < length g' \<and> length (g' ! SArr dst) = k + length ms \<and>
        (\<exists>C. view_list V g' (g' ! SArr dst) = Some (us @ vs, C) \<and> beyond h C)) g"
proof (induction ms arbitrary: vs A g k ws us B rest)
  case Nil
  then show ?case by (auto simp: wp_simps)
next
  case (Cons m ms)
  note V = deep_copier.axioms(1) [OF f]
  from Cons.prems(1) obtain v A1 vs' A2 where
    m: "V h m = Some (v, A1)" "view_list V h ms = Some (vs', A2)" "vs = v # vs'"
    by (auto split: option.splits)
  have "h ! SArr src ! (SOff src + k) = (m # ms) ! 0"
    by (subst Cons.prems(5)) (use Cons.prems(4) in simp)
  then have at_k: "g ! SArr src ! (SOff src + k) = m"
    using Cons.prems(2,3) by (simp add: extends_def)
  have vm: "V g m = Some (v, A1)" using m(1) Cons.prems(2) by (rule footprint.view_extends [OF V])
  have ms': "ms = take (length ms) (drop (SOff src + Suc k) (h ! SArr src))"
    using arg_cong [OF Cons.prems(5), of tl] by (simp add: tl_take tl_drop drop_Suc)
  have idx: "[k..<k + length (m # ms)] = k # [Suc k..<Suc k + length ms]"
    by (simp add: upt_rec)
  show ?case
    unfolding idx copy_loop.simps wp_bind wp_go at_k Cons.prems(8) add_0
  proof (rule deep_copier.copy_step [OF f vm])
    fix w g1 C
    assume g1: "extends g g1" "V g1 w = Some (v, C)" "beyond g C"
    let ?g2 = "g1[SArr dst := (g1 ! SArr dst)[k := w]]"
    have d1: "SArr dst < length g1" "g1 ! SArr dst = ws @ rest"
      using g1(1) Cons.prems(7,9) by (auto simp: extends_def)
    have notC: "SArr dst \<notin> set C" using g1(3) Cons.prems(7) by (auto simp: beyond_def)
    have w2: "V ?g2 w = Some (v, C)" by (rule footprint.view_update [OF V g1(2) notC])
    have "view_list V g1 ws = Some (us, B)"
      using Cons.prems(12) g1(1) by (rule footprint.view_extends [OF footprint_list [OF V]])
    then have ws2: "view_list V ?g2 ws = Some (us, B)"
      by (rule footprint.view_update [OF footprint_list [OF V] _ Cons.prems(14)])
    have hg1: "extends h g1" using Cons.prems(2) g1(1) by (rule extends_trans)
    have d2: "?g2 ! SArr dst = (ws @ [w]) @ tl rest" "length (tl rest) = length ms"
      using d1 Cons.prems(10,11) by (cases rest; simp add: list_update_append)+
    show "wp (copy_loop f dst src [Suc k..<Suc k + length ms])
      (\<lambda>_ g'. extends h g' \<and> SArr dst < length g' \<and> length (g' ! SArr dst) = k + length (m # ms) \<and>
        (\<exists>C. view_list V g' (g' ! SArr dst) = Some (us @ vs, C) \<and> beyond h C)) ?g2"
    proof -
      have "wp (copy_loop f dst src [Suc k..<Suc k + length ms])
        (\<lambda>_ g'. extends h g' \<and> SArr dst < length g' \<and> length (g' ! SArr dst) = Suc k + length ms \<and>
          (\<exists>C. view_list V g' (g' ! SArr dst) = Some ((us @ [v]) @ vs', C) \<and> beyond h C)) ?g2"
      proof (rule Cons.IH [OF m(2) extends_update [OF hg1 Cons.prems(6)] Cons.prems(3) _ ms' Cons.prems(6) _
            Cons.prems(8) d2(1) _ d2(2) view_list_append [OF ws2 w2]])
        show "SOff src + Suc k + length ms \<le> length (h ! SArr src)" using Cons.prems(4) by simp
        show "SArr dst < length ?g2" using d1(1) by simp
        show "length (ws @ [w]) = Suc k" using Cons.prems(10) by simp
        show "beyond h (B @ C)"
          using Cons.prems(13) beyond_extends [OF Cons.prems(2) g1(3)] by simp
        show "SArr dst \<notin> set (B @ C)" using Cons.prems(14) notC by simp
      qed
      then show ?thesis by (rule wp_mono) (simp add: m(3))
    qed
  qed
qed

lemma copy_items_copier [copiers]:
  assumes f: "deep_copier V f"
  shows "deep_copier (view_slice V) (copy_items f)"
proof (rule deep_copierI)
  note V = deep_copier.axioms(1) [OF f]
  show "footprint (view_slice V)" using V by (rule footprint_slice)
  fix h p v A
  assume p: "view_slice V h p = Some (v, A)"
  show "wp (copy_items f p) (\<lambda>y g. extends h g \<and>
      (\<exists>B. view_slice V g y = Some (v, B) \<and> beyond h B)) h"
  proof (cases p)
    case None
    with p show ?thesis by (simp add: copy_items_def wp_simps view_slice_def)
  next
    case (Some s)
    with p obtain ms vs B where s: "slice_vals h s = Some ms" and
      ms: "view_list V h ms = Some (vs, B)" "v = Some vs"
      by (auto simp: view_slice_def split: option.splits)
    from s have n: "SLen s = length ms" "SArr s < length h" "SOff s + length ms \<le> length (h ! SArr s)"
      "ms = take (length ms) (drop (SOff s) (h ! SArr s))"
      by (auto simp: slice_vals_def split: if_splits)
    let ?d = "\<lparr>SArr = length h, SOff = 0, SLen = length ms\<rparr>"
    note n(1) [simp]
    have "wp (copy_loop f ?d s [0..<0 + length ms])
      (\<lambda>_ g'. extends h g' \<and> SArr ?d < length g' \<and> length (g' ! SArr ?d) = 0 + length ms \<and>
        (\<exists>C. view_list V g' (g' ! SArr ?d) = Some ([] @ vs, C) \<and> beyond h C))
      (h @ [replicate (length ms) VZero])"
      by (rule wp_copy_loop [OF f ms(1), where B = "[]" and ws = "[]" and rest = "replicate (length ms) VZero"])
         (use n(2,3) in \<open>simp_all flip: n(4)\<close>)
    then show ?thesis
      unfolding Some copy_items_def option.case n(1) wp_bind wp_go_make wp_return add_0
      by (rule wp_mono) (auto simp: view_slice_def slice_vals_def ms(2))
  qed
qed

section \<open>Copying a struct\<close>

text \<open>Copying the parts of a struct one after the other is copying their product.\<close>

definition copy_both :: "('x \<Rightarrow> 'x mem) \<Rightarrow> ('y \<Rightarrow> 'y mem) \<Rightarrow> 'x \<times> 'y \<Rightarrow> ('x \<times> 'y) mem" where
  "copy_both f k p = do { x \<leftarrow> f (fst p); y \<leftarrow> k (snd p); ret (x, y) }"

lemma copy_both_copier [copiers]:
  assumes f: "deep_copier V f" and k: "deep_copier W k"
  shows "deep_copier (view_prod V W) (copy_both f k)"
proof (rule deep_copierI)
  note V = deep_copier.axioms(1) [OF f] and W = deep_copier.axioms(1) [OF k]
  show "footprint (view_prod V W)" using V W by (rule footprint_prod)
  fix h p r A
  assume "view_prod V W h p = Some (r, A)"
  then obtain v B w C where p: "V h (fst p) = Some (v, B)" "W h (snd p) = Some (w, C)" "r = (v, w)"
    by (auto simp: view_prod_Some)
  show "wp (copy_both f k p) (\<lambda>y g. extends h g \<and> (\<exists>B. view_prod V W g y = Some (r, B) \<and> beyond h B)) h"
    unfolding copy_both_def wp_bind
  proof (rule deep_copier.copy_step [OF f p(1)])
    fix x g D assume g: "extends h g" "V g x = Some (v, D)" "beyond h D"
    have "W g (snd p) = Some (w, C)" using p(2) g(1) by (rule footprint.view_extends [OF W])
    then show "wp (k (snd p)) (\<lambda>y. wp (ret (x, y)) (\<lambda>y g. extends h g \<and>
        (\<exists>B. view_prod V W g y = Some (r, B) \<and> beyond h B))) g"
    proof (rule deep_copier.copy_step [OF k])
      fix y g' E assume g': "extends g g'" "W g' y = Some (w, E)" "beyond g E"
      have "V g' x = Some (v, D)" using g(2) g'(1) by (rule footprint.view_extends [OF V])
      with g g' p(3) show "wp (ret (x, y)) (\<lambda>y g. extends h g \<and>
          (\<exists>B. view_prod V W g y = Some (r, B) \<and> beyond h B)) g'"
        by (auto simp: wp_simps view_prod_Some intro: extends_trans beyond_extends)
    qed
  qed
qed

lemma struct_copier:
  assumes f: "deep_copier V f"
    and "\<And>x. k x = do { p \<leftarrow> f (get x); ret (put p x) }"
    and "\<And>p x. get (put p x) = p" and "\<And>p x w. F (put p x) w = F x w"
  shows "deep_copier (view_struct get V F) k"
proof (rule deep_copierI)
  show "footprint (view_struct get V F)" using deep_copier.axioms(1) [OF f] by (rule footprint_struct)
  fix h x v A
  assume "view_struct get V F h x = Some (v, A)"
  then obtain w where x: "V h (get x) = Some (w, A)" "v = F x w" by (auto simp: view_struct_Some)
  show "wp (k x) (\<lambda>y g. extends h g \<and> (\<exists>B. view_struct get V F g y = Some (v, B) \<and> beyond h B)) h"
    unfolding assms(2) wp_bind
    by (rule deep_copier.copy_step [OF f x(1)]) (auto simp: wp_simps view_struct_Some assms(3,4) x(2))
qed

text \<open>An element of an array, copied by the method of its type.\<close>

definition copy_typed :: "(memval \<Rightarrow> 'x option) \<Rightarrow> ('x \<Rightarrow> memval) \<Rightarrow> ('x \<Rightarrow> 'x mem) \<Rightarrow> memval \<Rightarrow> memval mem" where
  "copy_typed un mk f m = (case un m of None \<Rightarrow> ret m | Some x \<Rightarrow> do { y \<leftarrow> f x; ret (mk y) })"

lemma copy_typed_copier:
  assumes f: "deep_copier V f" and "\<And>x. un (mk x) = Some x"
  shows "deep_copier (view_typed un V) (copy_typed un mk f)"
proof (rule deep_copierI)
  show "footprint (view_typed un V)" using deep_copier.axioms(1) [OF f] by (rule footprint_typed)
  fix h m v A
  assume "view_typed un V h m = Some (v, A)"
  then obtain x where x: "un m = Some x" "V h x = Some (v, A)" by (auto simp: view_typed_Some)
  show "wp (copy_typed un mk f m)
      (\<lambda>y g. extends h g \<and> (\<exists>B. view_typed un V g y = Some (v, B) \<and> beyond h B)) h"
    unfolding copy_typed_def x(1) option.case wp_bind
    by (rule deep_copier.copy_step [OF f x(2)]) (auto simp: wp_simps view_typed_Some assms(2))
qed

text \<open>
  \<^verbatim>\<open>DeepCopy\<close> of a pointer: nil stays nil, otherwise \<^verbatim>\<open>out := new(T)\<close> and \<^verbatim>\<open>in.DeepCopyInto(out)\<close>.
\<close>

definition deep_copy_pointer :: "(memval \<Rightarrow> memval mem) \<Rightarrow> addr option \<Rightarrow> addr option mem" where
  "deep_copy_pointer f p =
     (case p of
        None \<Rightarrow> ret None
      | Some a \<Rightarrow> do {
          out \<leftarrow> go_new [VZero];
          v \<leftarrow> go_load a 0;
          w \<leftarrow> f v;
          go_store out 0 w;
          ret (Some out)
        })"

lemma deep_copy_pointer_copier [copiers]:
  assumes f: "deep_copier V f"
  shows "deep_copier (view_ptr V) (deep_copy_pointer f)"
proof (rule deep_copierI)
  note V = deep_copier.axioms(1) [OF f]
  show "footprint (view_ptr V)" using V by (rule footprint_ptr)
  fix h p r A
  assume p: "view_ptr V h p = Some (r, A)"
  show "wp (deep_copy_pointer f p) (\<lambda>y g. extends h g \<and> (\<exists>B. view_ptr V g y = Some (r, B) \<and> beyond h B)) h"
  proof (cases p)
    case None
    with p show ?thesis by (simp add: deep_copy_pointer_def wp_simps view_ptr_def)
  next
    case (Some a)
    with p obtain v B where a: "a < length h" "V h (h ! a ! 0) = Some (v, B)" "r = Some v"
      by (auto simp: view_ptr_def split: option.splits if_splits)
    have v: "V (h @ [[VZero]]) (h ! a ! 0) = Some (v, B)"
      using a(2) extends_append by (rule footprint.view_extends [OF V])
    have a0: "(h @ [[VZero]]) ! a = h ! a" using a(1) by (simp add: nth_append)
    show ?thesis
      unfolding Some deep_copy_pointer_def option.case wp_bind wp_go a0
    proof (rule deep_copier.copy_step [OF f v])
      fix w g C assume g: "extends (h @ [[VZero]]) g" "V g w = Some (v, C)" "beyond (h @ [[VZero]]) C"
      let ?g = "g[length h := [w]]"
      from g(1) have o: "length h < length g" "g ! length h = [VZero]" "extends h g"
        by (auto simp: extends_def nth_append)
      have "V ?g w = Some (v, C)"
        using g(3) by (intro footprint.view_update [OF V g(2)]) (auto simp: beyond_def)
      with o g(3) a(3) show "wp (ret (Some (length h)))
          (\<lambda>y g. extends h g \<and> (\<exists>B. view_ptr V g y = Some (r, B) \<and> beyond h B))
          (g[length h := (g ! length h)[0 := w]])"
        by (auto simp: wp_simps view_ptr_def extends_update beyond_def)
    qed
  qed
qed

end
