(* ===== verification/DeepCopy.thy ===== *)
theory DeepCopy
  imports GoHeap
begin

text \<open>
  The deep copies of the API types (\<^verbatim>\<open>api/v1alpha1/zz_generated_deepcopy.go\<close>, which is written by hand): one
  definition per method over the memory of \<open>GoHeap\<close>. A method \<^verbatim>\<open>(in *T) DeepCopyInto(out *T)\<close> maps the
  struct \<^verbatim>\<open>*in\<close> to the struct it leaves in \<^verbatim>\<open>*out\<close>. The deep copies of \<^verbatim>\<open>ObjectMeta\<close>, \<^verbatim>\<open>ListMeta\<close> and
  \<^verbatim>\<open>SecretKeySelector\<close> belong to the Kubernetes libraries: they are parameters, with \<open>library_copies\<close> as what
  is relied on.

  The controllers read objects from the cache of the client, which hands out deep copies, and the
  other theories treat objects as values. That is justified here: a copy has the value of its
  original, and no write through the one is seen through the other.
\<close>

section \<open>The values below the structs\<close>

fun as_bool :: "memval \<Rightarrow> bool option" where
  "as_bool (VBool b) = Some b"
| "as_bool _ = None"

fun as_int64 :: "memval \<Rightarrow> int64 option" where
  "as_int64 (VInt64 i) = Some i"
| "as_int64 _ = None"

fun as_time :: "memval \<Rightarrow> time option" where
  "as_time (VTime t) = Some t"
| "as_time _ = None"

fun as_duration :: "memval \<Rightarrow> duration option" where
  "as_duration (VDuration d) = Some d"
| "as_duration _ = None"

fun as_string :: "memval \<Rightarrow> string option" where
  "as_string (VString s) = Some s"
| "as_string _ = None"

fun as_map :: "memval \<Rightarrow> (string \<Rightarrow> string option) option" where
  "as_map (VMap m) = Some m"
| "as_map _ = None"

fun as_owner :: "memval \<Rightarrow> owner_mem option" where
  "as_owner (VOwner r) = Some r"
| "as_owner _ = None"

fun as_condition :: "memval \<Rightarrow> condition option" where
  "as_condition (VCondition c) = Some c"
| "as_condition _ = None"

fun as_selector :: "memval \<Rightarrow> secret_key_selector_mem option" where
  "as_selector (VSelector s) = Some s"
| "as_selector _ = None"

fun as_cluster :: "memval \<Rightarrow> cluster_mem option" where
  "as_cluster (VCluster c) = Some c"
| "as_cluster _ = None"

fun as_node :: "memval \<Rightarrow> node_mem option" where
  "as_node (VNode n) = Some n"
| "as_node _ = None"

fun as_bootstrap :: "memval \<Rightarrow> bootstrap_mem option" where
  "as_bootstrap (VBootstrap b) = Some b"
| "as_bootstrap _ = None"

fun as_list :: "memval \<Rightarrow> list_mem option" where
  "as_list (VList l) = Some l"
| "as_list _ = None"

definition elements :: "'a list option \<Rightarrow> 'a list" where
  "elements s = (case s of None \<Rightarrow> [] | Some xs \<Rightarrow> xs)"

definition view_flag :: "(addr option, bool option) view" where
  "view_flag = view_ptr (view_typed as_bool view_plain)"

definition view_time :: "(addr option, time option) view" where
  "view_time = view_ptr (view_typed as_time view_plain)"

definition view_strings :: "(slice option, string list option) view" where
  "view_strings = view_slice (view_typed as_string view_plain)"

definition view_owner :: "(owner_mem, owner_reference) view" where
  "view_owner = view_struct (\<lambda>x. (POwnerController x, POwnerBlockDeletion x)) (view_prod view_flag view_flag)
     (\<lambda>x (c, b). \<lparr>OwnerAPIVersion = POwnerAPIVersion x, OwnerKind = POwnerKind x, OwnerName = POwnerName x,
        OwnerUID = POwnerUID x, OwnerController = c, OwnerBlockDeletion = b\<rparr>)"

definition view_meta :: "(object_meta_mem, object_meta) view" where
  "view_meta =
     view_struct (\<lambda>x. (PDeletionTimestamp x, PFinalizers x, PAnnotations x, POwnerReferences x))
       (view_prod view_time (view_prod view_strings
          (view_prod (view_ptr (view_typed as_map view_plain)) (view_slice (view_typed as_owner view_owner)))))
       (\<lambda>x (t, fs, an, os). \<lparr>Name = PName x, Namespace = PNamespace x, UID = PUID x, Generation = PGeneration x,
          CreationTimestamp = PCreationTimestamp x, DeletionTimestamp = t, Finalizers = elements fs,
          Annotations = (case an of None \<Rightarrow> (\<lambda>_. None) | Some m \<Rightarrow> m), OwnerReferences = elements os\<rparr>)"

definition view_list_meta :: "(list_meta_mem, string \<times> string \<times> int64 option) view" where
  "view_list_meta = view_struct PRemainingItemCount (view_ptr (view_typed as_int64 view_plain))
     (\<lambda>x n. (PResourceVersion x, PContinue x, n))"

definition view_selector :: "(secret_key_selector_mem, secret_key_selector) view" where
  "view_selector = view_struct PSelOptional view_flag (\<lambda>x _. \<lparr>SelName = PSelName x, SelKey = PSelKey x\<rparr>)"

definition view_common_status :: "(common_status_mem, common_status) view" where
  "view_common_status = view_struct (\<lambda>x. (PLastUpdateTime x, PConditions x))
     (view_prod view_time (view_slice (view_typed as_condition view_plain)))
     (\<lambda>x (t, cs). \<lparr>ObservedGeneration = PObservedGeneration x, RetryCount = PRetryCount x,
        LastUpdateTime = t, Conditions = elements cs\<rparr>)"

definition view_cluster_spec :: "(cluster_spec_mem, talos_cluster_spec) view" where
  "view_cluster_spec = view_struct PEndpoints view_strings
     (\<lambda>x es. \<lparr>ClusterName = PClusterName x, Endpoints = elements es,
        ClusterTalosVersion = PClusterTalosVersion x, KubernetesVersion = PKubernetesVersion x\<rparr>)"

definition view_cluster_status :: "(cluster_status_mem, talos_cluster_status) view" where
  "view_cluster_status = view_struct PClusterCommon view_common_status
     (\<lambda>x c. common_status.extend c (talos_cluster_status.fields (PClusterPhase x)))"

definition view_cluster :: "(cluster_mem, type_meta \<times> talos_cluster) view" where
  "view_cluster = view_struct (\<lambda>x. (PClusterMeta x, PClusterSpec x, PClusterStatus x))
     (view_prod view_meta (view_prod view_cluster_spec view_cluster_status))
     (\<lambda>x (m, sp, st). (PClusterType x, object_meta.extend m (talos_cluster.fields sp st)))"

definition view_node_spec :: "(node_spec_mem, talos_node_spec) view" where
  "view_node_spec =
     view_struct (\<lambda>x. (PPatches x, PPatchesFrom x, PDriftDetection x, PDrainTimeout x, PSystemExtensions x))
       (view_prod view_strings (view_prod (view_slice (view_typed as_selector view_selector))
          (view_prod view_flag (view_prod (view_ptr (view_typed as_duration view_plain)) view_strings))))
       (\<lambda>x (ps, pf, dd, dt, se). \<lparr>ClusterRef = PClusterRef x, Role = PRole x, NodeIP = PNodeIP x,
          Patches = elements ps, PatchesFrom = elements pf, DriftDetection = dd, SkipDrain = PSkipDrain x,
          DrainTimeout = dt, ResetOnDelete = PResetOnDelete x, TalosVersion = PTalosVersion x,
          SystemExtensions = elements se\<rparr>)"

definition view_node_status :: "(node_status_mem, talos_node_status) view" where
  "view_node_status = view_struct (\<lambda>x. (PInstalledExtensions x, PNodeCommon x))
     (view_prod view_strings view_common_status)
     (\<lambda>x (ie, c). common_status.extend c (talos_node_status.fields (PNodePhase x) (PNodeMessage x)
        (PDeletionAttempts x) (PCurrentTalosVersion x) (elements ie)))"

definition view_node :: "(node_mem, type_meta \<times> talos_node) view" where
  "view_node = view_struct (\<lambda>x. (PNodeMeta x, PNodeSpec x, PNodeStatus x))
     (view_prod view_meta (view_prod view_node_spec view_node_status))
     (\<lambda>x (m, sp, st). (PNodeType x, object_meta.extend m (talos_node.fields sp st)))"

definition view_bootstrap_status :: "(bootstrap_status_mem, talos_cluster_bootstrap_status) view" where
  "view_bootstrap_status = view_struct PBootstrapCommon view_common_status
     (\<lambda>x c. common_status.extend c
        (talos_cluster_bootstrap_status.fields (PBootstrapPhase x) (PBootstrapMessage x)))"

definition view_bootstrap :: "(bootstrap_mem, type_meta \<times> talos_cluster_bootstrap) view" where
  "view_bootstrap = view_struct (\<lambda>x. (PBootstrapMeta x, PBootstrapStatus x))
     (view_prod view_meta view_bootstrap_status)
     (\<lambda>x (m, st). (PBootstrapType x,
        object_meta.extend m (talos_cluster_bootstrap.fields (PBootstrapSpec x) st)))"

text \<open>The items of a list object may be nil, which its JSON form shows as \<^verbatim>\<open>null\<close>.\<close>

definition view_objects :: "(memval, 'v) view \<Rightarrow>
    (list_mem, type_meta \<times> (string \<times> string \<times> int64 option) \<times> 'v list option) view" where
  "view_objects V = view_struct (\<lambda>x. (PListMeta x, PItems x)) (view_prod view_list_meta (view_slice V))
     (\<lambda>x (m, is). (PListType x, m, is))"

section \<open>The copies of the libraries\<close>

record library =
  ObjectMeta_DeepCopyInto :: "object_meta_mem \<Rightarrow> object_meta_mem mem"
  ListMeta_DeepCopyInto :: "list_meta_mem \<Rightarrow> list_meta_mem mem"
  SecretKeySelector_DeepCopyInto :: "secret_key_selector_mem \<Rightarrow> secret_key_selector_mem mem"

definition library_copies :: "library \<Rightarrow> bool" where
  "library_copies L \<longleftrightarrow>
     deep_copier view_meta (ObjectMeta_DeepCopyInto L) \<and>
     deep_copier view_list_meta (ListMeta_DeepCopyInto L) \<and>
     deep_copier view_selector (SecretKeySelector_DeepCopyInto L)"

section \<open>Common status\<close>

definition CommonStatus_DeepCopyInto :: "common_status_mem \<Rightarrow> common_status_mem mem" where
  "CommonStatus_DeepCopyInto src = do {
     let out = src;
     t \<leftarrow> copy_pointer (PLastUpdateTime src);
     let out = out\<lparr>PLastUpdateTime := t\<rparr>;
     cs \<leftarrow> copy_values (PConditions src);
     let out = out\<lparr>PConditions := cs\<rparr>;
     ret out
   }"

section \<open>TalosCluster\<close>

definition TalosClusterSpec_DeepCopyInto :: "cluster_spec_mem \<Rightarrow> cluster_spec_mem mem" where
  "TalosClusterSpec_DeepCopyInto src = do {
     let out = src;
     es \<leftarrow> copy_values (PEndpoints src);
     let out = out\<lparr>PEndpoints := es\<rparr>;
     ret out
   }"

definition TalosClusterStatus_DeepCopyInto :: "cluster_status_mem \<Rightarrow> cluster_status_mem mem" where
  "TalosClusterStatus_DeepCopyInto src = do {
     let out = src;
     c \<leftarrow> CommonStatus_DeepCopyInto (PClusterCommon src);
     let out = out\<lparr>PClusterCommon := c\<rparr>;
     ret out
   }"

definition TalosCluster_DeepCopyInto :: "library \<Rightarrow> cluster_mem \<Rightarrow> cluster_mem mem" where
  "TalosCluster_DeepCopyInto L src = do {
     let out = src;
     let out = out\<lparr>PClusterType := PClusterType src\<rparr>;
     m \<leftarrow> ObjectMeta_DeepCopyInto L (PClusterMeta src);
     let out = out\<lparr>PClusterMeta := m\<rparr>;
     sp \<leftarrow> TalosClusterSpec_DeepCopyInto (PClusterSpec src);
     let out = out\<lparr>PClusterSpec := sp\<rparr>;
     st \<leftarrow> TalosClusterStatus_DeepCopyInto (PClusterStatus src);
     let out = out\<lparr>PClusterStatus := st\<rparr>;
     ret out
   }"

definition TalosCluster_DeepCopy :: "library \<Rightarrow> addr option \<Rightarrow> addr option mem" where
  "TalosCluster_DeepCopy L p = deep_copy_pointer (copy_typed as_cluster VCluster (TalosCluster_DeepCopyInto L)) p"

definition TalosClusterList_DeepCopyInto :: "library \<Rightarrow> list_mem \<Rightarrow> list_mem mem" where
  "TalosClusterList_DeepCopyInto L src = do {
     let out = src;
     let out = out\<lparr>PListType := PListType src\<rparr>;
     m \<leftarrow> ListMeta_DeepCopyInto L (PListMeta src);
     let out = out\<lparr>PListMeta := m\<rparr>;
     is \<leftarrow> copy_items (copy_typed as_cluster VCluster (TalosCluster_DeepCopyInto L)) (PItems src);
     let out = out\<lparr>PItems := is\<rparr>;
     ret out
   }"

definition TalosClusterList_DeepCopy :: "library \<Rightarrow> addr option \<Rightarrow> addr option mem" where
  "TalosClusterList_DeepCopy L p = deep_copy_pointer (copy_typed as_list VList (TalosClusterList_DeepCopyInto L)) p"

section \<open>TalosNode\<close>

definition TalosNodeSpec_DeepCopyInto :: "library \<Rightarrow> node_spec_mem \<Rightarrow> node_spec_mem mem" where
  "TalosNodeSpec_DeepCopyInto L src = do {
     let out = src;
     ps \<leftarrow> copy_values (PPatches src);
     let out = out\<lparr>PPatches := ps\<rparr>;
     pf \<leftarrow> copy_items (copy_typed as_selector VSelector (SecretKeySelector_DeepCopyInto L)) (PPatchesFrom src);
     let out = out\<lparr>PPatchesFrom := pf\<rparr>;
     dd \<leftarrow> copy_pointer (PDriftDetection src);
     let out = out\<lparr>PDriftDetection := dd\<rparr>;
     dt \<leftarrow> copy_pointer (PDrainTimeout src);
     let out = out\<lparr>PDrainTimeout := dt\<rparr>;
     se \<leftarrow> copy_values (PSystemExtensions src);
     let out = out\<lparr>PSystemExtensions := se\<rparr>;
     ret out
   }"

definition TalosNodeStatus_DeepCopyInto :: "node_status_mem \<Rightarrow> node_status_mem mem" where
  "TalosNodeStatus_DeepCopyInto src = do {
     let out = src;
     ie \<leftarrow> copy_values (PInstalledExtensions src);
     let out = out\<lparr>PInstalledExtensions := ie\<rparr>;
     c \<leftarrow> CommonStatus_DeepCopyInto (PNodeCommon src);
     let out = out\<lparr>PNodeCommon := c\<rparr>;
     ret out
   }"

definition TalosNode_DeepCopyInto :: "library \<Rightarrow> node_mem \<Rightarrow> node_mem mem" where
  "TalosNode_DeepCopyInto L src = do {
     let out = src;
     let out = out\<lparr>PNodeType := PNodeType src\<rparr>;
     m \<leftarrow> ObjectMeta_DeepCopyInto L (PNodeMeta src);
     let out = out\<lparr>PNodeMeta := m\<rparr>;
     sp \<leftarrow> TalosNodeSpec_DeepCopyInto L (PNodeSpec src);
     let out = out\<lparr>PNodeSpec := sp\<rparr>;
     st \<leftarrow> TalosNodeStatus_DeepCopyInto (PNodeStatus src);
     let out = out\<lparr>PNodeStatus := st\<rparr>;
     ret out
   }"

definition TalosNode_DeepCopy :: "library \<Rightarrow> addr option \<Rightarrow> addr option mem" where
  "TalosNode_DeepCopy L p = deep_copy_pointer (copy_typed as_node VNode (TalosNode_DeepCopyInto L)) p"

definition TalosNodeList_DeepCopyInto :: "library \<Rightarrow> list_mem \<Rightarrow> list_mem mem" where
  "TalosNodeList_DeepCopyInto L src = do {
     let out = src;
     let out = out\<lparr>PListType := PListType src\<rparr>;
     m \<leftarrow> ListMeta_DeepCopyInto L (PListMeta src);
     let out = out\<lparr>PListMeta := m\<rparr>;
     is \<leftarrow> copy_items (copy_typed as_node VNode (TalosNode_DeepCopyInto L)) (PItems src);
     let out = out\<lparr>PItems := is\<rparr>;
     ret out
   }"

definition TalosNodeList_DeepCopy :: "library \<Rightarrow> addr option \<Rightarrow> addr option mem" where
  "TalosNodeList_DeepCopy L p = deep_copy_pointer (copy_typed as_list VList (TalosNodeList_DeepCopyInto L)) p"

section \<open>TalosClusterBootstrap\<close>

definition TalosClusterBootstrapStatus_DeepCopyInto :: "bootstrap_status_mem \<Rightarrow> bootstrap_status_mem mem" where
  "TalosClusterBootstrapStatus_DeepCopyInto src = do {
     let out = src;
     c \<leftarrow> CommonStatus_DeepCopyInto (PBootstrapCommon src);
     let out = out\<lparr>PBootstrapCommon := c\<rparr>;
     ret out
   }"

definition TalosClusterBootstrap_DeepCopyInto :: "library \<Rightarrow> bootstrap_mem \<Rightarrow> bootstrap_mem mem" where
  "TalosClusterBootstrap_DeepCopyInto L src = do {
     let out = src;
     let out = out\<lparr>PBootstrapType := PBootstrapType src\<rparr>;
     m \<leftarrow> ObjectMeta_DeepCopyInto L (PBootstrapMeta src);
     let out = out\<lparr>PBootstrapMeta := m\<rparr>;
     let out = out\<lparr>PBootstrapSpec := PBootstrapSpec src\<rparr>;
     st \<leftarrow> TalosClusterBootstrapStatus_DeepCopyInto (PBootstrapStatus src);
     let out = out\<lparr>PBootstrapStatus := st\<rparr>;
     ret out
   }"

definition TalosClusterBootstrap_DeepCopy :: "library \<Rightarrow> addr option \<Rightarrow> addr option mem" where
  "TalosClusterBootstrap_DeepCopy L p =
     deep_copy_pointer (copy_typed as_bootstrap VBootstrap (TalosClusterBootstrap_DeepCopyInto L)) p"

definition TalosClusterBootstrapList_DeepCopyInto :: "library \<Rightarrow> list_mem \<Rightarrow> list_mem mem" where
  "TalosClusterBootstrapList_DeepCopyInto L src = do {
     let out = src;
     let out = out\<lparr>PListType := PListType src\<rparr>;
     m \<leftarrow> ListMeta_DeepCopyInto L (PListMeta src);
     let out = out\<lparr>PListMeta := m\<rparr>;
     is \<leftarrow> copy_items (copy_typed as_bootstrap VBootstrap (TalosClusterBootstrap_DeepCopyInto L)) (PItems src);
     let out = out\<lparr>PItems := is\<rparr>;
     ret out
   }"

definition TalosClusterBootstrapList_DeepCopy :: "library \<Rightarrow> addr option \<Rightarrow> addr option mem" where
  "TalosClusterBootstrapList_DeepCopy L p =
     deep_copy_pointer (copy_typed as_list VList (TalosClusterBootstrapList_DeepCopyInto L)) p"

section \<open>Runtime objects\<close>

text \<open>
  An interface value is nil or a pointer with its dynamic type; a nil pointer in an interface is not a
  nil interface, which is why \<^verbatim>\<open>DeepCopyObject\<close> tests for it.
\<close>

datatype go_type =
    TypeTalosCluster | TypeTalosClusterList
  | TypeTalosNode | TypeTalosNodeList
  | TypeTalosClusterBootstrap | TypeTalosClusterBootstrapList

type_synonym runtime_object = "(go_type \<times> addr option) option"

definition TalosCluster_DeepCopyObject :: "library \<Rightarrow> addr option \<Rightarrow> runtime_object mem" where
  "TalosCluster_DeepCopyObject L p = do {
     c \<leftarrow> TalosCluster_DeepCopy L p;
     if c \<noteq> None then ret (Some (TypeTalosCluster, c)) else ret None
   }"

definition TalosClusterList_DeepCopyObject :: "library \<Rightarrow> addr option \<Rightarrow> runtime_object mem" where
  "TalosClusterList_DeepCopyObject L p = do {
     c \<leftarrow> TalosClusterList_DeepCopy L p;
     if c \<noteq> None then ret (Some (TypeTalosClusterList, c)) else ret None
   }"

definition TalosNode_DeepCopyObject :: "library \<Rightarrow> addr option \<Rightarrow> runtime_object mem" where
  "TalosNode_DeepCopyObject L p = do {
     c \<leftarrow> TalosNode_DeepCopy L p;
     if c \<noteq> None then ret (Some (TypeTalosNode, c)) else ret None
   }"

definition TalosNodeList_DeepCopyObject :: "library \<Rightarrow> addr option \<Rightarrow> runtime_object mem" where
  "TalosNodeList_DeepCopyObject L p = do {
     c \<leftarrow> TalosNodeList_DeepCopy L p;
     if c \<noteq> None then ret (Some (TypeTalosNodeList, c)) else ret None
   }"

definition TalosClusterBootstrap_DeepCopyObject :: "library \<Rightarrow> addr option \<Rightarrow> runtime_object mem" where
  "TalosClusterBootstrap_DeepCopyObject L p = do {
     c \<leftarrow> TalosClusterBootstrap_DeepCopy L p;
     if c \<noteq> None then ret (Some (TypeTalosClusterBootstrap, c)) else ret None
   }"

definition TalosClusterBootstrapList_DeepCopyObject :: "library \<Rightarrow> addr option \<Rightarrow> runtime_object mem" where
  "TalosClusterBootstrapList_DeepCopyObject L p = do {
     c \<leftarrow> TalosClusterBootstrapList_DeepCopy L p;
     if c \<noteq> None then ret (Some (TypeTalosClusterBootstrapList, c)) else ret None
   }"

section \<open>Every method is a deep copy\<close>

lemmas view_defs =
  view_flag_def view_time_def view_strings_def view_common_status_def view_cluster_spec_def
  view_cluster_status_def view_cluster_def view_node_spec_def view_node_status_def view_node_def
  view_bootstrap_status_def view_bootstrap_def view_objects_def

text \<open>
  Each \<^verbatim>\<open>DeepCopyInto\<close> copies the parts of its struct in their order; the rest is the struct of the
  original. In the proofs \<open>get\<close> and \<open>put\<close> are the parts, as in the view.
\<close>

interpretation common_status: deep_copier view_common_status CommonStatus_DeepCopyInto
  unfolding view_common_status_def view_time_def
  by (rule struct_copier [where f = "copy_both copy_pointer copy_values"
        and put = "\<lambda>(t, cs) x. x\<lparr>PLastUpdateTime := t, PConditions := cs\<rparr>"], intro copiers)
     (auto simp: CommonStatus_DeepCopyInto_def copy_both_def)

interpretation cluster_spec: deep_copier view_cluster_spec TalosClusterSpec_DeepCopyInto
  unfolding view_cluster_spec_def view_strings_def
  by (rule struct_copier [where f = copy_values and put = "\<lambda>es x. x\<lparr>PEndpoints := es\<rparr>"], intro copiers)
     (auto simp: TalosClusterSpec_DeepCopyInto_def)

interpretation cluster_status: deep_copier view_cluster_status TalosClusterStatus_DeepCopyInto
  unfolding view_cluster_status_def
  by (rule struct_copier [where put = "\<lambda>c x. x\<lparr>PClusterCommon := c\<rparr>"], rule common_status.deep_copier_axioms)
     (auto simp: TalosClusterStatus_DeepCopyInto_def)

interpretation node_status: deep_copier view_node_status TalosNodeStatus_DeepCopyInto
  unfolding view_node_status_def view_strings_def
  by (rule struct_copier [where f = "copy_both copy_values CommonStatus_DeepCopyInto"
        and put = "\<lambda>(ie, c) x. x\<lparr>PInstalledExtensions := ie, PNodeCommon := c\<rparr>"],
      intro copiers common_status.deep_copier_axioms)
     (auto simp: TalosNodeStatus_DeepCopyInto_def copy_both_def)

interpretation bootstrap_status: deep_copier view_bootstrap_status TalosClusterBootstrapStatus_DeepCopyInto
  unfolding view_bootstrap_status_def
  by (rule struct_copier [where put = "\<lambda>c x. x\<lparr>PBootstrapCommon := c\<rparr>"], rule common_status.deep_copier_axioms)
     (auto simp: TalosClusterBootstrapStatus_DeepCopyInto_def)

lemma library_copier:
  assumes "library_copies L"
  shows "deep_copier view_meta (ObjectMeta_DeepCopyInto L)"
    and "deep_copier view_list_meta (ListMeta_DeepCopyInto L)"
    and "deep_copier view_selector (SecretKeySelector_DeepCopyInto L)"
  using assms by (simp_all add: library_copies_def)

lemma selector_item_copier:
  "library_copies L \<Longrightarrow> deep_copier (view_typed as_selector view_selector)
     (copy_typed as_selector VSelector (SecretKeySelector_DeepCopyInto L))"
  by (intro copy_typed_copier library_copier) simp_all

lemma node_spec_copier:
  assumes "library_copies L"
  shows "deep_copier view_node_spec (TalosNodeSpec_DeepCopyInto L)"
  unfolding view_node_spec_def view_strings_def view_flag_def
  by (rule struct_copier [where f = "copy_both copy_values (copy_both
          (copy_items (copy_typed as_selector VSelector (SecretKeySelector_DeepCopyInto L)))
          (copy_both copy_pointer (copy_both copy_pointer copy_values)))"
        and put = "\<lambda>(ps, pf, dd, dt, se) x. x\<lparr>PPatches := ps, PPatchesFrom := pf, PDriftDetection := dd,
          PDrainTimeout := dt, PSystemExtensions := se\<rparr>"],
      intro copiers selector_item_copier assms)
     (auto simp: TalosNodeSpec_DeepCopyInto_def copy_both_def)

lemma cluster_copier:
  assumes "library_copies L"
  shows "deep_copier view_cluster (TalosCluster_DeepCopyInto L)"
  unfolding view_cluster_def
  by (rule struct_copier [where f = "copy_both (ObjectMeta_DeepCopyInto L)
          (copy_both TalosClusterSpec_DeepCopyInto TalosClusterStatus_DeepCopyInto)"
        and put = "\<lambda>(m, sp, st) x. x\<lparr>PClusterMeta := m, PClusterSpec := sp, PClusterStatus := st\<rparr>"],
      intro copiers library_copier assms cluster_spec.deep_copier_axioms cluster_status.deep_copier_axioms)
     (auto simp: TalosCluster_DeepCopyInto_def copy_both_def)

lemma node_copier:
  assumes "library_copies L"
  shows "deep_copier view_node (TalosNode_DeepCopyInto L)"
  unfolding view_node_def
  by (rule struct_copier [where f = "copy_both (ObjectMeta_DeepCopyInto L)
          (copy_both (TalosNodeSpec_DeepCopyInto L) TalosNodeStatus_DeepCopyInto)"
        and put = "\<lambda>(m, sp, st) x. x\<lparr>PNodeMeta := m, PNodeSpec := sp, PNodeStatus := st\<rparr>"],
      intro copiers library_copier assms node_spec_copier node_status.deep_copier_axioms)
     (auto simp: TalosNode_DeepCopyInto_def copy_both_def)

lemma bootstrap_copier:
  assumes "library_copies L"
  shows "deep_copier view_bootstrap (TalosClusterBootstrap_DeepCopyInto L)"
  unfolding view_bootstrap_def
  by (rule struct_copier [where f = "copy_both (ObjectMeta_DeepCopyInto L) TalosClusterBootstrapStatus_DeepCopyInto"
        and put = "\<lambda>(m, st) x. x\<lparr>PBootstrapMeta := m, PBootstrapStatus := st\<rparr>"],
      intro copiers library_copier assms bootstrap_status.deep_copier_axioms)
     (auto simp: TalosClusterBootstrap_DeepCopyInto_def copy_both_def)

text \<open>The three kinds of objects as elements of an array, and lists of them.\<close>

definition view_cluster_item :: "(memval, type_meta \<times> talos_cluster) view" where
  "view_cluster_item = view_typed as_cluster view_cluster"

definition view_node_item :: "(memval, type_meta \<times> talos_node) view" where
  "view_node_item = view_typed as_node view_node"

definition view_bootstrap_item :: "(memval, type_meta \<times> talos_cluster_bootstrap) view" where
  "view_bootstrap_item = view_typed as_bootstrap view_bootstrap"

lemma item_copiers:
  assumes "library_copies L"
  shows "deep_copier view_cluster_item (copy_typed as_cluster VCluster (TalosCluster_DeepCopyInto L))"
    and "deep_copier view_node_item (copy_typed as_node VNode (TalosNode_DeepCopyInto L))"
    and "deep_copier view_bootstrap_item (copy_typed as_bootstrap VBootstrap (TalosClusterBootstrap_DeepCopyInto L))"
  unfolding view_cluster_item_def view_node_item_def view_bootstrap_item_def
  by (intro copy_typed_copier cluster_copier node_copier bootstrap_copier assms; simp)+

lemma list_copier:
  assumes "library_copies L" and "deep_copier V f"
    and "\<And>x. k x = do { m \<leftarrow> ListMeta_DeepCopyInto L (PListMeta x); is \<leftarrow> copy_items f (PItems x);
                        ret (x\<lparr>PListMeta := m, PItems := is\<rparr>) }"
  shows "deep_copier (view_objects V) k"
  unfolding view_objects_def
  by (rule struct_copier [where f = "copy_both (ListMeta_DeepCopyInto L) (copy_items f)"
        and put = "\<lambda>(m, is) x. x\<lparr>PListMeta := m, PItems := is\<rparr>"],
      intro copiers library_copier assms(1,2))
     (auto simp: assms(3) copy_both_def)

lemma list_copiers:
  assumes "library_copies L"
  shows "deep_copier (view_objects view_cluster_item) (TalosClusterList_DeepCopyInto L)"
    and "deep_copier (view_objects view_node_item) (TalosNodeList_DeepCopyInto L)"
    and "deep_copier (view_objects view_bootstrap_item) (TalosClusterBootstrapList_DeepCopyInto L)"
  by (rule list_copier [OF assms item_copiers(1) [OF assms]], simp add: TalosClusterList_DeepCopyInto_def,
      rule list_copier [OF assms item_copiers(2) [OF assms]], simp add: TalosNodeList_DeepCopyInto_def,
      rule list_copier [OF assms item_copiers(3) [OF assms]], simp add: TalosClusterBootstrapList_DeepCopyInto_def)

definition view_list_object :: "(memval, 'v) view \<Rightarrow>
    (memval, type_meta \<times> (string \<times> string \<times> int64 option) \<times> 'v list option) view" where
  "view_list_object V = view_typed as_list (view_objects V)"

lemma pointer_copiers:
  assumes "library_copies L"
  shows "deep_copier (view_ptr view_cluster_item) (TalosCluster_DeepCopy L)"
    and "deep_copier (view_ptr view_node_item) (TalosNode_DeepCopy L)"
    and "deep_copier (view_ptr view_bootstrap_item) (TalosClusterBootstrap_DeepCopy L)"
    and "deep_copier (view_ptr (view_list_object view_cluster_item)) (TalosClusterList_DeepCopy L)"
    and "deep_copier (view_ptr (view_list_object view_node_item)) (TalosNodeList_DeepCopy L)"
    and "deep_copier (view_ptr (view_list_object view_bootstrap_item)) (TalosClusterBootstrapList_DeepCopy L)"
  unfolding TalosCluster_DeepCopy_def [abs_def] TalosNode_DeepCopy_def [abs_def]
    TalosClusterBootstrap_DeepCopy_def [abs_def] TalosClusterList_DeepCopy_def [abs_def]
    TalosNodeList_DeepCopy_def [abs_def] TalosClusterBootstrapList_DeepCopy_def [abs_def]
    view_list_object_def
  by (intro copiers item_copiers copy_typed_copier list_copiers assms; simp)+

section \<open>Independence\<close>

text \<open>
  In the heap \<open>g\<close>, \<open>x\<close> and \<open>y\<close> have the value \<open>v\<close> below them, in disjoint memory: whatever is written,
  one of them keeps its value as long as its own addresses are left alone.
\<close>

definition apart :: "('x, 'v) view \<Rightarrow> heap \<Rightarrow> 'x \<Rightarrow> 'x \<Rightarrow> 'v \<Rightarrow> bool" where
  "apart V g x y v \<longleftrightarrow>
     (\<exists>A B. V g x = Some (v, A) \<and> V g y = Some (v, B) \<and> set A \<inter> set B = {} \<and>
        (\<forall>g'. agree A g g' \<longrightarrow> V g' x = Some (v, A)) \<and> (\<forall>g'. agree B g g' \<longrightarrow> V g' y = Some (v, B)))"

lemma deep_copier_apart:
  assumes "deep_copier V f" and "V h x = Some (v, A)" and "run_state (f x) h = (y, g)"
  shows "apart V g x y v"
  using deep_copier.independent [OF assms] unfolding apart_def by metis

text \<open>
  C20. \<^verbatim>\<open>DeepCopy\<close> of the six API types: from a pointer to an object without dangling pointers it gives a
  pointer to an object of the same value, and the two share no memory, so that no write through the
  copy changes the original and no write through the original changes the copy.
\<close>

theorem deep_copies_apart:
  assumes "library_copies L"
  shows
    "(view_ptr view_cluster_item h p = Some (c, A) \<longrightarrow> run_state (TalosCluster_DeepCopy L p) h = (q, g) \<longrightarrow>
        apart (view_ptr view_cluster_item) g p q c) \<and>
     (view_ptr view_node_item h p = Some (n, A) \<longrightarrow> run_state (TalosNode_DeepCopy L p) h = (q, g) \<longrightarrow>
        apart (view_ptr view_node_item) g p q n) \<and>
     (view_ptr view_bootstrap_item h p = Some (b, A) \<longrightarrow>
        run_state (TalosClusterBootstrap_DeepCopy L p) h = (q, g) \<longrightarrow>
        apart (view_ptr view_bootstrap_item) g p q b) \<and>
     (view_ptr (view_list_object view_cluster_item) h p = Some (cs, A) \<longrightarrow>
        run_state (TalosClusterList_DeepCopy L p) h = (q, g) \<longrightarrow>
        apart (view_ptr (view_list_object view_cluster_item)) g p q cs) \<and>
     (view_ptr (view_list_object view_node_item) h p = Some (ns, A) \<longrightarrow>
        run_state (TalosNodeList_DeepCopy L p) h = (q, g) \<longrightarrow>
        apart (view_ptr (view_list_object view_node_item)) g p q ns) \<and>
     (view_ptr (view_list_object view_bootstrap_item) h p = Some (bs, A) \<longrightarrow>
        run_state (TalosClusterBootstrapList_DeepCopy L p) h = (q, g) \<longrightarrow>
        apart (view_ptr (view_list_object view_bootstrap_item)) g p q bs)"
  by (intro conjI impI; rule deep_copier_apart, rule pointer_copiers, rule assms)

text \<open>
  \<^verbatim>\<open>DeepCopyObject\<close> of the six types: nil gives the nil interface and never a nil pointer with a type,
  anything else the deep copy with its own type.
\<close>

lemma deep_copy_objects:
  "run_state (TalosCluster_DeepCopyObject L p) h =
     (case run_state (TalosCluster_DeepCopy L p) h of (q, g) \<Rightarrow>
        (map_option (\<lambda>a. (TypeTalosCluster, Some a)) q, g))"
  "run_state (TalosClusterList_DeepCopyObject L p) h =
     (case run_state (TalosClusterList_DeepCopy L p) h of (q, g) \<Rightarrow>
        (map_option (\<lambda>a. (TypeTalosClusterList, Some a)) q, g))"
  "run_state (TalosNode_DeepCopyObject L p) h =
     (case run_state (TalosNode_DeepCopy L p) h of (q, g) \<Rightarrow>
        (map_option (\<lambda>a. (TypeTalosNode, Some a)) q, g))"
  "run_state (TalosNodeList_DeepCopyObject L p) h =
     (case run_state (TalosNodeList_DeepCopy L p) h of (q, g) \<Rightarrow>
        (map_option (\<lambda>a. (TypeTalosNodeList, Some a)) q, g))"
  "run_state (TalosClusterBootstrap_DeepCopyObject L p) h =
     (case run_state (TalosClusterBootstrap_DeepCopy L p) h of (q, g) \<Rightarrow>
        (map_option (\<lambda>a. (TypeTalosClusterBootstrap, Some a)) q, g))"
  "run_state (TalosClusterBootstrapList_DeepCopyObject L p) h =
     (case run_state (TalosClusterBootstrapList_DeepCopy L p) h of (q, g) \<Rightarrow>
        (map_option (\<lambda>a. (TypeTalosClusterBootstrapList, Some a)) q, g))"
  by (auto simp: TalosCluster_DeepCopyObject_def TalosClusterList_DeepCopyObject_def
      TalosNode_DeepCopyObject_def TalosNodeList_DeepCopyObject_def
      TalosClusterBootstrap_DeepCopyObject_def TalosClusterBootstrapList_DeepCopyObject_def
      split: prod.split)

lemma deep_copy_pointer_nil:
  "fst (run_state (deep_copy_pointer f p) h) = None \<longleftrightarrow> p = None"
proof -
  have "wp (deep_copy_pointer f p) (\<lambda>q _. q = None \<longleftrightarrow> p = None) h"
    by (cases p) (auto simp: deep_copy_pointer_def wp_simps intro: wp_any)
  then show ?thesis by (simp add: wp_run_state)
qed

section \<open>An example\<close>

text \<open>
  Copies of the library's types, written as the file writes its own, and a node in memory that has
  a finalizer, annotations, patches, a selector, a time-out and a condition.
\<close>

definition sample_owner_copy :: "owner_mem \<Rightarrow> owner_mem mem" where
  "sample_owner_copy src = do {
     c \<leftarrow> copy_pointer (POwnerController src);
     b \<leftarrow> copy_pointer (POwnerBlockDeletion src);
     ret (src\<lparr>POwnerController := c, POwnerBlockDeletion := b\<rparr>)
   }"

definition sample_library :: library where
  "sample_library =
     \<lparr>ObjectMeta_DeepCopyInto = (\<lambda>src. do {
        t \<leftarrow> copy_pointer (PDeletionTimestamp src);
        fs \<leftarrow> copy_values (PFinalizers src);
        an \<leftarrow> copy_pointer (PAnnotations src);
        os \<leftarrow> copy_items (copy_typed as_owner VOwner sample_owner_copy) (POwnerReferences src);
        ret (src\<lparr>PDeletionTimestamp := t, PFinalizers := fs, PAnnotations := an, POwnerReferences := os\<rparr>)
      }),
      ListMeta_DeepCopyInto = (\<lambda>src. do {
        n \<leftarrow> copy_pointer (PRemainingItemCount src);
        ret (src\<lparr>PRemainingItemCount := n\<rparr>)
      }),
      SecretKeySelector_DeepCopyInto = (\<lambda>src. do {
        b \<leftarrow> copy_pointer (PSelOptional src);
        ret (src\<lparr>PSelOptional := b\<rparr>)
      })\<rparr>"

lemma sample_owner_copier: "deep_copier view_owner sample_owner_copy"
  unfolding view_owner_def view_flag_def
  by (rule struct_copier [where f = "copy_both copy_pointer copy_pointer"
        and put = "\<lambda>(c, b) x. x\<lparr>POwnerController := c, POwnerBlockDeletion := b\<rparr>"], intro copiers)
     (auto simp: sample_owner_copy_def copy_both_def)

lemma sample_library_copies: "library_copies sample_library"
  unfolding library_copies_def
proof (intro conjI)
  show "deep_copier view_meta (ObjectMeta_DeepCopyInto sample_library)"
    unfolding view_meta_def view_time_def view_strings_def
    by (rule struct_copier [where f = "copy_both copy_pointer (copy_both copy_values
          (copy_both copy_pointer (copy_items (copy_typed as_owner VOwner sample_owner_copy))))"
        and put = "\<lambda>(t, fs, an, os) x. x\<lparr>PDeletionTimestamp := t, PFinalizers := fs, PAnnotations := an,
          POwnerReferences := os\<rparr>"],
        intro copiers copy_typed_copier sample_owner_copier)
       (auto simp: sample_library_def copy_both_def)
  show "deep_copier view_list_meta (ListMeta_DeepCopyInto sample_library)"
    unfolding view_list_meta_def
    by (rule struct_copier [where f = copy_pointer and put = "\<lambda>n x. x\<lparr>PRemainingItemCount := n\<rparr>"], intro copiers)
       (auto simp: sample_library_def)
  show "deep_copier view_selector (SecretKeySelector_DeepCopyInto sample_library)"
    unfolding view_selector_def view_flag_def
    by (rule struct_copier [where f = copy_pointer and put = "\<lambda>b x. x\<lparr>PSelOptional := b\<rparr>"], intro copiers)
       (auto simp: sample_library_def)
qed

definition sample_node_mem :: node_mem where
  "sample_node_mem =
     \<lparr>PNodeType = \<lparr>Kind = ''TalosNode'', APIVersion = ''v1alpha1''\<rparr>,
      PNodeMeta = \<lparr>PName = ''cp1'', PNamespace = ''ns'', PUID = ''u'', PGeneration = 1, PCreationTimestamp = 0,
        PDeletionTimestamp = None, PFinalizers = Some \<lparr>SArr = 1, SOff = 0, SLen = 1\<rparr>,
        PAnnotations = Some 2, POwnerReferences = None\<rparr>,
      PNodeSpec = \<lparr>PClusterRef = ''c'', PRole = TalosNodeRoleControlPlane, PNodeIP = ''10.0.0.1'',
        PPatches = Some \<lparr>SArr = 3, SOff = 1, SLen = 2\<rparr>,
        PPatchesFrom = Some \<lparr>SArr = 4, SOff = 0, SLen = 1\<rparr>, PDriftDetection = Some 5,
        PSkipDrain = False, PDrainTimeout = Some 6, PResetOnDelete = True, PTalosVersion = [],
        PSystemExtensions = None\<rparr>,
      PNodeStatus = \<lparr>PNodePhase = TalosNodePhaseReady, PNodeMessage = Lit [], PDeletionAttempts = 0,
        PCurrentTalosVersion = [], PInstalledExtensions = None,
        PNodeCommon = \<lparr>PObservedGeneration = 1, PRetryCount = 0, PLastUpdateTime = Some 7, PConditions = None\<rparr>\<rparr>\<rparr>"

definition sample_heap :: heap where
  "sample_heap =
     [[VNode sample_node_mem], [VString ''cleanup''], [VMap (\<lambda>_. None)],
      [VString ''old'', VString ''p1'', VString ''p2''],
      [VSelector \<lparr>PSelName = ''s'', PSelKey = ''k'', PSelOptional = Some 5\<rparr>],
      [VBool True], [VDuration 60], [VTime 7]]"

lemma sample_node_view:
  "\<exists>n A. view_ptr view_node_item sample_heap (Some 0) = Some (Some n, A) \<and>
     Patches (NodeSpec (snd n)) = [''p1'', ''p2''] \<and> Finalizers (snd n) = [''cleanup''] \<and>
     DriftDetection (NodeSpec (snd n)) = Some True"
  by (simp add: sample_heap_def sample_node_mem_def view_ptr_def view_node_item_def view_typed_def
      view_plain_def view_prod_def view_struct_def view_slice_def slice_vals_def view_defs view_meta_def
      view_selector_def elements_def object_meta.extend_def talos_node.fields_def
      common_status.extend_def talos_node_status.fields_def numeral_nat)

theorem deep_copies_apart_witness:
  "library_copies sample_library \<and>
   (\<exists>n A q g. view_ptr view_node_item sample_heap (Some 0) = Some (Some n, A) \<and>
      Patches (NodeSpec (snd n)) = [''p1'', ''p2''] \<and>
      run_state (TalosNode_DeepCopy sample_library (Some 0)) sample_heap = (q, g) \<and>
      apart (view_ptr view_node_item) g (Some 0) q (Some n))"
proof -
  obtain n A where v: "view_ptr view_node_item sample_heap (Some 0) = Some (Some n, A)"
    and ps: "Patches (NodeSpec (snd n)) = [''p1'', ''p2'']"
    using sample_node_view by blast
  obtain q g where r: "run_state (TalosNode_DeepCopy sample_library (Some 0)) sample_heap = (q, g)"
    by fastforce
  have "apart (view_ptr view_node_item) g (Some 0) q (Some n)"
    using deep_copies_apart [OF sample_library_copies] v r by blast
  with v ps r sample_library_copies show ?thesis by blast
qed

end
