(* ===== verification/Startup.thy ===== *)
theory Startup
  imports Wiring
begin

text \<open>
  How the operator starts (\<^verbatim>\<open>internal/run/run.go\<close>, \<^verbatim>\<open>cmd/main.go\<close>) and what wakes its controllers (the three
  \<^verbatim>\<open>SetupWithManager\<close>). The manager of the controller runtime is a parameter that may refuse each step.
\<close>

section \<open>What wakes a controller\<close>

text \<open>
  The predicates of the controller runtime by their documentation: a change of the generation or of the
  annotations is asked for at updates only; all other events pass.
\<close>

datatype event_predicate =
    GenerationChangedPredicate
  | AnnotationChangedPredicate
  | OrPredicate event_predicate event_predicate
  | NodeReadyPredicate

fun meta_of :: "kobj \<Rightarrow> int \<times> (string \<Rightarrow> string option)" where
  "meta_of (ONode ob) = (sint (Generation ob), Annotations ob)"
| "meta_of (OCluster ob) = (sint (Generation ob), Annotations ob)"
| "meta_of (OBootstrap ob) = (sint (Generation ob), Annotations ob)"
| "meta_of (OSecret ob) = (sint (Generation ob), Annotations ob)"

fun passes :: "event_predicate \<Rightarrow> watch_event \<Rightarrow> bool" where
  "passes GenerationChangedPredicate e =
     (case e of UpdateEvent old new \<Rightarrow> fst (meta_of old) \<noteq> fst (meta_of new) | _ \<Rightarrow> True)"
| "passes AnnotationChangedPredicate e =
     (case e of UpdateEvent old new \<Rightarrow> snd (meta_of old) \<noteq> snd (meta_of new) | _ \<Rightarrow> True)"
| "passes (OrPredicate p q) e = (passes p e \<or> passes q e)"
| "passes NodeReadyPredicate e = nodeReadyPredicate e"

datatype watch_handler = EnqueueObject | EnqueueNodeToBootstrap

record watch =
  WatchKind :: kind
  WatchPredicate :: event_predicate
  WatchHandler :: watch_handler

definition cluster_SetupWithManager :: "watch list" where
  "cluster_SetupWithManager =
     [\<lparr>WatchKind = KindCluster, WatchPredicate = GenerationChangedPredicate, WatchHandler = EnqueueObject\<rparr>]"

definition node_SetupWithManager :: "watch list" where
  "node_SetupWithManager =
     [\<lparr>WatchKind = KindNode,
       WatchPredicate = OrPredicate GenerationChangedPredicate AnnotationChangedPredicate,
       WatchHandler = EnqueueObject\<rparr>]"

definition bootstrap_SetupWithManager :: "watch list" where
  "bootstrap_SetupWithManager =
     [\<lparr>WatchKind = KindBootstrap, WatchPredicate = GenerationChangedPredicate, WatchHandler = EnqueueObject\<rparr>,
      \<lparr>WatchKind = KindNode, WatchPredicate = NodeReadyPredicate, WatchHandler = EnqueueNodeToBootstrap\<rparr>]"

fun kind_of :: "kobj \<Rightarrow> kind" where
  "kind_of (ONode _) = KindNode"
| "kind_of (OCluster _) = KindCluster"
| "kind_of (OBootstrap _) = KindBootstrap"
| "kind_of (OSecret _) = KindSecret"

fun event_object :: "watch_event \<Rightarrow> kobj" where
  "event_object (CreateEvent ob) = ob"
| "event_object (UpdateEvent _ ob) = ob"
| "event_object (DeleteEvent ob) = ob"
| "event_object (GenericEvent ob) = ob"

definition wakes :: "watch list \<Rightarrow> watch_event \<Rightarrow> bool" where
  "wakes ws e \<longleftrightarrow> (\<exists>w \<in> set ws. WatchKind w = kind_of (event_object e) \<and> passes (WatchPredicate w) e)"

lemma node_watch_filter:
  "Generation old = Generation new \<longleftrightarrow> sint (Generation old) = sint (Generation new)"
  for old new :: "('a) object_meta_scheme"
  by (auto simp: signed_word_eqI)


section \<open>Starting the manager\<close>

text \<open>
  The steps of the start, each of which the manager may refuse with an error; they are recorded with
  the answers they got.
\<close>

datatype startup_step =
    NewManager manager_options
  | CompleteController kind "watch list"
  | AddHealthzCheck string
  | AddReadyzCheck string
  | StartManager

type_synonym manager = "(startup_step \<times> gerror option) list \<Rightarrow> startup_step \<Rightarrow> gerror option"
type_synonym 'a startup = "((startup_step \<times> gerror option) list, 'a) state"

definition mgr_do :: "manager \<Rightarrow> startup_step \<Rightarrow> gerror option startup" where
  "mgr_do M s = ask (\<lambda>h. M h s) (Pair s)"

definition setupControllers :: "manager \<Rightarrow> gerror option startup" where
  "setupControllers M = do {
     e \<leftarrow> mgr_do M (CompleteController KindCluster cluster_SetupWithManager);
     case e of
       Some err \<Rightarrow> ret (Some err)
     | None \<Rightarrow> do {
         e \<leftarrow> mgr_do M (CompleteController KindNode node_SetupWithManager);
         case e of
           Some err \<Rightarrow> ret (Some err)
         | None \<Rightarrow> do {
             e \<leftarrow> mgr_do M (CompleteController KindBootstrap bootstrap_SetupWithManager);
             case e of Some err \<Rightarrow> ret (Some err) | None \<Rightarrow> ret None
           }
       }
   }"

definition operator_Run :: "env \<Rightarrow> manager \<Rightarrow> bool option \<Rightarrow> gerror option startup" where
  "operator_Run E M flag = do {
     let opts = manager_options_of E flag;
     e \<leftarrow> mgr_do M (NewManager opts);
     case e of
       Some err \<Rightarrow> ret (Some (ErrWrap ''create manager: %w'' [] err))
     | None \<Rightarrow> do {
         e \<leftarrow> setupControllers M;
         case e of
           Some err \<Rightarrow> ret (Some err)
         | None \<Rightarrow> do {
             e \<leftarrow> mgr_do M (AddHealthzCheck ''healthz'');
             case e of
               Some err \<Rightarrow> ret (Some (ErrWrap ''add healthz check: %w'' [] err))
             | None \<Rightarrow> do {
                 e \<leftarrow> mgr_do M (AddReadyzCheck ''readyz'');
                 case e of
                   Some err \<Rightarrow> ret (Some (ErrWrap ''add readyz check: %w'' [] err))
                 | None \<Rightarrow> do {
                     e \<leftarrow> mgr_do M StartManager;
                     case e of
                       Some err \<Rightarrow> ret (Some (ErrWrap ''manager exited: %w'' [] err))
                     | None \<Rightarrow> ret None
                   }
               }
           }
       }
   }"

text \<open>The exit code of the process.\<close>

definition main_exit :: "env \<Rightarrow> manager \<Rightarrow> bool option \<Rightarrow> nat startup" where
  "main_exit E M flag = do {
     e \<leftarrow> operator_Run E M flag;
     ret (case e of Some _ \<Rightarrow> 1 | None \<Rightarrow> 0)
   }"

text \<open>The reference: the steps in their order, up to and with the first that is refused.\<close>

definition startup_steps :: "env \<Rightarrow> bool option \<Rightarrow> startup_step list" where
  "startup_steps E flag =
     [NewManager (manager_options_of E flag),
      CompleteController KindCluster cluster_SetupWithManager,
      CompleteController KindNode node_SetupWithManager,
      CompleteController KindBootstrap bootstrap_SetupWithManager,
      AddHealthzCheck ''healthz'', AddReadyzCheck ''readyz'', StartManager]"

fun attempt :: "manager \<Rightarrow> startup_step list \<Rightarrow> (startup_step \<times> gerror option) list \<Rightarrow>
    bool \<times> (startup_step \<times> gerror option) list" where
  "attempt M [] h = (True, h)"
| "attempt M (s # ss) h =
     (case M h s of Some err \<Rightarrow> (False, h @ [(s, Some err)]) | None \<Rightarrow> attempt M ss (h @ [(s, None)]))"

text \<open>
  The operator starts in a fixed order, stops at the first refusal, and exits with 0 only if the
  manager ran and ended without an error.
\<close>

lemma main_exit_attempt:
  "run_state (main_exit E M flag) h =
     (case attempt M (startup_steps E flag) h of (ok, h') \<Rightarrow> (if ok then 0 else 1, h'))"
  by (simp add: main_exit_def operator_Run_def setupControllers_def mgr_do_def startup_steps_def Let_def
      split: option.split)

end
