(* ===== verification/SchemeTypes.thy ===== *)
theory SchemeTypes
  imports DeepCopy Startup
begin

text \<open>
  The registration of the API types (\<^verbatim>\<open>api/v1alpha1/groupversion.go\<close>) and the scheme of the operator
  (\<^verbatim>\<open>buildScheme\<close> in \<^verbatim>\<open>internal/run/run.go\<close>). The scheme and its builder are those of the Kubernetes
  libraries: a parameter, of which \<open>scheme_knows\<close> says that adding a builder without an error makes its
  types known. A panic is the left value of a sum.
\<close>

record group_version =
  GroupName :: string
  VersionName :: string

definition GroupVersion :: group_version where
  "GroupVersion = \<lparr>GroupName = ''talos.yuriykovalchuk.dev'', VersionName = ''v1alpha1''\<rparr>"

text \<open>A builder of the controller runtime: a group version and the lists of types registered with it.\<close>

record scheme_builder =
  BuilderGroupVersion :: group_version
  RegisteredTypes :: "go_type list list"

definition builder_Register :: "scheme_builder \<Rightarrow> go_type list \<Rightarrow> scheme_builder" where
  "builder_Register b ts = b\<lparr>RegisteredTypes := RegisteredTypes b @ [ts]\<rparr>"

record 's scheme_library =
  NewScheme :: 's
  ClientGo_AddToScheme :: "'s \<Rightarrow> gerror option \<times> 's"
  Builder_AddToScheme :: "scheme_builder \<Rightarrow> 's \<Rightarrow> gerror option \<times> 's"

definition SchemeBuilder :: scheme_builder where
  "SchemeBuilder = \<lparr>BuilderGroupVersion = GroupVersion, RegisteredTypes = []\<rparr>"

text \<open>The package's \<^verbatim>\<open>init\<close>: it leaves the builder with the types and fills the package's own scheme.\<close>

definition registered_builder :: scheme_builder where
  "registered_builder =
     (let b = SchemeBuilder;
          b = builder_Register b [TypeTalosCluster, TypeTalosClusterList];
          b = builder_Register b [TypeTalosNode, TypeTalosNodeList];
          b = builder_Register b [TypeTalosClusterBootstrap, TypeTalosClusterBootstrapList]
      in b)"

definition package_init :: "('s, 'm) scheme_library_scheme \<Rightarrow> gerror + scheme_builder \<times> 's" where
  "package_init L =
     (case Builder_AddToScheme L registered_builder (NewScheme L) of
        (Some err, _) \<Rightarrow> Inl err
      | (None, s) \<Rightarrow> Inr (registered_builder, s))"

text \<open>\<^verbatim>\<open>utilruntime.Must\<close> panics with the error it is given.\<close>

definition Must :: "gerror option \<times> 's \<Rightarrow> gerror + 's" where
  "Must r = (case r of (Some err, _) \<Rightarrow> Inl err | (None, s) \<Rightarrow> Inr s)"

definition buildScheme :: "('s, 'm) scheme_library_scheme \<Rightarrow> scheme_builder \<Rightarrow> gerror + 's" where
  "buildScheme L b =
     (let s = NewScheme L
      in case Must (ClientGo_AddToScheme L s) of
           Inl err \<Rightarrow> Inl err
         | Inr s \<Rightarrow> Must (Builder_AddToScheme L b s))"

text \<open>What a process has when it starts: the package is initialised before \<^verbatim>\<open>main\<close> runs.\<close>

definition operator_scheme :: "('s, 'm) scheme_library_scheme \<Rightarrow> gerror + 's" where
  "operator_scheme L =
     (case package_init L of Inl err \<Rightarrow> Inl err | Inr (b, _) \<Rightarrow> buildScheme L b)"

definition scheme_knows ::
    "('s, 'm) scheme_library_scheme \<Rightarrow> ('s \<Rightarrow> group_version \<Rightarrow> go_type \<Rightarrow> bool) \<Rightarrow> bool" where
  "scheme_knows L knows \<longleftrightarrow>
     (\<forall>b s s'. Builder_AddToScheme L b s = (None, s') \<longrightarrow>
        (\<forall>ts \<in> set (RegisteredTypes b). \<forall>t \<in> set ts. knows s' (BuilderGroupVersion b) t))"

lemma registered_builder_types:
  "BuilderGroupVersion registered_builder = GroupVersion"
  "\<exists>ts \<in> set (RegisteredTypes registered_builder). t \<in> set ts"
  by (cases t; simp add: registered_builder_def SchemeBuilder_def builder_Register_def)+

lemma operator_scheme_knows:
  assumes "scheme_knows L knows" and "operator_scheme L = Inr s"
  shows "knows s GroupVersion t"
proof -
  from assms(2) obtain s0 where "Builder_AddToScheme L registered_builder s0 = (None, s)"
    by (auto simp: operator_scheme_def package_init_def buildScheme_def Must_def Let_def
        split: prod.splits option.splits sum.splits)
  with assms(1) registered_builder_types(2) [of t] show ?thesis
    unfolding scheme_knows_def registered_builder_types(1) [symmetric] by blast
qed

text \<open>The types of the objects that a controller watches; Secrets are a type of the client library.\<close>

fun types_of_kind :: "kind \<Rightarrow> go_type list" where
  "types_of_kind KindCluster = [TypeTalosCluster, TypeTalosClusterList]"
| "types_of_kind KindNode = [TypeTalosNode, TypeTalosNodeList]"
| "types_of_kind KindBootstrap = [TypeTalosClusterBootstrap, TypeTalosClusterBootstrapList]"
| "types_of_kind KindSecret = []"

definition operator_watches :: "watch list" where
  "operator_watches = cluster_SetupWithManager @ node_SetupWithManager @ bootstrap_SetupWithManager"

text \<open>
  C22. Runtime objects: with a scheme that was built without a panic, every object that a controller
  watches and its list are of a type with a registration, and \<^verbatim>\<open>DeepCopyObject\<close> gives nil for nil and
  otherwise a pointer that is not nil, of a type with a registration.
\<close>

theorem runtime_objects_registered:
  assumes "scheme_knows L knows" and "operator_scheme L = Inr s"
  shows "(\<forall>w \<in> set operator_watches. types_of_kind (WatchKind w) \<noteq> [] \<and>
            (\<forall>t \<in> set (types_of_kind (WatchKind w)). knows s GroupVersion t)) \<and>
         (\<forall>copy \<in> {TalosCluster_DeepCopyObject D, TalosClusterList_DeepCopyObject D,
              TalosNode_DeepCopyObject D, TalosNodeList_DeepCopyObject D,
              TalosClusterBootstrap_DeepCopyObject D, TalosClusterBootstrapList_DeepCopyObject D}.
            case fst (run_state (copy p) h) of
              None \<Rightarrow> p = None
            | Some (t, q) \<Rightarrow> p \<noteq> None \<and> q \<noteq> None \<and> knows s GroupVersion t)"
proof (rule conjI)
  show "\<forall>w \<in> set operator_watches. types_of_kind (WatchKind w) \<noteq> [] \<and>
          (\<forall>t \<in> set (types_of_kind (WatchKind w)). knows s GroupVersion t)"
    by (simp add: operator_watches_def cluster_SetupWithManager_def node_SetupWithManager_def
        bootstrap_SetupWithManager_def operator_scheme_knows [OF assms])
  have object: "case map_option (\<lambda>a. (t, Some a)) (fst (run_state (deep_copy_pointer f p) h)) of
      None \<Rightarrow> p = None | Some (t, q) \<Rightarrow> p \<noteq> None \<and> q \<noteq> None \<and> knows s GroupVersion t" for t f
    using deep_copy_pointer_nil [of f p h] by (auto simp: operator_scheme_knows [OF assms] split: option.split)
  then show "\<forall>copy \<in> {TalosCluster_DeepCopyObject D, TalosClusterList_DeepCopyObject D,
              TalosNode_DeepCopyObject D, TalosNodeList_DeepCopyObject D,
              TalosClusterBootstrap_DeepCopyObject D, TalosClusterBootstrapList_DeepCopyObject D}.
            case fst (run_state (copy p) h) of
              None \<Rightarrow> p = None
            | Some (t, q) \<Rightarrow> p \<noteq> None \<and> q \<noteq> None \<and> knows s GroupVersion t"
    by (simp add: deep_copy_objects split_beta TalosCluster_DeepCopy_def TalosClusterList_DeepCopy_def
        TalosNode_DeepCopy_def TalosNodeList_DeepCopy_def TalosClusterBootstrap_DeepCopy_def
        TalosClusterBootstrapList_DeepCopy_def del: option.map option.case)
qed

text \<open>A scheme as the list of the types it knows.\<close>

definition sample_scheme_library :: "(group_version \<times> go_type) list scheme_library" where
  "sample_scheme_library =
     \<lparr>NewScheme = [], ClientGo_AddToScheme = (\<lambda>s. (None, s)),
      Builder_AddToScheme =
        (\<lambda>b s. (None, s @ map (Pair (BuilderGroupVersion b)) (concat (RegisteredTypes b))))\<rparr>"

theorem runtime_objects_registered_witness:
  "scheme_knows sample_scheme_library (\<lambda>s gv t. (gv, t) \<in> set s) \<and>
   (\<exists>s. operator_scheme sample_scheme_library = Inr s \<and> length s = 6 \<and>
     (case fst (run_state (TalosNode_DeepCopyObject sample_library (Some 0)) sample_heap) of
        None \<Rightarrow> False | Some (t, q) \<Rightarrow> (GroupVersion, t) \<in> set s))"
proof -
  have knows: "scheme_knows sample_scheme_library (\<lambda>s gv t. (gv, t) \<in> set s)"
    by (auto simp: scheme_knows_def sample_scheme_library_def)
  obtain s where s: "operator_scheme sample_scheme_library = Inr s" "length s = 6"
    by (simp add: operator_scheme_def package_init_def buildScheme_def Must_def sample_scheme_library_def
        registered_builder_def SchemeBuilder_def builder_Register_def)
  from runtime_objects_registered [OF knows s(1), of sample_library "Some 0" sample_heap]
  have "case fst (run_state (TalosNode_DeepCopyObject sample_library (Some 0)) sample_heap) of
      None \<Rightarrow> False | Some (t, q) \<Rightarrow> (GroupVersion, t) \<in> set s"
    by (auto split: option.splits)
  with knows s show ?thesis by blast
qed

end
