(* ===== verification/Spec2Isabelle.thy ===== *)
theory Spec2Isabelle
  imports SampleMachines StatusTypes SchemeTypes
begin

text \<open>
  \<^bold>\<open>Verification of yk-talos-management.\<close>

  The program is a Kubernetes operator that manages Talos Linux clusters. Three controllers run on
  the API server of a management cluster: TalosCluster generates the secrets and configurations of
  a cluster, TalosNode configures, upgrades, resets, drains and removes one machine, and
  TalosClusterBootstrap bootstraps etcd and fetches the kubeconfig. They share no memory; they meet
  in the custom resources, in the Secrets and in the Talos API of the machines.

  \<^bold>\<open>The model.\<close> A function of the source that has effects is a program in the state monad over the
  history of all calls made so far (\<open>'a prog\<close> of theory Environment; \<open>ret\<close>, \<open>ask\<close> and \<open>tell\<close> of theory
  Prelude). The environment \<open>env\<close> is a parameter: a record of functions that answer a call from the
  history and the request, so a service may answer anything at any time. Each call appends one
  event. A Go error is a \<open>gerror\<close> value, a fallible function returns \<open>gerror + 'a\<close> or \<open>gerror option\<close>, a
  pointer that may be nil is an option; integers keep their width. An object that a Go function changes
  through a pointer is returned beside its result when the caller goes on with it.

  \<^bold>\<open>Theories\<close>, in the order of their imports:
  \<^item> Prelude: the monad, the predicate transformer \<open>wp\<close>, the conditions on events \<open>only\<close> (every event
    satisfies a condition) and \<open>wpg\<close> (every event satisfies a condition on the history before it),
    \<open>returns\<close>, \<open>since\<close>, with their rules as named collections.
  \<^item> GoStd: strings, integers and errors of Go. ApiTypes: \<^verbatim>\<open>api/v1alpha1\<close>, \<^verbatim>\<open>constants.go\<close>, \<^verbatim>\<open>names.go\<close> and
    the constants of \<^verbatim>\<open>internal/talos/finalizer.go\<close>. Environment: all services and libraries.
  \<^item> GoHeap, DeepCopy: \<^verbatim>\<open>zz_generated_deepcopy.go\<close>, on objects as they lie in memory (\<open>*_mem\<close>): a Go heap of
    arrays that grow only by allocation, pointers and slices into it. A view reads such an object as the
    value that all other theories use.
  \<^item> Finalizers, Conditions, RetryConfig, Metrics: \<^verbatim>\<open>internal/talos/finalizer.go\<close>, \<^verbatim>\<open>conditions.go\<close>,
    \<^verbatim>\<open>internal/config\<close>, \<^verbatim>\<open>internal/metrics\<close>.
  \<^item> TalosClient: \<^verbatim>\<open>internal/talos/client.go\<close>, \<^verbatim>\<open>context.go\<close> and \<^verbatim>\<open>internal/controller/talos_dialer.go\<close>.
  \<^item> SecretStore: \<^verbatim>\<open>internal/controller/helpers.go\<close> and \<^verbatim>\<open>internal/talos/secrets.go\<close>.
  \<^item> Patches, Versions: the pure parts of \<^verbatim>\<open>talosnode_controller.go\<close>, \<^verbatim>\<open>talosnode_upgrade.go\<close> and
    \<^verbatim>\<open>talosnode_extensions.go\<close>, and \<^verbatim>\<open>internal/factory\<close>.
  \<^item> Drain, NodeConn, NodeUpgrade, NodeExtensions, NodeApply, NodeDeletion, NodeController: the
    TalosNode controller, by file and by stage. A block of a long Go function that ends in an early
    return is a definition of its own (\<open>startUpgrade\<close>, \<open>drainStage\<close>, \<open>renderConfig\<close> and so on).
  \<^item> ClusterController, BootstrapController: the two other controllers. Wiring, Startup, SchemeTypes:
    \<^verbatim>\<open>internal/run/run.go\<close>, \<^verbatim>\<open>cmd/main.go\<close>, \<^verbatim>\<open>groupversion.go\<close> and the three \<^verbatim>\<open>SetupWithManager\<close>: the reconcilers
    with their production dependencies, what wakes them, the order of the start, and the types that are
    registered before it.
  \<^item> Runs: the histories in which one controller works on one object (\<open>runs\<close>), and what a history says
    about the stored object (\<open>replay\<close>). NodePhases, ClusterRuns, BootstrapRuns: the runs of the three
    controllers. The phase of a node is a state machine (\<open>phase_step\<close>); the Secrets of a cluster share
    one CA (\<open>same_ca\<close>) and are complete once it is Ready (\<open>all_stored\<close>); a recorded bootstrap of etcd
    (\<open>recorded\<close>) is final.
  \<^item> SecretMaps: the Secrets as a finite map, which the operations of SecretStore refine. StatusTypes: the
    types of the conditions in the three statuses, which every reconcile keeps.
  \<^item> World: all stored objects after a history (\<open>world\<close>), the environment in which every service answers
    (\<open>healthy\<close>), and each step of a controller as a function on the world; a terminating object goes with its
    last finalizer (\<open>settle\<close>). Progress, Rollout: one reconcile of a bootstrap, a cluster or a node reaches
    its goal, and the three together bring up a cluster. Teardown, Departure: the way back. The three
    together take a cluster down, and one node leaves a cluster that goes on.
  \<^item> Machines: what each machine has accepted after a history, the images it installed (\<open>installed\<close>) and the
    configurations it runs (\<open>active\<close>), as two instances of one interface. Upgrading, Drift: the two reconciles
    of an upgrade, and those that find and repair a changed configuration.
  \<^item> Sample: one concrete environment that satisfies all laws which the properties name. SampleRuns,
    SampleCluster, SampleRollout: complete reconciles in it, computed by simplification: a node that leaves, a cluster
    that is bootstrapped, a cluster that is provisioned, and one that is provisioned behind a failed read.
    SampleTeardown: an environment that also knows what is not stored, with a cluster that ends and a
    pair of control planes of which one leaves. SampleMachines: machines that answer by what they
    accepted.

  \<^bold>\<open>Interfaces\<close> are locales, interpreted on the model in the theory of their provider: \<open>finalizer_list\<close>,
  \<open>condition_store\<close>, \<open>footprint\<close> and its extension \<open>deep_copier\<close> (for each type that holds memory), \<open>talos_connection\<close>, \<open>talos_dialer\<close>, \<open>image_factory\<close>, \<open>error_sink\<close> (three times, for
  the three controllers), \<open>machine_view\<close> (for images and configurations), and \<open>status_machine\<close> of theory Runs (for nodes, clusters and bootstraps). The
  frame rules of theory NodeConn say of each step which events it can append at all.

  \<^bold>\<open>What is shown.\<close> The guards of the dangerous operations, each as a condition on the history at the
  moment of the call: upgrade, reset, bootstrap, etcd leave and removal, eviction, deletion of nodes,
  Secrets and finalizers, generation of new cluster secrets, and the phases that claim success. Over whole
  histories: the stored phase of a node goes through steps of one state machine, etcd is bootstrapped
  once, and the configurations that a cluster hands over share one CA. That
  an operation without an error leaves an object the next reconcile accepts, and that in a healthy
  environment there is no error: each controller makes progress, also after an interrupted attempt, and
  from the objects of a user one reconcile each gives a running cluster, two upgrade a machine or repair
  its configuration, and four take the cluster down without a trace. That deep copies read like their originals and share no memory with them, so that the other
  theories may treat objects as values; and that every type the controllers watch is a
  registered one. That the operations on Secrets
  refine those of a map, and that the statuses keep their type. Which writes wake which controller. Bounds of the retry
  delays at machine width with rounded floating point. Functional laws of the pure parts (deep
  merge, versions, extension lists, conditions, finalizers, names, etcd members). Read-your-writes of
  saved configurations. And, in the last section, behaviour that the documentation contradicts.

  \<^bold>\<open>Laws of the environment\<close> appear only as named hypotheses: \<open>node_status_echo\<close> and its likes (a successful
  write answers with the object written), \<open>secrets_read_writes\<close> and \<open>cluster_laws\<close> (Secrets, and the JSON of
  a bundle), \<open>secret_api\<close> (reads and creations of Secrets answer by what is stored), \<open>ticker_law\<close>,
  \<open>default_retries\<close>, \<open>library_copies\<close> (the deep copies of the Kubernetes types), \<open>scheme_knows\<close>
  (what is added to a scheme is known to it). Only the theorems about progress assume more, a \<open>healthy\<close>
  environment; those about deletion also an \<open>exact_store\<close>: what is not stored is reported as not found,
  and a listing is complete; those about upgrades and drift that patches are accepted and that machines answer
  with the tag of the image they installed last and with the configuration they accepted last
  (\<open>patches_accepted\<close>, \<open>machines_answer\<close>, \<open>machines_report\<close>). In a run, each
  reconcile begins with a read that is current (\<open>reads_current\<close>, \<open>reads_recorded\<close>,
  \<open>reads_live\<close>). What other parties do while a reconcile is at work is not in the history, but the answers of the environment may reflect it.

  \<^bold>\<open>Fuel.\<close> The drain loop is the only loop of the source that is not structural or bounded by a
  constant. Its fuel \<open>drain_fuel\<close> is the timeout divided by the poll interval, and 2 more; each
  iteration but the last waits for a tick, so the deadline comes first, which
  \<open>drainPods_loop_returns\<close> proves from \<open>ticker_law\<close>. \<^verbatim>\<open>retry.RetryOnConflict\<close> runs at most \<open>retry_steps\<close> times, as
  documented.

  \<^bold>\<open>Not modelled.\<close> Logging, and clock readings that are only logged. The context of a call, apart from the
  error of its cancellation and the deadline of a Talos call. Resource versions: a conflict is an
  error the environment may give. The host name of a parsed URL, semantic versions, YAML, kubeconfig and
  Talos machinery are functions of the environment. Formatted text keeps format and arguments. The
  manager, its queues, the scheme and the parsing of flags belong to the controller
  runtime: the manager is a parameter of Startup, the scheme of SchemeTypes, and a watch is the predicate it
  registers. Outside of DeepCopy an object is a value. The build information of \<^verbatim>\<open>version.go\<close> is only logged.
  \<^verbatim>\<open>TalosDialer\<close> is resolved to \<^verbatim>\<open>RealDialer\<close>, as \<^verbatim>\<open>setupControllers\<close> wires it.
\<close>

section \<open>The properties of single components at a concrete environment\<close>

theorem node_Reconcile_permitted_witness:
  "wpg (\<lambda>_. reconcile_permits sample_env (''ns'', ''n'') sample_start)
     (node_Reconcile sample_env (production_node sample_env) (''ns'', ''n'')) (\<lambda>_ _. True) sample_start"
  by (intro node_Reconcile_permitted sample_echoes production_node_quiet)

theorem node_handleDeletion_quorum_witness:
  "wpg (quorum_guard sample_env sample_node sample_start)
     (node_handleDeletion sample_env (production_node sample_env) sample_node) (\<lambda>_ _. True) sample_start"
  by (intro node_handleDeletion_quorum sample_echoes)

theorem reconcileBootstrap_guarded_witness:
  "wpg (bootstrap_guard sample_env sample_bootstrap sample_start)
     (reconcileBootstrap sample_env production_bootstrap sample_bootstrap) (\<lambda>_ _. True) sample_start"
  by (intro reconcileBootstrap_guarded sample_echoes)

theorem drainPods_loop_returns_witness:
  "wp (drain_loop (drain_fuel defaultDrainTimeout) sample_env (RemoteClient ''c'') ''n'' defaultDrainTimeout
         (clock (Host sample_env) sample_start + sint defaultDrainTimeout))
     (\<lambda>r _. r \<noteq> None) (sample_start @ [ClockRead])"
  by (intro drainPods_loop_returns sample_ticker)

theorem applyConfig_up_to_date_witness:
  "returns (\<lambda>(e, n). e = None \<longrightarrow> isNodeUpToDate n) (applyConfig sample_env sample_node)"
  by (intro applyConfig_up_to_date sample_echoes)

theorem provision_up_to_date_witness:
  "returns (\<lambda>(e, c). e = None \<longrightarrow> isUpToDate c) (provision sample_env sample_cluster)"
  by (intro provision_up_to_date sample_echoes)

theorem saveNodeConfig_reads_back_witness:
  "wp (saveNodeConfig sample_env sample_node ''machine: {}'')
     (\<lambda>r h'. r = None \<longrightarrow>
        (\<exists>s. kget_secret (Kube sample_env) h' (Namespace sample_node, nodeConfigName (Name sample_node)) = Inr s \<and>
           data_lookup s ''config.yaml'' = Some ''machine: {}'')) sample_start"
  by (intro saveNodeConfig_reads_back sample_reads_writes)

theorem computeDesiredImage_tag_witness:
  "wp (computeDesiredImage sample_env (production_node sample_env) sample_upgrade_node)
     (\<lambda>r _. \<forall>d. r = Inr d \<longrightarrow> versionFromImage (DesiredImage d) = ''v1.9.0'') sample_start"
  using computeDesiredImage_tag [of sample_upgrade_node sample_env "production_node sample_env" sample_start]
  by (simp add: sample_upgrade_node_def normalizeVersion_def HasPrefix_def)

theorem SetConditionStatus_contract_witness:
  "wp (SetConditionStatus sample_env [] TalosNodeConditionConfigApplied ConditionTrue ''Applied'' (Lit []))
     (\<lambda>cs _. wf_conditions cs \<and>
        (\<forall>t s. HasCondition cs t s =
           (if t = TalosNodeConditionConfigApplied then s = ConditionTrue else HasCondition [] t s))) []"
  by (rule SetConditionStatus_contract) (simp add: wf_conditions_def)


theorem node_run_steps_witness:
  "\<exists>g n rest. node_run sample_env (production_node sample_env) (''ns'', ''n'') (g @ KStatusUpdate (ONode n) None # rest) \<and>
     nsname n = (''ns'', ''n'') \<and>
     phase_step (ViewTerminating (stored (''ns'', ''n'') g)) (ViewPhase (stored (''ns'', ''n'') g)) (NodePhase (NodeStatus n))"
proof -
  have "echoes sample_env" by (simp add: echoes_def sample_echoes)
  from node_run_steps [OF this production_node_quiet sample_departure_end [unfolded sample_departure_reconciled]
      sample_deleting_name] sample_departure_end [unfolded sample_departure_reconciled] sample_deleting_name
  show ?thesis by blast
qed

theorem node_run_deleting_final_witness:
  "ViewPhase (stored (''ns'', ''n'') (snd (run_state
     (node_Reconcile sample_env (production_node sample_env) (''ns'', ''n'')) sample_departure))) = TalosNodePhaseDeleting"
proof -
  have laws: "echoes sample_env" by (simp add: echoes_def sample_echoes)
  let ?run = "snd (run_state (node_Reconcile sample_env (production_node sample_env) (''ns'', ''n'')) sample_departure)"
  let ?rest = "[MetricInc (fst NodeDrainTotal) [''skipped'', ''c''], KGet KindSecret (''ns'', nodeConfigName ''n''),
      KUpdate (ONode (sample_deleting\<lparr>Finalizers := []\<rparr>)) None]"
  obtain g where run: "?run = (g @ [KStatusUpdate (ONode sample_deleting) None]) @ ?rest"
    using sample_departure_reconciled by simp
  have phase: "ViewPhase (stored (''ns'', ''n'') (g @ [KStatusUpdate (ONode sample_deleting) None])) = TalosNodePhaseDeleting"
    by (simp add: stored_write sample_deleting_name) (simp add: sample_deleting_def)
  show ?thesis
    unfolding run
    by (rule node_run_deleting_final [OF laws production_node_quiet sample_departure_end [unfolded run] phase]) simp
qed

theorem bootstrap_run_once_witness:
  "\<exists>g es. bootstrap_run sample_env production_bootstrap (''ns'', ''b'') (g @ es) \<and> recorded (''ns'', ''b'') g \<and>
     recorded (''ns'', ''b'') (g @ es) \<and> (\<forall>cl r. TCall cl r \<in> set es \<longrightarrow> CallReq cl \<noteq> ReqBootstrap)"
proof -
  have status: "bootstrap_status_echo sample_env" by (rule sample_echoes)
  have update: "bootstrap_update_echo sample_env" by (simp add: bootstrap_update_echo_def sample_kube_def)
  have "reads_recorded sample_env (''ns'', ''b'') sample_ready"
    by (simp add: reads_recorded_def sample_ready_read sample_ready_unrecorded)
  from runs.reconcile [OF sample_ready_run this]
  have run: "bootstrap_run sample_env production_bootstrap (''ns'', ''b'')
      (snd (run_state (bootstrap_Reconcile sample_env production_bootstrap (''ns'', ''b'')) sample_ready))" .
  obtain es where es: "snd (run_state (bootstrap_Reconcile sample_env production_bootstrap (''ns'', ''b'')) sample_ready) =
      sample_ready @ es" and "list_ex records_bootstrap es" and new: "list_all (\<lambda>e. \<not> creates_bootstrap e) es"
    using sample_ready_reconciled by blast
  then obtain xs e ys where split: "es = xs @ e # ys" and e: "records_bootstrap e"
    by (auto simp: list_ex_iff dest: split_list)
  let ?g = "(sample_ready @ xs) @ [e]"
  have rec: "recorded (''ns'', ''b'') ?g" using e by (rule records_bootstrap_recorded)
  have none: "KCreate (OBootstrap b) None \<notin> set ys" for b
    using new by (auto simp: split creates_bootstrap_def list_all_iff split: event.splits kobj.splits)
  have run': "bootstrap_run sample_env production_bootstrap (''ns'', ''b'') (?g @ ys)"
    using run by (simp add: es split)
  from bootstrap_run_once [OF status update run' rec none] run' rec show ?thesis by blast
qed


theorem statuses_typed_witness:
  "wpg typed (node_Reconcile sample_env (production_node sample_env) (''ns'', ''n'')) (\<lambda>_ _. True) sample_start \<and>
   wpg typed (bootstrap_Reconcile sample_env production_bootstrap (''ns'', ''b'')) (\<lambda>_ _. True) sample_start"
proof -
  have "all_echoes sample_env"
    by (simp add: all_echoes_def echoes_def sample_echoes cluster_update_echo_def bootstrap_update_echo_def sample_kube_def)
  moreover have "typed_reads sample_env sample_start"
    by (auto simp: typed_reads_def sample_start_def sample_kube_def nodes_at_def clusters_at_def bootstraps_at_def
        put_object_def find_object_def typed_node_def typed_cluster_def typed_bootstrap_def well_typed_def
        wf_conditions_def sample_node_def sample_cluster_def sample_bootstrap_def split: if_splits option.splits)
  ultimately show ?thesis using statuses_typed by blast
qed

theorem cluster_handover_witness:
  "\<exists>h. cluster_run sample_env production_cluster (''ns'', ''c'') h \<and>
     same_ca sample_env (''ns'', ''c'') (stored_secrets h) \<and> all_stored (''ns'', ''c'') (stored_secrets h)"
proof -
  let ?h = "snd (run_state (cluster_Reconcile sample_env production_cluster (''ns'', ''c'')) sample_new_cluster)"
  have run: "cluster_run sample_env production_cluster (''ns'', ''c'') ?h"
    by (rule runs.reconcile [OF sample_new_cluster_run sample_new_cluster_read(2)])
  have "\<exists>c. KStatusUpdate (OCluster c) None \<in> set ?h \<and> nsname c = (''ns'', ''c'') \<and>
      ClusterPhase (ClusterStatus c) = TalosPhaseReady"
    using sample_new_cluster_reconciled by (fastforce simp: list_ex_iff claims_ready_def)
  with cluster_handover [OF sample_cluster_laws run] run show ?thesis by blast
qed

section \<open>Errors of the three controllers\<close>



text \<open>
  C31. No metric is recorded with the wrong number of label values, or on a vector that is not registered,
  by any reconcile of any of the three controllers as \<^verbatim>\<open>setupControllers\<close> builds them: \<^verbatim>\<open>WithLabelValues\<close>
  would panic.
\<close>

theorem reconciles_metrics_ok:
  "only metric_ok (node_Reconcile E (production_node E) req)
   \<and> only metric_ok (cluster_Reconcile E production_cluster req)
   \<and> only metric_ok (bootstrap_Reconcile E production_bootstrap req)"
  by (intro conjI node_Reconcile_metrics cluster_Reconcile_metrics bootstrap_Reconcile_metrics)

section \<open>What the code does where its documentation says otherwise\<close>




end
